(* ===== verification/Prelude.thy ===== *)
theory Prelude
  imports Complex_Main
begin

text \<open>
  Shared vocabulary of the development: the JavaScript values that flow through the
  motion-value engine, the nullish-coalescing operator \<open>??\<close>, JavaScript's \<open>Set\<close>
  (insertion-ordered, duplicate-free by identity) as a keyed list, JavaScript's
  truncating remainder \<open>%\<close>, and the lemma collections the component theories share.
  JavaScript numbers are modelled as exact reals: rounding of IEEE doubles, infinities
  and NaN are not modelled.
\<close>

named_theorems js_set_simps "characteristic equations of the JavaScript Set model"
named_theorems engine_simps "characteristic equations of the motion-value engine"

section \<open>Values\<close>

text \<open>
  A motion value holds any JavaScript value; the consumers in \<open>src/components\<close> store
  numbers (scroll progress, pixel offsets, opacities) and strings (CSS colours and
  percentages). \<open>Undef\<close> is \<open>undefined\<close>/\<open>null\<close>.
\<close>

datatype jsval = Num real | Str string | Undef

type_synonym vid = nat  \<comment> \<open>identity of a \<open>MotionValueImpl\<close> object\<close>

text \<open>\<open>typeof x === 'number'\<close>.\<close>

fun is_num :: "jsval \<Rightarrow> bool" where
  "is_num (Num x) = True"
| "is_num _ = False"

definition nullish_default :: "jsval \<Rightarrow> jsval \<Rightarrow> jsval" where
  "nullish_default v d = (case v of Undef \<Rightarrow> d | _ \<Rightarrow> v)"

lemma nullish_default_simps [simp]:
  "nullish_default Undef d = d"
  "nullish_default (Num x) d = Num x"
  "nullish_default (Str s) d = Str s"
  by (simp_all add: nullish_default_def)

section \<open>JavaScript Set as a keyed, insertion-ordered list\<close>

text \<open>
  A \<open>Set\<close> of closures compares its elements by identity and iterates them in
  insertion order. An element is a pair of its identity and its behaviour;
  \<open>add\<close> of an element whose identity is present leaves the set unchanged,
  \<open>delete\<close> removes the element with that identity.
\<close>

definition js_set_add :: "('k \<times> 'a) \<Rightarrow> ('k \<times> 'a) list \<Rightarrow> ('k \<times> 'a) list" where
  "js_set_add x xs = (if fst x \<in> set (map fst xs) then xs else xs @ [x])"

definition js_set_delete :: "'k \<Rightarrow> ('k \<times> 'a) list \<Rightarrow> ('k \<times> 'a) list" where
  "js_set_delete k xs = filter (\<lambda>y. fst y \<noteq> k) xs"

lemma distinct_js_set_add [js_set_simps]:
  "distinct (map fst xs) \<Longrightarrow> distinct (map fst (js_set_add x xs))"
  by (auto simp: js_set_add_def)

lemma distinct_js_set_delete [js_set_simps]:
  "distinct (map fst xs) \<Longrightarrow> distinct (map fst (js_set_delete k xs))"
  by (simp add: js_set_delete_def distinct_map_filter)

lemma js_set_delete_absent [js_set_simps]:
  "k \<notin> fst ` set (js_set_delete k xs)"
  by (auto simp: js_set_delete_def)

lemma js_set_delete_idem [js_set_simps]:
  "js_set_delete k (js_set_delete k xs) = js_set_delete k xs"
  by (simp add: js_set_delete_def)

lemma js_set_delete_not_member [js_set_simps]:
  "k \<notin> fst ` set xs \<Longrightarrow> js_set_delete k xs = xs"
  by (force simp: js_set_delete_def intro: filter_True)

lemma js_set_add_fresh [js_set_simps]:
  "fst x \<notin> fst ` set xs \<Longrightarrow> js_set_add x xs = xs @ [x]"
  by (auto simp: js_set_add_def)

lemma js_set_add_present [js_set_simps]:
  "fst x \<in> fst ` set xs \<Longrightarrow> js_set_add x xs = xs"
  by (auto simp: js_set_add_def)

lemma set_js_set_add_subset:
  "set (js_set_add x xs) \<subseteq> insert x (set xs)"
  by (auto simp: js_set_add_def)

lemma set_js_set_delete_subset:
  "set (js_set_delete k xs) \<subseteq> set xs"
  by (auto simp: js_set_delete_def)

section \<open>JavaScript strings\<close>

text \<open>
  Strings are lists of characters. \<open>String(n)\<close> of a natural number is its decimal
  notation; \<open>toUpperCase\<close>/\<open>toLowerCase\<close> act on the ASCII letters, the only
  letters of the repository's literals; \<open>trim\<close> removes leading and trailing
  white space; \<open>split(c)\<close> cuts at every occurrence of one character;
  \<open>includes\<close> is the infix test; \<open>replace\<close> with a one-character pattern
  replaces its first occurrence only.
\<close>

fun string_of_nat :: "nat \<Rightarrow> string" where
  "string_of_nat n =
     (if n < 10 then [char_of (48 + n)] else string_of_nat (n div 10) @ [char_of (48 + n mod 10)])"

declare string_of_nat.simps [simp del]

definition js_upper_char :: "char \<Rightarrow> char" where
  "js_upper_char c = (let n = (of_char c :: nat) in if 97 \<le> n \<and> n \<le> 122 then char_of (n - 32) else c)"

definition js_lower_char :: "char \<Rightarrow> char" where
  "js_lower_char c = (let n = (of_char c :: nat) in if 65 \<le> n \<and> n \<le> 90 then char_of (n + 32) else c)"

definition js_to_upper :: "string \<Rightarrow> string" where
  "js_to_upper s = map js_upper_char s"

definition js_to_lower :: "string \<Rightarrow> string" where
  "js_to_lower s = map js_lower_char s"

text \<open>White space as \<open>trim\<close> sees it (the ASCII part: space, tab, line feed, vertical tab, form feed, carriage return).\<close>

definition js_space :: "char \<Rightarrow> bool" where
  "js_space c \<longleftrightarrow> of_char c \<in> {9, 10, 11, 12, 13, 32::nat}"

definition js_trim :: "string \<Rightarrow> string" where
  "js_trim s = rev (dropWhile js_space (rev (dropWhile js_space s)))"

fun js_split :: "char \<Rightarrow> string \<Rightarrow> string list" where
  "js_split c [] = [[]]"
| "js_split c (x # xs) =
     (if x = c then [] # js_split c xs
      else (case js_split c xs of [] \<Rightarrow> [[x]] | w # ws \<Rightarrow> (x # w) # ws))"

fun js_includes :: "string \<Rightarrow> string \<Rightarrow> bool" where
  "js_includes [] p = (p = [])"
| "js_includes (x # xs) p = (take (length p) (x # xs) = p \<or> js_includes xs p)"

text \<open>\<open>s.replace(c, r)\<close> with a one-character string pattern: only the first occurrence is replaced.\<close>

fun js_replace_char :: "char \<Rightarrow> string \<Rightarrow> string \<Rightarrow> string" where
  "js_replace_char c r [] = []"
| "js_replace_char c r (x # xs) = (if x = c then r @ xs else x # js_replace_char c r xs)"

text \<open>\<open>xs[i]\<close> of a JavaScript array: \<open>undefined\<close> (here \<open>None\<close>) out of range.\<close>

definition js_index :: "'a list \<Rightarrow> nat \<Rightarrow> 'a option" where
  "js_index xs i = (if i < length xs then Some (xs ! i) else None)"

lemma js_split_nonempty [simp]: "js_split c s \<noteq> []"
  by (induction s) (auto split: list.split)

lemma dropWhile_all_iff: "(\<forall>x \<in> set (dropWhile p s). p x) \<longleftrightarrow> dropWhile p s = []"
proof
  assume a: "\<forall>x \<in> set (dropWhile p s). p x"
  show "dropWhile p s = []"
  proof (rule ccontr)
    assume ne: "dropWhile p s \<noteq> []"
    then have "hd (dropWhile p s) \<in> set (dropWhile p s)" by simp
    with a hd_dropWhile [OF ne] show False by blast
  qed
qed (auto dest: set_dropWhileD)

lemma js_trim_empty_iff: "js_trim s = [] \<longleftrightarrow> (\<forall>c \<in> set s. js_space c)"
  by (simp add: js_trim_def dropWhile_eq_Nil_conv dropWhile_all_iff)

text \<open>
  Cutting a string at a character and writing the pieces back, each followed by a
  separator, gives the string with every cut character replaced by the separator and
  one separator at the end.
\<close>

lemma js_split_concat:
  "concat (map (\<lambda>w. w @ [d]) (js_split c s)) = map (\<lambda>x. if x = c then d else x) s @ [d]"
proof (induction s)
  case Nil
  then show ?case by simp
next
  case (Cons x xs)
  then show ?case
    by (cases "js_split c xs") auto
qed

lemma js_index_Some: "i < length xs \<Longrightarrow> js_index xs i = Some (xs ! i)"
  by (simp add: js_index_def)

section \<open>Template literals and class lists\<close>

text \<open>
  A value interpolated into a template literal (\<open>`...${x}...`\<close>) is, at the call sites of
  the repository, a string or a boolean: \<open>cond && 'str'\<close> is \<open>false\<close> when \<open>cond\<close> is
  false. The interpolation writes a boolean as \<open>true\<close> or \<open>false\<close>.
\<close>

datatype tpl_val = TStr string | TBool bool

fun tpl_string :: "tpl_val \<Rightarrow> string" where
  "tpl_string (TStr s) = s"
| "tpl_string (TBool b) = (if b then ''true'' else ''false'')"

definition js_and_str :: "bool \<Rightarrow> string \<Rightarrow> tpl_val" where
  "js_and_str b s = (if b then TStr s else TBool b)"

text \<open>
  The classes of a \<open>className\<close> (the element's \<open>classList\<close>): its space-separated
  words, empty words dropped.
\<close>

definition class_tokens :: "string \<Rightarrow> string list" where
  "class_tokens s = filter (\<lambda>w. w \<noteq> []) (js_split (CHR '' '') s)"

lemma js_split_append_sep: "js_split c (a @ c # b) = js_split c a @ js_split c b"
proof (induction a)
  case (Cons x a)
  then show ?case by (cases "js_split c a") auto
qed simp

lemma class_tokens_append [simp]: "class_tokens (a @ CHR '' '' # b) = class_tokens a @ class_tokens b"
  by (simp add: class_tokens_def js_split_append_sep)

lemma class_tokens_word [simp]: "CHR '' '' \<notin> set w \<Longrightarrow> w \<noteq> [] \<Longrightarrow> class_tokens w = [w]"
proof -
  have "CHR '' '' \<notin> set w \<Longrightarrow> js_split (CHR '' '') w = [w]"
  proof (induction w)
    case (Cons x w)
    then show ?case by auto
  qed simp
  then show "CHR '' '' \<notin> set w \<Longrightarrow> w \<noteq> [] \<Longrightarrow> class_tokens w = [w]"
    by (simp add: class_tokens_def)
qed

section \<open>Lists\<close>

text \<open>The position of the first occurrence of an element (\<open>indexOf\<close>, with \<open>None\<close> for \<open>-1\<close>).\<close>

fun first_index :: "'a \<Rightarrow> 'a list \<Rightarrow> nat option" where
  "first_index x [] = None"
| "first_index x (y # ys) = (if x = y then Some 0 else map_option Suc (first_index x ys))"

lemma first_index_None_iff [simp]: "first_index x xs = None \<longleftrightarrow> x \<notin> set xs"
  by (induction xs) auto

lemma first_index_append_in [simp]: "x \<in> set xs \<Longrightarrow> first_index x (xs @ ys) = first_index x xs"
  by (induction xs) auto

lemma first_index_snoc_new: "x \<notin> set xs \<Longrightarrow> first_index x (xs @ [x]) = Some (length xs)"
  by (induction xs) auto

lemma first_index_Some_less: "first_index x xs = Some i \<Longrightarrow> i < length xs \<and> xs ! i = x"
  by (induction xs arbitrary: i) (auto split: if_splits)

section \<open>JavaScript remainder\<close>

text \<open>
  JavaScript's \<open>%\<close> truncates towards zero: the result has the sign of the dividend,
  unlike HOL's \<open>mod\<close> on \<open>int\<close>. A zero divisor gives NaN in JavaScript; no
  call site of the repository divides by zero, and the model returns 0 there.
\<close>

definition js_rem :: "int \<Rightarrow> int \<Rightarrow> int" where
  "js_rem a b = sgn a * (\<bar>a\<bar> mod \<bar>b\<bar>)"

lemma js_rem_nonneg [simp]:
  "0 \<le> a \<Longrightarrow> js_rem a b = a mod \<bar>b\<bar>"
  by (cases "a = 0") (simp_all add: js_rem_def)

lemma js_rem_pos_range:
  "0 \<le> a \<Longrightarrow> 0 < b \<Longrightarrow> 0 \<le> js_rem a b \<and> js_rem a b < b"
  by simp

end
