(* ===== verification/MotionValue.thy ===== *)
theory MotionValue
  imports Prelude
begin

text \<open>
  The observable value of \<open>src/vendor/framer-motion/index.js\<close>: class
  \<open>MotionValueImpl\<close> (lines 3--23) with \<open>get\<close>, \<open>set\<close> and \<open>on\<close>, and the hook
  \<open>useMotionValue\<close> (lines 25--31). Objects live in an explicit heap, a list of cells
  indexed by object identity, because the listeners of one value write into other values
  (a derived value, a spring): propagation is a chain of calls through the heap.
  A listener is a closure; its identity decides what \<open>Set.add\<close> and
  \<open>Set.delete\<close> do, and its behaviour is one of the three closures the library and
  its consumers create.
  The recursion of \<open>set\<close> through the listeners is given fuel, the depth of the
  JavaScript call stack: a cycle of values exhausts any fuel (the browser throws a
  RangeError), an acyclic dependency graph needs fuel above the rank of the value set.
\<close>

section \<open>State\<close>

text \<open>
  Closures created inside the library (\<open>useTransform\<close>, \<open>useSpring\<close>) are fresh
  objects: \<open>Closure n\<close> with a counter. A callback handed in by a consumer
  (\<open>useMotionValueEvent\<close>) keeps the identity the consumer gave it: \<open>UserFn n\<close>.
\<close>

datatype lid = Closure nat | UserFn nat

datatype action =
    Derive vid "jsval \<Rightarrow> jsval"  \<comment> \<open>\<open>(next) => derived.set(compute(next))\<close>, line 71\<close>
  | Follow vid                  \<comment> \<open>\<open>(next) => spring.set(next)\<close>, line 39\<close>
  | Callback nat                \<comment> \<open>a consumer's callback, observed in a log\<close>

type_synonym listener = "lid \<times> action"

record cell =
  mv_value :: jsval
  mv_listeners :: "listener list"

record engine =
  heap :: "cell list"
  next_lid :: nat
  observed :: "(nat \<times> jsval) list"

definition empty_engine :: engine where
  "empty_engine = \<lparr>heap = [], next_lid = 0, observed = []\<rparr>"

fun action_target :: "action \<Rightarrow> vid option" where
  "action_target (Derive t g) = Some t"
| "action_target (Follow t) = Some t"
| "action_target (Callback c) = None"

text \<open>The value a listener passes on to its target.\<close>

fun action_value :: "action \<Rightarrow> jsval \<Rightarrow> jsval" where
  "action_value (Derive t g) v = g v"
| "action_value (Follow t) v = v"
| "action_value (Callback c) v = v"

section \<open>Operations of \<open>MotionValueImpl\<close>\<close>

text \<open>\<open>new MotionValueImpl(initial)\<close>: a fresh object with no listeners.\<close>

definition new_motion_value :: "jsval \<Rightarrow> engine \<Rightarrow> vid \<times> engine" where
  "new_motion_value v st =
     (length (heap st), st\<lparr>heap := heap st @ [\<lparr>mv_value = v, mv_listeners = []\<rparr>]\<rparr>)"

definition mv_get :: "vid \<Rightarrow> engine \<Rightarrow> jsval option" where
  "mv_get a st = (if a < length (heap st) then Some (mv_value (heap st ! a)) else None)"

definition write_value :: "vid \<Rightarrow> jsval \<Rightarrow> engine \<Rightarrow> engine" where
  "write_value a v st = st\<lparr>heap := (heap st)[a := (heap st ! a)\<lparr>mv_value := v\<rparr>]\<rparr>"

text \<open>
  \<open>set(next)\<close> writes the value, then calls every listener of the set in insertion
  order with the new value. \<open>Set.forEach\<close> visits the live set; no listener of the
  model adds or deletes a listener, so the live set is the one read at the start.
  No equality short-cut: an unchanged value notifies too.
\<close>

fun mv_set :: "nat \<Rightarrow> vid \<Rightarrow> jsval \<Rightarrow> engine \<Rightarrow> engine option"
and notify :: "nat \<Rightarrow> listener list \<Rightarrow> jsval \<Rightarrow> engine \<Rightarrow> engine option" where
  "mv_set 0 a v st = None"
| "mv_set (Suc n) a v st =
     (if a < length (heap st)
      then notify n (mv_listeners (heap st ! a)) v (write_value a v st)
      else None)"
| "notify n [] v st = Some st"
| "notify n ((i, Derive t g) # ls) v st = Option.bind (mv_set n t (g v) st) (notify n ls v)"
| "notify n ((i, Follow t) # ls) v st = Option.bind (mv_set n t v st) (notify n ls v)"
| "notify n ((i, Callback c) # ls) v st =
     notify n ls v (st\<lparr>observed := observed st @ [(c, v)]\<rparr>)"

text \<open>
  \<open>on(event, listener)\<close>: for any event but \<open>'change'\<close> nothing is registered and the
  returned function does nothing; otherwise the listener is added to the set and the
  returned function deletes it.
\<close>

datatype unsubscribe = Unsub_noop | Unsub vid lid

definition update_listeners ::
  "vid \<Rightarrow> (listener list \<Rightarrow> listener list) \<Rightarrow> engine \<Rightarrow> engine" where
  "update_listeners a f st =
     st\<lparr>heap := (heap st)[a := (heap st ! a)\<lparr>mv_listeners := f (mv_listeners (heap st ! a))\<rparr>]\<rparr>"

definition mv_on :: "vid \<Rightarrow> string \<Rightarrow> listener \<Rightarrow> engine \<Rightarrow> unsubscribe \<times> engine" where
  "mv_on a event l st =
     (if event \<noteq> ''change'' then (Unsub_noop, st)
      else (Unsub a (fst l), update_listeners a (js_set_add l) st))"

fun run_unsubscribe :: "unsubscribe \<Rightarrow> engine \<Rightarrow> engine" where
  "run_unsubscribe Unsub_noop st = st"
| "run_unsubscribe (Unsub a i) st = update_listeners a (js_set_delete i) st"

text \<open>A library closure gets a fresh identity.\<close>

definition fresh_closure :: "engine \<Rightarrow> lid \<times> engine" where
  "fresh_closure st = (Closure (next_lid st), st\<lparr>next_lid := Suc (next_lid st)\<rparr>)"

section \<open>The hook \<open>useMotionValue\<close>\<close>

text \<open>
  \<open>useMotionValue(initial)\<close> keeps the object in a React ref: the first render
  creates it, every later render returns the same object and ignores \<open>initial\<close>.
  The ref is \<open>None\<close> before the first render.
\<close>

definition use_motion_value :: "vid option \<Rightarrow> jsval \<Rightarrow> engine \<Rightarrow> vid \<times> engine" where
  "use_motion_value ref v st =
     (case ref of None \<Rightarrow> new_motion_value v st | Some a \<Rightarrow> (a, st))"

section \<open>Well-formedness and the dependency graph\<close>

text \<open>
  The engine invariant: every listener set is duplicate-free by identity, every target
  of a listener is an allocated object, and every library closure in a set has an
  identity below the counter (so a fresh closure is never mistaken for a present one).
\<close>

definition listener_ok :: "engine \<Rightarrow> listener \<Rightarrow> bool" where
  "listener_ok st l \<longleftrightarrow>
     (case action_target (snd l) of None \<Rightarrow> True | Some t \<Rightarrow> t < length (heap st)) \<and>
     (case fst l of Closure k \<Rightarrow> k < next_lid st | UserFn _ \<Rightarrow> True)"

definition engine_wf :: "engine \<Rightarrow> bool" where
  "engine_wf st \<longleftrightarrow>
     (\<forall>ls \<in> set (map mv_listeners (heap st)).
        distinct (map fst ls) \<and> (\<forall>l \<in> set ls. listener_ok st l))"

text \<open>
  The shape of the heap: how many objects and which listeners each has. \<open>set\<close>
  changes values and the callback log only.
\<close>

definition shape :: "engine \<Rightarrow> listener list list \<times> nat" where
  "shape st = (map mv_listeners (heap st), next_lid st)"

text \<open>
  A rank function certifies that the dependency graph is acyclic: every listener of
  an object writes into an object of smaller rank.
\<close>

definition ranked :: "(vid \<Rightarrow> nat) \<Rightarrow> engine \<Rightarrow> bool" where
  "ranked r st \<longleftrightarrow>
     (\<forall>a < length (heap st). \<forall>l \<in> set (map mv_listeners (heap st) ! a).
        case action_target (snd l) of None \<Rightarrow> True | Some t \<Rightarrow> r t < r a)"

section \<open>Basic facts\<close>

lemma length_write_value [simp]: "length (heap (write_value a v st)) = length (heap st)"
  by (simp add: write_value_def)

lemma next_lid_write_value [simp]: "next_lid (write_value a v st) = next_lid st"
  by (simp add: write_value_def)

lemma observed_write_value [simp]: "observed (write_value a v st) = observed st"
  by (simp add: write_value_def)

lemma listeners_write_value [simp]:
  "map mv_listeners (heap (write_value a v st)) = map mv_listeners (heap st)"
  by (cases "a < length (heap st)") (simp_all add: write_value_def map_update list_update_same_conv list_update_beyond)

lemma shape_write_value [engine_simps]: "shape (write_value a v st) = shape st"
  by (simp add: shape_def)

lemma shape_observed [engine_simps]: "shape (st\<lparr>observed := xs\<rparr>) = shape st"
  by (simp add: shape_def)

lemma nth_write_value:
  "b < length (heap st) \<Longrightarrow>
   heap (write_value a v st) ! b =
     (if b = a then (heap st ! a)\<lparr>mv_value := v\<rparr> else heap st ! b)"
  by (simp add: write_value_def nth_list_update)

lemma mv_get_write_value [engine_simps]:
  "mv_get b (write_value a v st) =
     (if b = a \<and> a < length (heap st) then Some v else mv_get b st)"
  by (auto simp: mv_get_def nth_write_value)

lemma mv_get_observed [engine_simps]: "mv_get b (st\<lparr>observed := xs\<rparr>) = mv_get b st"
  by (simp add: mv_get_def)

lemma mv_get_next_lid [engine_simps]: "mv_get b (st\<lparr>next_lid := k\<rparr>) = mv_get b st"
  by (simp add: mv_get_def)

lemma length_shape: "shape st' = shape st \<Longrightarrow> length (heap st') = length (heap st)"
  by (simp add: shape_def) (metis length_map)

lemma listeners_shape:
  "shape st' = shape st \<Longrightarrow> map mv_listeners (heap st') = map mv_listeners (heap st)"
  by (simp add: shape_def)

lemma nth_listeners_shape:
  assumes "shape st' = shape st" "c < length (heap st)"
  shows "mv_listeners (heap st' ! c) = mv_listeners (heap st ! c)"
proof -
  have "map mv_listeners (heap st') ! c = map mv_listeners (heap st) ! c"
    by (simp only: listeners_shape [OF assms(1)])
  with assms(2) length_shape [OF assms(1)] show ?thesis by simp
qed

lemma engine_wf_shape:
  assumes "shape st' = shape st"
  shows "engine_wf st' = engine_wf st"
proof -
  have "next_lid st' = next_lid st" using assms by (simp add: shape_def)
  with length_shape [OF assms] listeners_shape [OF assms]
  show ?thesis unfolding engine_wf_def listener_ok_def by (simp only:)
qed

lemma ranked_shape:
  assumes "shape st' = shape st"
  shows "ranked r st' = ranked r st"
proof -
  from length_shape [OF assms] listeners_shape [OF assms]
  show ?thesis unfolding ranked_def by (simp only:)
qed

lemma notify_target:
  "action_target act = Some t \<Longrightarrow>
   notify n ((i, act) # ls) v st = Option.bind (mv_set n t (action_value act v) st) (notify n ls v)"
  by (cases act) simp_all

section \<open>Propagation\<close>

text \<open>\<open>set\<close> changes values and the log, never the listener sets.\<close>

lemma shape_mv_set:
  "mv_set n a v st = Some st' \<Longrightarrow> shape st' = shape st"
  and shape_notify: "notify n ls v st = Some st' \<Longrightarrow> shape st' = shape st"
  by (induction n a v st and n ls v st arbitrary: st' and st' rule: mv_set_notify.induct)
     (auto simp: engine_simps split: if_splits Option.bind_splits)


text \<open>More stack depth never changes a result.\<close>

lemma mv_set_fuel_mono:
  "mv_set n a v st = Some st' \<Longrightarrow> mv_set (Suc n) a v st = Some st'"
  and notify_fuel_mono: "notify n ls v st = Some st' \<Longrightarrow> notify (Suc n) ls v st = Some st'"
  by (induction n a v st and n ls v st arbitrary: st' and st' rule: mv_set_notify.induct)
     (auto split: if_splits Option.bind_splits)

text \<open>
  Termination: when a rank function certifies the graph acyclic, fuel above the rank of
  the value being set is enough, whatever the values are.
\<close>

definition below_rank :: "(vid \<Rightarrow> nat) \<Rightarrow> nat \<Rightarrow> engine \<Rightarrow> listener \<Rightarrow> bool" where
  "below_rank r k st l \<longleftrightarrow>
     (case action_target (snd l) of None \<Rightarrow> True | Some t \<Rightarrow> t < length (heap st) \<and> r t < k)"

lemma below_rank_shape:
  "shape st' = shape st \<Longrightarrow> below_rank r k st' l = below_rank r k st l"
  by (simp add: below_rank_def length_shape [of st' st] split: option.split)

lemma listeners_below_rank:
  assumes "engine_wf st" "ranked r st" "a < length (heap st)"
  shows "\<forall>l \<in> set (mv_listeners (heap st ! a)). below_rank r (r a) st l"
proof
  fix l assume l: "l \<in> set (mv_listeners (heap st ! a))"
  from assms(1,3) l have "listener_ok st l"
    by (auto simp: engine_wf_def)
  moreover from assms(2,3) l
  have "case action_target (snd l) of None \<Rightarrow> True | Some t \<Rightarrow> r t < r a"
    by (auto simp: ranked_def)
  ultimately show "below_rank r (r a) st l"
    by (auto simp: below_rank_def listener_ok_def split: option.splits)
qed

lemma notify_total:
  assumes IH: "\<And>a v st. engine_wf st \<Longrightarrow> ranked r st \<Longrightarrow> a < length (heap st) \<Longrightarrow> r a < n \<Longrightarrow>
                 \<exists>st'. mv_set n a v st = Some st'"
  shows "engine_wf st \<Longrightarrow> ranked r st \<Longrightarrow> \<forall>l \<in> set ls. below_rank r n st l \<Longrightarrow>
         \<exists>st'. notify n ls v st = Some st'"
proof (induction ls arbitrary: st)
  case Nil
  then show ?case by simp
next
  case (Cons l ls)
  obtain i act where l: "l = (i, act)" by (cases l)
  show ?case
  proof (cases "action_target act")
    case None
    then obtain c where "act = Callback c" by (cases act) simp_all
    moreover
    let ?st = "st\<lparr>observed := observed st @ [(c, v)]\<rparr>"
    have sh: "shape ?st = shape st" by (rule shape_observed)
    have "\<exists>st'. notify n ls v ?st = Some st'"
      using Cons.prems by (intro Cons.IH)
        (simp_all add: engine_wf_shape [OF sh] ranked_shape [OF sh] below_rank_shape [OF sh])
    ultimately show ?thesis by (simp add: l)
  next
    case (Some t)
    with Cons.prems l obtain st1 where st1: "mv_set n t (action_value act v) st = Some st1"
      using IH by (fastforce simp: below_rank_def)
    from shape_mv_set [OF st1] have sh: "shape st1 = shape st" .
    have "\<exists>st'. notify n ls v st1 = Some st'"
      using Cons.prems by (intro Cons.IH)
        (simp_all add: engine_wf_shape [OF sh] ranked_shape [OF sh] below_rank_shape [OF sh])
    with Some st1 show ?thesis by (simp add: l notify_target)
  qed
qed

lemma mv_set_total:
  "engine_wf st \<Longrightarrow> ranked r st \<Longrightarrow> a < length (heap st) \<Longrightarrow> r a < n \<Longrightarrow>
   \<exists>st'. mv_set n a v st = Some st'"
proof (induction n arbitrary: a v st)
  case 0
  then show ?case by simp
next
  case (Suc n)
  let ?st = "write_value a v st"
  have sh: "shape ?st = shape st" by (rule shape_write_value)
  from listeners_below_rank [OF Suc.prems(1-3)] Suc.prems(4)
  have "\<forall>l \<in> set (mv_listeners (heap st ! a)). below_rank r n ?st l"
    by (auto simp: below_rank_shape [OF sh] below_rank_def split: option.splits)
  then have "\<exists>st'. notify n (mv_listeners (heap st ! a)) v ?st = Some st'"
    using Suc.prems by (intro notify_total [where r = r]) (simp_all add: Suc.IH engine_wf_shape [OF sh] ranked_shape [OF sh])
  with Suc.prems(3) show ?case by simp
qed

text \<open>
  Frame: setting a value writes only that value and values of smaller rank, so after
  the propagation the value set is still the one written (no listener writes back).
\<close>

definition targets_below :: "(vid \<Rightarrow> nat) \<Rightarrow> nat \<Rightarrow> listener \<Rightarrow> bool" where
  "targets_below r k l \<longleftrightarrow> (case action_target (snd l) of None \<Rightarrow> True | Some t \<Rightarrow> r t < k)"

lemma ranked_targets_below:
  "ranked r st \<Longrightarrow> a < length (heap st) \<Longrightarrow>
   \<forall>l \<in> set (mv_listeners (heap st ! a)). targets_below r (r a) l"
  by (auto simp: ranked_def targets_below_def)

lemma mv_set_frame:
  "mv_set n a v st = Some st' \<Longrightarrow> ranked r st \<Longrightarrow> r a < r b \<Longrightarrow> heap st' ! b = heap st ! b"
  and notify_frame:
  "notify n ls v st = Some st' \<Longrightarrow> ranked r st \<Longrightarrow> \<forall>l \<in> set ls. targets_below r k l \<Longrightarrow>
   k \<le> r b \<Longrightarrow> heap st' ! b = heap st ! b"
proof (induction n a v st and n ls v st arbitrary: st' and st' k rule: mv_set_notify.induct)
  case (1 a v st)
  then show ?case by simp
next
  case (2 n a v st)
  then have a: "a < length (heap st)" by (simp split: if_splits)
  let ?st = "write_value a v st"
  have sh: "shape ?st = shape st" by (rule shape_write_value)
  from "2.prems"(1) a have run: "notify n (mv_listeners (heap st ! a)) v ?st = Some st'" by simp
  have rk: "ranked r ?st" using "2.prems"(2) by (simp add: ranked_shape [OF sh])
  have le: "r a \<le> r b" using "2.prems"(3) by simp
  have "heap st' ! b = heap ?st ! b"
    by (rule "2.IH" [OF a run rk ranked_targets_below [OF "2.prems"(2) a] le])
  also have "\<dots> = heap st ! b"
  proof -
    from "2.prems"(3) have "a \<noteq> b" by auto
    then show ?thesis by (simp add: write_value_def)
  qed
  finally show ?case .
next
  case (3 n v st)
  then show ?case by simp
next
  case (4 n i t g ls v st)
  from "4.prems"(1) obtain st1 where st1: "mv_set n t (g v) st = Some st1"
    and rest: "notify n ls v st1 = Some st'" by (auto split: Option.bind_splits)
  have sh: "shape st1 = shape st" by (rule shape_mv_set [OF st1])
  have "heap st' ! b = heap st1 ! b"
    using "4.prems"(2-4) by (intro "4.IH"(2) [OF st1 rest]) (simp_all add: ranked_shape [OF sh])
  also have "\<dots> = heap st ! b"
    using "4.prems"(2-4) by (intro "4.IH"(1) [OF st1]) (auto simp: targets_below_def)
  finally show ?case .
next
  case (5 n i t ls v st)
  from "5.prems"(1) obtain st1 where st1: "mv_set n t v st = Some st1"
    and rest: "notify n ls v st1 = Some st'" by (auto split: Option.bind_splits)
  have sh: "shape st1 = shape st" by (rule shape_mv_set [OF st1])
  have "heap st' ! b = heap st1 ! b"
    using "5.prems"(2-4) by (intro "5.IH"(2) [OF st1 rest]) (simp_all add: ranked_shape [OF sh])
  also have "\<dots> = heap st ! b"
    using "5.prems"(2-4) by (intro "5.IH"(1) [OF st1]) (auto simp: targets_below_def)
  finally show ?case .
next
  case (6 n i c ls v st)
  let ?st = "st\<lparr>observed := observed st @ [(c, v)]\<rparr>"
  have sh: "shape ?st = shape st" by (rule shape_observed)
  have "heap st' ! b = heap ?st ! b"
    using "6.prems" by (intro "6.IH") (simp_all add: ranked_shape [OF sh])
  then show ?case by simp
qed

lemma mv_set_get:
  assumes run: "mv_set n a v st = Some st'" and rk: "ranked r st"
  shows "mv_get a st' = Some v"
proof (cases n)
  case 0
  with run show ?thesis by simp
next
  case (Suc m)
  let ?st = "write_value a v st"
  from run Suc have a: "a < length (heap st)" by (simp split: if_splits)
  from run Suc a have nt: "notify m (mv_listeners (heap st ! a)) v ?st = Some st'" by simp
  have sh: "shape ?st = shape st" by (rule shape_write_value)
  have "heap st' ! a = heap ?st ! a"
    by (rule notify_frame [OF nt _ ranked_targets_below [OF rk a] order_refl])
       (simp add: ranked_shape [OF sh] rk)
  moreover have "length (heap st') = length (heap st)"
    using length_shape [OF shape_notify [OF nt]] by simp
  ultimately show ?thesis using a by (simp add: mv_get_def nth_write_value)
qed

section \<open>Notification of callbacks\<close>

text \<open>
  The log entries one \<open>set\<close> adds for the consumer callbacks among the listeners,
  in insertion order.
\<close>

definition callback_entries :: "listener list \<Rightarrow> jsval \<Rightarrow> (nat \<times> jsval) list" where
  "callback_entries ls v = concat (map (\<lambda>l. case snd l of Callback c \<Rightarrow> [(c, v)] | _ \<Rightarrow> []) ls)"

definition only_callbacks :: "listener list \<Rightarrow> bool" where
  "only_callbacks ls \<longleftrightarrow> (\<forall>l \<in> set ls. action_target (snd l) = None)"

lemma notify_callbacks:
  "only_callbacks ls \<Longrightarrow>
   notify n ls v st = Some (st\<lparr>observed := observed st @ callback_entries ls v\<rparr>)"
proof (induction ls arbitrary: st)
  case Nil
  then show ?case by (simp add: callback_entries_def)
next
  case (Cons l ls)
  obtain i act where l: "l = (i, act)" by (cases l)
  from Cons.prems l obtain c where act: "act = Callback c"
    by (cases act) (simp_all add: only_callbacks_def)
  from Cons.prems have "only_callbacks ls" by (simp add: only_callbacks_def)
  with Cons.IH show ?case by (simp add: l act callback_entries_def)
qed

text \<open>Setting a value, in sequence: \<open>vs\<close> are the arguments of successive calls.\<close>

fun mv_set_all :: "nat \<Rightarrow> vid \<Rightarrow> jsval list \<Rightarrow> engine \<Rightarrow> engine option" where
  "mv_set_all n a [] st = Some st"
| "mv_set_all n a (v # vs) st = Option.bind (mv_set n a v st) (mv_set_all n a vs)"

lemma shape_set_observed_write:
  "shape ((write_value a v st)\<lparr>observed := xs\<rparr>) = shape st"
  by (simp add: engine_simps)

lemma listeners_write_value_nth:
  "a < length (heap st) \<Longrightarrow> b < length (heap st) \<Longrightarrow>
   mv_listeners (heap (write_value a v st) ! b) = mv_listeners (heap st ! b)"
  by (simp add: nth_write_value)

lemma mv_set_all_log:
  assumes "a < length (heap st)" and "only_callbacks (mv_listeners (heap st ! a))"
  shows "\<exists>st'. mv_set_all (Suc n) a vs st = Some st' \<and>
           observed st' = observed st @ concat (map (callback_entries (mv_listeners (heap st ! a))) vs) \<and>
           mv_get a st' = (if vs = [] then mv_get a st else Some (last vs)) \<and>
           shape st' = shape st"
  using assms
proof (induction vs arbitrary: st)
  case Nil
  then show ?case by simp
next
  case (Cons v vs)
  let ?ls = "mv_listeners (heap st ! a)"
  let ?st1 = "(write_value a v st)\<lparr>observed := observed st @ callback_entries ?ls v\<rparr>"
  have step: "mv_set (Suc n) a v st = Some ?st1"
    using Cons.prems by (simp add: notify_callbacks)
  have len: "a < length (heap ?st1)" using Cons.prems(1) by simp
  have ls1: "mv_listeners (heap ?st1 ! a) = ?ls"
    using Cons.prems(1) by (simp add: nth_write_value)
  from Cons.IH [of ?st1] len ls1 Cons.prems(2) obtain st' where
    run: "mv_set_all (Suc n) a vs ?st1 = Some st'"
    and obs: "observed st' = observed ?st1 @ concat (map (callback_entries ?ls) vs)"
    and get: "mv_get a st' = (if vs = [] then mv_get a ?st1 else Some (last vs))"
    and sh: "shape st' = shape ?st1"
    by auto
  have "mv_get a ?st1 = Some v" using Cons.prems(1) by (simp add: engine_simps)
  with step run obs get sh show ?case by (simp add: engine_simps)
qed

section \<open>Subscribing and unsubscribing\<close>

lemma length_update_listeners [simp]:
  "length (heap (update_listeners a f st)) = length (heap st)"
  by (simp add: update_listeners_def)

lemma next_lid_update_listeners [simp]: "next_lid (update_listeners a f st) = next_lid st"
  by (simp add: update_listeners_def)

lemma observed_update_listeners [simp]: "observed (update_listeners a f st) = observed st"
  by (simp add: update_listeners_def)

lemma nth_update_listeners:
  "b < length (heap st) \<Longrightarrow>
   heap (update_listeners a f st) ! b =
     (if b = a then (heap st ! a)\<lparr>mv_listeners := f (mv_listeners (heap st ! a))\<rparr> else heap st ! b)"
  by (simp add: update_listeners_def nth_list_update)

lemma mv_get_update_listeners [engine_simps]:
  "mv_get b (update_listeners a f st) = mv_get b st"
  by (cases "b < length (heap st)") (simp_all add: mv_get_def nth_update_listeners)

lemma update_listeners_id:
  "f (mv_listeners (heap st ! a)) = mv_listeners (heap st ! a) \<Longrightarrow> update_listeners a f st = st"
  by (cases "a < length (heap st)") (simp_all add: update_listeners_def list_update_beyond)

lemma update_listeners_twice:
  "update_listeners a g (update_listeners a f st) = update_listeners a (g \<circ> f) st"
  by (cases "a < length (heap st)") (simp_all add: update_listeners_def list_update_beyond)

lemma listeners_unsubscribe:
  "a < length (heap st) \<Longrightarrow>
   mv_listeners (heap (run_unsubscribe (Unsub a i) st) ! a) = js_set_delete i (mv_listeners (heap st ! a))"
  by (simp add: nth_update_listeners)

section \<open>Every operation keeps the invariant\<close>

lemma listener_ok_mono:
  "listener_ok st l \<Longrightarrow> length (heap st) \<le> length (heap st') \<Longrightarrow> next_lid st \<le> next_lid st' \<Longrightarrow>
   listener_ok st' l"
  by (auto simp: listener_ok_def split: option.splits lid.splits)

lemma listener_ok_cong:
  assumes "length (heap st') = length (heap st)" "next_lid st' = next_lid st"
  shows "listener_ok st' = listener_ok st"
  using assms unfolding listener_ok_def by (simp only:)

lemma listener_ok_new [simp]:
  "listener_ok st l \<Longrightarrow> listener_ok (st\<lparr>heap := heap st @ [c]\<rparr>) l"
  by (auto simp: listener_ok_def split: option.splits lid.splits)

lemma listener_ok_next_lid [simp]:
  "listener_ok st l \<Longrightarrow> listener_ok (st\<lparr>next_lid := Suc (next_lid st)\<rparr>) l"
  by (auto simp: listener_ok_def split: option.splits lid.splits)

lemma engine_wf_update_listeners:
  assumes wf: "engine_wf st"
    and dist: "distinct (map fst (f (mv_listeners (heap st ! a))))"
    and ok: "\<forall>l \<in> set (f (mv_listeners (heap st ! a))). listener_ok st l"
  shows "engine_wf (update_listeners a f st)"
proof (cases "a < length (heap st)")
  case True
  let ?new = "f (mv_listeners (heap st ! a))"
  have "map mv_listeners (heap (update_listeners a f st)) = (map mv_listeners (heap st))[a := ?new]"
    by (simp add: update_listeners_def map_update)
  then have "set (map mv_listeners (heap (update_listeners a f st))) \<subseteq>
             insert ?new (set (map mv_listeners (heap st)))"
    by (metis set_update_subset_insert)
  moreover have ok': "listener_ok (update_listeners a f st) = listener_ok st"
    by (rule listener_ok_cong) simp_all
  ultimately show ?thesis using wf dist ok unfolding engine_wf_def ok' by blast
next
  case False
  then have "update_listeners a f st = st" by (simp add: update_listeners_def list_update_beyond)
  with wf show ?thesis by simp
qed

lemma engine_wf_new_motion_value:
  "engine_wf st \<Longrightarrow> engine_wf (snd (new_motion_value v st))"
  by (auto simp: engine_wf_def new_motion_value_def)

lemma engine_wf_fresh_closure:
  "engine_wf st \<Longrightarrow> engine_wf (snd (fresh_closure st))"
  by (auto simp: engine_wf_def fresh_closure_def)

lemma engine_wf_mv_on:
  assumes "engine_wf st" "a < length (heap st)" "listener_ok st l"
  shows "engine_wf (snd (mv_on a event l st))"
proof -
  from assms(1,2) have "distinct (map fst (mv_listeners (heap st ! a)))"
    and "\<forall>m \<in> set (mv_listeners (heap st ! a)). listener_ok st m"
    by (auto simp: engine_wf_def)
  with assms show ?thesis
    using set_js_set_add_subset [of l "mv_listeners (heap st ! a)"]
    by (auto simp: mv_on_def js_set_simps intro!: engine_wf_update_listeners)
qed

lemma engine_wf_unsubscribe:
  assumes "engine_wf st"
  shows "engine_wf (run_unsubscribe u st)"
proof (cases u)
  case Unsub_noop
  with assms show ?thesis by simp
next
  case (Unsub a i)
  show ?thesis
  proof (cases "a < length (heap st)")
    case True
    with assms have "distinct (map fst (mv_listeners (heap st ! a)))"
      and "\<forall>m \<in> set (mv_listeners (heap st ! a)). listener_ok st m"
      by (auto simp: engine_wf_def)
    with assms Unsub show ?thesis
      using set_js_set_delete_subset [of i "mv_listeners (heap st ! a)"]
      by (auto simp: js_set_simps intro!: engine_wf_update_listeners)
  next
    case False
    with assms Unsub show ?thesis by (simp add: update_listeners_def list_update_beyond)
  qed
qed

lemma engine_wf_mv_set:
  "engine_wf st \<Longrightarrow> mv_set n a v st = Some st' \<Longrightarrow> engine_wf st'"
  using engine_wf_shape shape_mv_set by blast

lemma engine_wf_use_motion_value:
  "engine_wf st \<Longrightarrow> engine_wf (snd (use_motion_value ref v st))"
  by (cases ref) (simp_all add: use_motion_value_def engine_wf_new_motion_value)

lemma engine_wf_empty: "engine_wf empty_engine"
  by (simp add: engine_wf_def empty_engine_def)

lemmas engine_wf_ops = engine_wf_new_motion_value engine_wf_fresh_closure engine_wf_mv_on
  engine_wf_unsubscribe engine_wf_mv_set engine_wf_use_motion_value

section \<open>Reachability in the dependency graph\<close>

text \<open>
  \<open>reaches st a b\<close>: a \<open>set\<close> of \<open>a\<close> can write \<open>b\<close>, through a chain of listeners.
\<close>

inductive reaches :: "engine \<Rightarrow> vid \<Rightarrow> vid \<Rightarrow> bool" for st :: engine where
  refl: "reaches st a a"
| step: "a < length (heap st) \<Longrightarrow> l \<in> set (mv_listeners (heap st ! a)) \<Longrightarrow>
         action_target (snd l) = Some t \<Longrightarrow> reaches st t b \<Longrightarrow> reaches st a b"

lemma reaches_shape_mono:
  assumes "reaches st a b" and sh: "shape st' = shape st"
  shows "reaches st' a b"
  using assms(1)
proof induction
  case (refl a)
  then show ?case by (rule reaches.refl)
next
  case (step a l t b)
  have len: "length (heap st') = length (heap st)" by (rule length_shape [OF sh])
  have "map mv_listeners (heap st') ! a = map mv_listeners (heap st) ! a"
    by (simp only: listeners_shape [OF sh])
  then have "mv_listeners (heap st' ! a) = mv_listeners (heap st ! a)"
    using step.hyps(1) len by simp
  then have "l \<in> set (mv_listeners (heap st' ! a))" using step.hyps(2) by simp
  with step.hyps(1) len step.hyps(3) step.IH show ?case by (auto intro: reaches.step)
qed

lemma reaches_shape:
  assumes sh: "shape st' = shape st"
  shows "reaches st' a b = reaches st a b"
  using reaches_shape_mono [OF _ sh] reaches_shape_mono [OF _ sh [symmetric]] by blast

lemma reaches_rank:
  "reaches st a b \<Longrightarrow> ranked r st \<Longrightarrow> a \<noteq> b \<Longrightarrow> r b < r a"
proof (induction rule: reaches.induct)
  case (refl a)
  then show ?case by simp
next
  case (step a l t b)
  then have "r t < r a" by (force simp: ranked_def)
  with step show ?case by (cases "t = b") auto
qed

lemma reaches_last_edge:
  "reaches st a b \<Longrightarrow> a \<noteq> b \<Longrightarrow>
   \<exists>c l. reaches st a c \<and> c < length (heap st) \<and> l \<in> set (mv_listeners (heap st ! c)) \<and>
         action_target (snd l) = Some b"
proof (induction rule: reaches.induct)
  case (refl a)
  then show ?case by simp
next
  case (step a l t b)
  show ?case
  proof (cases "t = b")
    case True
    with step.hyps(1-3) show ?thesis by (blast intro: reaches.refl)
  next
    case False
    with step.IH obtain c m where "reaches st t c" "c < length (heap st)"
      "m \<in> set (mv_listeners (heap st ! c))" "action_target (snd m) = Some b" by blast
    with step.hyps(1-3) show ?thesis by (blast intro: reaches.step)
  qed
qed

text \<open>Propagation from \<open>a\<close> leaves every object it cannot reach as it was.\<close>

lemma mv_set_unreached:
  "mv_set n a v st = Some st' \<Longrightarrow> \<not> reaches st a b \<Longrightarrow> heap st' ! b = heap st ! b"
  and notify_unreached:
  "notify n ls v st = Some st' \<Longrightarrow>
   \<forall>l \<in> set ls. \<forall>t. action_target (snd l) = Some t \<longrightarrow> \<not> reaches st t b \<Longrightarrow>
   heap st' ! b = heap st ! b"
proof (induction n a v st and n ls v st arbitrary: st' and st' rule: mv_set_notify.induct)
  case (1 a v st)
  then show ?case by simp
next
  case (2 n a v st)
  then have a: "a < length (heap st)" by (simp split: if_splits)
  let ?st = "write_value a v st"
  have sh: "shape ?st = shape st" by (rule shape_write_value)
  from "2.prems"(1) a have run: "notify n (mv_listeners (heap st ! a)) v ?st = Some st'" by simp
  have far: "\<forall>l \<in> set (mv_listeners (heap st ! a)). \<forall>t. action_target (snd l) = Some t \<longrightarrow>
               \<not> reaches ?st t b"
    using "2.prems"(2) a by (auto simp: reaches_shape [OF sh] intro: reaches.step)
  have "heap st' ! b = heap ?st ! b" by (rule "2.IH" [OF a run far])
  also have "\<dots> = heap st ! b"
  proof -
    from "2.prems"(2) have "a \<noteq> b" by (auto intro: reaches.refl)
    then show ?thesis by (simp add: write_value_def)
  qed
  finally show ?case .
next
  case (3 n v st)
  then show ?case by simp
next
  case (4 n i t g ls v st)
  from "4.prems"(1) obtain st1 where st1: "mv_set n t (g v) st = Some st1"
    and rest: "notify n ls v st1 = Some st'" by (auto split: Option.bind_splits)
  have sh: "shape st1 = shape st" by (rule shape_mv_set [OF st1])
  have "heap st' ! b = heap st1 ! b"
    using "4.prems"(2) by (intro "4.IH"(2) [OF st1 rest]) (simp add: reaches_shape [OF sh])
  also have "\<dots> = heap st ! b"
    using "4.prems"(2) by (intro "4.IH"(1) [OF st1]) simp
  finally show ?case .
next
  case (5 n i t ls v st)
  from "5.prems"(1) obtain st1 where st1: "mv_set n t v st = Some st1"
    and rest: "notify n ls v st1 = Some st'" by (auto split: Option.bind_splits)
  have sh: "shape st1 = shape st" by (rule shape_mv_set [OF st1])
  have "heap st' ! b = heap st1 ! b"
    using "5.prems"(2) by (intro "5.IH"(2) [OF st1 rest]) (simp add: reaches_shape [OF sh])
  also have "\<dots> = heap st ! b"
    using "5.prems"(2) by (intro "5.IH"(1) [OF st1]) simp
  finally show ?case .
next
  case (6 n i c ls v st)
  let ?st = "st\<lparr>observed := observed st @ [(c, v)]\<rparr>"
  have sh: "shape ?st = shape st" by (rule shape_observed)
  have "heap st' ! b = heap ?st ! b"
    using "6.prems" by (intro "6.IH") (simp_all add: reaches_shape [OF sh])
  then show ?case by simp
qed

lemma notify_append:
  "notify n (xs @ ys) v st = Option.bind (notify n xs v st) (notify n ys v)"
proof (induction xs arbitrary: st)
  case Nil
  then show ?case by simp
next
  case (Cons x xs)
  obtain i act where x: "x = (i, act)" by (cases x)
  show ?case
    by (cases act) (simp_all add: x Cons.IH split: Option.bind_split)
qed

section \<open>A derived value follows its source\<close>

text \<open>
  \<open>l\<close> on \<open>s\<close> is the only listener of the heap that writes \<open>d\<close>: the situation
  of a value made by \<open>useTransform\<close> or \<open>useSpring\<close>, which only its own subscription
  writes.
\<close>

definition sole_writer :: "engine \<Rightarrow> vid \<Rightarrow> listener \<Rightarrow> vid \<Rightarrow> bool" where
  "sole_writer st s l d \<longleftrightarrow>
     s < length (heap st) \<and> l \<in> set (map mv_listeners (heap st) ! s) \<and>
     action_target (snd l) = Some d \<and>
     (\<forall>c < length (heap st). \<forall>m \<in> set (map mv_listeners (heap st) ! c).
        action_target (snd m) = Some d \<longrightarrow> c = s \<and> m = l)"

lemma sole_writer_other_targets:
  assumes rk: "ranked r st" and sw: "sole_writer st s l d"
    and m: "m \<in> set (mv_listeners (heap st ! s))" "m \<noteq> l" "action_target (snd m) = Some t"
  shows "\<not> reaches st t d"
proof
  assume reach: "reaches st t d"
  from sw have s: "s < length (heap st)" by (simp add: sole_writer_def)
  have "t \<noteq> d" using sw m by (auto simp: sole_writer_def)
  with reach obtain c m' where "reaches st t c" "c < length (heap st)"
    "m' \<in> set (mv_listeners (heap st ! c))" "action_target (snd m') = Some d"
    using reaches_last_edge by blast
  with sw have tc: "reaches st t s" by (auto simp: sole_writer_def)
  from rk s m have rt: "r t < r s" by (force simp: ranked_def)
  then have "t \<noteq> s" by auto
  with reaches_rank [OF tc rk] rt show False by simp
qed

lemma sole_writer_shape:
  assumes sh: "shape st' = shape st"
  shows "sole_writer st' s l d = sole_writer st s l d"
  unfolding sole_writer_def length_shape [OF sh] listeners_shape [OF sh] by simp

lemma split_distinct_key:
  assumes "l \<in> set ls" "distinct (map fst ls)"
  obtains pre post where "ls = pre @ l # post" "l \<notin> set pre" "l \<notin> set post"
proof -
  from assms(1) obtain pre post where ls: "ls = pre @ l # post" by (meson split_list)
  with assms(2) have "l \<notin> set pre" "l \<notin> set post" by auto
  with ls that show ?thesis by blast
qed

lemma notify_keeps_unreached:
  "notify n ls v st = Some st' \<Longrightarrow> ranked r st \<Longrightarrow> sole_writer st s l d \<Longrightarrow>
   set ls \<subseteq> set (mv_listeners (heap st ! s)) - {l} \<Longrightarrow> heap st' ! d = heap st ! d"
  by (erule notify_unreached) (auto dest: sole_writer_other_targets)

lemma sole_writer_value:
  assumes wf: "engine_wf st" and rk: "ranked r st"
    and sw: "sole_writer st s l d"
    and run: "mv_set n s v st = Some st'"
  shows "mv_get d st' = Some (action_value (snd l) v)"
proof -
  from run obtain m where n: "n = Suc m" by (cases n) auto
  from sw have s: "s < length (heap st)" and tgt: "action_target (snd l) = Some d"
    by (simp_all add: sole_writer_def)
  with sw have l_in: "l \<in> set (mv_listeners (heap st ! s))" by (simp add: sole_writer_def)
  let ?st0 = "write_value s v st"
  have sh0: "shape ?st0 = shape st" by (rule shape_write_value)
  from run n s have nt: "notify m (mv_listeners (heap st ! s)) v ?st0 = Some st'" by simp
  from wf s have "distinct (map fst (mv_listeners (heap st ! s)))"
    by (auto simp: engine_wf_def)
  with l_in obtain pre post where ls: "mv_listeners (heap st ! s) = pre @ l # post"
    and post: "l \<notin> set post"
    by (rule split_distinct_key)
  obtain i act where l: "l = (i, act)" by (cases l)
  from nt ls tgt obtain st1 st2 where n1: "notify m pre v ?st0 = Some st1"
    and n2: "mv_set m d (action_value (snd l) v) st1 = Some st2"
    and n3: "notify m post v st2 = Some st'"
    by (auto simp: notify_append l notify_target split: Option.bind_splits)
  have sh1: "shape st1 = shape st" using shape_notify [OF n1] sh0 by simp
  have sh2: "shape st2 = shape st" using shape_mv_set [OF n2] sh1 by simp
  have rk2: "ranked r st2" using rk by (simp add: ranked_shape [OF sh2])
  have get2: "mv_get d st2 = Some (action_value (snd l) v)"
    by (rule mv_set_get [OF n2 ranked_shape [OF sh1, THEN iffD2, OF rk]])
  have "set post \<subseteq> set (mv_listeners (heap st2 ! s)) - {l}"
    using post unfolding nth_listeners_shape [OF sh2 s] ls by auto
  then have "heap st' ! d = heap st2 ! d"
    by (rule notify_keeps_unreached [OF n3 rk2 sw [folded sole_writer_shape [OF sh2]]])
  moreover have "length (heap st') = length (heap st2)"
    by (rule length_shape [OF shape_notify [OF n3]])
  ultimately show ?thesis using get2 by (simp add: mv_get_def split: if_splits)
qed

section \<open>Subscribing a closure into a fresh object\<close>

text \<open>
  The hooks allocate an object and subscribe, on a source, a fresh closure that writes
  into it. The facts below say that the result is still well ranked, that the closure is
  the object's only writer, and how the source's listener set grows.
\<close>

definition untargeted :: "engine \<Rightarrow> vid \<Rightarrow> bool" where
  "untargeted st d \<longleftrightarrow>
     (\<forall>c < length (heap st). \<forall>m \<in> set (map mv_listeners (heap st) ! c). action_target (snd m) \<noteq> Some d)"

lemma mv_set_no_listeners:
  "a < length (heap st) \<Longrightarrow> mv_listeners (heap st ! a) = [] \<Longrightarrow>
   mv_set (Suc n) a v st = Some (write_value a v st)"
  by simp

lemma closure_fresh:
  "engine_wf st \<Longrightarrow> s < length (heap st) \<Longrightarrow>
   Closure (next_lid st) \<notin> fst ` set (mv_listeners (heap st ! s))"
  by (force simp: engine_wf_def listener_ok_def)

lemma listeners_mv_on_fresh:
  "s < length (heap st) \<Longrightarrow> fst l \<notin> fst ` set (mv_listeners (heap st ! s)) \<Longrightarrow>
   mv_listeners (heap (snd (mv_on s ''change'' l st)) ! s) = mv_listeners (heap st ! s) @ [l]"
  by (simp add: mv_on_def nth_update_listeners js_set_add_fresh)

lemma untargeted_new_motion_value:
  "engine_wf st \<Longrightarrow> untargeted (snd (new_motion_value v st)) (length (heap st))"
  by (fastforce simp: untargeted_def engine_wf_def listener_ok_def new_motion_value_def
      nth_append less_Suc_eq split: option.splits)

lemma untargeted_shape:
  "shape st' = shape st \<Longrightarrow> untargeted st' d = untargeted st d"
  unfolding untargeted_def length_shape [of st' st] by (simp add: shape_def)

lemma ranked_subscribe_leaf:
  assumes rk: "ranked r st" and s: "s < length (heap st)" and sd: "s \<noteq> d"
    and d0: "mv_listeners (heap st ! d) = []" and t: "action_target (snd l) = Some d"
  shows "ranked (\<lambda>x. if x = d then 0 else Suc (r x)) (snd (mv_on s ''change'' l st))"
  unfolding ranked_def
proof (intro allI impI ballI)
  fix a m
  assume a: "a < length (heap (snd (mv_on s ''change'' l st)))"
    and m: "m \<in> set (map mv_listeners (heap (snd (mv_on s ''change'' l st))) ! a)"
  have a': "a < length (heap st)" using a by (simp add: mv_on_def)
  have m': "m \<in> set (mv_listeners (heap st ! a)) \<or> (a = s \<and> m = l)"
    using m a' set_js_set_add_subset [of l "mv_listeners (heap st ! s)"]
    by (auto simp: mv_on_def nth_update_listeners split: if_splits)
  show "case action_target (snd m) of None \<Rightarrow> True
        | Some ta \<Rightarrow> (if ta = d then 0 else Suc (r ta)) < (if a = d then 0 else Suc (r a))"
  proof (cases "a = s \<and> m = l")
    case True
    with t sd show ?thesis by simp
  next
    case False
    with m' have old: "m \<in> set (mv_listeners (heap st ! a))" by blast
    then have "a \<noteq> d" using d0 by auto
    moreover have "case action_target (snd m) of None \<Rightarrow> True | Some ta \<Rightarrow> r ta < r a"
      using rk a' old by (auto simp: ranked_def)
    ultimately show ?thesis by (auto split: option.splits)
  qed
qed

lemma sole_writer_subscribe:
  assumes s: "s < length (heap st)" and ut: "untargeted st d"
    and fr: "fst l \<notin> fst ` set (mv_listeners (heap st ! s))" and t: "action_target (snd l) = Some d"
  shows "sole_writer (snd (mv_on s ''change'' l st)) s l d"
proof -
  let ?st = "snd (mv_on s ''change'' l st)"
  have ls: "mv_listeners (heap ?st ! s) = mv_listeners (heap st ! s) @ [l]"
    by (rule listeners_mv_on_fresh [OF s fr])
  have len: "length (heap ?st) = length (heap st)" by (simp add: mv_on_def)
  have other: "m \<in> set (mv_listeners (heap ?st ! c)) \<Longrightarrow> c < length (heap st) \<Longrightarrow>
      m \<in> set (mv_listeners (heap st ! c)) \<or> (c = s \<and> m = l)" for c m
    using s ls by (auto simp: mv_on_def nth_update_listeners split: if_splits)
  have "l \<in> set (map mv_listeners (heap ?st) ! s)" using s len ls by simp
  moreover have "\<forall>c < length (heap st). \<forall>m \<in> set (map mv_listeners (heap ?st) ! c).
      action_target (snd m) = Some d \<longrightarrow> c = s \<and> m = l"
  proof (intro allI impI ballI)
    fix c m
    assume c: "c < length (heap st)" and m: "m \<in> set (map mv_listeners (heap ?st) ! c)"
      and tm: "action_target (snd m) = Some d"
    from m c len have "m \<in> set (mv_listeners (heap ?st ! c))" by simp
    with c other have "m \<in> set (mv_listeners (heap st ! c)) \<or> (c = s \<and> m = l)" by blast
    then show "c = s \<and> m = l" using ut c tm by (auto simp: untargeted_def)
  qed
  ultimately show ?thesis unfolding sole_writer_def len using s t by blast
qed

lemma run_unsubscribe_mv_on:
  assumes "fst l \<notin> fst ` set (mv_listeners (heap st ! a))"
  shows "run_unsubscribe (Unsub a (fst l)) (snd (mv_on a ''change'' l st)) = st"
proof -
  have "js_set_delete (fst l) (js_set_add l (mv_listeners (heap st ! a))) = mv_listeners (heap st ! a)"
    using assms by (auto simp: js_set_add_fresh js_set_delete_def filter_id_conv image_iff)
  then show ?thesis by (simp add: mv_on_def update_listeners_twice update_listeners_id)
qed

lemma ranked_new_motion_value:
  "ranked r st \<Longrightarrow> ranked r (snd (new_motion_value v st))"
  by (auto simp: ranked_def new_motion_value_def nth_append less_Suc_eq)

lemma ranked_next_lid [simp]: "ranked r (st\<lparr>next_lid := k\<rparr>) = ranked r st"
  by (simp add: ranked_def)

lemma untargeted_next_lid [simp]: "untargeted (st\<lparr>next_lid := k\<rparr>) d = untargeted st d"
  by (simp add: untargeted_def)

text \<open>
  A closure subscribed on \<open>s\<close> that writes into an object \<open>d\<close> nobody else writes keeps
  \<open>d\<close> in step with \<open>s\<close>: once subscribed, every \<open>set(v)\<close> of \<open>s\<close> with a stack one
  deeper than before returns and leaves \<open>d\<close> holding what the closure passes on.
\<close>

lemma subscribed_leaf_tracks:
  assumes wf: "engine_wf st" and rk: "ranked r st"
    and s: "s < length (heap st)" and d: "d < length (heap st)" and sd: "s \<noteq> d"
    and d0: "mv_listeners (heap st ! d) = []" and ut: "untargeted st d"
    and fr: "fst l \<notin> fst ` set (mv_listeners (heap st ! s))" and ok: "listener_ok st l"
    and t: "action_target (snd l) = Some d" and fuel: "Suc (r s) < n"
  shows "\<exists>st'. mv_set n s v (snd (mv_on s ''change'' l st)) = Some st' \<and>
           mv_get d st' = Some (action_value (snd l) v)"
proof -
  let ?st = "snd (mv_on s ''change'' l st)" and ?r = "\<lambda>x. if x = d then 0 else Suc (r x)"
  have wf2: "engine_wf ?st" by (rule engine_wf_mv_on [OF wf s ok])
  have rk2: "ranked ?r ?st" by (rule ranked_subscribe_leaf [OF rk s sd d0 t])
  have sw: "sole_writer ?st s l d" by (rule sole_writer_subscribe [OF s ut fr t])
  have s2: "s < length (heap ?st)" using s by (simp add: mv_on_def)
  have "?r s < n" using sd fuel by simp
  from mv_set_total [OF wf2 rk2 s2 this] obtain st' where run: "mv_set n s v ?st = Some st'"
    by blast
  with sole_writer_value [OF wf2 rk2 sw run] show ?thesis by blast
qed

section \<open>Operations as steps and the reachable engines\<close>

text \<open>A small engine: value 0 drives the derived value 1 (doubling) and a callback.\<close>

definition example_engine :: engine where
  "example_engine =
     \<lparr>heap = [\<lparr>mv_value = Num 10,
               mv_listeners = [(Closure 0, Derive 1 (\<lambda>v. case v of Num x \<Rightarrow> Num (2 * x) | w \<Rightarrow> w)),
                               (UserFn 3, Callback 3)]\<rparr>,
              \<lparr>mv_value = Num 20, mv_listeners = [(UserFn 4, Callback 4)]\<rparr>],
      next_lid = 1, observed = []\<rparr>"

definition example_rank :: "vid \<Rightarrow> nat" where
  "example_rank a = (if a = 0 then 1 else 0)"

lemma example_engine_wf: "engine_wf example_engine"
  by (simp add: example_engine_def engine_wf_def listener_ok_def)

lemma example_engine_ranked: "ranked example_rank example_engine"
  by (auto simp: ranked_def example_engine_def example_rank_def less_Suc_eq)

section \<open>Properties of the observable value\<close>

text \<open>
  C1. A derived value follows its source: when the only listener that writes \<open>d\<close> is
  the \<open>Derive d f\<close> closure subscribed on \<open>s\<close>, every \<open>set(v)\<close> of \<open>s\<close> that
  returns leaves \<open>d\<close> holding \<open>f v\<close>, whatever other listeners \<open>s\<close> has and whatever
  they propagate to.
\<close>

theorem derived_tracks_source:
  assumes "engine_wf st" and "ranked r st"
    and "sole_writer st s (i, Derive d f) d"
    and "mv_set n s v st = Some st'"
  shows "mv_get d st' = Some (f v)"
  using sole_writer_value [OF assms] by simp

theorem derived_tracks_source_witness:
  "mv_get 1 (the (mv_set 2 0 (Num 5) example_engine)) = Some (Num 10)"
proof -
  let ?f = "\<lambda>v. case v of Num x \<Rightarrow> Num (2 * x) | w \<Rightarrow> w"
  have sw: "sole_writer example_engine 0 (Closure 0, Derive 1 ?f) 1"
    by (auto simp: sole_writer_def example_engine_def less_Suc_eq)
  have run: "mv_set 2 0 (Num 5) example_engine = Some (the (mv_set 2 0 (Num 5) example_engine))"
    by (simp add: example_engine_def numeral_2_eq_2 write_value_def)
  show ?thesis
    using derived_tracks_source [OF example_engine_wf example_engine_ranked sw run] by simp
qed

text \<open>
  C2. \<open>set\<close> is totally correct on an acyclic dependency graph: with stack depth above
  the rank of the value set, it returns, the value then reads back as the argument, and
  no listener set or object count has changed.
\<close>

theorem mv_set_correct:
  assumes "engine_wf st" "ranked r st" "a < length (heap st)" "r a < n"
  shows "\<exists>st'. mv_set n a v st = Some st' \<and> mv_get a st' = Some v \<and> shape st' = shape st"
proof -
  from mv_set_total [OF assms] obtain st' where run: "mv_set n a v st = Some st'" by blast
  with mv_set_get [OF run assms(2)] shape_mv_set [OF run] show ?thesis by blast
qed

theorem mv_set_correct_witness:
  "\<exists>st'. mv_set 2 0 (Num 5) example_engine = Some st' \<and> mv_get 0 st' = Some (Num 5) \<and>
     shape st' = shape example_engine"
  by (rule mv_set_correct [OF example_engine_wf example_engine_ranked])
     (simp_all add: example_engine_def example_rank_def)

text \<open>
  C3. For every sequence of \<open>set\<close> calls on a value whose listeners are consumer
  callbacks, every registered callback is invoked exactly once per call, in insertion
  order, with exactly the value passed to that call; no equal-value short-cut; the
  value then reads as the last argument.
\<close>

theorem set_notifies_each_listener:
  assumes "a < length (heap st)" and "only_callbacks (mv_listeners (heap st ! a))"
  shows "\<exists>st'. mv_set_all (Suc n) a vs st = Some st' \<and>
           observed st' = observed st @ concat (map (callback_entries (mv_listeners (heap st ! a))) vs) \<and>
           mv_get a st' = (if vs = [] then mv_get a st else Some (last vs))"
  using mv_set_all_log [OF assms] by blast

theorem set_notifies_each_listener_witness:
  "\<exists>st'. mv_set_all 1 1 [Num 1, Num 1] example_engine = Some st' \<and>
     observed st' = [(4, Num 1), (4, Num 1)] \<and> mv_get 1 st' = Some (Num 1)"
proof -
  have "1 < length (heap example_engine)" and
    "only_callbacks (mv_listeners (heap example_engine ! 1))"
    by (simp_all add: example_engine_def only_callbacks_def)
  from set_notifies_each_listener [OF this, of 0 "[Num 1, Num 1]"] show ?thesis
    by (simp add: example_engine_def callback_entries_def)
qed

text \<open>
  C4. After a listener is unsubscribed it receives no further notification: every
  later \<open>set\<close> notifies exactly the remaining listeners, and its identity is no longer
  in the set.
\<close>

theorem unsubscribed_listener_silent:
  assumes "a < length (heap st)" and "only_callbacks (mv_listeners (heap st ! a))"
    and "mv_set_all (Suc n) a vs (run_unsubscribe (Unsub a i) st) = Some st'"
  shows "observed st' = observed st @
           concat (map (callback_entries (js_set_delete i (mv_listeners (heap st ! a)))) vs) \<and>
         i \<notin> fst ` set (mv_listeners (heap st' ! a))"
proof -
  let ?st1 = "run_unsubscribe (Unsub a i) st"
  have a1: "a < length (heap ?st1)" using assms(1) by simp
  have ls1: "mv_listeners (heap ?st1 ! a) = js_set_delete i (mv_listeners (heap st ! a))"
    by (rule listeners_unsubscribe [OF assms(1)])
  have "only_callbacks (mv_listeners (heap ?st1 ! a))"
    unfolding ls1 using assms(2) set_js_set_delete_subset [of i "mv_listeners (heap st ! a)"]
    by (auto simp: only_callbacks_def)
  from mv_set_all_log [OF a1 this, of n vs] assms(3) obtain st'' where
    "Some st' = Some st''" and obs: "observed st'' = observed ?st1 @
       concat (map (callback_entries (mv_listeners (heap ?st1 ! a))) vs)"
    and sh: "shape st'' = shape ?st1" by auto
  then have "st' = st''" by simp
  moreover have "mv_listeners (heap st'' ! a) = mv_listeners (heap ?st1 ! a)"
    by (rule nth_listeners_shape [OF sh a1])
  ultimately show ?thesis using obs assms(1) by (simp add: nth_update_listeners js_set_simps)
qed

theorem unsubscribed_listener_silent_witness:
  "observed (the (mv_set_all 1 1 [Num 7] (run_unsubscribe (Unsub 1 (UserFn 4)) example_engine))) = []"
proof -
  let ?st = "run_unsubscribe (Unsub 1 (UserFn 4)) example_engine"
  have "1 < length (heap example_engine)" and
    "only_callbacks (mv_listeners (heap example_engine ! 1))"
    by (simp_all add: example_engine_def only_callbacks_def)
  moreover have "mv_set_all 1 1 [Num 7] ?st = Some (the (mv_set_all 1 1 [Num 7] ?st))"
    by (simp add: example_engine_def update_listeners_def js_set_delete_def write_value_def)
  ultimately show ?thesis
    using unsubscribed_listener_silent [of 1 example_engine 0 "[Num 7]" "UserFn 4"]
    by (simp add: example_engine_def js_set_delete_def callback_entries_def)
qed

text \<open>
  Calling an unsubscribe function twice has the effect of calling it once.
\<close>

lemma unsubscribe_idempotent:
  "run_unsubscribe u (run_unsubscribe u st) = run_unsubscribe u st"
  by (cases u) (simp_all add: update_listeners_twice comp_def js_set_simps)

text \<open>
  C5. \<open>useMotionValue\<close>: the first render allocates a fresh object holding the
  initial value, with no listeners, leaving every other object as it was; every later
  render returns that object and ignores the initial value it is given.
\<close>

theorem use_motion_value_first_render:
  assumes "use_motion_value None v st = (a, st1)"
  shows "mv_get a st1 = Some v \<and> mv_listeners (heap st1 ! a) = [] \<and>
         (\<forall>b < length (heap st). mv_get b st1 = mv_get b st) \<and>
         use_motion_value (Some a) w st1 = (a, st1)"
  using assms by (auto simp: use_motion_value_def new_motion_value_def mv_get_def nth_append)

theorem use_motion_value_first_render_witness:
  "mv_get 0 (snd (use_motion_value None (Num 3) empty_engine)) = Some (Num 3)"
proof -
  have "use_motion_value None (Num 3) empty_engine = (0, snd (use_motion_value None (Num 3) empty_engine))"
    by (simp add: use_motion_value_def new_motion_value_def empty_engine_def)
  from use_motion_value_first_render [OF this] show ?thesis by simp
qed

end
