(* ===== verification/Transform.thy ===== *)
theory Transform
  imports MotionValue
begin

text \<open>
  Derived values: \<open>mapRange\<close> (\<open>src/vendor/framer-motion/index.js\<close> lines 45--53) and
  the hook \<open>useTransform\<close> (lines 55--75). A hook call is its render (the memoised
  \<open>compute\<close> and the \<open>useMotionValue\<close> holding the derived object) followed by its
  effect (set the derived value from the source, then subscribe); a later render whose
  dependencies changed runs the cleanup (the returned unsubscribe) and the effect again.
  Range inputs are numbers: the model does not follow JavaScript's coercion of a
  non-number source value through the arithmetic of \<open>mapRange\<close>, and yields \<open>Undef\<close>
  there.
\<close>

section \<open>mapRange\<close>

text \<open>\<open>const [outMin, outMax] = output\<close>: a missing element is \<open>undefined\<close>.\<close>

definition js_nth :: "jsval list \<Rightarrow> nat \<Rightarrow> jsval" where
  "js_nth xs i = (if i < length xs then xs ! i else Undef)"

definition range_progress :: "real \<Rightarrow> real \<Rightarrow> real \<Rightarrow> real" where
  "range_progress inMin inMax v = (if inMax = inMin then 0 else (v - inMin) / (inMax - inMin))"

text \<open>Numbers are interpolated, anything else snaps to an end at progress 1.\<close>

fun lerp_or_step :: "jsval \<Rightarrow> jsval \<Rightarrow> real \<Rightarrow> jsval" where
  "lerp_or_step (Num a) (Num b) p = Num (a + (b - a) * p)"
| "lerp_or_step outMin outMax p = (if 1 \<le> p then outMax else outMin)"

text \<open>
  \<open>const [inMin, inMax] = input\<close>: only the first two breakpoints are read. With fewer
  than two numbers JavaScript computes with \<open>undefined\<close>; no call site does that, and the
  model returns \<open>Undef\<close>.
\<close>

fun map_range :: "real list \<Rightarrow> jsval list \<Rightarrow> real \<Rightarrow> jsval" where
  "map_range (inMin # inMax # _) output v =
     lerp_or_step (js_nth output 0) (js_nth output 1) (range_progress inMin inMax v)"
| "map_range _ output v = Undef"

section \<open>useTransform\<close>

text \<open>The second argument of \<open>useTransform\<close>: a function, an array, or neither.\<close>

datatype tf_input = InFun "jsval \<Rightarrow> jsval" | InArray "real list" | InOther

definition transform_compute :: "tf_input \<Rightarrow> jsval list option \<Rightarrow> jsval \<Rightarrow> jsval" where
  "transform_compute input output =
     (case input of
        InFun f \<Rightarrow> f
      | InArray xs \<Rightarrow>
          (case output of
             Some ys \<Rightarrow> (\<lambda>v. case v of Num x \<Rightarrow> map_range xs ys x | _ \<Rightarrow> Undef)
           | None \<Rightarrow> id)
      | InOther \<Rightarrow> id)"

text \<open>\<open>source?.get?.()\<close>: \<open>undefined\<close> when there is no source.\<close>

definition source_value :: "vid option \<Rightarrow> engine \<Rightarrow> jsval" where
  "source_value src st =
     (case src of None \<Rightarrow> Undef | Some s \<Rightarrow> (case mv_get s st of None \<Rightarrow> Undef | Some v \<Rightarrow> v))"

text \<open>
  The effect (lines 68--72): without a source nothing happens; otherwise the derived
  value is set from the source's current value (notifying its own listeners), and a
  fresh closure writing \<open>compute(next)\<close> into it is subscribed to the source.
\<close>

definition transform_effect ::
  "nat \<Rightarrow> vid \<Rightarrow> vid option \<Rightarrow> (jsval \<Rightarrow> jsval) \<Rightarrow> engine \<Rightarrow> (unsubscribe \<times> engine) option" where
  "transform_effect fuel d source compute st =
     (case source of
        None \<Rightarrow> Some (Unsub_noop, st)
      | Some s \<Rightarrow>
          Option.bind (mv_get s st) (\<lambda>v.
          Option.bind (mv_set fuel d (compute v) st) (\<lambda>st2.
            let (i, st3) = fresh_closure st2
            in Some (mv_on s ''change'' (i, Derive d compute) st3))))"

definition use_transform ::
  "nat \<Rightarrow> vid option \<Rightarrow> vid option \<Rightarrow> tf_input \<Rightarrow> jsval list option \<Rightarrow> engine \<Rightarrow>
   (vid \<times> unsubscribe \<times> engine) option" where
  "use_transform fuel ref source input output st =
     (let compute = transform_compute input output;
          (d, st1) = use_motion_value ref (compute (nullish_default (source_value source st) (Num 0))) st
      in map_option (\<lambda>(u, st2). (d, u, st2)) (transform_effect fuel d source compute st1))"

text \<open>
  A later render with changed dependencies (every render, at the call sites, since they
  pass fresh array literals or arrow functions): the previous effect's cleanup, then the
  effect again.
\<close>

definition transform_rerender ::
  "nat \<Rightarrow> vid \<Rightarrow> vid option \<Rightarrow> (jsval \<Rightarrow> jsval) \<Rightarrow> unsubscribe \<Rightarrow> engine \<Rightarrow>
   (unsubscribe \<times> engine) option" where
  "transform_rerender fuel d source compute u st =
     transform_effect fuel d source compute (run_unsubscribe u st)"

section \<open>The interpolation the specification describes\<close>

text \<open>
  The abstract contract of a range transform: piecewise-linear interpolation over any
  number of breakpoints \<open>(x\<^sub>i, y\<^sub>i)\<close>, clamped to the first and last output outside
  the breakpoints. It is the specification \<open>mapRange\<close> is compared against.
\<close>

fun spec_interp :: "(real \<times> real) list \<Rightarrow> real \<Rightarrow> real" where
  "spec_interp [] v = 0"
| "spec_interp [(x, y)] v = y"
| "spec_interp ((x0, y0) # (x1, y1) # rest) v =
     (if v \<le> x0 then y0
      else if v < x1 then y0 + (v - x0) / (x1 - x0) * (y1 - y0)
      else spec_interp ((x1, y1) # rest) v)"

section \<open>Facts about mapRange\<close>

lemma js_nth_simps [simp]:
  "js_nth (x # xs) 0 = x" "js_nth (x # y # xs) 1 = y" "js_nth (x # y # xs) (Suc 0) = y"
  by (simp_all add: js_nth_def)

lemma map_range_two_num:
  "map_range [a, b] [Num ya, Num yb] v = Num (ya + (yb - ya) * range_progress a b v)"
  by simp

lemma range_progress_ge_1:
  "a < b \<Longrightarrow> (1 \<le> range_progress a b v) = (b \<le> v)"
  by (simp add: range_progress_def le_divide_eq)

lemma lerp_or_step_not_num:
  "\<not> (is_num x \<and> is_num y) \<Longrightarrow> lerp_or_step x y p = (if 1 \<le> p then y else x)"
  by (cases x; cases y) simp_all

section \<open>Facts about the effect\<close>

lemma transform_effect_fresh:
  assumes "s < length (heap st)" "d < length (heap st)" "mv_listeners (heap st ! d) = []"
    and "mv_get s st = Some v"
  shows "transform_effect (Suc n) d (Some s) c st =
           Some (mv_on s ''change'' (Closure (next_lid st), Derive d c)
                   ((write_value d (c v) st)\<lparr>next_lid := Suc (next_lid st)\<rparr>))"
  using assms by (simp add: transform_effect_def fresh_closure_def)

lemmas hook_defs = use_transform_def transform_rerender_def transform_effect_def
  use_motion_value_def new_motion_value_def source_value_def fresh_closure_def mv_on_def

text \<open>
  One mount of \<open>useTransform(source, ...)\<close> on a well-formed engine: the derived object
  is the next one allocated, it holds \<open>compute\<close> of the source's value, and a fresh
  closure is appended to the source's listeners.
\<close>

lemma use_transform_mount_state:
  fixes inp :: tf_input and outp :: "jsval list option"
  assumes wf: "engine_wf st" and s: "s < length (heap st)"
  defines "d \<equiv> length (heap st)" and "c \<equiv> transform_compute inp outp"
    and "k \<equiv> next_lid st"
  defines "st1 \<equiv> snd (new_motion_value (c (nullish_default (mv_value (heap st ! s)) (Num 0))) st)"
  shows "use_transform (Suc n) None (Some s) inp outp st =
           Some (d, Unsub s (Closure k),
             update_listeners s (js_set_add (Closure k, Derive d c))
               ((write_value d (c (mv_value (heap st ! s))) st1)\<lparr>next_lid := Suc k\<rparr>))"
proof -
  have len1: "length (heap st1) = Suc d" by (simp add: st1_def d_def new_motion_value_def)
  have get1: "mv_get s st1 = Some (mv_value (heap st ! s))"
    using s by (simp add: st1_def new_motion_value_def mv_get_def nth_append)
  have "transform_effect (Suc n) d (Some s) c st1 =
          Some (mv_on s ''change'' (Closure k, Derive d c)
                  ((write_value d (c (mv_value (heap st ! s))) st1)\<lparr>next_lid := Suc k\<rparr>))"
    using s len1 get1
    by (subst transform_effect_fresh) (simp_all add: st1_def d_def k_def new_motion_value_def)
  then show ?thesis
    using s by (simp add: use_transform_def use_motion_value_def source_value_def mv_get_def
        st1_def d_def c_def k_def new_motion_value_def mv_on_def Let_def split: prod.split)
qed

text \<open>
  Mounting and then running the cleanup the mount returned leaves the source's
  listeners as they were and the derived value without listeners.
\<close>

lemma use_transform_mount_cleanup:
  fixes inp :: tf_input and outp :: "jsval list option"
  assumes wf: "engine_wf st" and s: "s < length (heap st)"
  defines "d \<equiv> length (heap st)" and "c \<equiv> transform_compute inp outp"
    and "k \<equiv> next_lid st"
  defines "stu \<equiv> run_unsubscribe (Unsub s (Closure k))
      (update_listeners s (js_set_add (Closure k, Derive d c))
        ((write_value d (c (mv_value (heap st ! s)))
           (snd (new_motion_value (c (nullish_default (mv_value (heap st ! s)) (Num 0))) st)))\<lparr>next_lid := Suc k\<rparr>))"
  shows "length (heap stu) = Suc d \<and> mv_listeners (heap stu ! s) = mv_listeners (heap st ! s) \<and>
         mv_listeners (heap stu ! d) = [] \<and> mv_get s stu = Some (mv_value (heap st ! s)) \<and>
         next_lid stu = Suc k"
proof (intro conjI)
  let ?st3 = "(write_value d (c (mv_value (heap st ! s)))
           (snd (new_motion_value (c (nullish_default (mv_value (heap st ! s)) (Num 0))) st)))\<lparr>next_lid := Suc k\<rparr>"
  let ?L = "mv_listeners (heap st ! s)"
  show "length (heap stu) = Suc d" by (simp add: stu_def d_def new_motion_value_def)
  have ls3: "mv_listeners (heap ?st3 ! s) = ?L"
    using s by (simp add: d_def nth_write_value new_motion_value_def nth_append)
  have fresh: "Closure k \<notin> fst ` set ?L" unfolding k_def by (rule closure_fresh [OF wf s])
  have "js_set_delete (Closure k) (js_set_add (Closure k, Derive d c) ?L) = ?L"
    using fresh by (auto simp: js_set_add_fresh js_set_delete_def filter_id_conv image_iff)
  moreover have "mv_listeners (heap stu ! s) =
      (js_set_delete (Closure k) \<circ> js_set_add (Closure k, Derive d c)) (mv_listeners (heap ?st3 ! s))"
    using s by (simp add: stu_def d_def update_listeners_twice nth_update_listeners new_motion_value_def)
  ultimately show "mv_listeners (heap stu ! s) = ?L" by (simp only: ls3 comp_apply)
  have ds: "d \<noteq> s" using s by (simp add: d_def)
  then show "mv_listeners (heap stu ! d) = []"
    by (simp add: stu_def d_def update_listeners_twice nth_update_listeners nth_write_value
        new_motion_value_def)
  show "mv_get s stu = Some (mv_value (heap st ! s))"
    using s by (simp add: stu_def d_def engine_simps mv_get_def new_motion_value_def nth_append
        nth_update_listeners nth_write_value)
  show "next_lid stu = Suc k" by (simp add: stu_def)
qed

section \<open>Properties of derived values\<close>

text \<open>
  C6. Two-point ranges are exact at both ends and at the midpoint: \<open>v = a\<close> gives
  exactly \<open>ya\<close>, \<open>v = b\<close> exactly \<open>yb\<close>, and \<open>(a + b)/2\<close> gives \<open>(ya + yb)/2\<close>.
\<close>

theorem map_range_endpoints:
  assumes "a \<noteq> b"
  shows "map_range [a, b] [Num ya, Num yb] a = Num ya \<and>
         map_range [a, b] [Num ya, Num yb] b = Num yb \<and>
         map_range [a, b] [Num ya, Num yb] ((a + b) / 2) = Num ((ya + yb) / 2)"
proof -
  from assms have "b - a \<noteq> 0" by simp
  then have "range_progress a b a = 0" "range_progress a b b = 1"
    "range_progress a b ((a + b) / 2) = 1 / 2"
    using assms by (simp_all add: range_progress_def field_simps)
  then show ?thesis by (simp add: field_simps)
qed

theorem map_range_endpoints_witness:
  "map_range [0, 1] [Num (3/10), Num 1] 0 = Num (3/10) \<and>
   map_range [0, 1] [Num (3/10), Num 1] 1 = Num 1 \<and>
   map_range [0, 1] [Num (3/10), Num 1] (1/2) = Num (13/20)"
  using map_range_endpoints [of 0 1 "3/10" 1] by simp

text \<open>
  C7. \<open>mapRange\<close> does not clamp: for a proper range with distinct numeric ends, every
  input outside \<open>[a, b]\<close> yields a value that is neither end (it extrapolates the line).
  The specification's clamp law (\<open>transform(v) = ya\<close> below the range, \<open>yb\<close> above)
  does not hold of the code.
\<close>

theorem map_range_no_clamp:
  assumes "a < b" "ya \<noteq> yb" "v < a \<or> b < v"
  shows "map_range [a, b] [Num ya, Num yb] v \<notin> {Num ya, Num yb}"
proof -
  let ?p = "range_progress a b v"
  have p: "?p = (v - a) / (b - a)" using assms(1) by (simp add: range_progress_def)
  have "?p < 0 \<or> 1 < ?p"
    using assms(1,3) by (auto simp: p divide_less_0_iff less_divide_eq)
  then have "?p \<noteq> 0" "?p \<noteq> 1" by auto
  moreover have "yb - ya \<noteq> 0" using assms(2) by simp
  ultimately have ne1: "(yb - ya) * ?p \<noteq> 0" and ne2: "(yb - ya) * (?p - 1) \<noteq> 0"
    by simp_all
  have A: "ya + (yb - ya) * ?p \<noteq> ya" using ne1 by simp
  have "ya + (yb - ya) * ?p - yb = (yb - ya) * (?p - 1)"
    by (simp add: algebra_simps)
  with ne2 have B: "ya + (yb - ya) * ?p \<noteq> yb" by auto
  from A B show ?thesis by simp
qed

theorem map_range_no_clamp_witness:
  "map_range [0, 1] [Num (3/10), Num 1] 2 = Num (17/10) \<and>
   map_range [0, 1] [Num (3/10), Num 1] 2 \<notin> {Num (3/10), Num 1}"
proof -
  have "map_range [0, 1] [Num (3/10), Num 1] 2 \<notin> {Num (3/10), Num 1}"
    by (rule map_range_no_clamp) simp_all
  moreover have "map_range [0, 1] [Num (3/10), Num 1] 2 = Num (17/10)"
    by (simp add: range_progress_def)
  ultimately show ?thesis by simp
qed

text \<open>
  Equal bounds: with \<open>inMin = inMax\<close> the progress is defined as 0, so every
  input yields the first output, whatever its type (the division-by-zero guard).
\<close>

theorem map_range_equal_bounds:
  "map_range (a # a # rest) ys v = js_nth ys 0"
proof -
  have "range_progress a a v = 0" by (simp add: range_progress_def)
  then show ?thesis
    by (cases "js_nth ys 0"; cases "js_nth ys (Suc 0)") simp_all
qed

text \<open>
  Non-numeric outputs (colours, CSS strings) are not interpolated: on a proper
  range the result is the first output below \<open>b\<close> and the second from \<open>b\<close> on.
\<close>

theorem map_range_non_numeric_step:
  assumes "a < b" and "\<not> (is_num ya \<and> is_num yb)"
  shows "map_range [a, b] [ya, yb] v = (if b \<le> v then yb else ya)"
  using assms by (simp add: lerp_or_step_not_num range_progress_ge_1)

theorem map_range_non_numeric_step_witness:
  "map_range [0, 1] [Str ''rgba(255,255,255,0.1)'', Str ''rgba(162, 210, 255, 0.8)''] (1/2) =
     Str ''rgba(255,255,255,0.1)''"
  using map_range_non_numeric_step [of 0 1 "Str ''rgba(255,255,255,0.1)''"
      "Str ''rgba(162, 210, 255, 0.8)''" "1/2"] by simp

text \<open>
  C8. Refinement: on a two-point numeric range and inside it, \<open>mapRange\<close> computes the
  specification's piecewise-linear interpolation. (Outside the range it does not clamp,
  C10, and further breakpoints are ignored: \<open>map_range_three_points\<close>.)
\<close>

theorem map_range_refines_interp:
  assumes "a < b" "a \<le> v" "v \<le> b"
  shows "map_range [a, b] [Num ya, Num yb] v = Num (spec_interp [(a, ya), (b, yb)] v)"
proof -
  have p: "range_progress a b v = (v - a) / (b - a)" using assms(1) by (simp add: range_progress_def)
  consider "v = a" | "a < v \<and> v < b" | "v = b" using assms by linarith
  then show ?thesis
  proof cases
    case 1
    then show ?thesis by (simp add: range_progress_def)
  next
    case 2
    then show ?thesis by (simp add: p algebra_simps)
  next
    case 3
    with assms(1) show ?thesis by (simp add: range_progress_def)
  qed
qed

theorem map_range_refines_interp_witness:
  "map_range [0, 1] [Num 1, Num (21/20)] (1/2) = Num (spec_interp [(0, 1), (1, 21/20)] (1/2))"
  by (rule map_range_refines_interp) simp_all

lemma map_range_three_points:
  "map_range [0, 1, 2] [Num 0, Num 1, Num 0] 2 = Num 2"
  "spec_interp [(0, 0), (1, 1), (2, 0)] 2 = 0"
  by (simp_all add: range_progress_def)

text \<open>
  Mounting \<open>useTransform(source, input, output)\<close> on a well-formed engine
  returns (for any stack depth): the derived object is new and holds \<open>compute\<close> of the
  source's current value, exactly one fresh listener writing it is appended to the
  source's listeners, and the engine stays well formed.
\<close>

theorem use_transform_mount:
  fixes inp :: tf_input and outp :: "jsval list option"
  assumes wf: "engine_wf st" and s: "s < length (heap st)"
  shows "\<exists>u st'. use_transform (Suc n) None (Some s) inp outp st = Some (length (heap st), u, st') \<and>
           mv_get (length (heap st)) st' = Some (transform_compute inp outp (mv_value (heap st ! s))) \<and>
           mv_listeners (heap st' ! s) = mv_listeners (heap st ! s) @
             [(Closure (next_lid st), Derive (length (heap st)) (transform_compute inp outp))] \<and>
           engine_wf st'"
proof -
  let ?d = "length (heap st)" and ?c = "transform_compute inp outp" and ?k = "next_lid st"
  let ?l = "(Closure ?k, Derive ?d ?c)"
  let ?st1 = "snd (new_motion_value (?c (nullish_default (mv_value (heap st ! s)) (Num 0))) st)"
  let ?st2 = "write_value ?d (?c (mv_value (heap st ! s))) ?st1"
  let ?st3 = "?st2\<lparr>next_lid := Suc ?k\<rparr>"
  let ?st' = "update_listeners s (js_set_add ?l) ?st3"
  have run: "use_transform (Suc n) None (Some s) inp outp st = Some (?d, Unsub s (Closure ?k), ?st')"
    by (rule use_transform_mount_state [OF wf s])
  have len3: "length (heap ?st3) = Suc ?d" by (simp add: new_motion_value_def)
  have get: "mv_get ?d ?st' = Some (?c (mv_value (heap st ! s)))"
    by (simp add: engine_simps new_motion_value_def)
  have "mv_listeners (heap ?st3 ! s) = mv_listeners (heap st ! s)"
    using s by (simp add: nth_write_value new_motion_value_def nth_append)
  then have ls: "mv_listeners (heap ?st' ! s) = mv_listeners (heap st ! s) @ [?l]"
    using s closure_fresh [OF wf s] len3
    by (simp add: nth_update_listeners js_set_add_fresh del: length_write_value)
  have wf1: "engine_wf ?st1" by (rule engine_wf_new_motion_value [OF wf])
  have wf2: "engine_wf ?st2" using wf1 by (simp add: engine_wf_shape [OF shape_write_value])
  have wf3: "engine_wf ?st3" using engine_wf_fresh_closure [OF wf2] by (simp add: fresh_closure_def new_motion_value_def)
  have "listener_ok ?st3 ?l" using len3 by (simp add: listener_ok_def)
  with wf3 len3 s have "engine_wf (snd (mv_on s ''change'' ?l ?st3))"
    by (intro engine_wf_mv_on) simp_all
  then have wf': "engine_wf ?st'" by (simp add: mv_on_def)
  from run get ls wf' show ?thesis by blast
qed

theorem use_transform_mount_witness:
  "\<exists>u st'. use_transform 1 None (Some 0) (InArray [0, 1]) (Some [Num (3/10), Num 1]) example_engine =
            Some (2, u, st') \<and>
          mv_get 2 st' = Some (Num (73/10)) \<and>
          mv_listeners (heap st' ! 0) = mv_listeners (heap example_engine ! 0) @
            [(Closure 1, Derive 2 (transform_compute (InArray [0, 1]) (Some [Num (3/10), Num 1])))] \<and>
          engine_wf st'"
proof -
  have "0 < length (heap example_engine)" by (simp add: example_engine_def)
  from use_transform_mount [OF example_engine_wf this, of 0 "InArray [0, 1]" "Some [Num (3/10), Num 1]"]
  show ?thesis
    by (simp add: example_engine_def transform_compute_def range_progress_def numeral_2_eq_2)
qed

definition double_value :: "jsval \<Rightarrow> jsval" where
  "double_value v = (case v of Num x \<Rightarrow> Num (x * 2) | w \<Rightarrow> w)"

text \<open>
  The specification's scenario: a source holding 10 and \<open>doubled =
  useTransform(source, v => v * 2)\<close>; \<open>doubled\<close> reads 20, after \<open>source.set(5)\<close> it
  reads 10, and after its subscription is removed \<open>source.set(100)\<close> leaves it at 10.
\<close>

theorem doubled_scenario:
  "case use_transform 1 None (Some 0) (InFun double_value) None
          (snd (new_motion_value (Num 10) empty_engine)) of
     None \<Rightarrow> False
   | Some (d, u, st2) \<Rightarrow>
       mv_get d st2 = Some (Num 20) \<and>
       (case mv_set 2 0 (Num 5) st2 of
          None \<Rightarrow> False
        | Some st3 \<Rightarrow>
            mv_get d st3 = Some (Num 10) \<and>
            (case mv_set 2 0 (Num 100) (run_unsubscribe u st3) of
               None \<Rightarrow> False
             | Some st4 \<Rightarrow> mv_get d st4 = Some (Num 10) \<and> mv_get 0 st4 = Some (Num 100)))"
  by (simp add: hook_defs transform_compute_def empty_engine_def mv_get_def update_listeners_def
      js_set_add_def js_set_delete_def write_value_def double_value_def numeral_2_eq_2)

text \<open>
  Chaining: deriving \<open>e\<close> from a derived \<open>d\<close> and setting the root \<open>s\<close> gives
  \<open>d = f v\<close> and \<open>e = g (f v)\<close>, the composition of the two functions, for every
  \<open>f\<close>, \<open>g\<close> and \<open>v\<close>; the propagation needs a stack of depth three.
\<close>

lemma transform_chain_composes:
  "\<exists>d u st2 e u' st3 st4.
     use_transform 1 None (Some 0) (InFun f) None (snd (new_motion_value v0 empty_engine)) =
       Some (d, u, st2) \<and>
     use_transform 1 None (Some d) (InFun g) None st2 = Some (e, u', st3) \<and>
     mv_set 3 0 v st3 = Some st4 \<and> mv_get d st4 = Some (f v) \<and> mv_get e st4 = Some (g (f v))"
  by (simp add: hook_defs transform_compute_def empty_engine_def mv_get_def update_listeners_def
      js_set_add_def write_value_def numeral_3_eq_3 nth_list_update)

text \<open>
  C9. Re-rendering does not leak subscriptions: after the mount, the cleanup of the
  previous effect and the effect with a new \<open>compute\<close> leave the source with its
  original listeners plus exactly one closure, the new one, and the derived value holds
  the new \<open>compute\<close> of the source's value.
\<close>

theorem transform_rerender_no_leak:
  fixes inp :: tf_input and outp :: "jsval list option"
  assumes wf: "engine_wf st" and s: "s < length (heap st)"
  shows "\<exists>u st1 u' st2.
           use_transform (Suc n) None (Some s) inp outp st = Some (length (heap st), u, st1) \<and>
           transform_rerender (Suc m) (length (heap st)) (Some s) c' u st1 = Some (u', st2) \<and>
           mv_listeners (heap st2 ! s) =
             mv_listeners (heap st ! s) @ [(Closure (Suc (next_lid st)), Derive (length (heap st)) c')] \<and>
           mv_get (length (heap st)) st2 = Some (c' (mv_value (heap st ! s)))"
proof -
  let ?d = "length (heap st)" and ?c = "transform_compute inp outp" and ?k = "next_lid st"
  let ?l = "(Closure ?k, Derive ?d ?c)" and ?L = "mv_listeners (heap st ! s)"
  let ?v = "mv_value (heap st ! s)"
  let ?st1 = "snd (new_motion_value (?c (nullish_default ?v (Num 0))) st)"
  let ?st3 = "(write_value ?d (?c ?v) ?st1)\<lparr>next_lid := Suc ?k\<rparr>"
  let ?stm = "update_listeners s (js_set_add ?l) ?st3"
  let ?stu = "run_unsubscribe (Unsub s (Closure ?k)) ?stm"
  have run: "use_transform (Suc n) None (Some s) inp outp st = Some (?d, Unsub s (Closure ?k), ?stm)"
    by (rule use_transform_mount_state [OF wf s])
  have len: "length (heap ?stu) = Suc ?d" and lsu: "mv_listeners (heap ?stu ! s) = ?L"
    and lsd: "mv_listeners (heap ?stu ! ?d) = []" and getu: "mv_get s ?stu = Some ?v"
    and nl: "next_lid ?stu = Suc ?k"
    using use_transform_mount_cleanup [OF wf s, of inp outp] by blast+
  have eff: "transform_rerender (Suc m) ?d (Some s) c' (Unsub s (Closure ?k)) ?stm =
     Some (mv_on s ''change'' (Closure (Suc ?k), Derive ?d c')
             ((write_value ?d (c' ?v) ?stu)\<lparr>next_lid := Suc (Suc ?k)\<rparr>))"
  proof -
    have "transform_effect (Suc m) ?d (Some s) c' ?stu =
        Some (mv_on s ''change'' (Closure (next_lid ?stu), Derive ?d c')
               ((write_value ?d (c' ?v) ?stu)\<lparr>next_lid := Suc (next_lid ?stu)\<rparr>))"
      by (rule transform_effect_fresh) (use s len lsd getu in simp_all)
    then show ?thesis by (simp only: transform_rerender_def nl)
  qed
  let ?st2 = "snd (mv_on s ''change'' (Closure (Suc ?k), Derive ?d c')
                 ((write_value ?d (c' ?v) ?stu)\<lparr>next_lid := Suc (Suc ?k)\<rparr>))"
  have "Closure (Suc ?k) \<notin> fst ` set ?L"
    using wf s by (force simp: engine_wf_def listener_ok_def)
  then have ls2: "mv_listeners (heap ?st2 ! s) = ?L @ [(Closure (Suc ?k), Derive ?d c')]"
  proof -
    have "mv_listeners (heap ((write_value ?d (c' ?v) ?stu)\<lparr>next_lid := Suc (Suc ?k)\<rparr>) ! s) = ?L"
      using s lsu len by (simp add: listeners_write_value_nth)
    with \<open>Closure (Suc ?k) \<notin> fst ` set ?L\<close> show ?thesis
      using s len by (simp add: listeners_mv_on_fresh)
  qed
  have get2: "mv_get ?d ?st2 = Some (c' ?v)"
    using len by (simp add: mv_on_def engine_simps)
  from run eff ls2 get2 show ?thesis by (auto simp: mv_on_def)
qed

theorem transform_rerender_no_leak_witness:
  "\<exists>u st1 u' st2.
     use_transform 1 None (Some 0) (InFun double_value) None example_engine = Some (2, u, st1) \<and>
     transform_rerender 1 2 (Some 0) id u st1 = Some (u', st2) \<and>
     mv_listeners (heap st2 ! 0) = mv_listeners (heap example_engine ! 0) @ [(Closure 2, Derive 2 id)] \<and>
     mv_get 2 st2 = Some (Num 10)"
proof -
  have "0 < length (heap example_engine)" by (simp add: example_engine_def)
  from transform_rerender_no_leak [OF example_engine_wf this, of 0 "InFun double_value" None 0 id]
  show ?thesis by (simp add: example_engine_def numeral_2_eq_2)
qed

end
