(* ===== verification/Spring.thy ===== *)
theory Spring
  imports MotionValue
begin

text \<open>
  \<open>useSpring(value, config)\<close> of \<open>src/vendor/framer-motion/index.js\<close> (lines 33--43).
  The argument is either a motion value (the scroll progress in \<open>ScrollPencilLine\<close>,
  \<open>Portfolio\<close>, \<open>Timeline\<close>) or a plain number (the cursor springs of \<open>App\<close>). The
  configuration (\<open>stiffness\<close>, \<open>damping\<close>, \<open>restDelta\<close>) is accepted by the type
  declaration and never read, so it does not appear in the model. The render allocates
  the spring through \<open>useMotionValue\<close>; the effect subscribes a fresh closure that copies
  every new source value into the spring (a \<open>Follow\<close> listener).
\<close>

section \<open>The hook\<close>

text \<open>The first argument of \<open>useSpring\<close> and \<open>useMotionValueEvent\<close>.\<close>

datatype hook_arg = ArgMV vid | ArgRaw jsval

text \<open>
  \<open>value && typeof value.get === 'function' ? value.get() : value\<close>: a motion value is
  read, anything else is taken as it is.
\<close>

definition spring_initial :: "hook_arg \<Rightarrow> engine \<Rightarrow> jsval" where
  "spring_initial value st =
     (case value of
        ArgMV s \<Rightarrow> (case mv_get s st of Some v \<Rightarrow> v | None \<Rightarrow> Undef)
      | ArgRaw v \<Rightarrow> v)"

text \<open>
  The effect: without a motion value (\<open>typeof value.on !== 'function'\<close>) nothing is
  subscribed; otherwise \<open>value.on('change', next => spring.set(next))\<close>.
\<close>

definition spring_effect :: "hook_arg \<Rightarrow> vid \<Rightarrow> engine \<Rightarrow> unsubscribe \<times> engine" where
  "spring_effect value sp st =
     (case value of
        ArgMV s \<Rightarrow> (let (i, st1) = fresh_closure st in mv_on s ''change'' (i, Follow sp) st1)
      | ArgRaw _ \<Rightarrow> (Unsub_noop, st))"

definition use_spring :: "vid option \<Rightarrow> hook_arg \<Rightarrow> engine \<Rightarrow> vid \<times> unsubscribe \<times> engine" where
  "use_spring ref value st =
     (let (sp, st1) = use_motion_value ref (nullish_default (spring_initial value st) (Num 0)) st;
          (u, st2) = spring_effect value sp st1
      in (sp, u, st2))"

section \<open>The state after the first mount\<close>

lemma use_spring_mount_state:
  assumes s: "s < length (heap st)"
  defines "sp \<equiv> length (heap st)" and "k \<equiv> next_lid st"
  defines "st1 \<equiv> snd (new_motion_value (nullish_default (mv_value (heap st ! s)) (Num 0)) st)"
  shows "use_spring None (ArgMV s) st =
           (sp, Unsub s (Closure k),
            snd (mv_on s ''change'' (Closure k, Follow sp) (st1\<lparr>next_lid := Suc k\<rparr>)))"
  using s by (simp add: use_spring_def use_motion_value_def spring_initial_def spring_effect_def
      fresh_closure_def mv_get_def st1_def sp_def k_def new_motion_value_def mv_on_def)

section \<open>Properties of the spring\<close>

text \<open>
  C10. The spring does not smooth: mounted on a source \<open>s\<close> of a well-formed,
  acyclic engine, it starts at the source's value (\<open>??\<close> 0), and every later
  \<open>set(v)\<close> of the source returns with the spring already equal to \<open>v\<close>: there is
  no intermediate value, whatever \<open>stiffness\<close> and \<open>damping\<close> were passed. The
  specification asks for a damped approach over several animation ticks.
\<close>

theorem spring_tracks_source:
  assumes wf: "engine_wf st" and rk: "ranked r st" and s: "s < length (heap st)"
    and fuel: "Suc (r s) < n"
    and mount: "use_spring None (ArgMV s) st = (sp, u, st2)"
  shows "mv_get sp st2 = Some (nullish_default (mv_value (heap st ! s)) (Num 0)) \<and>
         (\<exists>st'. mv_set n s v st2 = Some st' \<and> mv_get sp st' = Some v)"
proof -
  let ?w = "nullish_default (mv_value (heap st ! s)) (Num 0)" and ?k = "next_lid st"
  let ?st1 = "(snd (new_motion_value ?w st))\<lparr>next_lid := Suc ?k\<rparr>"
  let ?l = "(Closure ?k, Follow (length (heap st)))"
  from mount [unfolded use_spring_mount_state [OF s]] have sp: "sp = length (heap st)"
    and st2: "st2 = snd (mv_on s ''change'' ?l ?st1)" by (metis prod.inject)+
  have wf1: "engine_wf ?st1"
    using engine_wf_fresh_closure [OF engine_wf_new_motion_value [OF wf]]
    by (simp add: fresh_closure_def new_motion_value_def)
  have rk1: "ranked r ?st1" by (simp add: ranked_new_motion_value [OF rk])
  have ut: "untargeted ?st1 (length (heap st))" by (simp add: untargeted_new_motion_value [OF wf])
  have len1: "length (heap ?st1) = Suc (length (heap st))" by (simp add: new_motion_value_def)
  have ls1: "mv_listeners (heap ?st1 ! s) = mv_listeners (heap st ! s)"
    using s by (simp add: new_motion_value_def nth_append)
  have d0: "mv_listeners (heap ?st1 ! length (heap st)) = []" by (simp add: new_motion_value_def)
  have fr: "fst ?l \<notin> fst ` set (mv_listeners (heap ?st1 ! s))"
    using closure_fresh [OF wf s] ls1 by simp
  have ok: "listener_ok ?st1 ?l" by (simp add: listener_ok_def new_motion_value_def)
  have "\<exists>st'. mv_set n s v st2 = Some st' \<and> mv_get sp st' = Some v"
    using subscribed_leaf_tracks [OF wf1 rk1 _ _ _ d0 ut fr ok _ fuel] s len1 st2 sp by simp
  moreover have "mv_get sp st2 = Some ?w"
    using st2 sp s by (simp add: mv_on_def mv_get_def new_motion_value_def nth_update_listeners)
  ultimately show ?thesis by blast
qed

theorem spring_tracks_source_witness:
  "mv_get 2 (snd (snd (use_spring None (ArgMV 0) example_engine))) = Some (Num 10) \<and>
   (\<exists>st'. mv_set 3 0 (Num 4) (snd (snd (use_spring None (ArgMV 0) example_engine))) = Some st' \<and>
          mv_get 2 st' = Some (Num 4))"
proof -
  have s: "0 < length (heap example_engine)" by (simp add: example_engine_def)
  have m: "use_spring None (ArgMV 0) example_engine =
      (2, fst (snd (use_spring None (ArgMV 0) example_engine)),
       snd (snd (use_spring None (ArgMV 0) example_engine)))"
    using use_spring_mount_state [OF s] by (simp add: example_engine_def)
  have "Suc (example_rank 0) < 3" by (simp add: example_rank_def)
  from spring_tracks_source [OF example_engine_wf example_engine_ranked s this m, of "Num 4"]
  show ?thesis by (simp add: example_engine_def)
qed

text \<open>
  A spring of a plain number (the cursor springs of \<open>App\<close>,
  \<open>useSpring(0, ...)\<close>) is a new value holding the number (\<open>??\<close> 0) with nothing
  subscribed: it changes only when the consumer sets it.
\<close>

theorem use_spring_plain_number:
  "use_spring None (ArgRaw v) st =
     (length (heap st), Unsub_noop, snd (new_motion_value (nullish_default v (Num 0)) st))"
  by (simp add: use_spring_def use_motion_value_def spring_initial_def spring_effect_def
      new_motion_value_def)

end
