(* ===== verification/Events.thy ===== *)
theory Events
  imports Spring
begin

text \<open>
  \<open>useMotionValueEvent(value, event, callback)\<close> of
  \<open>src/vendor/framer-motion/index.js\<close> (lines 99--104): an effect that subscribes the
  consumer's callback with \<open>value.on(event, callback)\<close> and returns the unsubscribe
  function as its cleanup. The dependencies are \<open>[value, event, callback]\<close>, so a
  consumer passing an inline arrow function re-subscribes on every render: the cleanup
  of the previous effect, then the effect with the new function.
\<close>

section \<open>The hook\<close>

definition use_motion_value_event ::
  "hook_arg \<Rightarrow> string \<Rightarrow> listener \<Rightarrow> engine \<Rightarrow> unsubscribe \<times> engine" where
  "use_motion_value_event value event callback st =
     (case value of ArgMV a \<Rightarrow> mv_on a event callback st | ArgRaw _ \<Rightarrow> (Unsub_noop, st))"

definition event_rerender ::
  "unsubscribe \<Rightarrow> hook_arg \<Rightarrow> string \<Rightarrow> listener \<Rightarrow> engine \<Rightarrow> unsubscribe \<times> engine" where
  "event_rerender u value event callback st =
     use_motion_value_event value event callback (run_unsubscribe u st)"

text \<open>A consumer's callback is a user function that records its calls.\<close>

definition user_callback :: "nat \<Rightarrow> listener" where
  "user_callback c = (UserFn c, Callback c)"

section \<open>Facts\<close>

lemma only_callbacks_append:
  "only_callbacks (ls @ [user_callback c]) = only_callbacks ls"
  by (simp add: only_callbacks_def user_callback_def)

lemma callback_entries_append:
  "callback_entries (ls @ [user_callback c]) = (\<lambda>v. callback_entries ls v @ [(c, v)])"
  by (simp add: callback_entries_def user_callback_def fun_eq_iff)

lemma event_subscribe_listeners:
  assumes a: "a < length (heap st)" and fr: "UserFn c \<notin> fst ` set (mv_listeners (heap st ! a))"
  shows "use_motion_value_event (ArgMV a) ''change'' (user_callback c) st =
           (Unsub a (UserFn c), snd (mv_on a ''change'' (user_callback c) st))"
    and "mv_listeners (heap (snd (mv_on a ''change'' (user_callback c) st)) ! a) =
           mv_listeners (heap st ! a) @ [user_callback c]"
  using a fr listeners_mv_on_fresh [of a st "user_callback c"]
  by (simp_all add: use_motion_value_event_def mv_on_def user_callback_def)

section \<open>Properties\<close>

text \<open>
  C11. \<open>useMotionValueEvent\<close> with any event other than \<open>'change'\<close> subscribes
  nothing: the callback is never called, whatever is set afterwards, and the cleanup
  does nothing. \<open>on\<close> silently ignores the event name instead of rejecting it.
\<close>

theorem event_other_never_delivered:
  assumes a: "a < length (heap st)" and cb: "only_callbacks (mv_listeners (heap st ! a))"
    and ev: "event \<noteq> ''change''"
    and sub: "use_motion_value_event (ArgMV a) event (user_callback c) st = (u, st1)"
  shows "u = Unsub_noop \<and>
         (\<exists>st'. mv_set_all (Suc n) a vs st1 = Some st' \<and>
            observed st' = observed st @ concat (map (callback_entries (mv_listeners (heap st ! a))) vs))"
proof -
  from sub ev have u: "u = Unsub_noop" and st1: "st1 = st"
    by (simp_all add: use_motion_value_event_def mv_on_def)
  from mv_set_all_log [OF a cb, of n vs] u st1 show ?thesis by blast
qed

theorem event_other_never_delivered_witness:
  "\<exists>st'. mv_set_all 1 1 [Num 2]
       (snd (use_motion_value_event (ArgMV 1) ''animationComplete'' (user_callback 7) example_engine)) =
         Some st' \<and> observed st' = [(4, Num 2)]"
proof -
  have a: "1 < length (heap example_engine)"
    and cb: "only_callbacks (mv_listeners (heap example_engine ! 1))"
    by (simp_all add: example_engine_def only_callbacks_def)
  have "''animationComplete'' \<noteq> ''change''" by simp
  from event_other_never_delivered [OF a cb this, of 7 _ _ 0 "[Num 2]"] show ?thesis
    by (simp add: example_engine_def callback_entries_def prod_eq_iff)
qed

text \<open>
  With \<open>'change'\<close>, a callback with a fresh identity is appended to the value's
  listeners: from then on every \<open>set(v)\<close> calls the existing callbacks in order and
  then the new one, each with \<open>v\<close>.
\<close>

theorem event_change_delivered:
  assumes a: "a < length (heap st)" and cb: "only_callbacks (mv_listeners (heap st ! a))"
    and fr: "UserFn c \<notin> fst ` set (mv_listeners (heap st ! a))"
    and sub: "use_motion_value_event (ArgMV a) ''change'' (user_callback c) st = (u, st1)"
  shows "u = Unsub a (UserFn c) \<and>
         (\<exists>st'. mv_set_all (Suc n) a vs st1 = Some st' \<and>
            observed st' = observed st @
              concat (map (\<lambda>v. callback_entries (mv_listeners (heap st ! a)) v @ [(c, v)]) vs))"
proof -
  note eq = event_subscribe_listeners [OF a fr]
  from sub eq(1) have u: "u = Unsub a (UserFn c)" and st1: "st1 = snd (mv_on a ''change'' (user_callback c) st)"
    by simp_all
  have a1: "a < length (heap st1)" using a st1 by (simp add: mv_on_def)
  have cb1: "only_callbacks (mv_listeners (heap st1 ! a))"
    using cb st1 eq(2) by (simp add: only_callbacks_append)
  have obs: "observed st1 = observed st" using st1 by (simp add: mv_on_def)
  from mv_set_all_log [OF a1 cb1, of n vs] obtain st' where
    "mv_set_all (Suc n) a vs st1 = Some st'"
    "observed st' = observed st1 @ concat (map (callback_entries (mv_listeners (heap st1 ! a))) vs)"
    by blast
  with u obs st1 eq(2) show ?thesis by (simp add: callback_entries_append)
qed

theorem event_change_delivered_witness:
  "\<exists>st'. mv_set_all 1 1 [Num 2, Num 3]
       (snd (use_motion_value_event (ArgMV 1) ''change'' (user_callback 7) example_engine)) = Some st' \<and>
     observed st' = [(4, Num 2), (7, Num 2), (4, Num 3), (7, Num 3)]"
proof -
  have a: "1 < length (heap example_engine)"
    and cb: "only_callbacks (mv_listeners (heap example_engine ! 1))"
    and fr: "UserFn 7 \<notin> fst ` set (mv_listeners (heap example_engine ! 1))"
    by (simp_all add: example_engine_def only_callbacks_def)
  from event_change_delivered [OF a cb fr, of _ _ 0 "[Num 2, Num 3]"] show ?thesis
    by (simp add: example_engine_def callback_entries_def prod_eq_iff)
qed

text \<open>
  Re-subscribing on every render (an inline callback changes identity) does not
  leak: after the cleanup of the previous effect and the new effect, the value's
  listeners are the original ones plus exactly the newest callback.
\<close>

theorem event_rerender_no_leak:
  assumes a: "a < length (heap st)"
    and fr: "UserFn c \<notin> fst ` set (mv_listeners (heap st ! a))"
    and fr': "UserFn c' \<notin> fst ` set (mv_listeners (heap st ! a))"
    and sub: "use_motion_value_event (ArgMV a) ''change'' (user_callback c) st = (u, st1)"
    and re: "event_rerender u (ArgMV a) ''change'' (user_callback c') st1 = (u', st2)"
  shows "u' = Unsub a (UserFn c') \<and>
         mv_listeners (heap st2 ! a) = mv_listeners (heap st ! a) @ [user_callback c']"
proof -
  from sub event_subscribe_listeners(1) [OF a fr] have u: "u = Unsub a (UserFn c)"
    and st1: "st1 = snd (mv_on a ''change'' (user_callback c) st)" by simp_all
  have "run_unsubscribe u st1 = st"
    using run_unsubscribe_mv_on [of "user_callback c" st a] fr u st1 by (simp add: user_callback_def)
  with re have "use_motion_value_event (ArgMV a) ''change'' (user_callback c') st = (u', st2)"
    by (simp add: event_rerender_def)
  with event_subscribe_listeners [OF a fr'] show ?thesis by simp
qed

theorem event_rerender_no_leak_witness:
  "mv_listeners (heap (snd (event_rerender (Unsub 1 (UserFn 7)) (ArgMV 1) ''change'' (user_callback 8)
      (snd (use_motion_value_event (ArgMV 1) ''change'' (user_callback 7) example_engine)))) ! 1) =
   [(UserFn 4, Callback 4), (UserFn 8, Callback 8)]"
proof -
  have a: "1 < length (heap example_engine)"
    and fr: "UserFn 7 \<notin> fst ` set (mv_listeners (heap example_engine ! 1))"
    and fr': "UserFn 8 \<notin> fst ` set (mv_listeners (heap example_engine ! 1))"
    by (simp_all add: example_engine_def)
  have sub: "use_motion_value_event (ArgMV 1) ''change'' (user_callback 7) example_engine =
      (Unsub 1 (UserFn 7), snd (use_motion_value_event (ArgMV 1) ''change'' (user_callback 7) example_engine))"
    unfolding event_subscribe_listeners(1) [OF a fr] by simp
  from event_rerender_no_leak [OF a fr fr' sub prod.collapse [symmetric]] show ?thesis
    by (simp add: example_engine_def user_callback_def)
qed

end
