(* ===== verification/Scroll.thy ===== *)
theory Scroll
  imports MotionValue
begin

text \<open>
  \<open>useScroll()\<close> of \<open>src/vendor/framer-motion/index.js\<close> (lines 77--97) and the
  browser around it. The page is the motion-value engine together with the viewport
  (\<open>window.scrollY\<close>, \<open>document.documentElement.scrollHeight\<close>, \<open>window.innerHeight\<close>)
  and the window's event-listener list. Each call of the hook allocates its own
  progress value and registers its own \<open>update\<close> closure for \<open>scroll\<close> and
  \<open>resize\<close>; the browser runs the closures registered for an event, in registration
  order, after changing the viewport. The configuration argument (\<open>target\<close>,
  \<open>offset\<close>, \<open>container\<close>) is never read and is absent from the model.
\<close>

section \<open>Viewport and progress\<close>

record viewport =
  scroll_y :: real
  scroll_height :: real
  inner_height :: real

text \<open>The body of \<open>update\<close> up to the \<open>set\<close> (lines 82--85).\<close>

definition scroll_progress :: "viewport \<Rightarrow> real" where
  "scroll_progress w =
     (let mx = scroll_height w - inner_height w;
          value = (if mx \<le> 0 then 0 else scroll_y w / mx)
      in max 0 (min 1 value))"

text \<open>
  The specification's formula: \<open>clamp(scrollTop / max(1, documentHeight -
  viewportHeight), 0, 1)\<close>, and 0 when the document is not taller than the viewport.
\<close>

definition spec_scroll_progress :: "viewport \<Rightarrow> real" where
  "spec_scroll_progress w =
     (if scroll_height w \<le> inner_height w then 0
      else max 0 (min 1 (scroll_y w / max 1 (scroll_height w - inner_height w))))"

section \<open>The window and the page\<close>

text \<open>
  A registered \<open>update\<close> closure: its identity and the progress value it writes.
  \<open>addEventListener\<close> ignores a (type, listener) pair already registered;
  \<open>removeEventListener\<close> removes it.
\<close>

datatype win_handler = ScrollUpdate nat vid

primrec handler_id :: "win_handler \<Rightarrow> nat" where
  "handler_id (ScrollUpdate h b) = h"

primrec handler_target :: "win_handler \<Rightarrow> vid" where
  "handler_target (ScrollUpdate h b) = b"

record page =
  eng :: engine
  vp :: viewport
  win :: "(string \<times> win_handler) list"
  next_handler :: nat

definition add_event_listener :: "string \<Rightarrow> win_handler \<Rightarrow> page \<Rightarrow> page" where
  "add_event_listener ty h p =
     p\<lparr>win := (if (ty, h) \<in> set (win p) then win p else win p @ [(ty, h)])\<rparr>"

definition remove_event_listener :: "string \<Rightarrow> win_handler \<Rightarrow> page \<Rightarrow> page" where
  "remove_event_listener ty h p = p\<lparr>win := filter (\<lambda>x. x \<noteq> (ty, h)) (win p)\<rparr>"

text \<open>\<open>update()\<close>: \<open>scrollYProgress.set(...)\<close> of the current progress.\<close>

definition scroll_update :: "nat \<Rightarrow> vid \<Rightarrow> page \<Rightarrow> page option" where
  "scroll_update n a p =
     map_option (\<lambda>e. p\<lparr>eng := e\<rparr>) (mv_set n a (Num (scroll_progress (vp p))) (eng p))"

text \<open>
  The effect (lines 80--94): a fresh \<open>update\<close> closure, one call of it, and its
  registration for \<open>scroll\<close> and then \<open>resize\<close>. The result carries the closure,
  which identifies the cleanup.
\<close>

definition scroll_effect :: "nat \<Rightarrow> vid \<Rightarrow> page \<Rightarrow> (win_handler \<times> page) option" where
  "scroll_effect n a p =
     (let h = ScrollUpdate (next_handler p) a;
          p1 = p\<lparr>next_handler := Suc (next_handler p)\<rparr>
      in map_option (\<lambda>p2. (h, add_event_listener ''resize'' h (add_event_listener ''scroll'' h p2)))
           (scroll_update n a p1))"

definition scroll_cleanup :: "win_handler \<Rightarrow> page \<Rightarrow> page" where
  "scroll_cleanup h p = remove_event_listener ''resize'' h (remove_event_listener ''scroll'' h p)"

text \<open>
  The hook: \<open>useMotionValue(0)\<close>, then the effect on mount. Its dependency is the
  progress value itself, which never changes, so later renders run no effect.
\<close>

definition use_scroll :: "nat \<Rightarrow> vid option \<Rightarrow> page \<Rightarrow> (vid \<times> win_handler \<times> page) option" where
  "use_scroll n ref p =
     (let (a, e1) = use_motion_value ref (Num 0) (eng p)
      in map_option (\<lambda>(h, p2). (a, h, p2)) (scroll_effect n a (p\<lparr>eng := e1\<rparr>)))"

section \<open>The browser\<close>

text \<open>Dispatch runs the closures registered for the event type, in order.\<close>

fun run_handlers :: "nat \<Rightarrow> win_handler list \<Rightarrow> page \<Rightarrow> page option" where
  "run_handlers n [] p = Some p"
| "run_handlers n (ScrollUpdate h a # hs) p = Option.bind (scroll_update n a p) (run_handlers n hs)"

definition dispatch :: "nat \<Rightarrow> string \<Rightarrow> page \<Rightarrow> page option" where
  "dispatch n ty p = run_handlers n (map snd (filter (\<lambda>x. fst x = ty) (win p))) p"

text \<open>
  What the browser does: scroll (a \<open>scroll\<close> event), resize the window (the viewport
  and possibly the document height change, a \<open>resize\<close> event), or change the
  document's height without either (content loaded or expanded, e.g. "Load More" in
  the portfolio), which fires neither event.
\<close>

datatype browser_event = ScrollTo real | Resize real real | ContentHeight real

fun event_viewport :: "browser_event \<Rightarrow> viewport \<Rightarrow> viewport" where
  "event_viewport (ScrollTo y) w = w\<lparr>scroll_y := y\<rparr>"
| "event_viewport (Resize ih sh) w = w\<lparr>inner_height := ih, scroll_height := sh\<rparr>"
| "event_viewport (ContentHeight sh) w = w\<lparr>scroll_height := sh\<rparr>"

definition browser_step :: "nat \<Rightarrow> browser_event \<Rightarrow> page \<Rightarrow> page option" where
  "browser_step n ev p =
     (let p0 = p\<lparr>vp := event_viewport ev (vp p)\<rparr>
      in case ev of
           ScrollTo _ \<Rightarrow> dispatch n ''scroll'' p0
         | Resize _ _ \<Rightarrow> dispatch n ''resize'' p0
         | ContentHeight _ \<Rightarrow> Some p0)"

text \<open>
  The window invariant: every registered closure has an identity below the counter
  and writes an allocated value.
\<close>

definition page_wf :: "page \<Rightarrow> bool" where
  "page_wf p \<longleftrightarrow> engine_wf (eng p) \<and>
     (\<forall>x \<in> set (win p). handler_id (snd x) < next_handler p \<and> handler_target (snd x) < length (heap (eng p)))"

text \<open>
  The progress a consumer reads is in \<open>[0, 1]\<close> for every viewport, including a
  negative \<open>scrollY\<close> (elastic overscroll) and a document shorter than the window.
\<close>

lemma scroll_progress_unit: "0 \<le> scroll_progress w \<and> scroll_progress w \<le> 1"
  by (simp add: scroll_progress_def Let_def)

section \<open>Facts about handlers and the mount\<close>

fun fires_event :: "browser_event \<Rightarrow> bool" where
  "fires_event (ContentHeight _) = False"
| "fires_event _ = True"

lemma scroll_update_frame:
  "scroll_update n a p = Some p' \<Longrightarrow>
   vp p' = vp p \<and> win p' = win p \<and> next_handler p' = next_handler p \<and> shape (eng p') = shape (eng p)"
  by (auto simp: scroll_update_def intro: shape_mv_set)

lemma run_handlers_frame:
  "run_handlers n hs p = Some p' \<Longrightarrow>
   vp p' = vp p \<and> win p' = win p \<and> next_handler p' = next_handler p \<and> shape (eng p') = shape (eng p)"
proof (induction n hs p rule: run_handlers.induct)
  case (1 n p)
  then show ?case by simp
next
  case (2 n h a hs p)
  then obtain p1 where "scroll_update n a p = Some p1" "run_handlers n hs p1 = Some p'"
    by (auto split: Option.bind_splits)
  with 2 scroll_update_frame show ?case by fastforce
qed

lemma run_handlers_total:
  "engine_wf (eng p) \<Longrightarrow> ranked r (eng p) \<Longrightarrow>
   \<forall>x \<in> set hs. handler_target x < length (heap (eng p)) \<and> r (handler_target x) < n \<Longrightarrow>
   \<exists>p'. run_handlers n hs p = Some p'"
proof (induction hs arbitrary: p)
  case Nil
  then show ?case by simp
next
  case (Cons x hs)
  obtain h b where x: "x = ScrollUpdate h b" by (cases x)
  from Cons.prems x have "b < length (heap (eng p))" "r b < n" by simp_all
  with Cons.prems(1,2) obtain e where e: "mv_set n b (Num (scroll_progress (vp p))) (eng p) = Some e"
    using mv_set_total by blast
  let ?p1 = "p\<lparr>eng := e\<rparr>"
  have sh: "shape e = shape (eng p)" by (rule shape_mv_set [OF e])
  have "\<exists>p'. run_handlers n hs ?p1 = Some p'"
  proof (rule Cons.IH)
    show "engine_wf (eng ?p1)" using Cons.prems(1) by (simp add: engine_wf_shape [OF sh])
    show "ranked r (eng ?p1)" using Cons.prems(2) by (simp add: ranked_shape [OF sh])
    show "\<forall>x \<in> set hs. handler_target x < length (heap (eng ?p1)) \<and> r (handler_target x) < n"
    proof -
      have len: "length (heap (eng ?p1)) = length (heap (eng p))" using length_shape [OF sh] by simp
      show ?thesis using Cons.prems(3) unfolding len by simp
    qed
  qed
  with e x show ?case by (simp add: scroll_update_def)
qed

lemma reaches_untargeted: "reaches st b a \<Longrightarrow> untargeted st a \<Longrightarrow> b = a"
  by (metis reaches_last_edge untargeted_def nth_map)

lemma run_handlers_value:
  assumes "run_handlers n hs p = Some p'" and "ranked r (eng p)" and "untargeted (eng p) a"
    and "a < length (heap (eng p))"
    and "(\<exists>h. ScrollUpdate h a \<in> set hs) \<or> mv_get a (eng p) = Some (Num (scroll_progress (vp p)))"
  shows "mv_get a (eng p') = Some (Num (scroll_progress (vp p)))"
  using assms
proof (induction hs arbitrary: p)
  case Nil
  then show ?case by simp
next
  case (Cons x hs)
  obtain h b where x: "x = ScrollUpdate h b" by (cases x)
  with Cons.prems(1) obtain e where e: "mv_set n b (Num (scroll_progress (vp p))) (eng p) = Some e"
    and rest: "run_handlers n hs (p\<lparr>eng := e\<rparr>) = Some p'"
    by (auto simp: scroll_update_def split: Option.bind_splits)
  let ?p1 = "p\<lparr>eng := e\<rparr>"
  have sh: "shape e = shape (eng p)" by (rule shape_mv_set [OF e])
  have len: "length (heap e) = length (heap (eng p))" by (rule length_shape [OF sh])
  have get1: "mv_get a e = Some (Num (scroll_progress (vp p))) \<or> (\<exists>h. ScrollUpdate h a \<in> set hs)"
  proof (cases "b = a")
    case True
    with mv_set_get [OF e Cons.prems(2)] show ?thesis by simp
  next
    case False
    then have "\<not> reaches (eng p) b a" using Cons.prems(3) reaches_untargeted by blast
    then have "heap e ! a = heap (eng p) ! a" by (rule mv_set_unreached [OF e])
    then have "mv_get a e = mv_get a (eng p)" using len by (simp add: mv_get_def)
    with Cons.prems(5) x False show ?thesis by auto
  qed
  have "mv_get a (eng p') = Some (Num (scroll_progress (vp ?p1)))"
  proof (rule Cons.IH [OF rest])
    show "ranked r (eng ?p1)" using Cons.prems(2) by (simp add: ranked_shape [OF sh])
    show "untargeted (eng ?p1) a" using Cons.prems(3) by (simp add: untargeted_shape [OF sh])
    show "a < length (heap (eng ?p1))" using Cons.prems(4) len by simp
    show "(\<exists>h. ScrollUpdate h a \<in> set hs) \<or>
        mv_get a (eng ?p1) = Some (Num (scroll_progress (vp ?p1)))" using get1 by auto
  qed
  then show ?case by simp
qed

lemma handler_fresh:
  "page_wf p \<Longrightarrow> (ty, ScrollUpdate (next_handler p) b) \<notin> set (win p)"
  by (fastforce simp: page_wf_def)

lemma use_scroll_mount_state:
  assumes wf: "page_wf p"
  defines "d \<equiv> length (heap (eng p))" and "h \<equiv> ScrollUpdate (next_handler p) (length (heap (eng p)))"
  defines "e1 \<equiv> snd (new_motion_value (Num 0) (eng p))"
  shows "use_scroll (Suc n) None p =
           Some (d, h, p\<lparr>eng := write_value d (Num (scroll_progress (vp p))) e1,
                         win := win p @ [(''scroll'', h), (''resize'', h)],
                         next_handler := Suc (next_handler p)\<rparr>)"
proof -
  have run: "mv_set (Suc n) d (Num (scroll_progress (vp p))) e1 =
      Some (write_value d (Num (scroll_progress (vp p))) e1)"
    by (rule mv_set_no_listeners) (simp_all add: d_def e1_def new_motion_value_def)
  have f1: "(''scroll'', h) \<notin> set (win p)" and f2: "(''resize'', h) \<notin> set (win p)"
    using handler_fresh [OF wf] by (simp_all add: h_def)
  show ?thesis
    using run f1 f2
    by (simp add: use_scroll_def scroll_effect_def scroll_update_def use_motion_value_def
        add_event_listener_def d_def h_def e1_def new_motion_value_def Let_def)
qed

lemma page_wf_mount:
  assumes wf: "page_wf p"
  shows "page_wf (p\<lparr>eng := write_value (length (heap (eng p))) v (snd (new_motion_value (Num 0) (eng p))),
                     win := win p @ [(''scroll'', ScrollUpdate (next_handler p) (length (heap (eng p)))),
                                     (''resize'', ScrollUpdate (next_handler p) (length (heap (eng p))))],
                     next_handler := Suc (next_handler p)\<rparr>)"
proof -
  have "engine_wf (write_value (length (heap (eng p))) v (snd (new_motion_value (Num 0) (eng p))))"
    using engine_wf_new_motion_value wf by (simp add: page_wf_def engine_wf_shape [OF shape_write_value])
  moreover have "\<forall>x \<in> set (win p).
      handler_id (snd x) < Suc (next_handler p) \<and> handler_target (snd x) < Suc (length (heap (eng p)))"
    using wf by (fastforce simp: page_wf_def)
  ultimately show ?thesis
    unfolding page_wf_def by (auto simp: new_motion_value_def)
qed

lemma page_wf_frame:
  "shape (eng p') = shape (eng p) \<Longrightarrow> win p' = win p \<Longrightarrow> next_handler p' = next_handler p \<Longrightarrow>
   page_wf p' = page_wf p"
  unfolding page_wf_def by (simp add: engine_wf_shape [of "eng p'" "eng p"] length_shape [of "eng p'" "eng p"])

lemma dispatch_syncs:
  assumes wf: "page_wf p" and rk: "ranked r (eng p)"
    and fuel: "\<forall>b < length (heap (eng p)). r b < n"
    and ut: "untargeted (eng p) a" and a: "a < length (heap (eng p))"
    and reg: "(ty, ScrollUpdate h a) \<in> set (win p)"
  shows "\<exists>p'. dispatch n ty p = Some p' \<and> mv_get a (eng p') = Some (Num (scroll_progress (vp p))) \<and>
           vp p' = vp p \<and> page_wf p' \<and> ranked r (eng p')"
proof -
  let ?hs = "map snd (filter (\<lambda>x. fst x = ty) (win p))"
  have "\<forall>x \<in> set ?hs. handler_target x < length (heap (eng p)) \<and> r (handler_target x) < n"
    using wf fuel by (fastforce simp: page_wf_def)
  moreover have "engine_wf (eng p)" using wf by (simp add: page_wf_def)
  ultimately obtain p' where run: "run_handlers n ?hs p = Some p'"
    using run_handlers_total [of p r] rk by blast
  note fr = run_handlers_frame [OF run]
  then have sh: "shape (eng p') = shape (eng p)" by simp
  have "ScrollUpdate h a \<in> set ?hs" using reg by force
  then have "mv_get a (eng p') = Some (Num (scroll_progress (vp p)))"
    using run_handlers_value [OF run rk ut a] by blast
  moreover have "page_wf p'" using wf fr page_wf_frame [OF sh] by simp
  moreover have "ranked r (eng p')" using rk by (simp add: ranked_shape [OF sh])
  ultimately show ?thesis using run fr by (simp add: dispatch_def)
qed

section \<open>Progress\<close>

text \<open>
  The specification's boundary law: at the top the progress is 0, at the bottom
  (\<open>scrollY = scrollHeight - innerHeight > 0\<close>) it is 1, and a document no taller
  than the window gives 0 wherever it is scrolled.
\<close>

lemma scroll_progress_boundaries:
  "(scroll_y w = 0 \<longrightarrow> scroll_progress w = 0) \<and>
   (0 < scroll_height w - inner_height w \<and> scroll_y w = scroll_height w - inner_height w \<longrightarrow>
      scroll_progress w = 1) \<and>
   (scroll_height w \<le> inner_height w \<longrightarrow> scroll_progress w = 0)"
  by (simp add: scroll_progress_def Let_def)

theorem scroll_progress_boundaries_witness:
  "scroll_progress \<lparr>scroll_y = 0, scroll_height = 3000, inner_height = 800\<rparr> = 0 \<and>
   scroll_progress \<lparr>scroll_y = 2200, scroll_height = 3000, inner_height = 800\<rparr> = 1 \<and>
   scroll_progress \<lparr>scroll_y = 50, scroll_height = 700, inner_height = 800\<rparr> = 0"
  using scroll_progress_boundaries [of "\<lparr>scroll_y = 0, scroll_height = 3000, inner_height = 800\<rparr>"]
    scroll_progress_boundaries [of "\<lparr>scroll_y = 2200, scroll_height = 3000, inner_height = 800\<rparr>"]
    scroll_progress_boundaries [of "\<lparr>scroll_y = 50, scroll_height = 700, inner_height = 800\<rparr>"]
  by simp

text \<open>
  C12. Refinement of the specification's formula: the code divides by
  \<open>scrollHeight - innerHeight\<close> where the specification divides by
  \<open>max(1, documentHeight - viewportHeight)\<close>. The two agree whenever the heights are
  whole numbers, which they are in the browser (both are integer DOM properties).
\<close>

theorem scroll_progress_refines_spec:
  assumes "scroll_height w \<in> \<int>" and "inner_height w \<in> \<int>"
  shows "scroll_progress w = spec_scroll_progress w"
proof -
  obtain i j where i: "scroll_height w = of_int i" and j: "inner_height w = of_int j"
    using assms by (auto elim!: Ints_cases)
  show ?thesis
  proof (cases "scroll_height w \<le> inner_height w")
    case True
    then show ?thesis by (simp add: scroll_progress_def spec_scroll_progress_def Let_def)
  next
    case False
    then have "i - j \<ge> 1" using i j by simp
    then have "max 1 (scroll_height w - inner_height w) = scroll_height w - inner_height w"
      using i j by simp
    with False show ?thesis by (simp add: scroll_progress_def spec_scroll_progress_def Let_def)
  qed
qed

theorem scroll_progress_refines_spec_witness:
  "scroll_progress \<lparr>scroll_y = 100, scroll_height = 1000, inner_height = 800\<rparr> = 1 / 2 \<and>
   spec_scroll_progress \<lparr>scroll_y = 100, scroll_height = 1000, inner_height = 800\<rparr> = 1 / 2"
proof -
  have "scroll_progress \<lparr>scroll_y = 100, scroll_height = 1000, inner_height = 800\<rparr> =
        spec_scroll_progress \<lparr>scroll_y = 100, scroll_height = 1000, inner_height = 800\<rparr>"
    by (rule scroll_progress_refines_spec) simp_all
  moreover have "spec_scroll_progress \<lparr>scroll_y = 100, scroll_height = 1000, inner_height = 800\<rparr> = 1 / 2"
    by (simp add: spec_scroll_progress_def)
  ultimately show ?thesis by simp
qed

section \<open>The hook on a page\<close>

text \<open>A page with an empty engine, scrolled 100px into a 1100px document in a 100px window.\<close>

definition example_page :: page where
  "example_page = \<lparr>eng = empty_engine,
     vp = \<lparr>scroll_y = 100, scroll_height = 1100, inner_height = 100\<rparr>, win = [], next_handler = 0\<rparr>"

lemma example_page_wf: "page_wf example_page"
  by (simp add: page_wf_def example_page_def engine_wf_empty)

definition example_mounted :: page where
  "example_mounted = example_page\<lparr>eng := write_value 0 (Num (1 / 10)) (snd (new_motion_value (Num 0) empty_engine)),
     win := [(''scroll'', ScrollUpdate 0 0), (''resize'', ScrollUpdate 0 0)], next_handler := 1\<rparr>"

lemma example_page_mount: "use_scroll (Suc 0) None example_page = Some (0, ScrollUpdate 0 0, example_mounted)"
  using use_scroll_mount_state [OF example_page_wf, of 0]
  by (simp add: example_mounted_def example_page_def empty_engine_def scroll_progress_def)

text \<open>
  Mounting \<open>useScroll\<close> on a well-formed page returns a new progress value that
  already holds the current progress (the effect calls \<open>update()\<close> once), registers
  one closure for \<open>scroll\<close> and then for \<open>resize\<close>, keeps the page well formed, and
  nothing else writes the new value.
\<close>

theorem use_scroll_mount:
  assumes wf: "page_wf p"
  shows "\<exists>h p'. use_scroll (Suc n) None p = Some (length (heap (eng p)), h, p') \<and>
           mv_get (length (heap (eng p))) (eng p') = Some (Num (scroll_progress (vp p))) \<and>
           win p' = win p @ [(''scroll'', h), (''resize'', h)] \<and>
           page_wf p' \<and> untargeted (eng p') (length (heap (eng p)))"
proof -
  let ?d = "length (heap (eng p))" and ?e1 = "snd (new_motion_value (Num 0) (eng p))"
  have ut: "untargeted (write_value ?d (Num (scroll_progress (vp p))) ?e1) ?d"
    using untargeted_new_motion_value [of "eng p" "Num 0"] wf
    by (simp add: page_wf_def untargeted_shape [OF shape_write_value])
  have "mv_get ?d (write_value ?d (Num (scroll_progress (vp p))) ?e1) = Some (Num (scroll_progress (vp p)))"
    by (simp add: mv_get_def write_value_def new_motion_value_def)
  with use_scroll_mount_state [OF wf, of n] page_wf_mount [OF wf] ut show ?thesis by simp
qed

theorem use_scroll_mount_witness:
  "\<exists>h p'. use_scroll 1 None example_page = Some (0, h, p') \<and>
     mv_get 0 (eng p') = Some (Num (1 / 10)) \<and>
     win p' = [(''scroll'', h), (''resize'', h)] \<and> page_wf p' \<and> untargeted (eng p') 0"
  using use_scroll_mount [OF example_page_wf, of 0]
  by (simp add: example_page_def empty_engine_def scroll_progress_def)

text \<open>
  C13. Every scroll and every resize keeps a mounted consumer's progress equal to the
  progress of the new viewport, on any well-formed page whose dependency graph is
  acyclic, whatever other consumers and derived values it has: the browser's dispatch
  returns (with a stack above every rank) and leaves the page well formed.
\<close>

theorem scroll_event_syncs:
  assumes wf: "page_wf p" and rk: "ranked r (eng p)"
    and fuel: "\<forall>b < length (heap (eng p)). r b < n"
    and ut: "untargeted (eng p) a" and a: "a < length (heap (eng p))"
    and reg: "(''scroll'', ScrollUpdate h a) \<in> set (win p)" "(''resize'', ScrollUpdate h a) \<in> set (win p)"
    and ev: "fires_event ev"
  shows "\<exists>p'. browser_step n ev p = Some p' \<and> vp p' = event_viewport ev (vp p) \<and>
           mv_get a (eng p') = Some (Num (scroll_progress (vp p'))) \<and> page_wf p' \<and> ranked r (eng p')"
proof -
  let ?p0 = "p\<lparr>vp := event_viewport ev (vp p)\<rparr>"
  obtain ty where ty: "browser_step n ev p = dispatch n ty ?p0" and "(ty, ScrollUpdate h a) \<in> set (win p)"
    using ev reg by (cases ev) (auto simp: browser_step_def)
  then have "\<exists>p'. dispatch n ty ?p0 = Some p' \<and>
      mv_get a (eng p') = Some (Num (scroll_progress (vp ?p0))) \<and> vp p' = vp ?p0 \<and>
      page_wf p' \<and> ranked r (eng p')"
    by (intro dispatch_syncs [where h = h]) (use wf rk fuel ut a in \<open>simp_all add: page_wf_def\<close>)
  then show ?thesis using ty by auto
qed

theorem scroll_event_syncs_witness:
  "\<exists>p'. browser_step 1 (ScrollTo 600) (snd (snd (the (use_scroll 1 None example_page)))) = Some p' \<and>
     vp p' = \<lparr>scroll_y = 600, scroll_height = 1100, inner_height = 100\<rparr> \<and>
     mv_get 0 (eng p') = Some (Num (3 / 5)) \<and> page_wf p' \<and> ranked (\<lambda>_. 0) (eng p')"
proof -
  let ?p1 = "snd (snd (the (use_scroll 1 None example_page)))"
  have m: "?p1 = example_mounted" by (simp add: example_page_mount)
  have wf: "page_wf ?p1"
    unfolding m example_mounted_def by (simp add: page_wf_def example_page_def empty_engine_def new_motion_value_def
        write_value_def engine_wf_def)
  have rk: "ranked (\<lambda>_. 0) (eng ?p1)"
    unfolding m example_mounted_def by (simp add: ranked_def empty_engine_def new_motion_value_def write_value_def)
  have ut: "untargeted (eng ?p1) 0"
    unfolding m example_mounted_def by (simp add: untargeted_def empty_engine_def new_motion_value_def write_value_def)
  have a: "0 < length (heap (eng ?p1))"
    unfolding m example_mounted_def by (simp add: empty_engine_def new_motion_value_def)
  have reg: "(''scroll'', ScrollUpdate 0 0) \<in> set (win ?p1)" "(''resize'', ScrollUpdate 0 0) \<in> set (win ?p1)"
    unfolding m example_mounted_def by simp_all
  have fuel: "\<forall>b < length (heap (eng ?p1)). (\<lambda>_. 0::nat) b < 1" by simp
  from scroll_event_syncs [OF wf rk fuel ut a reg, of "ScrollTo 600"] show ?thesis
    unfolding m example_mounted_def by (auto simp: example_page_def scroll_progress_def)
qed

text \<open>
  The cleanup of \<open>useScroll\<close> removes exactly the two closures its effect
  registered: unmounting restores the window's listener list.
\<close>

theorem scroll_cleanup_restores:
  assumes wf: "page_wf p" and m: "use_scroll (Suc n) None p = Some (a, h, p')"
  shows "win (scroll_cleanup h p') = win p"
proof -
  let ?h = "ScrollUpdate (next_handler p) (length (heap (eng p)))"
  from m [unfolded use_scroll_mount_state [OF wf, of n]] have h: "h = ?h"
    and w: "win p' = win p @ [(''scroll'', ?h), (''resize'', ?h)]"
    by (simp_all only: option.inject prod.inject) auto
  have "(''scroll'', ?h) \<notin> set (win p)" "(''resize'', ?h) \<notin> set (win p)"
    by (simp_all add: handler_fresh [OF wf])
  then have "filter (\<lambda>x. x \<noteq> (''resize'', ?h)) (filter (\<lambda>x. x \<noteq> (''scroll'', ?h)) (win p)) = win p"
    by (auto simp: filter_id_conv)
  with h w show ?thesis by (simp add: scroll_cleanup_def remove_event_listener_def)
qed

theorem scroll_cleanup_restores_witness:
  "win (scroll_cleanup (ScrollUpdate 0 0) example_mounted) = []"
  using scroll_cleanup_restores [OF example_page_wf example_page_mount] by (simp add: example_page_def)

text \<open>
  C14. \<open>useScroll\<close> is not a process-wide tracker: two consumers get two distinct
  progress values and the window ends up with two closures per event, where the
  specification describes one shared scroll-progress source.
\<close>

theorem scroll_consumers_not_shared:
  assumes wf: "page_wf p"
    and m1: "use_scroll (Suc n) None p = Some (a1, h1, p1)"
    and m2: "use_scroll (Suc n) None p1 = Some (a2, h2, p2)"
  shows "a1 \<noteq> a2 \<and> h1 \<noteq> h2 \<and>
         win p2 = win p @ [(''scroll'', h1), (''resize'', h1), (''scroll'', h2), (''resize'', h2)]"
proof -
  from m1 [unfolded use_scroll_mount_state [OF wf, of n]] have a1: "a1 = length (heap (eng p))"
    and h1: "h1 = ScrollUpdate (next_handler p) (length (heap (eng p)))"
    and p1: "p1 = p\<lparr>eng := write_value (length (heap (eng p))) (Num (scroll_progress (vp p)))
                   (snd (new_motion_value (Num 0) (eng p))),
               win := win p @ [(''scroll'', h1), (''resize'', h1)],
               next_handler := Suc (next_handler p)\<rparr>"
    by (simp_all only: option.inject prod.inject) auto
  have wf1: "page_wf p1" using page_wf_mount [OF wf] p1 h1 by simp
  from m2 [unfolded use_scroll_mount_state [OF wf1, of n]] have a2: "a2 = length (heap (eng p1))"
    and h2: "h2 = ScrollUpdate (next_handler p1) (length (heap (eng p1)))"
    and w2: "win p2 = win p1 @ [(''scroll'', h2), (''resize'', h2)]"
    by (simp_all only: option.inject prod.inject) auto
  have "length (heap (eng p1)) = Suc (length (heap (eng p)))" "next_handler p1 = Suc (next_handler p)"
    using p1 by (simp_all add: new_motion_value_def)
  with a1 a2 h1 h2 w2 p1 show ?thesis by simp
qed

theorem scroll_consumers_not_shared_witness:
  "\<exists>a1 h1 p1 a2 h2 p2. use_scroll 1 None example_page = Some (a1, h1, p1) \<and>
     use_scroll 1 None p1 = Some (a2, h2, p2) \<and> a1 \<noteq> a2 \<and> h1 \<noteq> h2 \<and> length (win p2) = 4"
proof -
  have wf1: "page_wf example_mounted"
    by (simp add: example_mounted_def page_wf_def example_page_def empty_engine_def
        new_motion_value_def write_value_def engine_wf_def)
  let ?r = "the (use_scroll (Suc 0) None example_mounted)"
  have m2: "use_scroll (Suc 0) None example_mounted = Some (fst ?r, fst (snd ?r), snd (snd ?r))"
    using use_scroll_mount_state [OF wf1, of 0] by simp
  note c = scroll_consumers_not_shared [OF example_page_wf example_page_mount m2]
  have len: "length (win (snd (snd ?r))) = 4" using c by (simp add: example_page_def)
  have e1: "use_scroll 1 None example_page = Some (0, ScrollUpdate 0 0, example_mounted)"
    using example_page_mount by simp
  have e2: "use_scroll 1 None example_mounted = Some (fst ?r, fst (snd ?r), snd (snd ?r))"
    using m2 by simp
  from e1 e2 c len show ?thesis by blast
qed

end
