(* ===== verification/Content.thy ===== *)
theory Content
  imports Prelude
begin

text \<open>
  The content the page sections display: the \<open>Project\<close> interface of
  \<open>src/types.ts\<close> as a record, and the data of \<open>src/data/content.ts\<close>, the three
  hand-written projects, the generator \<open>generateProjects\<close>, the exported
  \<open>portfolioProjects\<close> and the timeline events. Everything here is a value computed
  once at module load; the lemmas give the identities and categories the portfolio
  relies on.
\<close>

section \<open>Projects\<close>

text \<open>\<open>downloadUrl?: string\<close> is optional: \<open>None\<close> when the field is absent.\<close>

record project =
  proj_id :: nat
  title :: string
  category :: string
  image :: string
  description :: string
  download_url :: "string option"
  year :: string

text \<open>The categories in the order the generators cycle through them.\<close>

definition gen_categories :: "string list" where
  "gen_categories = [''Garment'', ''Textile'', ''Sketches'', ''Illustration'']"

definition gen_titles :: "string list" where
  "gen_titles = [''Tension'', ''Velocity'', ''Balance'', ''Torque'', ''Pivot'', ''Vault'', ''Landing'',
     ''Grip'', ''Chalk'', ''Rhythm'', ''Axis'', ''Flex'', ''Momentum'', ''Apex'', ''Form'', ''Structure'',
     ''Dynamic'']"

text \<open>
  The element \<open>i\<close> of \<open>generateProjects(startId, count)\<close> (lines 5--19). The array
  reads \<open>categories[i % 4]\<close> and \<open>titles[i % 17]\<close> are always in range.
\<close>

definition gen_project :: "nat \<Rightarrow> nat \<Rightarrow> project" where
  "gen_project startId i =
     (let id = startId + i;
          category = gen_categories ! (i mod length gen_categories);
          t = gen_titles ! (i mod length gen_titles) @ '' '' @ string_of_nat (i + 1)
      in \<lparr>proj_id = id, title = js_to_upper t, category = category,
          image = ''https://picsum.photos/seed/'' @ string_of_nat (id * 123) @ ''/800/1000'',
          description = ''Exploration of '' @ js_to_lower category @
            '' dynamics through the lens of athletic performance.'',
          download_url = None, year = string_of_nat (2020 + i mod 5)\<rparr>)"

definition generate_projects :: "nat \<Rightarrow> nat \<Rightarrow> project list" where
  "generate_projects startId count = map (gen_project startId) [0..<count]"

definition initial_projects :: "project list" where
  "initial_projects =
    [\<lparr>proj_id = 1, title = ''SIMPSON TEXTILES'', category = ''Garment'',
      image = ''https://images.unsplash.com/photo-1539109136881-3be0616acf4b?q=80&w=1287&auto=format&fit=crop'',
      description = ''Experimental approach to wearable architecture using reclaimed materials and gymnastic tension principles.'',
      download_url = Some ''#'', year = ''2025''\<rparr>,
     \<lparr>proj_id = 2, title = ''FORM & FLOW'', category = ''Sketches'',
      image = ''https://images.unsplash.com/photo-1515886657613-9f3515b0c78f?q=80&w=1320&auto=format&fit=crop'',
      description = ''Digital explorations of human movement translated into vector geometry and fluid color palettes.'',
      download_url = None, year = ''2024''\<rparr>,
     \<lparr>proj_id = 3, title = ''AERODYNAMIC BRANDING'', category = ''Garment'',
      image = ''https://images.unsplash.com/photo-1581044777550-4cfa60707c03?q=80&w=1286&auto=format&fit=crop'',
      description = ''A complete identity for a high-performance athletic apparel brand, focused on speed and minimal wind resistance.'',
      download_url = None, year = ''2025''\<rparr>]"

definition portfolio_projects :: "project list" where
  "portfolio_projects = initial_projects @ generate_projects 4 17"

section \<open>Timeline events\<close>

record timeline_event =
  ev_year :: string
  ev_title :: string
  ev_desc :: string
  ev_image :: string

definition timeline_events :: "timeline_event list" where
  "timeline_events =
    [\<lparr>ev_year = ''2025'', ev_title = ''Simpson Studio Launch'',
      ev_desc = ''Founded a multidisciplinary design studio at the intersection of athletic performance and visual identity.'',
      ev_image = ''https://images.unsplash.com/photo-1441986300917-64674bd600d8?q=80&w=1470&auto=format&fit=crop''\<rparr>,
     \<lparr>ev_year = ''2023'', ev_title = ''Artistic Excellence Award'',
      ev_desc = ''Recognized for innovation in wearable technology and material science at the National Design Forum.'',
      ev_image = ''https://images.unsplash.com/photo-1509631179647-0177331693ae?q=80&w=1288&auto=format&fit=crop''\<rparr>,
     \<lparr>ev_year = ''2021'', ev_title = ''Lead Pattern Designer'',
      ev_desc = ''Developed ergonomic seam technologies for Vertex Athletics, reducing garment friction by 40%.'',
      ev_image = ''https://images.unsplash.com/photo-1517960413843-0aee8e2b3285?q=80&w=1499&auto=format&fit=crop''\<rparr>,
     \<lparr>ev_year = ''2019'', ev_title = ''Parsons Graduation'',
      ev_desc = ''BFA in Fashion Design with a thesis on \"Structural Integrity in Motion\".'',
      ev_image = ''https://images.unsplash.com/photo-1536924940846-227afb31e2a5?q=80&w=1466&auto=format&fit=crop''\<rparr>,
     \<lparr>ev_year = ''2016'', ev_title = ''State Championship'',
      ev_desc = ''Gold Medalist in Floor Exercise. The discipline learned here defines my design rigor today.'',
      ev_image = ''https://images.unsplash.com/photo-1517466787929-bc90951d0974?q=80&w=1386&auto=format&fit=crop''\<rparr>,
     \<lparr>ev_year = ''2014'', ev_title = ''The First Prototype'',
      ev_desc = ''Began customizing competition leotards, discovering the dialogue between fabric and physique.'',
      ev_image = ''https://images.unsplash.com/photo-1520006403909-838d6b92c22e?q=80&w=1470&auto=format&fit=crop''\<rparr>]"

section \<open>Facts about the generated projects\<close>

lemma length_generate_projects [simp]: "length (generate_projects s n) = n"
  by (simp add: generate_projects_def)

lemma proj_id_gen_project [simp]: "proj_id (gen_project s i) = s + i"
  by (simp add: gen_project_def Let_def)

lemma category_gen_project:
  "category (gen_project s i) = gen_categories ! (i mod 4)"
  by (simp add: gen_project_def Let_def gen_categories_def)

lemma ids_generate_projects: "map proj_id (generate_projects s n) = [s..<s + n]"
  by (induction n) (simp_all add: generate_projects_def)

lemma ids_initial_projects: "map proj_id initial_projects = [1, 2, 3]"
  by (simp add: initial_projects_def)

lemma ids_portfolio_projects: "map proj_id portfolio_projects = [1..<21]"
proof -
  have "[Suc 0, 2, 3] @ [4..<21] = [1..<21]" by (simp add: upt_rec)
  then show ?thesis
    by (simp add: portfolio_projects_def ids_initial_projects ids_generate_projects)
qed

end
