(* ===== verification/PortfolioData.thy ===== *)
theory PortfolioData
  imports Content Transform
begin

text \<open>
  The module-level helpers of \<open>src/components/Portfolio.tsx\<close>: the image-error
  fallback \<open>handleImageError\<close> with the browser's image loading around it, the twelve
  extra projects \<open>moreProjects\<close>, \<open>getProjectDetails\<close>, \<open>getHighResUrl\<close> with its two
  regular-expression replacements, the dimension labels of the project modal, and the
  scroll-driven styles of \<open>ProcessStep\<close>, which chain \<open>useTransform\<close> ranges.
\<close>

section \<open>The image-error fallback\<close>

text \<open>
  An \<open><img>\<close> element: its \<open>src\<close>, whether its DOM \<open>onerror\<close> property is set, and the
  URLs the browser has requested for it. React attaches \<open>onError\<close> through its own
  event system, not through the \<open>onerror\<close> property, so the handler stays attached
  whatever the property holds. Every assignment to \<open>src\<close> starts a new load (HTML's
  "update the image data" runs on every set of the attribute, even to the same value).
\<close>

record img_el =
  img_src :: string
  img_onerror :: bool
  img_requests :: "string list"

definition placeholder_url :: string where
  "placeholder_url = ''https://placehold.co/800x600/1a1a1a/666666?text=Asset+Unavailable&font=oswald''"

definition set_img_src :: "string \<Rightarrow> img_el \<Rightarrow> img_el" where
  "set_img_src u e = e\<lparr>img_src := u, img_requests := img_requests e @ [u]\<rparr>"

definition handle_image_error :: "img_el \<Rightarrow> img_el" where
  "handle_image_error e = set_img_src placeholder_url (e\<lparr>img_onerror := False\<rparr>)"

text \<open>
  The browser's side over \<open>n\<close> turns of the event loop: a load of a URL that fails
  (\<open>fails\<close>) fires \<open>error\<close>, which runs the React handler; a load that succeeds ends
  the sequence.
\<close>

fun img_run :: "nat \<Rightarrow> (string \<Rightarrow> bool) \<Rightarrow> img_el \<Rightarrow> img_el" where
  "img_run 0 fails e = e"
| "img_run (Suc n) fails e = (if fails (img_src e) then img_run n fails (handle_image_error e) else e)"

section \<open>The extra projects\<close>

text \<open>Element \<open>i\<close> of \<open>moreProjects\<close> (lines 13--29).\<close>

definition more_project :: "nat \<Rightarrow> project" where
  "more_project i =
     (let category = gen_categories ! (i mod length gen_categories);
          id = i + 21;
          height = [600, 800, 1000, 1200::nat] ! (i mod 4);
          y = string_of_nat (2020 + i mod 5)
      in \<lparr>proj_id = id, title = ''Concept '' @ string_of_nat id, category = category,
          image = ''https://picsum.photos/seed/'' @ string_of_nat (id + 500) @ ''/800/'' @ string_of_nat height,
          description = ''Experimental concept focusing on '' @ js_to_lower category @ '' principles and form.'',
          download_url = None, year = y\<rparr>)"

definition more_projects :: "project list" where
  "more_projects = map more_project [0..<12]"

section \<open>Project details\<close>

text \<open>
  \<open>getProjectDetails\<close> (lines 31--42): three lookups at \<open>title.length % 5\<close>, each of
  which would be \<open>undefined\<close> out of range.
\<close>

record project_details =
  measurement :: "string option"
  concept :: "string option"
  media :: "string option"

definition detail_measurements :: "string list" where
  "detail_measurements = [''42x59 cm'', ''Custom Fit'', ''300x360 cm'', ''1920x1080'', ''180x90 cm'']"

definition detail_concepts :: "string list" where
  "detail_concepts = [''Minimalist'', ''Deconstruct'', ''Organic'', ''Geometric'', ''Fluidity'']"

definition detail_media :: "string list" where
  "detail_media = [''Graphite / Ink'', ''Tech Silk / Nylon'', ''Vector / Digital'', ''Charcoal / Paper'',
     ''3D Render / CLO'']"

definition get_project_details :: "project \<Rightarrow> project_details" where
  "get_project_details p =
     (let index = length (title p) mod 5
      in \<lparr>measurement = js_index detail_measurements index, concept = js_index detail_concepts index,
          media = js_index detail_media index\<rparr>)"

text \<open>
  The dimension labels of the modal (lines 471 and 495):
  \<open>measurement.split('x')[0]\<close> and \<open>measurement.split('x')[1] || 'Auto'\<close>.
\<close>

definition width_label :: "string \<Rightarrow> string" where
  "width_label m = hd (js_split (CHR ''x'') m)"

definition height_label :: "string \<Rightarrow> string" where
  "height_label m =
     (case js_index (js_split (CHR ''x'') m) 1 of Some s \<Rightarrow> if s = [] then ''Auto'' else s | None \<Rightarrow> ''Auto'')"

section \<open>High-resolution URLs\<close>

definition is_digit :: "char \<Rightarrow> bool" where
  "is_digit c \<longleftrightarrow> (let n = (of_char c :: nat) in 48 \<le> n \<and> n \<le> 57)"

text \<open>
  \<open>url.replace(/k=\d+/, r)\<close> for a literal \<open>k\<close>: the leftmost occurrence of \<open>k\<close>
  followed by at least one digit, with all those digits, is replaced by \<open>r\<close>.
\<close>

fun replace_key_digits :: "string \<Rightarrow> string \<Rightarrow> string \<Rightarrow> string" where
  "replace_key_digits k r [] = []"
| "replace_key_digits k r (c # cs) =
     (let rest = drop (length k) (c # cs)
      in if take (length k) (c # cs) = k \<and> rest \<noteq> [] \<and> is_digit (hd rest)
         then r @ dropWhile is_digit rest
         else c # replace_key_digits k r cs)"

text \<open>
  \<open>url.replace(/\/\d+\/\d+$/, '/1920/1280')\<close>: the match is anchored at the end, so it
  is the suffix \<open>/digits/digits\<close> if the URL has one.
\<close>

definition replace_end_dims :: "string \<Rightarrow> string" where
  "replace_end_dims url =
     (let r = rev url; d2 = takeWhile is_digit r; r1 = dropWhile is_digit r
      in if d2 \<noteq> [] \<and> r1 \<noteq> [] \<and> hd r1 = CHR ''/'' then
           (let r2 = tl r1; d1 = takeWhile is_digit r2; r3 = dropWhile is_digit r2
            in if d1 \<noteq> [] \<and> r3 \<noteq> [] \<and> hd r3 = CHR ''/'' then rev (tl r3) @ ''/1920/1280'' else url)
         else url)"

definition get_high_res_url :: "string \<Rightarrow> string" where
  "get_high_res_url url =
     (if js_includes url ''unsplash.com'' then
        replace_key_digits ''q='' ''q=100'' (replace_key_digits ''w='' ''w=2400'' url)
      else if js_includes url ''picsum.photos'' then replace_end_dims url
      else url)"

section \<open>Scroll-driven styles of a process step\<close>

text \<open>
  \<open>ProcessStep\<close> (lines 62--77): with four steps, step \<open>index\<close> activates over the
  progress range \<open>[t, t + 0.1]\<close> with \<open>t = index/4 + 0.1\<close>; its styles are ranges of
  the activation. Each is a \<open>useTransform\<close> of the previous value, so after a change
  of the scroll progress \<open>p\<close> it holds the composition of the ranges at \<open>p\<close>
  (chained transforms compose, as the \<open>Transform\<close> theory shows).
\<close>

definition step_trigger :: "nat \<Rightarrow> real" where
  "step_trigger index = (let stepSector = 1 / 4; start = real index * stepSector in start + stepSector * 0.4)"

definition step_active :: "nat \<Rightarrow> real \<Rightarrow> jsval" where
  "step_active index p = map_range [step_trigger index, step_trigger index + 0.1] [Num 0, Num 1] p"

definition step_style :: "jsval list \<Rightarrow> nat \<Rightarrow> real \<Rightarrow> jsval" where
  "step_style out index p =
     (case step_active index p of Num a \<Rightarrow> map_range [0, 1] out a | _ \<Rightarrow> Undef)"

definition step_opacity :: "nat \<Rightarrow> real \<Rightarrow> jsval" where
  "step_opacity = step_style [Num 0.3, Num 1]"

definition step_grayscale :: "nat \<Rightarrow> real \<Rightarrow> jsval" where
  "step_grayscale = step_style [Num 1, Num 0]"

definition step_scale :: "nat \<Rightarrow> real \<Rightarrow> jsval" where
  "step_scale = step_style [Num 1, Num 1.05]"

definition step_border_width :: "nat \<Rightarrow> real \<Rightarrow> jsval" where
  "step_border_width = step_style [Num 1, Num 2]"

section \<open>Facts\<close>

lemma img_src_handle_image_error [simp]: "img_src (handle_image_error e) = placeholder_url"
  by (simp add: handle_image_error_def set_img_src_def)

lemma img_requests_handle_image_error [simp]:
  "img_requests (handle_image_error e) = img_requests e @ [placeholder_url]"
  by (simp add: handle_image_error_def set_img_src_def)

lemma img_run_placeholder_loads:
  "\<not> fails placeholder_url \<Longrightarrow> fails (img_src e) \<Longrightarrow> img_run (Suc n) fails e = handle_image_error e"
  by (cases n) simp_all

lemma ids_more_projects: "map proj_id more_projects = [21..<33]"
proof -
  have "map (\<lambda>i. i + 21) [0..<12] = [21..<33]" by (simp add: map_add_upt)
  then show ?thesis by (simp add: more_projects_def more_project_def Let_def comp_def)
qed

lemma step_active_above:
  assumes "step_trigger index + 0.1 < p"
  shows "step_active index p = Num ((p - step_trigger index) / 0.1)"
  by (simp add: step_active_def range_progress_def)

section \<open>Properties\<close>

text \<open>
  C19. The image fallback does not stop a failing load: \<open>e.currentTarget.onerror =
  null\<close> clears the DOM property, but React's \<open>onError\<close> stays attached, so when the
  placeholder cannot be loaded either (offline, or the placeholder host down) every
  turn of the event loop runs the handler again and requests the placeholder again,
  without end.
\<close>

theorem image_error_loop:
  assumes "fails placeholder_url" and "fails (img_src e)"
  shows "img_requests (img_run n fails e) = img_requests e @ replicate n placeholder_url"
  using assms(2)
proof (induction n arbitrary: e)
  case 0
  then show ?case by simp
next
  case (Suc n)
  have "img_requests (img_run n fails (handle_image_error e)) =
      img_requests (handle_image_error e) @ replicate n placeholder_url"
    by (rule Suc.IH) (simp add: assms(1))
  with Suc.prems show ?case by (simp add: replicate_app_Cons_same)
qed

theorem image_error_loop_witness:
  "img_requests (img_run 3 (\<lambda>u. True) \<lparr>img_src = ''x.jpg'', img_onerror = True, img_requests = [''x.jpg'']\<rparr>) =
   [''x.jpg'', placeholder_url, placeholder_url, placeholder_url]"
  using image_error_loop [of "\<lambda>u. True" "\<lparr>img_src = ''x.jpg'', img_onerror = True, img_requests = [''x.jpg'']\<rparr>" 3]
  by (simp add: numeral_3_eq_3)

text \<open>
  C20. The process-step styles are not bounded: the activation range is not clamped,
  so once the scroll progress passes a step's range its scale keeps growing beyond
  the intended 1.05 (1.45 for the first step at the bottom, with a 10px border).
\<close>

theorem step_scale_unbounded:
  assumes "step_trigger index + 0.1 < p"
  shows "step_scale index p = Num (1 + 0.05 * ((p - step_trigger index) / 0.1)) \<and>
         (\<exists>x. step_scale index p = Num x \<and> 1.05 < x)"
proof -
  have a: "step_active index p = Num ((p - step_trigger index) / 0.1)"
    by (rule step_active_above [OF assms])
  have "1 < (p - step_trigger index) / 0.1" using assms by (simp add: field_simps)
  then have "1.05 < 1 + 0.05 * ((p - step_trigger index) / 0.1)" by simp
  with a show ?thesis by (simp add: step_scale_def step_style_def range_progress_def)
qed

theorem step_scale_unbounded_witness:
  "step_scale 0 1 = Num (29 / 20) \<and> step_border_width 0 1 = Num 10"
proof -
  have t: "step_trigger 0 + 0.1 < 1" by (simp add: step_trigger_def)
  have "step_scale 0 1 = Num (29 / 20)"
    using step_scale_unbounded [OF t] by (simp add: step_trigger_def)
  moreover have "step_border_width 0 1 = Num 10"
    by (simp add: step_border_width_def step_style_def step_active_above [OF t] step_trigger_def
        range_progress_def)
  ultimately show ?thesis by simp
qed

end
