(* ===== verification/Portfolio.thy ===== *)
theory Portfolio
  imports PortfolioData "HOL-Library.Sublist"
begin

text \<open>
  The \<open>Portfolio\<close> component of \<open>src/components/Portfolio.tsx\<close> (lines 252--605) as a
  state machine. Its state is the six \<open>useState\<close> hooks, the \<open>fullScreenImg\<close> state of
  the nested \<open>DeconstructionView\<close> (lines 129--250), the pending \<open>setTimeout\<close> of
  "Load More" and the \<open>overflow\<close> style its effect writes on \<open>document.body\<close>. Each
  user action is one of the code's handlers; after it, React re-renders and runs the
  effects: the body style is written again, and a \<open>DeconstructionView\<close> that is no
  longer rendered loses its state. Which actions a user can perform depends on what is
  rendered, on top and enabled (\<open>pointer_enabled\<close>); a keyboard user can also
  activate any rendered button that can take focus, including one covered by an
  overlay (\<open>keyboard_enabled\<close>).
\<close>

section \<open>State\<close>

record pf_state =
  selected :: "project option"
  deconstructing :: bool
  active_filter :: string
  show_all :: bool
  loading :: bool
  view_high_res :: "string option"
  step_image :: "string option"
  timer_pending :: bool
  body_overflow :: string

definition pf_init :: pf_state where
  "pf_init = \<lparr>selected = None, deconstructing = False, active_filter = ''All'', show_all = False,
     loading = False, view_high_res = None, step_image = None, timer_pending = False,
     body_overflow = ''''\<rparr>"

section \<open>Derived lists\<close>

text \<open>The two \<open>useMemo\<close> lists (lines 278--286).\<close>

definition all_projects :: "bool \<Rightarrow> project list" where
  "all_projects showAll = (if showAll then portfolio_projects @ more_projects else portfolio_projects)"

definition filtered_projects :: "string \<Rightarrow> bool \<Rightarrow> project list" where
  "filtered_projects f showAll =
     (if f = ''All'' then all_projects showAll else filter (\<lambda>p. category p = f) (all_projects showAll))"

definition filter_names :: "string list" where
  "filter_names = [''All'', ''Garment'', ''Textile'', ''Sketches'', ''Illustration'']"

section \<open>Handlers\<close>

definition handle_load_more :: "pf_state \<Rightarrow> pf_state" where
  "handle_load_more s = s\<lparr>loading := True, timer_pending := True\<rparr>"

text \<open>The callback of the \<open>setTimeout\<close> in \<open>handleLoadMore\<close>, 400 ms later.\<close>

definition load_more_timer :: "pf_state \<Rightarrow> pf_state" where
  "load_more_timer s = s\<lparr>show_all := True, loading := False, timer_pending := False\<rparr>"

definition handle_project_key :: "project \<Rightarrow> string \<Rightarrow> pf_state \<Rightarrow> pf_state" where
  "handle_project_key p key s = (if key = ''Enter'' \<or> key = '' '' then s\<lparr>selected := Some p\<rparr> else s)"

definition handle_backdrop_click :: "pf_state \<Rightarrow> pf_state" where
  "handle_backdrop_click s = s\<lparr>selected := None, deconstructing := False\<rparr>"

definition handle_close_click :: "pf_state \<Rightarrow> pf_state" where
  "handle_close_click s = s\<lparr>selected := None\<rparr>"

definition handle_image_click :: "pf_state \<Rightarrow> pf_state" where
  "handle_image_click s =
     (case selected s of Some p \<Rightarrow> s\<lparr>view_high_res := Some (get_high_res_url (image p))\<rparr> | None \<Rightarrow> s)"

text \<open>
  The \<open>keydown\<close> listener (lines 266--276): Escape closes the topmost layer, the
  high-resolution view first, then the process view, then the project.
\<close>

definition handle_esc :: "string \<Rightarrow> pf_state \<Rightarrow> pf_state" where
  "handle_esc key s =
     (if key = ''Escape'' then
        (if view_high_res s \<noteq> None then s\<lparr>view_high_res := None\<rparr>
         else if deconstructing s then s\<lparr>deconstructing := False\<rparr>
         else if selected s \<noteq> None then s\<lparr>selected := None\<rparr>
         else s)
      else s)"

text \<open>
  The effects after a render: the body style (lines 260--263), and the state of a
  \<open>DeconstructionView\<close> that is not rendered any more is dropped.
\<close>

definition pf_effects :: "pf_state \<Rightarrow> pf_state" where
  "pf_effects s =
     s\<lparr>body_overflow := (if selected s \<noteq> None \<or> view_high_res s \<noteq> None then ''hidden'' else ''''),
       step_image := (if selected s \<noteq> None \<and> deconstructing s then step_image s else None)\<rparr>"

section \<open>Actions\<close>

datatype pf_event =
    FilterClick string
  | ProjectClick project
  | ProjectKey project string
  | LoadMoreClick
  | LoadMoreTimer
  | BackdropClick
  | CloseClick
  | ViewProcessClick
  | ProcessCloseClick
  | ImageClick
  | HighResClose
  | StepImageClick nat
  | StepImageClose
  | KeyDown string

text \<open>One action: the handler the code attaches to it, then the effects.\<close>

fun pf_handler :: "pf_event \<Rightarrow> pf_state \<Rightarrow> pf_state" where
  "pf_handler (FilterClick f) s = s\<lparr>active_filter := f\<rparr>"
| "pf_handler (ProjectClick p) s = s\<lparr>selected := Some p\<rparr>"
| "pf_handler (ProjectKey p k) s = handle_project_key p k s"
| "pf_handler LoadMoreClick s = handle_load_more s"
| "pf_handler LoadMoreTimer s = load_more_timer s"
| "pf_handler BackdropClick s = handle_backdrop_click s"
| "pf_handler CloseClick s = handle_close_click s"
| "pf_handler ViewProcessClick s = s\<lparr>deconstructing := True\<rparr>"
| "pf_handler ProcessCloseClick s = s\<lparr>deconstructing := False\<rparr>"
| "pf_handler ImageClick s = handle_image_click s"
| "pf_handler HighResClose s = s\<lparr>view_high_res := None\<rparr>"
| "pf_handler (StepImageClick i) s =
     s\<lparr>step_image := Some (''https://picsum.photos/seed/step-'' @ string_of_nat i @ ''-'' @
        (case selected s of Some p \<Rightarrow> string_of_nat (proj_id p) | None \<Rightarrow> '''') @ ''/1600/900'')\<rparr>"
| "pf_handler StepImageClose s = s\<lparr>step_image := None\<rparr>"
| "pf_handler (KeyDown k) s = handle_esc k s"

definition pf_step :: "pf_event \<Rightarrow> pf_state \<Rightarrow> pf_state" where
  "pf_step ev s = pf_effects (pf_handler ev s)"

section \<open>What the user can reach\<close>

text \<open>
  The layers, bottom to top: the gallery with the filter bar and "Load More"; the
  project modal (\<open>z-[100]\<close>, a fixed overlay over the whole page); inside it the process
  view (\<open>z-[110]\<close>, \<open>absolute inset-0\<close> inside the modal's panel, covering the
  panel and its close button) and its full-screen image (\<open>fixed inset-0 z-[150]\<close>);
  the high-resolution view (\<open>fixed inset-0 z-[200]\<close>, above the modal). The panel
  covers the whole backdrop only on small screens: from the \<open>md\<close> breakpoint on
  (\<open>md:p-8\<close>, line 406; \<open>md:h-[90vh]\<close>, line 418) a margin of the backdrop stays
  exposed around the panel, also while the process view is open, so the backdrop can
  be clicked whenever no full-screen image covers it. A pointer reaches only what is on
  top; the timer and the keyboard listener are always live.
\<close>

fun pointer_enabled :: "pf_state \<Rightarrow> pf_event \<Rightarrow> bool" where
  "pointer_enabled s (FilterClick f) \<longleftrightarrow> selected s = None \<and> view_high_res s = None \<and> f \<in> set filter_names"
| "pointer_enabled s (ProjectClick p) \<longleftrightarrow> selected s = None \<and> view_high_res s = None \<and>
     p \<in> set (filtered_projects (active_filter s) (show_all s))"
| "pointer_enabled s (ProjectKey p k) \<longleftrightarrow> False"
| "pointer_enabled s LoadMoreClick \<longleftrightarrow> selected s = None \<and> view_high_res s = None \<and>
     \<not> show_all s \<and> \<not> loading s"
| "pointer_enabled s LoadMoreTimer \<longleftrightarrow> timer_pending s"
| "pointer_enabled s BackdropClick \<longleftrightarrow> selected s \<noteq> None \<and> view_high_res s = None \<and>
     (deconstructing s \<longrightarrow> step_image s = None)"
| "pointer_enabled s CloseClick \<longleftrightarrow> selected s \<noteq> None \<and> \<not> deconstructing s \<and> view_high_res s = None"
| "pointer_enabled s ViewProcessClick \<longleftrightarrow> selected s \<noteq> None \<and> \<not> deconstructing s \<and> view_high_res s = None"
| "pointer_enabled s ProcessCloseClick \<longleftrightarrow> selected s \<noteq> None \<and> deconstructing s \<and>
     step_image s = None \<and> view_high_res s = None"
| "pointer_enabled s ImageClick \<longleftrightarrow> selected s \<noteq> None \<and> \<not> deconstructing s \<and> view_high_res s = None"
| "pointer_enabled s HighResClose \<longleftrightarrow> view_high_res s \<noteq> None"
| "pointer_enabled s (StepImageClick i) \<longleftrightarrow> selected s \<noteq> None \<and> deconstructing s \<and>
     step_image s = None \<and> view_high_res s = None \<and> i < 4"
| "pointer_enabled s StepImageClose \<longleftrightarrow> step_image s \<noteq> None \<and> view_high_res s = None"
| "pointer_enabled s (KeyDown k) \<longleftrightarrow> True"

text \<open>
  With the keyboard, every rendered focusable control can be activated: the gallery
  items stay focusable under the modal, and the modal's close button stays focusable
  under the process view.
\<close>

fun keyboard_enabled :: "pf_state \<Rightarrow> pf_event \<Rightarrow> bool" where
  "keyboard_enabled s (ProjectKey p k) \<longleftrightarrow> p \<in> set (filtered_projects (active_filter s) (show_all s))"
| "keyboard_enabled s CloseClick \<longleftrightarrow> selected s \<noteq> None"
| "keyboard_enabled s ev \<longleftrightarrow> pointer_enabled s ev"

inductive pf_reachable :: "(pf_state \<Rightarrow> pf_event \<Rightarrow> bool) \<Rightarrow> pf_state \<Rightarrow> bool"
  for enabled :: "pf_state \<Rightarrow> pf_event \<Rightarrow> bool" where
  init: "pf_reachable enabled pf_init"
| step: "pf_reachable enabled s \<Longrightarrow> enabled s ev \<Longrightarrow> pf_reachable enabled (pf_step ev s)"

fun pf_run :: "pf_event list \<Rightarrow> pf_state \<Rightarrow> pf_state" where
  "pf_run [] s = s"
| "pf_run (ev # evs) s = pf_run evs (pf_step ev s)"

text \<open>
  The layers open on the page, topmost first: the high-resolution view, the process
  view's full-screen image, the process view, the project modal. The process view and
  its image are rendered only inside an open modal.
\<close>

datatype pf_layer = HighRes | StepImage | ProcessView | ProjectModal

definition open_layers :: "pf_state \<Rightarrow> pf_layer list" where
  "open_layers s =
     (if view_high_res s \<noteq> None then [HighRes] else []) @
     (if selected s \<noteq> None \<and> deconstructing s \<and> step_image s \<noteq> None then [StepImage] else []) @
     (if selected s \<noteq> None \<and> deconstructing s then [ProcessView] else []) @
     (if selected s \<noteq> None then [ProjectModal] else [])"

section \<open>Invariant of the pointer-reachable states\<close>

text \<open>
  No process view without a project (and no state of one), and "loading" exactly
  while the timer is pending and only before the archive is complete.
\<close>

definition pf_inv :: "pf_state \<Rightarrow> bool" where
  "pf_inv s \<longleftrightarrow>
     (selected s = None \<longrightarrow> \<not> deconstructing s \<and> step_image s = None) \<and>
     (loading s \<longleftrightarrow> timer_pending s) \<and> (loading s \<longrightarrow> \<not> show_all s)"

lemmas pf_handler_defs = handle_load_more_def load_more_timer_def handle_project_key_def
  handle_backdrop_click_def handle_close_click_def handle_image_click_def handle_esc_def

lemma pf_inv_init: "pf_inv pf_init"
  by (simp add: pf_inv_def pf_init_def)

lemma pf_inv_step: "pf_inv s \<Longrightarrow> pointer_enabled s ev \<Longrightarrow> pf_inv (pf_step ev s)"
  by (cases ev) (auto simp: pf_inv_def pf_step_def pf_effects_def pf_handler_defs split: option.splits)

definition modals_closed :: "pf_state \<Rightarrow> bool" where
  "modals_closed s \<longleftrightarrow> selected s = None \<and> \<not> deconstructing s \<and> view_high_res s = None \<and> body_overflow s = ''''"

definition first_project :: project where
  "first_project = hd portfolio_projects"

definition second_project :: project where
  "second_project = portfolio_projects ! 1"

lemma first_project_in: "first_project \<in> set (filtered_projects ''All'' False)"
  by (simp add: first_project_def filtered_projects_def all_projects_def portfolio_projects_def
      initial_projects_def)

lemma second_project_in: "second_project \<in> set (filtered_projects ''All'' False)"
  by (simp add: second_project_def filtered_projects_def all_projects_def portfolio_projects_def
      initial_projects_def)

lemma distinct_all_projects: "distinct (map proj_id (all_projects b))"
  by (simp add: all_projects_def ids_portfolio_projects ids_more_projects)

section \<open>Properties of the portfolio\<close>

text \<open>
  C15. With a pointer, the process view is only ever open on an open project (the
  backdrop, clickable around the panel also while the process view is open, resets
  both), and the "Load More" button is disabled exactly while its timer is pending and
  never after the archive is complete: every state reachable from the first render by
  pointer actions satisfies the invariant.
\<close>

theorem pf_pointer_reachable_inv: "pf_reachable pointer_enabled s \<Longrightarrow> pf_inv s"
proof (induction rule: pf_reachable.induct)
  case init
  then show ?case by (rule pf_inv_init)
next
  case (step s ev)
  then show ?case by (blast intro: pf_inv_step)
qed

theorem pf_pointer_reachable_inv_witness:
  "pf_reachable pointer_enabled (pf_step ViewProcessClick (pf_step (ProjectClick first_project) pf_init)) \<and>
   pf_inv (pf_step ViewProcessClick (pf_step (ProjectClick first_project) pf_init))"
proof -
  have r1: "pf_reachable pointer_enabled (pf_step (ProjectClick first_project) pf_init)"
    by (rule pf_reachable.step [OF pf_reachable.init]) (simp add: pf_init_def first_project_in)
  have r2: "pf_reachable pointer_enabled (pf_step ViewProcessClick (pf_step (ProjectClick first_project) pf_init))"
    by (rule pf_reachable.step [OF r1]) (simp add: pf_step_def pf_effects_def pf_init_def)
  with pf_pointer_reachable_inv [OF r2] show ?thesis by simp
qed

text \<open>
  C16. With the keyboard the invariant fails: the modal's close button stays
  focusable under the process view, and activating it (Tab, Enter) closes the project
  but leaves \<open>isDeconstructing\<close> set, unlike the backdrop (lines 412--415). The next
  project opened, by pointer, shows the process view at once instead of its details.
\<close>

theorem pf_keyboard_close_leaves_process_view:
  "pf_reachable keyboard_enabled (pf_run [ProjectClick first_project, ViewProcessClick, CloseClick] pf_init) \<and>
   selected (pf_run [ProjectClick first_project, ViewProcessClick, CloseClick] pf_init) = None \<and>
   deconstructing (pf_run [ProjectClick first_project, ViewProcessClick, CloseClick] pf_init) \<and>
   deconstructing (pf_run [ProjectClick first_project, ViewProcessClick, CloseClick, ProjectClick second_project] pf_init) \<and>
   selected (pf_run [ProjectClick first_project, ViewProcessClick, CloseClick, ProjectClick second_project] pf_init) =
     Some second_project"
proof -
  let ?s1 = "pf_step (ProjectClick first_project) pf_init"
  let ?s2 = "pf_step ViewProcessClick ?s1"
  have r1: "pf_reachable keyboard_enabled ?s1"
    by (rule pf_reachable.step [OF pf_reachable.init]) (simp add: pf_init_def first_project_in)
  have r2: "pf_reachable keyboard_enabled ?s2"
    by (rule pf_reachable.step [OF r1]) (simp add: pf_step_def pf_effects_def pf_init_def)
  have r3: "pf_reachable keyboard_enabled (pf_step CloseClick ?s2)"
    by (rule pf_reachable.step [OF r2]) (simp add: pf_step_def pf_effects_def pf_init_def)
  then show ?thesis
    by (simp add: pf_step_def pf_effects_def pf_init_def handle_close_click_def)
qed

text \<open>
  C17. Escape closes the topmost layer, one per press: the high-resolution view before
  anything under it, then the process view, then the project. The one exception is the
  process view's full-screen image: the listener does not know that state of
  \<open>DeconstructionView\<close>, so Escape closes the process view under it and the image
  goes with it. From any state three presses close everything and release the page's
  scroll lock.
\<close>

theorem pf_escape_closes_topmost:
  "open_layers (pf_step (KeyDown ''Escape'') s) =
     (case open_layers s of StepImage # ProcessView # rest \<Rightarrow> rest | ls \<Rightarrow> drop 1 ls) \<and>
   modals_closed (pf_run (replicate 3 (KeyDown ''Escape'')) s)"
  by (auto simp: open_layers_def modals_closed_def pf_step_def pf_effects_def handle_esc_def numeral_3_eq_3)

text \<open>
  C18. The gallery shows exactly the projects of the active category (all of them for
  "All"), in the data's order, with distinct identities, so the React keys
  \<open>key={project.id}\<close> are unique; completing the archive only appends projects.
\<close>

theorem filtered_projects_correct:
  "set (filtered_projects f b) = {p \<in> set (all_projects b). f = ''All'' \<or> category p = f} \<and>
   distinct (map proj_id (filtered_projects f b)) \<and>
   prefix (filtered_projects f False) (filtered_projects f True)"
proof -
  have "distinct (map proj_id (filtered_projects f b))"
    using distinct_all_projects [of b]
    by (auto simp: filtered_projects_def distinct_map_filter)
  moreover have "prefix (filtered_projects f False) (filtered_projects f True)"
    by (simp add: filtered_projects_def all_projects_def)
  ultimately show ?thesis by (auto simp: filtered_projects_def)
qed

end
