(* ===== verification/Comments.thy ===== *)
theory Comments
  imports Prelude
begin

text \<open>
  The \<open>Comments\<close> component of \<open>src/components/Comments.tsx\<close>, mounted inside the
  portfolio's project modal with the project's id. Its state is four \<open>useState\<close>
  hooks; it reads and writes \<open>localStorage\<close> under \<open>comments_project_<id>\<close> in two
  effects: the load effect (dependency \<open>projectId\<close>) and the save effect
  (dependencies \<open>comments\<close>, \<open>projectId\<close>), run in that order after a render. A state
  update made by an effect causes one more render, whose effects then run.

  \<open>localStorage\<close> is a map from keys to stored strings. A stored string is either the
  \<open>JSON.stringify\<close> of a comment list, which \<open>JSON.parse\<close> reads back as the same list
  (timestamps come back as ISO strings, which the component only passes to
  \<open>new Date\<close>), or some other string, on which \<open>JSON.parse\<close> throws.
\<close>

section \<open>Types and storage\<close>

text \<open>\<open>ProjectComment\<close> of \<open>src/types.ts\<close> (lines 31--37); the timestamp in milliseconds.\<close>

record comment =
  comment_id :: string
  comment_project :: nat
  author :: string
  ctext :: string
  timestamp :: nat

datatype stored = JsonComments "comment list" | JsonText string

type_synonym storage = "string \<Rightarrow> stored option"

definition cm_key :: "nat \<Rightarrow> string" where
  "cm_key pid = ''comments_project_'' @ string_of_nat pid"

record cm_state =
  comments :: "comment list"
  author_in :: string
  text_in :: string
  focused :: bool
  cm_project :: nat

section \<open>Effects\<close>

definition dummy_comment :: "nat \<Rightarrow> nat \<Rightarrow> comment" where
  "dummy_comment pid now = \<lparr>comment_id = ''init-1'', comment_project = pid, author = ''Studio Lead'',
     ctext = ''Outstanding attention to detail on the hem construction.'', timestamp = now\<rparr>"

text \<open>
  The load effect (lines 17--37): the value passed to \<open>setComments\<close>, if any. An
  empty or missing entry gives the demonstration comment; a string \<open>JSON.parse\<close>
  rejects is logged and nothing is set.
\<close>

definition cm_load :: "nat \<Rightarrow> nat \<Rightarrow> storage \<Rightarrow> comment list option" where
  "cm_load pid now st =
     (case st (cm_key pid) of
        Some (JsonComments cs) \<Rightarrow> Some cs
      | Some (JsonText s) \<Rightarrow> if s = [] then Some [dummy_comment pid now] else None
      | None \<Rightarrow> Some [dummy_comment pid now])"

text \<open>The save effect (lines 40--44).\<close>

definition cm_save :: "comment list \<Rightarrow> nat \<Rightarrow> storage \<Rightarrow> storage" where
  "cm_save cs pid st = (if cs \<noteq> [] then st(cm_key pid \<mapsto> JsonComments cs) else st)"

text \<open>
  After a render in which \<open>projectId\<close> is new: the load effect, the save effect with
  the comments of that render, and, if the load set comments, the render that follows
  and its save effect.
\<close>

definition cm_project_effects :: "nat \<Rightarrow> cm_state \<Rightarrow> storage \<Rightarrow> cm_state \<times> storage" where
  "cm_project_effects now s st =
     (let loaded = cm_load (cm_project s) now st;
          st1 = cm_save (comments s) (cm_project s) st
      in case loaded of
           None \<Rightarrow> (s, st1)
         | Some cs \<Rightarrow> (s\<lparr>comments := cs\<rparr>, cm_save cs (cm_project s) st1))"

definition cm_initial :: "nat \<Rightarrow> cm_state" where
  "cm_initial pid = \<lparr>comments = [], author_in = '''', text_in = '''', focused = False, cm_project = pid\<rparr>"

text \<open>Mounting the component for a project.\<close>

definition cm_mount :: "nat \<Rightarrow> nat \<Rightarrow> storage \<Rightarrow> cm_state \<times> storage" where
  "cm_mount pid now st = cm_project_effects now (cm_initial pid) st"

text \<open>
  A render with another \<open>projectId\<close> while mounted (the modal switches project
  without closing).
\<close>

definition cm_change_project :: "nat \<Rightarrow> nat \<Rightarrow> cm_state \<times> storage \<Rightarrow> cm_state \<times> storage" where
  "cm_change_project pid now ss = cm_project_effects now ((fst ss)\<lparr>cm_project := pid\<rparr>) (snd ss)"

section \<open>Handlers\<close>

text \<open>
  \<open>handleSubmit\<close> (lines 46--62), then the save effect for the new comment list. The
  comment's id is \<open>Date.now().toString()\<close>.
\<close>

definition cm_submit :: "nat \<Rightarrow> cm_state \<times> storage \<Rightarrow> cm_state \<times> storage" where
  "cm_submit now ss =
     (let s = fst ss; st = snd ss
      in if js_trim (text_in s) = [] \<or> js_trim (author_in s) = [] then (s, st)
         else
           (let c = \<lparr>comment_id = string_of_nat now, comment_project = cm_project s,
                     author = author_in s, ctext = text_in s, timestamp = now\<rparr>;
                s' = s\<lparr>comments := c # comments s, text_in := '''', author_in := '''', focused := False\<rparr>
            in (s', cm_save (comments s') (cm_project s) st)))"

datatype cm_event = TypeAuthor string | TypeText string | FocusForm | Submit nat

fun cm_step :: "cm_event \<Rightarrow> cm_state \<times> storage \<Rightarrow> cm_state \<times> storage" where
  "cm_step (TypeAuthor a) (s, st) = (s\<lparr>author_in := a\<rparr>, st)"
| "cm_step (TypeText t) (s, st) = (s\<lparr>text_in := t\<rparr>, st)"
| "cm_step FocusForm (s, st) = (s\<lparr>focused := True\<rparr>, st)"
| "cm_step (Submit now) ss = cm_submit now ss"

text \<open>The submit button is enabled exactly when the submit handler would act (line 110).\<close>

definition submit_enabled :: "cm_state \<Rightarrow> bool" where
  "submit_enabled s \<longleftrightarrow> \<not> (js_trim (text_in s) = [] \<or> js_trim (author_in s) = [])"

section \<open>Facts\<close>

lemma cm_save_lookup:
  "cm_save cs pid st k = (if cs \<noteq> [] \<and> k = cm_key pid then Some (JsonComments cs) else st k)"
  by (simp add: cm_save_def)

lemma cm_submit_acts:
  assumes "submit_enabled s"
  shows "cm_submit now (s, st) =
           (s\<lparr>comments := \<lparr>comment_id = string_of_nat now, comment_project = cm_project s,
                   author = author_in s, ctext = text_in s, timestamp = now\<rparr> # comments s,
               text_in := '''', author_in := '''', focused := False\<rparr>,
            st(cm_key (cm_project s) \<mapsto> JsonComments (\<lparr>comment_id = string_of_nat now,
                   comment_project = cm_project s, author = author_in s, ctext = text_in s,
                   timestamp = now\<rparr> # comments s)))"
  using assms by (simp add: cm_submit_def submit_enabled_def cm_save_def Let_def)

lemma cm_mount_stored:
  "st (cm_key pid) = Some (JsonComments cs) \<Longrightarrow> comments (fst (cm_mount pid now st)) = cs"
  by (simp add: cm_mount_def cm_project_effects_def cm_load_def cm_initial_def Let_def)

definition example_state :: cm_state where
  "example_state = (cm_initial 4)\<lparr>author_in := ''Coach'', text_in := ''Clean lines''\<rparr>"

section \<open>Properties\<close>

text \<open>
  C21. Submitting is guarded and persistent: with a blank (white-space only) note or
  name nothing happens; otherwise the new comment is put first, and when the modal is
  closed and the project opened again, the comments read back from storage are
  exactly the list shown after the submit.
\<close>

theorem comments_submit_roundtrip:
  "(\<not> submit_enabled s \<longrightarrow> cm_submit now (s, st) = (s, st)) \<and>
   (submit_enabled s \<longrightarrow>
      comments (fst (cm_mount (cm_project s) now' (snd (cm_submit now (s, st))))) =
      comments (fst (cm_submit now (s, st))) \<and>
      hd (comments (fst (cm_submit now (s, st)))) =
        \<lparr>comment_id = string_of_nat now, comment_project = cm_project s, author = author_in s,
         ctext = text_in s, timestamp = now\<rparr>)"
proof (intro conjI impI)
  assume "\<not> submit_enabled s"
  then show "cm_submit now (s, st) = (s, st)" by (simp add: cm_submit_def submit_enabled_def)
next
  assume e: "submit_enabled s"
  show "comments (fst (cm_mount (cm_project s) now' (snd (cm_submit now (s, st))))) =
      comments (fst (cm_submit now (s, st)))"
    by (rule cm_mount_stored) (simp add: cm_submit_acts [OF e])
  show "hd (comments (fst (cm_submit now (s, st)))) =
      \<lparr>comment_id = string_of_nat now, comment_project = cm_project s, author = author_in s,
       ctext = text_in s, timestamp = now\<rparr>"
    by (simp add: cm_submit_acts [OF e])
qed

theorem comments_submit_roundtrip_witness:
  "cm_submit 5 ((cm_initial 4)\<lparr>text_in := ''  ''\<rparr>, Map.empty) = ((cm_initial 4)\<lparr>text_in := ''  ''\<rparr>, Map.empty) \<and>
   comments (fst (cm_mount 4 9 (snd (cm_submit 5 (example_state, Map.empty))))) =
     comments (fst (cm_submit 5 (example_state, Map.empty)))"
proof -
  have n: "\<not> submit_enabled ((cm_initial 4)\<lparr>text_in := ''  ''\<rparr>)"
    by (simp add: submit_enabled_def cm_initial_def js_trim_def js_space_def)
  have e: "submit_enabled example_state"
    by (simp add: submit_enabled_def example_state_def cm_initial_def js_trim_def js_space_def)
  have p: "cm_project example_state = 4" by (simp add: example_state_def cm_initial_def)
  from comments_submit_roundtrip [of "(cm_initial 4)\<lparr>text_in := ''  ''\<rparr>" 5 Map.empty 9] n
    comments_submit_roundtrip [of example_state 5 Map.empty 9] e p
  show ?thesis by (simp add: cm_initial_def)
qed

text \<open>
  Opening a project that has no stored comments shows the demonstration comment
  and writes it to storage at once: the save effect persists it although the user has
  not added anything, so it stays in storage from then on.
\<close>

theorem comments_default_persisted:
  assumes "st (cm_key pid) = None"
  shows "comments (fst (cm_mount pid now st)) = [dummy_comment pid now] \<and>
         snd (cm_mount pid now st) (cm_key pid) = Some (JsonComments [dummy_comment pid now])"
  using assms by (simp add: cm_mount_def cm_project_effects_def cm_load_def cm_initial_def cm_save_def Let_def)

theorem comments_default_persisted_witness:
  "snd (cm_mount 4 9 Map.empty) (cm_key 4) = Some (JsonComments [dummy_comment 4 9])"
  using comments_default_persisted [of Map.empty 4 9] by simp

text \<open>
  Switching the mounted component to another project whose stored entry is not valid
  JSON keeps the previous project's comments and saves them under the new project's
  key: the failed parse sets nothing, and the save effect of the same render writes
  the old list with the new \<open>projectId\<close>.
\<close>

lemma comments_switch_leaks:
  assumes "st (cm_key q) = Some (JsonText t)" and "t \<noteq> []" and "comments s \<noteq> []"
  shows "comments (fst (cm_change_project q now (s, st))) = comments s \<and>
         snd (cm_change_project q now (s, st)) (cm_key q) = Some (JsonComments (comments s))"
  using assms by (simp add: cm_change_project_def cm_project_effects_def cm_load_def cm_save_def Let_def)

end
