(* ===== verification/Chat.thy ===== *)
theory Chat
  imports Prelude
begin

text \<open>
  The studio-assistant chat: \<open>sendMessageToGemini\<close> of
  \<open>src/services/geminiService.ts\<close> and the \<open>CoachChat\<close> component of
  \<open>src/components/CoachChat.tsx\<close>. The Gemini client and the network are outside the
  repository; their behaviour for one call is an \<open>api_outcome\<close>: the client cannot
  be set up (line 19 runs outside the \<open>try\<close>: \<open>process.env.API_KEY\<close> is not defined by
  the Vite configuration, and the client throws without a key), the call throws, or
  the call returns a response whose \<open>text\<close> may be missing or empty. \<open>handleSend\<close> is
  asynchronous: its part up to the \<open>await\<close> runs on the key press or click
  (\<open>chat_send\<close>), the rest when the promise settles (\<open>chat_settle\<close>); a rejected
  promise ends the handler at the \<open>await\<close>.
\<close>

section \<open>Messages and the service\<close>

datatype chat_sender = USER | BOT

record chat_message =
  msg_id :: string
  sender :: chat_sender
  mtext :: string
  mtime :: nat

text \<open>A turn of the history passed to the client: \<open>{role, parts: [{text}]}\<close>.\<close>

record chat_turn =
  role :: string
  part_text :: string

datatype api_outcome = SetupThrows | CallThrows | Responds "string option"

definition fallback_empty :: string where
  "fallback_empty = ''I lost my footing. Can you repeat that?''"

definition fallback_error :: string where
  "fallback_error = ''I had a bit of a tumble. Let'' @ [CHR 0x27] @ ''s try that routine again in a moment.''"

text \<open>
  \<open>sendMessageToGemini(history, newMessage)\<close> (lines 17--36): \<open>Inl ()\<close> is a rejected
  promise, \<open>Inr t\<close> a promise resolved with \<open>t\<close>. \<open>result.text || fallback\<close> replaces
  a missing or empty text.
\<close>

definition send_message_to_gemini :: "chat_turn list \<Rightarrow> string \<Rightarrow> api_outcome \<Rightarrow> unit + string" where
  "send_message_to_gemini history newMessage out =
     (case out of
        SetupThrows \<Rightarrow> Inl ()
      | CallThrows \<Rightarrow> Inr fallback_error
      | Responds r \<Rightarrow> Inr (case r of Some t \<Rightarrow> if t = [] then fallback_empty else t | None \<Rightarrow> fallback_empty))"

text \<open>
  The request \<open>sendMessageToGemini\<close> hands to the client (lines 21--30): the model, the
  system instruction of lines 3--16 (a template literal that starts and ends with a
  line break) and the history and message it was called with.
\<close>

definition gemini_system_instruction :: string where
  "gemini_system_instruction = CHR 0x0A # concat (map (\<lambda>l. l @ [CHR 0x0A])
     [''You are the '' @ [CHR 0x22] @ ''Simpson Studio Assistant'' @ [CHR 0x22] @ '' for Amy Simpson, a Gymnastic Designer. '',
      ''Amy merges the discipline, strength, and balance of elite gymnastics with high-end fashion and visual design.'',
      ''Your persona: Disciplined, energetic, precise, and artistic.'',
      ''Metaphors to use: '',
      ''- '' @ [CHR 0x22] @ ''Landing the perfect concept'' @ [CHR 0x22],
      ''- '' @ [CHR 0x22] @ ''Stitching together a balanced routine'' @ [CHR 0x22],
      ''- '' @ [CHR 0x22] @ ''Flexing creative muscles'' @ [CHR 0x22],
      ''- '' @ [CHR 0x22] @ ''Sticking the landing on a project'' @ [CHR 0x22],
      ''- '' @ [CHR 0x22] @ ''The apparatus of design'' @ [CHR 0x22],
      ''Keep answers concise (under 50 words). '',
      ''If asked about services, mention: Visual Identity (Strength), User Experience (Balance), and Creative Motion (Discipline).''])"

record gemini_request =
  req_model :: string
  req_system :: string
  req_history :: "chat_turn list"
  req_message :: string

definition gemini_request :: "chat_turn list \<Rightarrow> string \<Rightarrow> gemini_request" where
  "gemini_request history newMessage =
     \<lparr>req_model = ''gemini-3-flash-preview'', req_system = gemini_system_instruction,
      req_history = history, req_message = newMessage\<rparr>"

section \<open>The component\<close>

record chat_state =
  is_open :: bool
  messages :: "chat_message list"
  input :: string
  chat_loading :: bool
  in_flight :: "(chat_turn list \<times> string) option"

definition welcome_message :: chat_message where
  "welcome_message = \<lparr>msg_id = ''welcome'', sender = BOT,
     mtext = ''Hello. I'' @ [CHR 0x27] @ ''m your studio assistant. Need help with fabric choices, color palettes, or design concepts?'',
     mtime = 0\<rparr>"

definition chat_init :: chat_state where
  "chat_init = \<lparr>is_open = False, messages = [welcome_message], input = '''', chat_loading = False,
     in_flight = None\<rparr>"

definition to_turn :: "chat_message \<Rightarrow> chat_turn" where
  "to_turn m = \<lparr>role = (if sender m = USER then ''user'' else ''model''), part_text = mtext m\<rparr>"

text \<open>\<open>handleSend\<close> up to the \<open>await\<close> (lines 28--47).\<close>

definition chat_send :: "nat \<Rightarrow> chat_state \<Rightarrow> chat_state" where
  "chat_send now s =
     (if js_trim (input s) = [] \<or> chat_loading s then s
      else
        (let userMsg = \<lparr>msg_id = string_of_nat now, sender = USER, mtext = input s, mtime = now\<rparr>;
             history = map to_turn (messages s)
         in s\<lparr>messages := messages s @ [userMsg], input := '''', chat_loading := True,
              in_flight := Some (history, mtext userMsg)\<rparr>))"

text \<open>The rest of \<open>handleSend\<close> (lines 47--57), when the service's promise settles.\<close>

definition chat_settle :: "nat \<Rightarrow> api_outcome \<Rightarrow> chat_state \<Rightarrow> chat_state" where
  "chat_settle now out s =
     (case in_flight s of
        None \<Rightarrow> s
      | Some (history, msg) \<Rightarrow>
          (case send_message_to_gemini history msg out of
             Inl _ \<Rightarrow> s\<lparr>in_flight := None\<rparr>
           | Inr responseText \<Rightarrow>
               s\<lparr>messages := messages s @ [\<lparr>msg_id = string_of_nat (now + 1), sender = BOT,
                                            mtext = responseText, mtime = now\<rparr>],
                 chat_loading := False, in_flight := None\<rparr>))"

datatype chat_event = ToggleChat | CloseChat | TypeInput string | PressKey string nat | SendClick nat
  | Settle nat api_outcome

fun chat_step :: "chat_event \<Rightarrow> chat_state \<Rightarrow> chat_state" where
  "chat_step ToggleChat s = s\<lparr>is_open := \<not> is_open s\<rparr>"
| "chat_step CloseChat s = s\<lparr>is_open := False\<rparr>"
| "chat_step (TypeInput t) s = s\<lparr>input := t\<rparr>"
| "chat_step (PressKey k now) s = (if k = ''Enter'' then chat_send now s else s)"
| "chat_step (SendClick now) s = chat_send now s"
| "chat_step (Settle now out) s = chat_settle now out s"

text \<open>
  What can happen: the input, its key presses and the close button exist while the
  panel is open, the send button is disabled while loading, and a promise settles only
  while one is pending.
\<close>

fun chat_enabled :: "chat_state \<Rightarrow> chat_event \<Rightarrow> bool" where
  "chat_enabled s ToggleChat \<longleftrightarrow> True"
| "chat_enabled s CloseChat \<longleftrightarrow> is_open s"
| "chat_enabled s (TypeInput t) \<longleftrightarrow> is_open s"
| "chat_enabled s (PressKey k now) \<longleftrightarrow> is_open s"
| "chat_enabled s (SendClick now) \<longleftrightarrow> is_open s \<and> \<not> chat_loading s"
| "chat_enabled s (Settle now out) \<longleftrightarrow> in_flight s \<noteq> None"

fun chat_run :: "chat_event list \<Rightarrow> chat_state \<Rightarrow> chat_state" where
  "chat_run [] s = s"
| "chat_run (e # es) s = chat_run es (chat_step e s)"

section \<open>Facts\<close>

lemma chat_send_acts:
  assumes "js_trim (input s) \<noteq> []" and "\<not> chat_loading s"
  shows "chat_send now s =
           s\<lparr>messages := messages s @ [\<lparr>msg_id = string_of_nat now, sender = USER, mtext = input s, mtime = now\<rparr>],
             input := '''', chat_loading := True, in_flight := Some (map to_turn (messages s), input s)\<rparr>"
  using assms by (simp add: chat_send_def)

text \<open>
  The request of the call \<open>chat_send\<close> starts: the studio's instruction, the transcript
  before the new message as history, and the typed text as the message.
\<close>

lemma chat_send_request:
  assumes "js_trim (input s) \<noteq> []" and "\<not> chat_loading s"
  shows "map_option (\<lambda>(h, m). gemini_request h m) (in_flight (chat_send now s)) =
           Some \<lparr>req_model = ''gemini-3-flash-preview'', req_system = gemini_system_instruction,
                 req_history = map to_turn (messages s), req_message = input s\<rparr>"
  using chat_send_acts [OF assms] by (simp add: gemini_request_def)

lemma chat_stuck_step:
  "chat_loading s \<Longrightarrow> in_flight s = None \<Longrightarrow>
   chat_loading (chat_step e s) \<and> in_flight (chat_step e s) = None \<and> messages (chat_step e s) = messages s"
  by (cases e) (simp_all add: chat_send_def chat_settle_def)

lemma chat_stuck_run:
  "chat_loading s \<Longrightarrow> in_flight s = None \<Longrightarrow>
   chat_loading (chat_run es s) \<and> messages (chat_run es s) = messages s"
proof (induction es arbitrary: s)
  case Nil
  then show ?case by simp
next
  case (Cons e es)
  from chat_stuck_step [OF Cons.prems] Cons.IH [of "chat_step e s"] show ?case by simp
qed

definition example_chat :: chat_state where
  "example_chat = chat_init\<lparr>is_open := True, input := ''Which fabric?''\<rparr>"

lemma example_chat_ready: "js_trim (input example_chat) \<noteq> [] \<and> \<not> chat_loading example_chat"
  by (simp add: example_chat_def chat_init_def js_trim_def js_space_def)

section \<open>Properties\<close>

text \<open>
  C24. One exchange, when the service settles: the request carries the transcript
  shown before the message (the welcome message as a \<open>model\<close> turn) and the typed text;
  then the transcript grows by exactly the user's message and one non-empty reply (the
  response, or a fixed fallback when the call fails or returns no text), and the chat
  accepts input again.
\<close>

theorem chat_exchange:
  assumes "js_trim (input s) \<noteq> []" and "\<not> chat_loading s" and "out \<noteq> SetupThrows"
  shows "in_flight (chat_send now s) = Some (map to_turn (messages s), input s) \<and>
         (\<exists>t. send_message_to_gemini (map to_turn (messages s)) (input s) out = Inr t \<and> t \<noteq> [] \<and>
            messages (chat_settle now' out (chat_send now s)) =
              messages s @ [\<lparr>msg_id = string_of_nat now, sender = USER, mtext = input s, mtime = now\<rparr>,
                            \<lparr>msg_id = string_of_nat (now' + 1), sender = BOT, mtext = t, mtime = now'\<rparr>] \<and>
            \<not> chat_loading (chat_settle now' out (chat_send now s)))"
proof -
  obtain t where t: "send_message_to_gemini (map to_turn (messages s)) (input s) out = Inr t" and "t \<noteq> []"
    using assms(3)
    by (cases out) (auto simp: send_message_to_gemini_def fallback_error_def fallback_empty_def
        split: option.splits)
  then show ?thesis
    by (simp add: chat_send_acts [OF assms(1,2)] chat_settle_def)
qed

theorem chat_exchange_witness:
  "messages (chat_settle 8 (Responds (Some [])) (chat_send 5 example_chat)) =
     [welcome_message,
      \<lparr>msg_id = string_of_nat 5, sender = USER, mtext = ''Which fabric?'', mtime = 5\<rparr>,
      \<lparr>msg_id = string_of_nat 9, sender = BOT, mtext = fallback_empty, mtime = 8\<rparr>]"
proof -
  have "Responds (Some []) \<noteq> SetupThrows" by simp
  from chat_exchange [OF example_chat_ready [THEN conjunct1] example_chat_ready [THEN conjunct2] this, of 5 8]
  show ?thesis by (auto simp: example_chat_def chat_init_def send_message_to_gemini_def)
qed

text \<open>
  C25. When the client cannot be set up (line 19 throws before the \<open>try\<close>), the promise
  rejects, \<open>handleSend\<close> stops at its \<open>await\<close> and \<open>loading\<close> stays set: whatever the
  user does afterwards, the chat shows "Thinking..." for ever and never sends or adds
  a message. The specification requires failures to become a fallback reply with the
  conversation still usable.
\<close>

theorem chat_setup_failure_stuck:
  assumes "js_trim (input s) \<noteq> []" and "\<not> chat_loading s"
  shows "chat_loading (chat_run es (chat_settle now' SetupThrows (chat_send now s))) \<and>
         messages (chat_run es (chat_settle now' SetupThrows (chat_send now s))) =
           messages s @ [\<lparr>msg_id = string_of_nat now, sender = USER, mtext = input s, mtime = now\<rparr>]"
proof -
  let ?s2 = "chat_settle now' SetupThrows (chat_send now s)"
  have "chat_loading ?s2" "in_flight ?s2 = None"
    "messages ?s2 = messages s @ [\<lparr>msg_id = string_of_nat now, sender = USER, mtext = input s, mtime = now\<rparr>]"
    by (simp_all add: chat_send_acts [OF assms] chat_settle_def send_message_to_gemini_def)
  with chat_stuck_run [of ?s2 es] show ?thesis by simp
qed

theorem chat_setup_failure_stuck_witness:
  "chat_loading (chat_run [TypeInput ''Hello?'', PressKey ''Enter'' 9, SendClick 10]
      (chat_settle 6 SetupThrows (chat_send 5 example_chat))) \<and>
   length (messages (chat_run [TypeInput ''Hello?'', PressKey ''Enter'' 9, SendClick 10]
      (chat_settle 6 SetupThrows (chat_send 5 example_chat)))) = 2"
  using chat_setup_failure_stuck [OF example_chat_ready [THEN conjunct1] example_chat_ready [THEN conjunct2],
      of "[TypeInput ''Hello?'', PressKey ''Enter'' 9, SendClick 10]" 6 5]
  by (simp add: example_chat_def chat_init_def)

end
