(* ===== verification/Testimonials.thy ===== *)
theory Testimonials
  imports Prelude
begin

text \<open>
  The testimonials carousel of \<open>src/components/Testimonials.tsx\<close>: the four quotes
  (lines 4--33), the component's two state hooks as \<open>tm_state\<close>, the carousel
  buttons (\<open>prevTestimonial\<close>, \<open>nextTestimonial\<close>, the dots), the cards that open the
  contact modal by click or by Enter/Space, and the values the page derives from the
  state: the track's translation, the active dot and the modal's mail address. The
  index is a JavaScript number (\<open>int\<close>) and \<open>%\<close> is \<open>js_rem\<close>.
\<close>

section \<open>Data\<close>

record testimonial =
  t_id :: nat
  t_text :: string
  t_author :: string
  t_role :: string
  avatar :: string

definition testimonials :: "testimonial list" where
  "testimonials = [
     \<lparr>t_id = 1, t_text = ''Amy brings a rare sensitivity to materials. Her designs aren'' @ [CHR 0x27] @
        ''t just clothes; they are architectural softness.'',
      t_author = ''Elena Rossi'', t_role = ''Creative Director, Aura'', avatar = ''ER''\<rparr>,
     \<lparr>t_id = 2, t_text = ''Working with Amy was a revelation. She understood our brand'' @ [CHR 0x27] @
        ''s core immediately and translated it into a visual language that speaks volumes.'',
      t_author = ''Marcus Chen'', t_role = ''Founder, Zenith'', avatar = ''MC''\<rparr>,
     \<lparr>t_id = 3, t_text = ''The attention to detail is unparalleled. From the initial sketch to the final stitch, every step is deliberate and artistic.'',
      t_author = ''Sarah Jenkins'', t_role = ''Fashion Editor, Vogue'', avatar = ''SJ''\<rparr>,
     \<lparr>t_id = 4, t_text = ''She doesn'' @ [CHR 0x27] @ ''t just design; she solves problems with elegance. A true multidisciplinary talent.'',
      t_author = ''David Thorne'', t_role = ''Product Lead, Stripe'', avatar = ''DT''\<rparr>]"

lemma length_testimonials [simp]: "length testimonials = 4"
  by (simp add: testimonials_def)

section \<open>State and handlers\<close>

record tm_state =
  current_index :: int
  selected_contact :: "testimonial option"

definition tm_init :: tm_state where
  "tm_init = \<lparr>current_index = 0, selected_contact = None\<rparr>"

definition next_testimonial :: "tm_state \<Rightarrow> tm_state" where
  "next_testimonial s =
     s\<lparr>current_index := js_rem (current_index s + 1) (int (length testimonials))\<rparr>"

definition prev_testimonial :: "tm_state \<Rightarrow> tm_state" where
  "prev_testimonial s =
     s\<lparr>current_index := js_rem (current_index s - 1 + int (length testimonials)) (int (length testimonials))\<rparr>"

text \<open>A dot sets the index it was rendered with (line 119).\<close>

definition go_to_testimonial :: "nat \<Rightarrow> tm_state \<Rightarrow> tm_state" where
  "go_to_testimonial idx s = s\<lparr>current_index := int idx\<rparr>"

text \<open>A card's click handler and its key handler (lines 70--76).\<close>

definition select_contact :: "testimonial \<Rightarrow> tm_state \<Rightarrow> tm_state" where
  "select_contact t s = s\<lparr>selected_contact := Some t\<rparr>"

definition card_key :: "testimonial \<Rightarrow> string \<Rightarrow> tm_state \<Rightarrow> tm_state" where
  "card_key t k s = (if k = ''Enter'' \<or> k = '' '' then select_contact t s else s)"

definition close_contact :: "tm_state \<Rightarrow> tm_state" where
  "close_contact s = s\<lparr>selected_contact := None\<rparr>"

section \<open>Derived values\<close>

text \<open>The track's \<open>translateX\<close> in percent (line 65) and the active dot (line 121).\<close>

definition track_offset :: "tm_state \<Rightarrow> int" where
  "track_offset s = - (current_index s * 100)"

definition dot_active :: "tm_state \<Rightarrow> nat \<Rightarrow> bool" where
  "dot_active s idx \<longleftrightarrow> int idx = current_index s"

text \<open>The modal's mail address and button label (lines 158 and 160).\<close>

definition contact_email :: "testimonial \<Rightarrow> string" where
  "contact_email t = ''contact@'' @ js_to_lower (js_replace_char (CHR '' '') [] (t_author t)) @ ''.com''"

definition contact_first_name :: "testimonial \<Rightarrow> string" where
  "contact_first_name t = hd (js_split (CHR '' '') (t_author t))"

section \<open>Events\<close>

text \<open>
  The user's actions: the arrows, a dot, a card (by its position in the list) by click
  or key, and the modal's close button.
\<close>

datatype tm_event = PrevClick | NextClick | DotClick nat | CardClick nat | CardKey nat string
  | CloseContactClick

fun tm_step :: "tm_event \<Rightarrow> tm_state \<Rightarrow> tm_state" where
  "tm_step PrevClick s = prev_testimonial s"
| "tm_step NextClick s = next_testimonial s"
| "tm_step (DotClick idx) s = go_to_testimonial idx s"
| "tm_step (CardClick i) s = select_contact (testimonials ! i) s"
| "tm_step (CardKey i k) s = card_key (testimonials ! i) k s"
| "tm_step CloseContactClick s = close_contact s"

text \<open>The page renders one dot and one card per testimonial, and the close button only in the modal.\<close>

fun tm_enabled :: "tm_state \<Rightarrow> tm_event \<Rightarrow> bool" where
  "tm_enabled s (DotClick idx) \<longleftrightarrow> idx < length testimonials"
| "tm_enabled s (CardClick i) \<longleftrightarrow> i < length testimonials"
| "tm_enabled s (CardKey i k) \<longleftrightarrow> i < length testimonials"
| "tm_enabled s CloseContactClick \<longleftrightarrow> selected_contact s \<noteq> None"
| "tm_enabled s _ \<longleftrightarrow> True"

inductive tm_reachable :: "tm_state \<Rightarrow> bool" where
  init: "tm_reachable tm_init"
| step: "tm_reachable s \<Longrightarrow> tm_enabled s e \<Longrightarrow> tm_reachable (tm_step e s)"

section \<open>Facts\<close>

text \<open>The invariant of the carousel: the index names a card, and the modal shows one of the cards.\<close>

definition tm_inv :: "tm_state \<Rightarrow> bool" where
  "tm_inv s \<longleftrightarrow> 0 \<le> current_index s \<and> current_index s < int (length testimonials) \<and>
     set_option (selected_contact s) \<subseteq> set testimonials"

lemma tm_inv_step: "tm_inv s \<Longrightarrow> tm_enabled s e \<Longrightarrow> tm_inv (tm_step e s)"
  by (cases e)
     (auto simp: tm_inv_def next_testimonial_def prev_testimonial_def go_to_testimonial_def
        select_contact_def card_key_def close_contact_def)

lemma next_testimonial_iter:
  "0 \<le> current_index s \<Longrightarrow> current_index s < 4 \<Longrightarrow>
   (next_testimonial ^^ n) s = s\<lparr>current_index := (current_index s + int n) mod 4\<rparr>"
proof (induction n)
  case 0
  then show ?case by simp
next
  case (Suc n)
  then show ?case
    by (simp add: next_testimonial_def mod_add_right_eq ac_simps)
qed

lemma dot_active_unique:
  "0 \<le> current_index s \<Longrightarrow> current_index s < int (length testimonials) \<Longrightarrow>
   \<exists>!idx. idx < length testimonials \<and> dot_active s idx"
proof (rule ex1I [of _ "nat (current_index s)"])
  assume "0 \<le> current_index s" "current_index s < int (length testimonials)"
  then show "nat (current_index s) < length testimonials \<and> dot_active s (nat (current_index s))"
    by (simp add: dot_active_def)
qed (auto simp: dot_active_def)

section \<open>Properties\<close>

text \<open>
  C26. Whatever the visitor clicks or types, the carousel index stays within the
  four testimonials, so the track is translated by \<open>0\<close> to \<open>-300\<close> percent and shows a
  card, exactly one dot is active, and the contact modal only ever shows one of the
  four testimonials.
\<close>

theorem tm_reachable_inv:
  assumes "tm_reachable s"
  shows "0 \<le> current_index s \<and> current_index s < int (length testimonials) \<and>
         -300 \<le> track_offset s \<and> track_offset s \<le> 0 \<and>
         (\<exists>!idx. idx < length testimonials \<and> dot_active s idx) \<and>
         set_option (selected_contact s) \<subseteq> set testimonials"
proof -
  from assms have i: "tm_inv s"
  proof (induction rule: tm_reachable.induct)
    case init
    then show ?case by (simp add: tm_inv_def tm_init_def)
  next
    case (step s e)
    then show ?case by (blast intro: tm_inv_step)
  qed
  then have "0 \<le> current_index s" "current_index s < int (length testimonials)"
    by (simp_all add: tm_inv_def)
  with i dot_active_unique show ?thesis by (simp add: tm_inv_def track_offset_def)
qed

theorem tm_reachable_inv_witness:
  "current_index (tm_step PrevClick tm_init) = 3 \<and> track_offset (tm_step PrevClick tm_init) = -300"
proof -
  have r: "tm_reachable (tm_step PrevClick tm_init)"
    by (rule tm_reachable.step [OF tm_reachable.init]) simp
  from tm_reachable_inv [OF r] show ?thesis
    by (simp add: prev_testimonial_def tm_init_def track_offset_def)
qed

text \<open>
  The arrows are inverse to each other on every in-range index, and four clicks
  on "next" come back to the same card: \<open>prevTestimonial\<close> adds the length before
  taking the remainder, so JavaScript's sign-preserving \<open>%\<close> never sees a negative
  number.
\<close>

lemma tm_arrows_roundtrip:
  assumes "0 \<le> current_index s" and "current_index s < int (length testimonials)"
  shows "prev_testimonial (next_testimonial s) = s \<and> next_testimonial (prev_testimonial s) = s \<and>
         (next_testimonial ^^ length testimonials) s = s"
proof -
  have lt: "current_index s < 4" using assms(2) by simp
  have c: "current_index s = 0 \<or> current_index s = 1 \<or> current_index s = 2 \<or> current_index s = 3"
    using assms(1) lt by arith
  have n: "prev_testimonial (next_testimonial s) = s"
    using c by (auto simp: next_testimonial_def prev_testimonial_def)
  have p: "next_testimonial (prev_testimonial s) = s"
    using c by (auto simp: next_testimonial_def prev_testimonial_def)
  have "(next_testimonial ^^ 4) s = s"
    using next_testimonial_iter [OF assms(1) lt, of 4] assms(1) lt by simp
  with n p show ?thesis by simp
qed

theorem tm_arrows_roundtrip_witness:
  "prev_testimonial (next_testimonial (tm_init\<lparr>current_index := 3\<rparr>)) = tm_init\<lparr>current_index := 3\<rparr> \<and>
   (next_testimonial ^^ 4) (tm_init\<lparr>current_index := 3\<rparr>) = tm_init\<lparr>current_index := 3\<rparr>"
  using tm_arrows_roundtrip [of "tm_init\<lparr>current_index := 3\<rparr>"] by (simp add: tm_init_def)

text \<open>
  The contact modal's addresses and button labels for the four testimonials. The code
  removes only the first space of a name (\<open>replace(' ', '')\<close>); every author of the
  list has exactly one.
\<close>

lemma testimonial_contacts:
  "map contact_email testimonials =
     [''contact@elenarossi.com'', ''contact@marcuschen.com'', ''contact@sarahjenkins.com'', ''contact@davidthorne.com''] \<and>
   map contact_first_name testimonials = [''Elena'', ''Marcus'', ''Sarah'', ''David'']"
  by code_simp

end
