(* ===== verification/PencilLine.thy ===== *)
theory PencilLine
  imports Transform Scroll
begin

text \<open>
  The decorative scroll indicator of \<open>src/components/ScrollPencilLine.tsx\<close>: the
  measured document height (\<open>docHeight\<close>, re-measured on mount, on every resize of the
  body and of the window), the sine-shaped path that \<open>useMemo\<close> builds from it
  (lines 28--36), and the pencil tip that follows the scroll progress along the same
  curve (lines 39--44). The SVG path string is modelled as the list of its points: the
  first is the \<open>M\<close> command, the others the \<open>L\<close> commands; the empty list is the
  empty string. The loop variable \<open>y\<close> only takes multiples of \<open>STEP\<close> and is a
  natural number.
\<close>

section \<open>The curve\<close>

definition start_x :: real where "start_x = 40"
definition amplitude :: real where "amplitude = 15"
definition frequency :: real where "frequency = 1 / 100"
definition path_step :: nat where "path_step = 40"

text \<open>\<open>START_X + Math.sin(y * FREQUENCY) * AMPLITUDE\<close> (lines 32 and 40).\<close>

definition pencil_x :: "real \<Rightarrow> real" where
  "pencil_x y = start_x + sin (y * frequency) * amplitude"

text \<open>The \<open>for\<close> loop of lines 31--34: one \<open>L\<close> point per step while \<open>y \<le> docHeight + STEP\<close>.\<close>

function pencil_loop :: "real \<Rightarrow> nat \<Rightarrow> (real \<times> real) list" where
  "pencil_loop h y =
     (if real y \<le> h + real path_step then (pencil_x (real y), real y) # pencil_loop h (y + path_step)
      else [])"
  by pat_completeness auto
termination
  by (relation "measure (\<lambda>(h, y). nat (\<lceil>h + real path_step\<rceil> + 1 - int y))")
     (auto simp: path_step_def, linarith)

declare pencil_loop.simps [simp del]

text \<open>\<open>pathD\<close> (lines 28--36).\<close>

definition path_d :: "real \<Rightarrow> (real \<times> real) list" where
  "path_d h = (if h = 0 then [] else (start_x, 0) # pencil_loop h path_step)"

text \<open>The tip's slope and rotation in degrees (lines 41--44).\<close>

definition pencil_dxdy :: "real \<Rightarrow> real" where
  "pencil_dxdy y = amplitude * frequency * cos (y * frequency)"

definition pencil_rotation :: "real \<Rightarrow> real" where
  "pencil_rotation y = arctan (pencil_dxdy y) * (180 / pi)"

text \<open>
  The tip's vertical position, \<open>useTransform(smoothProgress, [0, 1], [0, docHeight])\<close>
  (line 39); \<open>smoothProgress\<close> equals the scroll progress after every update
  (proved in theory \<open>Spring\<close>).
\<close>

definition tip_y :: "real \<Rightarrow> real \<Rightarrow> jsval" where
  "tip_y h p = map_range [0, 1] [Num 0, Num h] p"

section \<open>The measured height\<close>

text \<open>
  \<open>measure\<close> (lines 15--17) is called on mount and registered with a
  \<open>ResizeObserver\<close> on the body and for the window's \<open>resize\<close> event (lines 18--21); a
  scroll does not call it.
\<close>

definition pencil_measure :: "viewport \<Rightarrow> real" where
  "pencil_measure w = scroll_height w"

datatype pencil_event = BodyResized viewport | WindowResized viewport | Scrolled viewport

fun pencil_step :: "pencil_event \<Rightarrow> real \<Rightarrow> real" where
  "pencil_step (BodyResized w) h = pencil_measure w"
| "pencil_step (WindowResized w) h = pencil_measure w"
| "pencil_step (Scrolled w) h = h"

section \<open>Facts about the path\<close>

lemma pencil_loop_on_curve: "(x, y') \<in> set (pencil_loop h y) \<Longrightarrow> x = pencil_x y'"
proof (induction h y rule: pencil_loop.induct)
  case (1 h y)
  then show ?case
    by (subst (asm) pencil_loop.simps) (auto split: if_splits)
qed

lemma pencil_loop_nth:
  "i < length (pencil_loop h y) \<Longrightarrow> snd (pencil_loop h y ! i) = real (y + path_step * i)"
proof (induction h y arbitrary: i rule: pencil_loop.induct)
  case (1 h y)
  show ?case
  proof (cases "real y \<le> h + real path_step")
    case True
    then have l: "pencil_loop h y = (pencil_x (real y), real y) # pencil_loop h (y + path_step)"
      by (simp add: pencil_loop.simps)
    show ?thesis
    proof (cases i)
      case 0
      then show ?thesis by (simp add: l)
    next
      case (Suc j)
      with "1.prems" l have "j < length (pencil_loop h (y + path_step))" by simp
      with "1.IH" [OF True] Suc l show ?thesis by (simp add: algebra_simps)
    qed
  next
    case False
    with "1.prems" show ?thesis by (simp add: pencil_loop.simps)
  qed
qed

lemma pencil_loop_last:
  "pencil_loop h y \<noteq> [] \<Longrightarrow> h < snd (last (pencil_loop h y)) \<and> snd (last (pencil_loop h y)) \<le> h + real path_step"
proof (induction h y rule: pencil_loop.induct)
  case (1 h y)
  then have le: "real y \<le> h + real path_step"
    by (subst (asm) pencil_loop.simps) (simp split: if_splits)
  then have l: "pencil_loop h y = (pencil_x (real y), real y) # pencil_loop h (y + path_step)"
    by (simp add: pencil_loop.simps)
  show ?case
  proof (cases "pencil_loop h (y + path_step) = []")
    case True
    then have "\<not> real (y + path_step) \<le> h + real path_step"
      by (subst (asm) pencil_loop.simps) (simp split: if_splits)
    with le True l show ?thesis by simp
  next
    case False
    with "1.IH" [OF le] l show ?thesis by simp
  qed
qed

lemma pencil_loop_nonempty: "real y \<le> h + real path_step \<Longrightarrow> pencil_loop h y \<noteq> []"
  by (simp add: pencil_loop.simps)

lemma tip_y_range:
  "0 \<le> p \<Longrightarrow> p \<le> 1 \<Longrightarrow> 0 \<le> h \<Longrightarrow> \<exists>v. tip_y h p = Num v \<and> 0 \<le> v \<and> v \<le> h"
  by (simp add: tip_y_def range_progress_def js_nth_def mult_left_le)

section \<open>Properties\<close>

text \<open>
  C28. For every measured height the path starts at \<open>(START_X, 0)\<close>, its points are
  \<open>STEP\<close> apart and all lie on the curve the tip follows, and its last point lies below
  the bottom of the document by at most one step; the tip, driven by the scroll
  progress of any viewport, stays between the top and the bottom of the document, so
  always on the drawn part of the curve.
\<close>

theorem pencil_path_covers_tip:
  assumes "0 < h"
  shows "hd (path_d h) = (start_x, 0) \<and>
         (\<forall>(x, y) \<in> set (path_d h). x = pencil_x y) \<and>
         (\<forall>i < length (path_d h). snd (path_d h ! i) = real (path_step * i)) \<and>
         h < snd (last (path_d h)) \<and> snd (last (path_d h)) \<le> h + real path_step \<and>
         (\<exists>v. tip_y h (scroll_progress w) = Num v \<and> 0 \<le> v \<and> v < snd (last (path_d h)))"
proof -
  have ne: "pencil_loop h path_step \<noteq> []"
    using assms by (intro pencil_loop_nonempty) simp
  have pd: "path_d h = (start_x, 0) # pencil_loop h path_step"
    using assms by (simp add: path_d_def)
  have curve: "\<forall>(x, y) \<in> set (path_d h). x = pencil_x y"
    by (auto simp: pd pencil_x_def dest: pencil_loop_on_curve)
  have steps: "\<forall>i < length (path_d h). snd (path_d h ! i) = real (path_step * i)"
  proof (intro allI impI)
    fix i assume "i < length (path_d h)"
    then show "snd (path_d h ! i) = real (path_step * i)"
      by (cases i) (simp_all add: pd pencil_loop_nth algebra_simps)
  qed
  have last: "h < snd (last (path_d h)) \<and> snd (last (path_d h)) \<le> h + real path_step"
    using pencil_loop_last [OF ne] ne by (simp add: pd)
  obtain v where "tip_y h (scroll_progress w) = Num v" "0 \<le> v" "v \<le> h"
    using tip_y_range [of "scroll_progress w" h] scroll_progress_unit [of w] assms by auto
  with last have "\<exists>v. tip_y h (scroll_progress w) = Num v \<and> 0 \<le> v \<and> v < snd (last (path_d h))"
    by auto
  with curve steps last show ?thesis by (simp add: pd)
qed

theorem pencil_path_covers_tip_witness:
  "map snd (path_d 100) = [0, 40, 80, 120] \<and> snd (last (path_d 100)) = 120"
proof -
  have "path_d 100 = [(start_x, 0), (pencil_x 40, 40), (pencil_x 80, 80), (pencil_x 120, 120)]"
    by (simp add: path_d_def path_step_def pencil_loop.simps)
  with pencil_path_covers_tip [of 100 "\<lparr>scroll_y = 0, scroll_height = 100, inner_height = 50\<rparr>"]
  show ?thesis by simp
qed

text \<open>
  C29. The pencil is tilted by the slope of the curve at its tip: the hand-written
  \<open>dxdy\<close> of line 42 is the derivative of the tip's \<open>x\<close> as a function of \<open>y\<close>, and the
  rotation is the angle of that tangent in degrees, never more than
  \<open>atan(3/20)\<close> (about 8.5 degrees) either way.
\<close>

theorem pencil_rotation_tangent:
  "(pencil_x has_real_derivative pencil_dxdy y) (at y) \<and>
   \<bar>pencil_rotation y\<bar> \<le> arctan (3 / 20) * (180 / pi)"
proof
  show "(pencil_x has_real_derivative pencil_dxdy y) (at y)"
    unfolding pencil_x_def pencil_dxdy_def
    by (auto intro!: derivative_eq_intros simp: algebra_simps)
  have c: "\<bar>pencil_dxdy y\<bar> \<le> 3 / 20"
    using abs_cos_le_one [of "y * frequency"]
    by (simp add: pencil_dxdy_def amplitude_def frequency_def abs_mult)
  have "\<bar>arctan (pencil_dxdy y)\<bar> = arctan \<bar>pencil_dxdy y\<bar>"
    by (cases "0 \<le> pencil_dxdy y") (simp_all add: arctan_minus [symmetric] zero_le_arctan_iff arctan_less_zero_iff)
  with c have "\<bar>arctan (pencil_dxdy y)\<bar> \<le> arctan (3 / 20)"
    by (simp add: arctan_le_iff)
  then have "\<bar>arctan (pencil_dxdy y)\<bar> * (180 / pi) \<le> arctan (3 / 20) * (180 / pi)"
    by (rule mult_right_mono) simp
  then show "\<bar>pencil_rotation y\<bar> \<le> arctan (3 / 20) * (180 / pi)"
    using pi_gt_zero by (simp add: pencil_rotation_def abs_mult)
qed

end
