(* ===== verification/TextAnimations.thy ===== *)
theory TextAnimations
  imports Prelude
begin

text \<open>
  Two of the text effects of \<open>src/components/TextAnimations.tsx\<close>. \<open>RotatingWords\<close>
  (lines 12--48): an index state, an interval timer installed by an effect over
  \<open>[words, interval]\<close> whose tick advances the index modulo the length of the words it
  closed over, and the word rendered at the index (\<open>null\<close> for an empty list). The
  timer's period is not modelled: a tick is one firing. \<open>SplitText\<close> (lines 51--89):
  the text cut at spaces into words and each word into characters, each character with
  its animation delay, and a non-breaking space after every word. The entry
  animations themselves (\<open>BlurReveal\<close>, \<open>ScrollReveal\<close>) only pass constants to
  \<open>motion\<close> and are not modelled.
\<close>

section \<open>RotatingWords\<close>

record rw_state =
  rw_index :: int
  rw_timer :: "string list option"

text \<open>The effect (lines 19--25): no timer for an empty list, otherwise one whose tick reads \<open>words\<close>.\<close>

definition rw_effect :: "string list \<Rightarrow> rw_state \<Rightarrow> rw_state" where
  "rw_effect words s = (if words = [] then s\<lparr>rw_timer := None\<rparr> else s\<lparr>rw_timer := Some words\<rparr>)"

definition rw_mount :: "string list \<Rightarrow> rw_state" where
  "rw_mount words = rw_effect words \<lparr>rw_index = 0, rw_timer = None\<rparr>"

text \<open>A render with a new \<open>words\<close> array: \<open>clearInterval\<close> of the old timer, then the effect; the index is kept.\<close>

definition rw_rerender :: "string list \<Rightarrow> rw_state \<Rightarrow> rw_state" where
  "rw_rerender words s = rw_effect words (s\<lparr>rw_timer := None\<rparr>)"

text \<open>One firing of the interval (line 22).\<close>

definition rw_tick :: "rw_state \<Rightarrow> rw_state" where
  "rw_tick s = (case rw_timer s of None \<Rightarrow> s
     | Some ws \<Rightarrow> s\<lparr>rw_index := js_rem (rw_index s + 1) (int (length ws))\<rparr>)"

text \<open>What is rendered (lines 27 and 43): \<open>None\<close> is \<open>null\<close>, \<open>Some None\<close> an \<open>undefined\<close> word.\<close>

definition rw_render :: "string list \<Rightarrow> rw_state \<Rightarrow> string option option" where
  "rw_render words s = (if words = [] then None else Some (js_index words (nat (rw_index s))))"

section \<open>SplitText\<close>

definition nbsp :: char where "nbsp = CHR 0xA0"

text \<open>
  The characters with their delays, word by word (lines 56--83): character \<open>j\<close> of
  word \<open>i\<close> starts after \<open>delay + i * 0.1 + j * 0.02\<close> seconds.
\<close>

definition split_text :: "string \<Rightarrow> real \<Rightarrow> (char \<times> real) list list" where
  "split_text text delay =
     map (\<lambda>(i, word). map (\<lambda>(j, c). (c, delay + real i / 10 + real j / 50)) (enumerate 0 word))
       (enumerate 0 (js_split (CHR '' '') text))"

text \<open>The characters on the page: each word's characters, then the \<open>&nbsp;\<close> of line 84.\<close>

definition split_text_chars :: "string \<Rightarrow> real \<Rightarrow> string" where
  "split_text_chars text delay = concat (map (\<lambda>w. map fst w @ [nbsp]) (split_text text delay))"

section \<open>Facts\<close>

lemma rw_ticks:
  assumes "words \<noteq> []"
  shows "(rw_tick ^^ n) (rw_mount words) = \<lparr>rw_index = int (n mod length words), rw_timer = Some words\<rparr>"
proof (induction n)
  case 0
  with assms show ?case by (simp add: rw_mount_def rw_effect_def)
next
  case (Suc n)
  have "js_rem (int (n mod length words) + 1) (int (length words)) = int (Suc (n mod length words)) mod int (length words)"
    by (simp add: add.commute)
  also have "\<dots> = int (Suc (n mod length words) mod length words)"
    by (rule zmod_int [symmetric])
  also have "\<dots> = int (Suc n mod length words)"
    by (simp only: mod_Suc_eq)
  finally have "js_rem (int (n mod length words) + 1) (int (length words)) = int (Suc n mod length words)" .
  with Suc show ?case by (simp add: rw_tick_def)
qed

lemma map_snd_enumerate: "map (\<lambda>x. f (snd x)) (enumerate n xs) = map f xs"
  by (induction xs arbitrary: n) simp_all

lemma map_fst_split_word: "map fst (case x of (i, w) \<Rightarrow> map (\<lambda>(j, c). (c, g i j)) (enumerate n w)) = snd x"
proof (cases x)
  case (Pair i w)
  have "map fst (map (\<lambda>(j, c). (c, g i j)) (enumerate n w)) = w" for n
    by (induction w arbitrary: n) simp_all
  with Pair show ?thesis by simp
qed


text \<open>The roles the services section passes to \<open>RotatingWords\<close> (\<open>src/components/Services.tsx\<close>, lines 7--14).\<close>

definition services_roles :: "string list" where
  "services_roles = [''Visual Artist'', ''Designer'', ''Environmental Designer'', ''Architecture'',
     ''Illustrator'', ''Fashion'']"

section \<open>Properties\<close>

text \<open>
  C30. With a non-empty list that does not change, the rotating word after \<open>n\<close> firings
  of the interval is word \<open>n mod length\<close>: the words cycle in order, and the rendered
  word is never \<open>undefined\<close>.
\<close>

theorem rotating_words_cycle:
  assumes "words \<noteq> []"
  shows "rw_render words ((rw_tick ^^ n) (rw_mount words)) = Some (Some (words ! (n mod length words)))"
  using assms by (simp add: rw_ticks rw_render_def js_index_def)

theorem rotating_words_cycle_witness:
  "rw_render services_roles ((rw_tick ^^ 7) (rw_mount services_roles)) = Some (Some ''Designer'')"
proof -
  have "services_roles \<noteq> []" by (simp add: services_roles_def)
  from rotating_words_cycle [OF this, of 7] show ?thesis by (simp add: services_roles_def)
qed

text \<open>
  \<open>SplitText\<close> loses and reorders nothing: the characters it renders, read in
  order, are the text with each space shown as the non-breaking space that ends every
  word, plus one after the last word.
\<close>

lemma split_text_roundtrip:
  "split_text_chars text delay = map (\<lambda>c. if c = CHR '' '' then nbsp else c) text @ [nbsp]"
proof -
  have "map (\<lambda>w. map fst w @ [nbsp]) (split_text text delay) =
        map (\<lambda>w. w @ [nbsp]) (js_split (CHR '' '') text)"
    unfolding split_text_def map_map comp_def map_fst_split_word
    by (rule map_snd_enumerate)
  then show ?thesis by (simp add: split_text_chars_def js_split_concat)
qed


text \<open>
  C31. \<open>RotatingWords\<close> does not reset its index when \<open>words\<close> changes: after a
  re-render with a non-empty list no longer than the current index, the component
  renders \<open>undefined\<close> (an empty span) until the interval fires, and only the next
  tick brings it back into the list, at the old index plus one modulo the new length.
\<close>

theorem rw_rerender_stale_index:
  assumes "words \<noteq> []" and "length words \<le> nat (rw_index s)"
  shows "rw_render words (rw_rerender words s) = Some None \<and>
         rw_render words (rw_tick (rw_rerender words s)) =
           Some (Some (words ! ((nat (rw_index s) + 1) mod length words)))"
proof -
  have pos: "0 \<le> rw_index s" using assms by (cases "0 \<le> rw_index s") auto
  have "nat ((rw_index s + 1) mod int (length words)) = (nat (rw_index s) + 1) mod length words"
    using pos by (simp add: nat_mod_distrib nat_add_distrib)
  moreover have "(nat (rw_index s) + 1) mod length words < length words" using assms(1) by simp
  ultimately show ?thesis using assms pos
    by (simp add: rw_render_def rw_rerender_def rw_effect_def rw_tick_def js_index_def)
qed

theorem rw_rerender_stale_index_witness:
  "rw_render [''Design''] (rw_rerender [''Design''] \<lparr>rw_index = 2, rw_timer = Some [''a'', ''b'', ''c'']\<rparr>) = Some None \<and>
   rw_render [''Design''] (rw_tick (rw_rerender [''Design''] \<lparr>rw_index = 2, rw_timer = Some [''a'', ''b'', ''c'']\<rparr>)) =
     Some (Some ''Design'')"
  using rw_rerender_stale_index [of "[''Design'']" "\<lparr>rw_index = 2, rw_timer = Some [''a'', ''b'', ''c'']\<rparr>"] by simp

end
