(* ===== verification/Navbar.thy ===== *)
theory Navbar
  imports Scroll
begin

text \<open>
  The navigation bar of \<open>src/components/Navbar.tsx\<close>: its three state hooks, the
  \<open>dark\<close> class of the document element that \<open>toggleTheme\<close> keeps in step with
  \<open>isDark\<close>, the scroll listener that sets \<open>scrolled\<close>, the links, and the full-screen
  menu's open and close handlers. The document element's class list is a list of
  class names with the semantics of \<open>DOMTokenList\<close>: \<open>add\<close> appends an absent name,
  \<open>remove\<close> deletes every occurrence.
\<close>

record nav_link =
  link_name :: string
  href :: string

definition nav_links :: "nav_link list" where
  "nav_links = [\<lparr>link_name = ''Works'', href = ''#portfolio''\<rparr>, \<lparr>link_name = ''About'', href = ''#about''\<rparr>,
     \<lparr>link_name = ''Chronology'', href = ''#timeline''\<rparr>, \<lparr>link_name = ''Voices'', href = ''#testimonials''\<rparr>]"

record nav_state =
  nav_open :: bool
  scrolled :: bool
  is_dark :: bool
  doc_classes :: "string list"

definition class_add :: "string \<Rightarrow> string list \<Rightarrow> string list" where
  "class_add c cs = (if c \<in> set cs then cs else cs @ [c])"

definition class_remove :: "string \<Rightarrow> string list \<Rightarrow> string list" where
  "class_remove c cs = filter (\<lambda>x. x \<noteq> c) cs"

text \<open>Mounting: the initial state; the effect only registers the scroll listener (lines 9--15).\<close>

definition nav_mount :: "string list \<Rightarrow> nav_state" where
  "nav_mount cls = \<lparr>nav_open = False, scrolled = False, is_dark = False, doc_classes = cls\<rparr>"

definition nav_handle_scroll :: "viewport \<Rightarrow> nav_state \<Rightarrow> nav_state" where
  "nav_handle_scroll w s = s\<lparr>scrolled := 50 < scroll_y w\<rparr>"

definition toggle_theme :: "nav_state \<Rightarrow> nav_state" where
  "toggle_theme s =
     s\<lparr>is_dark := \<not> is_dark s,
       doc_classes := (if \<not> is_dark s then class_add ''dark'' (doc_classes s)
                       else class_remove ''dark'' (doc_classes s))\<rparr>"

datatype nav_event = NavScroll viewport | ThemeClick | MenuClick | MenuCloseClick | MenuLinkClick nat

fun nav_step :: "nav_event \<Rightarrow> nav_state \<Rightarrow> nav_state" where
  "nav_step (NavScroll w) s = nav_handle_scroll w s"
| "nav_step ThemeClick s = toggle_theme s"
| "nav_step MenuClick s = s\<lparr>nav_open := True\<rparr>"
| "nav_step MenuCloseClick s = s\<lparr>nav_open := False\<rparr>"
| "nav_step (MenuLinkClick i) s = s\<lparr>nav_open := False\<rparr>"

fun nav_run :: "nav_event list \<Rightarrow> nav_state \<Rightarrow> nav_state" where
  "nav_run [] s = s"
| "nav_run (e # es) s = nav_run es (nav_step e s)"

section \<open>Facts\<close>

text \<open>One action keeps the theme in step with the class list, with at most one \<open>dark\<close>.\<close>

lemma nav_step_theme:
  assumes "(is_dark s \<longleftrightarrow> ''dark'' \<in> set (doc_classes s)) \<and> count_list (doc_classes s) ''dark'' \<le> 1"
  shows "(is_dark (nav_step e s) \<longleftrightarrow> ''dark'' \<in> set (doc_classes (nav_step e s))) \<and>
         count_list (doc_classes (nav_step e s)) ''dark'' \<le> 1"
proof (cases e)
  case ThemeClick
  have "count_list (filter (\<lambda>x. x \<noteq> ''dark'') xs) ''dark'' = 0" for xs :: "string list"
    by (induction xs) simp_all
  moreover have "''dark'' \<notin> set xs \<Longrightarrow> count_list xs ''dark'' = 0" for xs :: "string list"
    by (simp add: count_list_0_iff)
  ultimately show ?thesis using assms ThemeClick
    by (auto simp: toggle_theme_def class_add_def class_remove_def)
qed (use assms in \<open>simp_all add: nav_handle_scroll_def\<close>)

text \<open>
  C33. The theme stays in step with the document: when the page starts without the
  \<open>dark\<close> class, after any sequence of scrolls, theme clicks and menu actions
  \<open>isDark\<close> holds exactly when the document element has the class, and the class is
  never there twice.
\<close>

theorem nav_theme_sync:
  assumes "''dark'' \<notin> set cls"
  shows "(is_dark (nav_run es (nav_mount cls)) \<longleftrightarrow> ''dark'' \<in> set (doc_classes (nav_run es (nav_mount cls)))) \<and>
         count_list (doc_classes (nav_run es (nav_mount cls))) ''dark'' \<le> 1"
proof -
  have "(is_dark s \<longleftrightarrow> ''dark'' \<in> set (doc_classes s)) \<and> count_list (doc_classes s) ''dark'' \<le> 1 \<Longrightarrow>
        (is_dark (nav_run es s) \<longleftrightarrow> ''dark'' \<in> set (doc_classes (nav_run es s))) \<and>
        count_list (doc_classes (nav_run es s)) ''dark'' \<le> 1" for s
  proof (induction es arbitrary: s)
    case Nil
    then show ?case by simp
  next
    case (Cons e es)
    from Cons.IH [OF nav_step_theme [OF Cons.prems]] show ?case by simp
  qed
  moreover have "count_list cls ''dark'' = 0" using assms by (simp add: count_list_0_iff)
  ultimately show ?thesis using assms by (simp add: nav_mount_def)
qed

theorem nav_theme_sync_witness:
  "is_dark (nav_run [ThemeClick, NavScroll \<lparr>scroll_y = 80, scroll_height = 1000, inner_height = 500\<rparr>, ThemeClick, ThemeClick]
      (nav_mount [''font-sans''])) \<and>
   ''dark'' \<in> set (doc_classes (nav_run [ThemeClick, NavScroll \<lparr>scroll_y = 80, scroll_height = 1000, inner_height = 500\<rparr>,
      ThemeClick, ThemeClick] (nav_mount [''font-sans'']))) \<and>
   count_list (doc_classes (nav_run [ThemeClick, NavScroll \<lparr>scroll_y = 80, scroll_height = 1000, inner_height = 500\<rparr>,
      ThemeClick, ThemeClick] (nav_mount [''font-sans'']))) ''dark'' \<le> 1"
proof -
  have "''dark'' \<notin> set [''font-sans'']" by simp
  from nav_theme_sync [OF this, of "[ThemeClick, NavScroll \<lparr>scroll_y = 80, scroll_height = 1000, inner_height = 500\<rparr>,
      ThemeClick, ThemeClick]"]
  show ?thesis
    by (simp add: nav_mount_def toggle_theme_def class_add_def class_remove_def nav_handle_scroll_def)
qed

text \<open>
  \<open>scrolled\<close> is computed only on a scroll event: a page that opens already scrolled
  (a reload in the middle of the page, a link to an anchor) shows the transparent bar
  until the visitor scrolls.
\<close>

lemma nav_mount_scrolled_stale: "\<not> scrolled (nav_mount cls)"
  by (simp add: nav_mount_def)

lemma nav_scroll_syncs: "scrolled (nav_step (NavScroll w) s) \<longleftrightarrow> 50 < scroll_y w"
  by (simp add: nav_handle_scroll_def)

end
