(* ===== verification/AppShell.thy ===== *)
theory AppShell
  imports Navbar
begin

text \<open>
  The page shell of \<open>src/components/App.tsx\<close>: the main sections in document order,
  each wrapped by \<open>RevealSection\<close> with an optional \<open>id\<close> (lines 82--104), together
  with the \<open>id\<close> of the root element of the wrapped component: \<open>Hero\<close> and
  \<open>CoffeeMantra\<close> have none, \<open>Services\<close> renders \<open>section id="about"\<close>
  (Services.tsx line 17), \<open>Timeline\<close> \<open>id="timeline"\<close> (Timeline.tsx line 22),
  \<open>Portfolio\<close> \<open>id="portfolio"\<close> (Portfolio.tsx line 302) and \<open>Testimonials\<close>
  \<open>id="testimonials"\<close> (Testimonials.tsx line 48). Each pair is (wrapper id, root id).
\<close>

definition app_main :: "(string option \<times> string option) list" where
  "app_main = [(None, None), (Some ''about'', Some ''about''), (Some ''timeline'', Some ''timeline''),
     (Some ''portfolio'', Some ''portfolio''), (Some ''testimonials'', Some ''testimonials''), (None, None)]"

primrec opt_list :: "'a option \<Rightarrow> 'a list" where
  "opt_list None = []"
| "opt_list (Some x) = [x]"

text \<open>The element ids of the main part of the page, in document order.\<close>

definition app_dom_ids :: "string list" where
  "app_dom_ids = concat (map (\<lambda>(w, r). opt_list w @ opt_list r) app_main)"

text \<open>The element a fragment link scrolls to: the first with the fragment as its id.\<close>

definition anchor_target :: "string \<Rightarrow> nat option" where
  "anchor_target h = (case h of CHR ''#'' # x \<Rightarrow> first_index x app_dom_ids | _ \<Rightarrow> None)"

end
