(* ===== verification/MotionFactory.thy ===== *)
theory MotionFactory
  imports Prelude
begin

text \<open>
  The component side of \<open>src/vendor/framer-motion/index.js\<close> (lines 106--129):
  \<open>AnimatePresence\<close>, which renders its children in a fragment, and the \<open>motion\<close>
  proxy, whose property read \<open>motion.tag\<close> calls \<open>createMotionComponent(tag)\<close>: the
  module-level \<open>motionCache\<close> (a \<open>Map\<close> from tag names to components) returns the
  component made at the first read of that tag, and otherwise a new
  \<open>forwardRef\<close> component named \<open>motion.tag\<close> is made and cached. A component is
  identified by the order in which it was allocated. Rendering a motion component
  produces an element of its tag with the forwarded \<open>ref\<close> and every other prop
  unchanged: motion values in \<open>style\<close> are passed as the objects they are.

  The specification (design notes) asks for "an explicit mapping from key to factory
  function, populated on first use and cached": \<open>registry_add\<close> and
  \<open>registry_component\<close> below are that registry, kept as the list of keys in the
  order of first use.
\<close>

section \<open>The factory\<close>

record motion_component =
  comp_id :: nat
  comp_tag :: string
  display_name :: string

record motion_env =
  motion_cache :: "string \<rightharpoonup> motion_component"
  next_comp :: nat

definition create_motion_component :: "string \<Rightarrow> motion_env \<Rightarrow> motion_component \<times> motion_env" where
  "create_motion_component tag env =
     (case motion_cache env tag of
        Some c \<Rightarrow> (c, env)
      | None \<Rightarrow>
          (let c = \<lparr>comp_id = next_comp env, comp_tag = tag, display_name = ''motion.'' @ tag\<rparr>
           in (c, env\<lparr>motion_cache := (motion_cache env)(tag \<mapsto> c), next_comp := Suc (next_comp env)\<rparr>)))"

text \<open>The proxy's \<open>get\<close> trap (lines 122--129): every property read creates or finds a component.\<close>

definition motion_proxy_get :: "string \<Rightarrow> motion_env \<Rightarrow> motion_component \<times> motion_env" where
  "motion_proxy_get prop env = create_motion_component prop env"

section \<open>Rendering\<close>

text \<open>
  Prop values as the DOM receives them: JavaScript values, booleans, motion-value objects,
  nested objects (\<open>style\<close>, \<open>initial\<close>, \<open>animate\<close>, ...), arrays, ref objects, \<open>null\<close>
  and the number \<open>Infinity\<close> (which \<open>jsval\<close> numbers, exact reals, do not include).
\<close>

datatype prop_val = PJs jsval | PBool bool | PMotion vid | PObj "(string \<times> prop_val) list" | PArr "prop_val list"
  | PRef nat | PNull | PInfinity

datatype node = Elem string "(string \<times> prop_val) list" "node list" | TextNode string | Fragment "node list"

text \<open>
  The \<open>forwardRef\<close> render function (lines 114--116): \<open>children\<close> is taken out of the
  props, the element gets \<open>ref\<close> (the forwarded ref, \<open>null\<close> when none is passed)
  followed by the remaining props, in order.
\<close>

definition motion_render :: "motion_component \<Rightarrow> prop_val \<Rightarrow> (string \<times> prop_val) list \<Rightarrow> node list \<Rightarrow> node" where
  "motion_render c ref props children =
     Elem (comp_tag c) ((''ref'', ref) # filter (\<lambda>p. fst p \<noteq> ''children'') props) children"

definition animate_presence :: "node list \<Rightarrow> node" where
  "animate_presence children = Fragment children"

text \<open>Shorthands for the props of the element trees the components render.\<close>

abbreviation cls :: "string \<Rightarrow> string \<times> prop_val" where
  "cls s \<equiv> (''className'', PJs (Str s))"

abbreviation pnum :: "real \<Rightarrow> prop_val" where
  "pnum x \<equiv> PJs (Num x)"

subsection \<open>Reading a tree\<close>

text \<open>The \<open>n\<close>-th child of an element, and an element's \<open>className\<close>.\<close>

fun node_child :: "nat \<Rightarrow> node \<Rightarrow> node option" where
  "node_child n (Elem t ps cs) = (if n < length cs then Some (cs ! n) else None)"
| "node_child n (Fragment cs) = (if n < length cs then Some (cs ! n) else None)"
| "node_child n (TextNode s) = None"

fun node_class :: "node \<Rightarrow> string option" where
  "node_class (Elem t ps cs) = (case map_of ps ''className'' of Some (PJs (Str s)) \<Rightarrow> Some s | _ \<Rightarrow> None)"
| "node_class _ = None"

text \<open>A prop of an element.\<close>

fun node_prop :: "string \<Rightarrow> node \<Rightarrow> prop_val option" where
  "node_prop k (Elem t ps cs) = map_of ps k"
| "node_prop k _ = None"

text \<open>The node at a path of child positions.\<close>

definition node_at :: "nat list \<Rightarrow> node \<Rightarrow> node option" where
  "node_at path n = fold (\<lambda>i r. Option.bind r (node_child i)) path (Some n)"

text \<open>The elements of a tree, in document order.\<close>

fun node_elems :: "node \<Rightarrow> node list" where
  "node_elems (Elem t ps cs) = Elem t ps cs # concat (map node_elems cs)"
| "node_elems (Fragment cs) = concat (map node_elems cs)"
| "node_elems (TextNode s) = []"

section \<open>The registry of the specification\<close>

definition registry_add :: "string \<Rightarrow> string list \<Rightarrow> string list" where
  "registry_add t reg = (if t \<in> set reg then reg else reg @ [t])"

definition registry_component :: "nat \<Rightarrow> string list \<Rightarrow> string \<Rightarrow> motion_component" where
  "registry_component k reg t =
     \<lparr>comp_id = k + the (first_index t reg), comp_tag = t, display_name = ''motion.'' @ t\<rparr>"

text \<open>
  The cache represents the registry \<open>reg\<close> (allocation starting at \<open>k\<close>) when it holds
  exactly the registry's keys, each with its component, and the counter is past them.
\<close>

definition registry_rel :: "nat \<Rightarrow> string list \<Rightarrow> motion_env \<Rightarrow> bool" where
  "registry_rel k reg env \<longleftrightarrow> distinct reg \<and> next_comp env = k + length reg \<and>
     (\<forall>t. motion_cache env t = (if t \<in> set reg then Some (registry_component k reg t) else None))"

text \<open>The cache is well formed when every entry is a component of its key, named after it.\<close>

definition cache_wf :: "motion_env \<Rightarrow> bool" where
  "cache_wf env \<longleftrightarrow> (\<forall>t c. motion_cache env t = Some c \<longrightarrow>
     comp_tag c = t \<and> display_name c = ''motion.'' @ t \<and> comp_id c < next_comp env)"

section \<open>Facts\<close>

lemma registry_component_snoc:
  "t' \<in> set reg \<Longrightarrow> registry_component k (reg @ [t]) t' = registry_component k reg t'"
  by (simp add: registry_component_def)

lemma registry_component_new:
  "t \<notin> set reg \<Longrightarrow> registry_component k (reg @ [t]) t =
     \<lparr>comp_id = k + length reg, comp_tag = t, display_name = ''motion.'' @ t\<rparr>"
  by (simp add: registry_component_def first_index_snoc_new)

lemma create_motion_component_hit:
  "motion_cache env t = Some c \<Longrightarrow> create_motion_component t env = (c, env)"
  by (simp add: create_motion_component_def)

lemma create_motion_component_miss:
  "motion_cache env t = None \<Longrightarrow> create_motion_component t env =
     (\<lparr>comp_id = next_comp env, comp_tag = t, display_name = ''motion.'' @ t\<rparr>,
      env\<lparr>motion_cache := (motion_cache env)(t \<mapsto> \<lparr>comp_id = next_comp env, comp_tag = t, display_name = ''motion.'' @ t\<rparr>),
          next_comp := Suc (next_comp env)\<rparr>)"
  by (simp add: create_motion_component_def Let_def)

text \<open>Reading the same property twice gives the same component and leaves the cache as it was.\<close>

lemma motion_proxy_get_memo:
  "motion_proxy_get t (snd (motion_proxy_get t env)) = (fst (motion_proxy_get t env), snd (motion_proxy_get t env))"
  by (cases "motion_cache env t") (simp_all add: motion_proxy_get_def create_motion_component_def Let_def)

text \<open>
  On a well-formed cache a read of the proxy returns a component of the tag, named after
  it, records it in the cache and keeps the cache well formed.
\<close>

lemma motion_proxy_get_wf:
  assumes wf: "cache_wf env"
  shows "cache_wf (snd (motion_proxy_get tag env)) \<and> comp_tag (fst (motion_proxy_get tag env)) = tag \<and>
         display_name (fst (motion_proxy_get tag env)) = ''motion.'' @ tag \<and>
         motion_cache (snd (motion_proxy_get tag env)) = (motion_cache env)(tag \<mapsto> fst (motion_proxy_get tag env))"
proof (cases "motion_cache env tag")
  case None
  have "cache_wf (snd (create_motion_component tag env))"
    using wf None by (auto simp: cache_wf_def create_motion_component_miss less_SucI)
  with None show ?thesis
    by (simp add: motion_proxy_get_def create_motion_component_miss)
next
  case (Some c)
  with wf have "comp_tag c = tag" "display_name c = ''motion.'' @ tag" by (auto simp: cache_wf_def)
  with Some wf show ?thesis
    by (auto simp: motion_proxy_get_def create_motion_component_hit)
qed

section \<open>Properties\<close>

text \<open>
  C34. The cache refines the specification's memoising registry: when the cache
  represents a registry, a lookup of any tag returns the registry's component for the
  tag after adding it on first use, and the cache represents the grown registry. So a
  tag always yields one and the same component, and React never sees a new component
  type for it.
\<close>

theorem motion_factory_refines_registry:
  assumes rel: "registry_rel k reg env"
  shows "registry_rel k (registry_add t reg) (snd (create_motion_component t env)) \<and>
         fst (create_motion_component t env) = registry_component k (registry_add t reg) t"
proof (cases "t \<in> set reg")
  case True
  with rel have "motion_cache env t = Some (registry_component k reg t)"
    by (simp add: registry_rel_def)
  with True rel show ?thesis
    by (simp add: create_motion_component_hit registry_add_def)
next
  case False
  with rel have miss: "motion_cache env t = None" by (simp add: registry_rel_def)
  have "registry_rel k (reg @ [t]) (snd (create_motion_component t env))"
    unfolding registry_rel_def
  proof (intro conjI allI)
    show "distinct (reg @ [t])" using rel False by (simp add: registry_rel_def)
    show "next_comp (snd (create_motion_component t env)) = k + length (reg @ [t])"
      using rel miss by (simp add: create_motion_component_miss registry_rel_def)
    fix t'
    show "motion_cache (snd (create_motion_component t env)) t' =
        (if t' \<in> set (reg @ [t]) then Some (registry_component k (reg @ [t]) t') else None)"
      using rel miss False
      by (auto simp: create_motion_component_miss registry_rel_def registry_component_snoc
          registry_component_new)
  qed
  moreover have "fst (create_motion_component t env) = registry_component k (reg @ [t]) t"
    using rel miss False by (simp add: create_motion_component_miss registry_component_new registry_rel_def)
  ultimately show ?thesis using False by (simp add: registry_add_def)
qed

theorem motion_factory_refines_registry_witness:
  "comp_id (fst (create_motion_component ''span''
      (snd (create_motion_component ''div'' \<lparr>motion_cache = Map.empty, next_comp = 0\<rparr>)))) = 1 \<and>
   registry_rel 0 [''div'', ''span'']
     (snd (create_motion_component ''span'' (snd (create_motion_component ''div'' \<lparr>motion_cache = Map.empty, next_comp = 0\<rparr>))))"
proof -
  have r0: "registry_rel 0 [] \<lparr>motion_cache = Map.empty, next_comp = 0\<rparr>"
    by (simp add: registry_rel_def)
  note s1 = motion_factory_refines_registry [OF r0, of "''div''"]
  have r1: "registry_rel 0 [''div''] (snd (create_motion_component ''div'' \<lparr>motion_cache = Map.empty, next_comp = 0\<rparr>))"
    using s1 by (simp add: registry_add_def)
  note s2 = motion_factory_refines_registry [OF r1, of "''span''"]
  then show ?thesis by (simp add: registry_add_def registry_component_def)
qed

text \<open>
  The element type of a motion component is the property it was read by:
  \<open>motion.tag\<close> renders an element of type \<open>tag\<close> named \<open>motion.tag\<close>, with the ref first
  and every other prop passed unchanged (motion values included, as objects), and a
  well-formed cache stays well formed.
\<close>

lemma motion_element_type:
  assumes wf: "cache_wf env"
  shows "cache_wf (snd (motion_proxy_get tag env)) \<and>
         display_name (fst (motion_proxy_get tag env)) = ''motion.'' @ tag \<and>
         (\<forall>r props ch. motion_render (fst (motion_proxy_get tag env)) r props ch =
            Elem tag ((''ref'', r) # filter (\<lambda>p. fst p \<noteq> ''children'') props) ch)"
  using motion_proxy_get_wf [OF wf, of tag] by (simp add: motion_render_def)

lemma motion_element_type_witness:
  "motion_render (fst (motion_proxy_get ''div'' \<lparr>motion_cache = Map.empty, next_comp = 0\<rparr>)) (PRef 7)
     [(''style'', PObj [(''scaleY'', PMotion 3)])] [] =
   Elem ''div'' [(''ref'', PRef 7), (''style'', PObj [(''scaleY'', PMotion 3)])] []"
proof -
  have "cache_wf \<lparr>motion_cache = Map.empty, next_comp = 0\<rparr>" by (simp add: cache_wf_def)
  from motion_element_type [OF this, of "''div''"] show ?thesis by simp
qed

end
