(* ===== verification/Timeline.thy ===== *)
theory Timeline
  imports Scroll Spring Content
begin

text \<open>
  The career timeline of \<open>src/components/Timeline.tsx\<close> and the behaviour of a spring
  that follows the page's scroll progress. The component calls \<open>useScroll\<close> with a
  target and offsets (lines 9--12) that the library ignores, so the progress is the
  page's; \<open>useSpring\<close> on it gives the \<open>scaleY\<close> of the thread line (lines 15--19).
  React runs the render of all hooks first and their effects afterwards, in order: the
  two \<open>useMotionValue\<close> calls, then the scroll effect (one \<open>update()\<close> and the
  registrations), then the spring's subscription. The needle's \<open>useTransform\<close>
  (line 58) formats a number into a CSS string and is not modelled. The rows
  (lines 75--84) alternate sides by the parity of their index.
\<close>

section \<open>The component\<close>

definition timeline_mount :: "nat \<Rightarrow> page \<Rightarrow> (vid \<times> vid \<times> page) option" where
  "timeline_mount n p =
     (let (a, e1) = use_motion_value None (Num 0) (eng p);
          (sp, e2) = use_motion_value None (nullish_default (spring_initial (ArgMV a) e1) (Num 0)) e1
      in map_option (\<lambda>(h, p3). let (u, e4) = spring_effect (ArgMV a) sp (eng p3) in (a, sp, p3\<lparr>eng := e4\<rparr>))
           (scroll_effect n a (p\<lparr>eng := e2\<rparr>)))"

text \<open>Each event with whether its row is reversed (\<open>isEven\<close>, line 76).\<close>

definition timeline_rows :: "(timeline_event \<times> bool) list" where
  "timeline_rows = map (\<lambda>(i, e). (e, i mod 2 = 0)) (enumerate 0 timeline_events)"

section \<open>The browser over time\<close>

fun browser_run :: "nat \<Rightarrow> browser_event list \<Rightarrow> page \<Rightarrow> page option" where
  "browser_run n [] p = Some p"
| "browser_run n (ev # evs) p = Option.bind (browser_step n ev p) (browser_run n evs)"

section \<open>A value that follows the progress\<close>

text \<open>
  If a closure on the progress value \<open>a\<close> is the only writer of \<open>d\<close> and nothing writes
  \<open>a\<close>, only \<open>a\<close> (and \<open>d\<close> itself) can reach \<open>d\<close>.
\<close>

lemma reaches_sole_writer:
  assumes "reaches st b d" and "sole_writer st a l d" and "untargeted st a"
  shows "b = a \<or> b = d"
proof (rule ccontr)
  assume ne: "\<not> (b = a \<or> b = d)"
  with assms(1) obtain c m where "reaches st b c" "c < length (heap st)"
    "m \<in> set (mv_listeners (heap st ! c))" "action_target (snd m) = Some d"
    using reaches_last_edge by blast
  with assms(2) have "reaches st b a" by (auto simp: sole_writer_def)
  then have "b = a" using assms(3) by (rule reaches_untargeted)
  with ne show False by simp
qed

definition follows :: "engine \<Rightarrow> vid \<Rightarrow> action \<Rightarrow> vid \<Rightarrow> bool" where
  "follows st a act d \<longleftrightarrow> untargeted st a \<and> (\<exists>k. sole_writer st a (Closure k, act) d)"

lemma follows_shape:
  assumes sh: "shape st' = shape st"
  shows "follows st' a act d = follows st a act d"
  by (simp add: follows_def untargeted_shape [OF sh] sole_writer_shape [OF sh])

lemma run_handlers_follow:
  assumes "run_handlers n hs p = Some p'" and "engine_wf (eng p)" and "ranked r (eng p)"
    and "follows (eng p) a act d" and "\<forall>x \<in> set hs. handler_target x \<noteq> d"
    and "(\<exists>h. ScrollUpdate h a \<in> set hs) \<or> mv_get d (eng p) = Some (action_value act (Num (scroll_progress (vp p))))"
  shows "mv_get d (eng p') = Some (action_value act (Num (scroll_progress (vp p))))"
  using assms
proof (induction hs arbitrary: p)
  case Nil
  then show ?case by simp
next
  case (Cons x hs)
  obtain h b where x: "x = ScrollUpdate h b" by (cases x)
  with Cons.prems(1) obtain e where e: "mv_set n b (Num (scroll_progress (vp p))) (eng p) = Some e"
    and rest: "run_handlers n hs (p\<lparr>eng := e\<rparr>) = Some p'"
    by (auto simp: scroll_update_def split: Option.bind_splits)
  have sh: "shape e = shape (eng p)" by (rule shape_mv_set [OF e])
  obtain k where sw: "sole_writer (eng p) a (Closure k, act) d" and ut: "untargeted (eng p) a"
    using Cons.prems(4) by (auto simp: follows_def)
  have get1: "mv_get d e = Some (action_value act (Num (scroll_progress (vp p)))) \<or> (\<exists>h. ScrollUpdate h a \<in> set hs)"
  proof (cases "b = a")
    case True
    with sole_writer_value [OF Cons.prems(2,3) sw] e show ?thesis by simp
  next
    case False
    have "b \<noteq> d" using Cons.prems(5) x by simp
    with False have "\<not> reaches (eng p) b d" using reaches_sole_writer [OF _ sw ut] by blast
    then have "heap e ! d = heap (eng p) ! d" by (rule mv_set_unreached [OF e])
    then have "mv_get d e = mv_get d (eng p)" using length_shape [OF sh] by (simp add: mv_get_def)
    with Cons.prems(6) x False show ?thesis by auto
  qed
  have "mv_get d (eng p') = Some (action_value act (Num (scroll_progress (vp (p\<lparr>eng := e\<rparr>)))))"
  proof (rule Cons.IH [OF rest])
    show "engine_wf (eng (p\<lparr>eng := e\<rparr>))" using Cons.prems(2) by (simp add: engine_wf_shape [OF sh])
    show "ranked r (eng (p\<lparr>eng := e\<rparr>))" using Cons.prems(3) by (simp add: ranked_shape [OF sh])
    show "follows (eng (p\<lparr>eng := e\<rparr>)) a act d" using Cons.prems(4) by (simp add: follows_shape [OF sh])
    show "\<forall>x \<in> set hs. handler_target x \<noteq> d" using Cons.prems(5) by simp
    show "(\<exists>h. ScrollUpdate h a \<in> set hs) \<or>
        mv_get d (eng (p\<lparr>eng := e\<rparr>)) = Some (action_value act (Num (scroll_progress (vp (p\<lparr>eng := e\<rparr>)))))"
      using get1 by auto
  qed
  then show ?case by simp
qed


section \<open>The state after the mount\<close>

lemma timeline_mount_state:
  assumes wf: "page_wf p"
  defines "L \<equiv> length (heap (eng p))" and "k \<equiv> next_lid (eng p)"
    and "h \<equiv> ScrollUpdate (next_handler p) (length (heap (eng p)))"
  defines "e3 \<equiv> write_value L (Num (scroll_progress (vp p)))
                 (snd (new_motion_value (Num 0) (snd (new_motion_value (Num 0) (eng p)))))"
  shows "timeline_mount (Suc m) p =
           Some (L, Suc L, p\<lparr>eng := snd (mv_on L ''change'' (Closure k, Follow (Suc L)) (e3\<lparr>next_lid := Suc k\<rparr>)),
                             win := win p @ [(''scroll'', h), (''resize'', h)],
                             next_handler := Suc (next_handler p)\<rparr>)"
proof -
  let ?e1 = "snd (new_motion_value (Num 0) (eng p))"
  let ?e2 = "snd (new_motion_value (Num 0) ?e1)"
  let ?v = "Num (scroll_progress (vp p))"
  have u1: "use_motion_value None (Num 0) (eng p) = (L, ?e1)"
    by (simp add: use_motion_value_def new_motion_value_def L_def)
  have si: "nullish_default (spring_initial (ArgMV L) ?e1) (Num 0) = Num 0"
    by (simp add: spring_initial_def mv_get_def new_motion_value_def L_def)
  have u2: "use_motion_value None (Num 0) ?e1 = (Suc L, ?e2)"
    by (simp add: use_motion_value_def new_motion_value_def L_def)
  have set: "mv_set (Suc m) L ?v ?e2 = Some e3"
    unfolding e3_def by (rule mv_set_no_listeners) (simp_all add: new_motion_value_def L_def nth_append)
  have f1: "(''scroll'', h) \<notin> set (win p)" and f2: "(''resize'', h) \<notin> set (win p)"
    using handler_fresh [OF wf] by (simp_all add: h_def)
  have se: "scroll_effect (Suc m) L (p\<lparr>eng := ?e2\<rparr>) =
      Some (h, p\<lparr>eng := e3, win := win p @ [(''scroll'', h), (''resize'', h)],
                next_handler := Suc (next_handler p)\<rparr>)"
    using f1 f2 by (simp del: mv_set.simps add: scroll_effect_def scroll_update_def Let_def
      add_event_listener_def set [unfolded L_def] h_def L_def)
  have nl: "next_lid e3 = k" by (simp add: e3_def k_def new_motion_value_def)
  have sp: "spring_effect (ArgMV L) (Suc L) e3 =
      mv_on L ''change'' (Closure k, Follow (Suc L)) (e3\<lparr>next_lid := Suc k\<rparr>)"
    by (simp add: spring_effect_def fresh_closure_def nl)
  show ?thesis
    unfolding timeline_mount_def Let_def u1 prod.case si u2 se option.map by (simp add: split_def sp)
qed


section \<open>Facts about the mounted engine\<close>

lemma untargeted_new_motion_value_old:
  "untargeted st d \<Longrightarrow> untargeted (snd (new_motion_value v st)) d"
  by (auto simp: untargeted_def new_motion_value_def nth_append less_Suc_eq)

lemma untargeted_mv_on:
  assumes ut: "untargeted st d" and t: "action_target (snd l) \<noteq> Some d"
  shows "untargeted (snd (mv_on s ev l st)) d"
proof (cases "ev = ''change''")
  case False
  then show ?thesis using ut by (simp add: mv_on_def)
next
  case True
  show ?thesis unfolding untargeted_def
  proof (intro allI impI ballI)
    fix c m
    assume c: "c < length (heap (snd (mv_on s ev l st)))"
      and m: "m \<in> set (map mv_listeners (heap (snd (mv_on s ev l st))) ! c)"
    have c': "c < length (heap st)" using c True by (simp add: mv_on_def)
    have "m \<in> set (mv_listeners (heap st ! c)) \<or> m = l"
      using m c' True set_js_set_add_subset [of l "mv_listeners (heap st ! s)"]
      by (auto simp: mv_on_def nth_update_listeners split: if_splits)
    with ut t c' show "action_target (snd m) \<noteq> Some d" by (auto simp: untargeted_def)
  qed
qed

lemma ranked_cong:
  assumes wf: "engine_wf st" and rk: "ranked r st" and eq: "\<forall>x < length (heap st). r' x = r x"
  shows "ranked r' st"
  unfolding ranked_def
proof (intro allI impI ballI)
  fix a l assume a: "a < length (heap st)" and l: "l \<in> set (map mv_listeners (heap st) ! a)"
  then have "listener_ok st l" using wf by (auto simp: engine_wf_def)
  with rk a l eq show "case action_target (snd l) of None \<Rightarrow> True | Some t \<Rightarrow> r' t < r' a"
    by (auto simp: ranked_def listener_ok_def split: option.splits)
qed

text \<open>
  The shape every mount of this kind leaves: two new motion values, a progress
  \<open>L\<close> and a value \<open>Suc L\<close> that a fresh closure \<open>act\<close> on the progress writes, the
  scroll and resize handlers registered. Whatever values the effects wrote, the page is
  well formed, ranked with one more level, and \<open>Suc L\<close> follows \<open>L\<close> through \<open>act\<close>.
\<close>

lemma mount_follow_facts:
  assumes wf: "page_wf p" and rk: "ranked r (eng p)"
    and sh3: "shape e3 = shape (snd (new_motion_value v2 (snd (new_motion_value v1 (eng p)))))"
    and tgt: "action_target act = Some (Suc (length (heap (eng p))))"
  defines "L \<equiv> length (heap (eng p))" and "k \<equiv> next_lid (eng p)"
  defines "E \<equiv> snd (mv_on L ''change'' (Closure k, act) (e3\<lparr>next_lid := Suc k\<rparr>))"
    and "h \<equiv> ScrollUpdate (next_handler p) L"
  defines "p1 \<equiv> p\<lparr>eng := E, win := win p @ [(''scroll'', h), (''resize'', h)], next_handler := Suc (next_handler p)\<rparr>"
    and "r2 \<equiv> \<lambda>x. if x = Suc L then 0 else Suc (if x < L then r x else 0)"
  shows "length (heap (eng p1)) = Suc (Suc L) \<and> page_wf p1 \<and> ranked r2 (eng p1) \<and> follows (eng p1) L act (Suc L) \<and>
         (\<forall>x \<in> set (win p1). handler_target (snd x) \<noteq> Suc L) \<and>
         (''scroll'', h) \<in> set (win p1) \<and> (''resize'', h) \<in> set (win p1) \<and> (\<forall>x. mv_get x (eng p1) = mv_get x e3)"
proof -
  define e1 where "e1 = snd (new_motion_value v1 (eng p))"
  define e2 where "e2 = snd (new_motion_value v2 e1)"
  define l where "l = (Closure k, act)"
  have sh3: "shape e3 = shape e2" using sh3 by (simp add: e2_def e1_def)
  have wf0: "engine_wf (eng p)" using wf by (simp add: page_wf_def)
  have len2: "length (heap e2) = Suc (Suc L)" by (simp add: e2_def e1_def new_motion_value_def L_def)
  have len3: "length (heap e3) = Suc (Suc L)" using length_shape [OF sh3] len2 by simp
  have wf3: "engine_wf e3"
    using engine_wf_new_motion_value [OF engine_wf_new_motion_value [OF wf0]]
    by (simp add: engine_wf_shape [OF sh3] e2_def e1_def)
  have nl3: "next_lid e3 = k"
    using sh3 by (simp add: shape_def e2_def e1_def k_def new_motion_value_def)
  have wf3': "engine_wf (e3\<lparr>next_lid := Suc k\<rparr>)"
    using engine_wf_fresh_closure [OF wf3] by (simp add: fresh_closure_def nl3)
  have ok: "listener_ok (e3\<lparr>next_lid := Suc k\<rparr>) l" using len3 tgt by (simp add: listener_ok_def l_def L_def)
  have sL: "L < length (heap (e3\<lparr>next_lid := Suc k\<rparr>))" using len3 by simp
  have wfE: "engine_wf E" unfolding E_def l_def [symmetric] by (rule engine_wf_mv_on [OF wf3' sL ok])
  have lenE: "length (heap E) = Suc (Suc L)" using len3 by (simp add: E_def mv_on_def)
  have rk1: "ranked (\<lambda>x. if x < L then r x else 0) (eng p)"
    by (rule ranked_cong [OF wf0 rk]) (simp add: L_def)
  have rk3: "ranked (\<lambda>x. if x < L then r x else 0) (e3\<lparr>next_lid := Suc k\<rparr>)"
    using ranked_new_motion_value [OF ranked_new_motion_value [OF rk1]]
    by (simp add: ranked_shape [OF sh3] e2_def e1_def)
  have "map mv_listeners (heap e3) ! Suc L = []"
    using sh3 by (simp add: shape_def e2_def e1_def new_motion_value_def nth_append L_def)
  then have d0: "mv_listeners (heap (e3\<lparr>next_lid := Suc k\<rparr>) ! Suc L) = []" using len3 by simp
  have rkE: "ranked r2 E"
    unfolding E_def r2_def l_def [symmetric]
    by (rule ranked_subscribe_leaf [OF rk3 sL _ d0]) (simp_all add: l_def tgt L_def)
  have utd: "untargeted (e3\<lparr>next_lid := Suc k\<rparr>) (Suc L)"
    using untargeted_new_motion_value [OF engine_wf_new_motion_value [OF wf0], of v2]
    by (simp add: untargeted_shape [OF sh3] e2_def e1_def new_motion_value_def L_def)
  have fr: "fst l \<notin> fst ` set (mv_listeners (heap (e3\<lparr>next_lid := Suc k\<rparr>) ! L))"
    using closure_fresh [OF wf3, of L] len3 by (simp add: l_def nl3)
  have sw: "sole_writer E L l (Suc L)"
    unfolding E_def l_def [symmetric] by (rule sole_writer_subscribe [OF sL utd fr]) (simp add: l_def tgt L_def)
  have uta: "untargeted E L"
  proof -
    have "untargeted e1 L" using untargeted_new_motion_value [OF wf0] by (simp add: e1_def L_def)
    then have "untargeted (e3\<lparr>next_lid := Suc k\<rparr>) L"
      by (simp add: untargeted_shape [OF sh3] e2_def untargeted_new_motion_value_old)
    then show ?thesis unfolding E_def l_def [symmetric] by (rule untargeted_mv_on) (simp add: l_def tgt L_def)
  qed
  have fol: "follows E L act (Suc L)" using sw uta by (auto simp: follows_def l_def)
  have old: "\<forall>x \<in> set (win p). handler_id (snd x) < next_handler p \<and> handler_target (snd x) < L"
    using wf by (simp add: page_wf_def L_def)
  have pwf: "page_wf p1" using wfE old lenE by (auto simp: page_wf_def p1_def h_def)
  have tg: "\<forall>x \<in> set (win p1). handler_target (snd x) \<noteq> Suc L" using old by (auto simp: p1_def h_def)
  have gE: "mv_get x E = mv_get x e3" for x
    by (simp add: E_def mv_on_def mv_get_update_listeners mv_get_next_lid)
  show ?thesis using lenE pwf rkE fol tg gE by (simp add: p1_def)
qed

text \<open>
  After the timeline's mount, on a well-formed page: the spring follows the page's
  progress through a fresh closure, both are new, the progress already holds the
  current progress while the spring still holds the 0 it was created with, and the page
  is well formed and ranked with one more level.
\<close>

lemma timeline_mount_facts:
  assumes wf: "page_wf p" and rk: "ranked r (eng p)"
    and mount: "timeline_mount (Suc m) p = Some (a, sp, p1)"
  defines "L \<equiv> length (heap (eng p))"
  defines "r2 \<equiv> \<lambda>x. if x = Suc L then 0 else Suc (if x < L then r x else 0)"
  shows "a = L \<and> sp = Suc L \<and> vp p1 = vp p \<and> length (heap (eng p1)) = Suc (Suc L) \<and>
         page_wf p1 \<and> ranked r2 (eng p1) \<and> follows (eng p1) a (Follow sp) sp \<and>
         (\<forall>x \<in> set (win p1). handler_target (snd x) \<noteq> sp) \<and>
         (''scroll'', ScrollUpdate (next_handler p) a) \<in> set (win p1) \<and>
         (''resize'', ScrollUpdate (next_handler p) a) \<in> set (win p1) \<and>
         mv_get a (eng p1) = Some (Num (scroll_progress (vp p))) \<and> mv_get sp (eng p1) = Some (Num 0)"
proof -
  define e2 where "e2 = snd (new_motion_value (Num 0) (snd (new_motion_value (Num 0) (eng p))))"
  define e3 where "e3 = write_value L (Num (scroll_progress (vp p))) e2"
  have sh3: "shape e3 = shape e2" by (simp add: e3_def shape_write_value)
  note mf = mount_follow_facts [OF wf rk sh3 [unfolded e2_def], of "Follow (Suc L)", folded L_def r2_def]
  from mount timeline_mount_state [OF wf, of m]
  have a: "a = L" and spL: "sp = Suc L"
    and p1: "p1 = p\<lparr>eng := snd (mv_on L ''change'' (Closure (next_lid (eng p)), Follow (Suc L))
                                 (e3\<lparr>next_lid := Suc (next_lid (eng p))\<rparr>)),
                  win := win p @ [(''scroll'', ScrollUpdate (next_handler p) L), (''resize'', ScrollUpdate (next_handler p) L)],
                  next_handler := Suc (next_handler p)\<rparr>"
    by (auto simp: e3_def e2_def L_def)
  have len2: "length (heap e2) = Suc (Suc L)" by (simp add: e2_def new_motion_value_def L_def)
  have ga: "mv_get L e3 = Some (Num (scroll_progress (vp p)))"
    using len2 by (simp add: e3_def mv_get_def write_value_def)
  have gs: "mv_get (Suc L) e3 = Some (Num 0)"
    using len2 by (simp add: e3_def e2_def mv_get_def write_value_def new_motion_value_def nth_append nth_list_update L_def)
  show ?thesis using mf a spL ga gs by (simp add: p1 r2_def)
qed

section \<open>The spring over a run of browser events\<close>

lemma browser_step_follow:
  assumes wf: "page_wf p" and rk: "ranked r (eng p)" and fuel: "\<forall>b < length (heap (eng p)). r b < n"
    and fol: "follows (eng p) a act d" and tg: "\<forall>x \<in> set (win p). handler_target (snd x) \<noteq> d"
    and reg: "(''scroll'', ScrollUpdate h a) \<in> set (win p)" "(''resize'', ScrollUpdate h a) \<in> set (win p)"
    and ev: "fires_event ev"
  shows "\<exists>p'. browser_step n ev p = Some p' \<and> vp p' = event_viewport ev (vp p) \<and> win p' = win p \<and>
           next_handler p' = next_handler p \<and> shape (eng p') = shape (eng p) \<and>
           mv_get d (eng p') = Some (action_value act (Num (scroll_progress (vp p'))))"
proof -
  let ?p0 = "p\<lparr>vp := event_viewport ev (vp p)\<rparr>"
  obtain ty where bs: "browser_step n ev p = dispatch n ty ?p0" and rty: "(ty, ScrollUpdate h a) \<in> set (win p)"
    using ev reg by (cases ev) (auto simp: browser_step_def)
  let ?hs = "map snd (filter (\<lambda>x. fst x = ty) (win p))"
  have wf0: "engine_wf (eng p)" using wf by (simp add: page_wf_def)
  have "\<forall>x \<in> set ?hs. handler_target x < length (heap (eng ?p0)) \<and> r (handler_target x) < n"
    using wf fuel by (fastforce simp: page_wf_def)
  then have "\<exists>p'. run_handlers n ?hs ?p0 = Some p'"
    by (intro run_handlers_total) (use wf0 rk in auto)
  then obtain p' where run: "run_handlers n ?hs ?p0 = Some p'" by blast
  note fr = run_handlers_frame [OF run]
  have "mv_get d (eng p') = Some (action_value act (Num (scroll_progress (vp ?p0))))"
  proof (rule run_handlers_follow [OF run])
    show "engine_wf (eng ?p0)" "ranked r (eng ?p0)" "follows (eng ?p0) a act d" using wf0 rk fol by simp_all
    show "\<forall>x \<in> set ?hs. handler_target x \<noteq> d" using tg by auto
    show "(\<exists>h. ScrollUpdate h a \<in> set ?hs) \<or> mv_get d (eng ?p0) = Some (action_value act (Num (scroll_progress (vp ?p0))))"
      using rty by force
  qed
  with run fr bs show ?thesis by (simp add: dispatch_def)
qed

lemma browser_run_follow:
  assumes "page_wf p" and "ranked r (eng p)" and "\<forall>b < length (heap (eng p)). r b < n"
    and "follows (eng p) a act d" and "\<forall>x \<in> set (win p). handler_target (snd x) \<noteq> d"
    and "(''scroll'', ScrollUpdate h a) \<in> set (win p)" "(''resize'', ScrollUpdate h a) \<in> set (win p)"
    and "list_all fires_event evs" and "evs \<noteq> []"
  shows "\<exists>p'. browser_run n evs p = Some p' \<and> vp p' = fold event_viewport evs (vp p) \<and>
           mv_get d (eng p') = Some (action_value act (Num (scroll_progress (vp p'))))"
  using assms
proof (induction evs arbitrary: p)
  case Nil
  then show ?case by simp
next
  case (Cons ev evs)
  have fe: "fires_event ev" using Cons.prems(8) by simp
  from browser_step_follow [OF Cons.prems(1-7) fe] obtain p' where
    step: "browser_step n ev p = Some p'" and vp': "vp p' = event_viewport ev (vp p)"
    and win': "win p' = win p" and nh: "next_handler p' = next_handler p"
    and sh: "shape (eng p') = shape (eng p)" and get: "mv_get d (eng p') = Some (action_value act (Num (scroll_progress (vp p'))))"
    by auto
  show ?case
  proof (cases "evs = []")
    case True
    with step vp' get show ?thesis by simp
  next
    case False
    have "\<exists>p''. browser_run n evs p' = Some p'' \<and> vp p'' = fold event_viewport evs (vp p') \<and>
        mv_get d (eng p'') = Some (action_value act (Num (scroll_progress (vp p''))))"
    proof (rule Cons.IH)
      show "page_wf p'" using Cons.prems(1) page_wf_frame [OF sh win' nh] by simp
      show "ranked r (eng p')" using Cons.prems(2) by (simp add: ranked_shape [OF sh])
      show "\<forall>b < length (heap (eng p')). r b < n" using Cons.prems(3) by (simp add: length_shape [OF sh])
      show "follows (eng p') a act d" using Cons.prems(4) by (simp add: follows_shape [OF sh])
      show "\<forall>x \<in> set (win p'). handler_target (snd x) \<noteq> d" using Cons.prems(5) win' by simp
      show "(''scroll'', ScrollUpdate h a) \<in> set (win p')" "(''resize'', ScrollUpdate h a) \<in> set (win p')"
        using Cons.prems(6,7) win' by simp_all
      show "list_all fires_event evs" using Cons.prems(8) by simp
      show "evs \<noteq> []" by (rule False)
    qed
    with step vp' show ?thesis by simp
  qed
qed

section \<open>Properties\<close>

text \<open>
  C35. The timeline's thread line follows the page, not the section, and starts
  stale. On a well-formed page the mount leaves the progress at the current page
  progress but the spring at 0 (it was created from the progress value before the
  scroll effect ran, and subscribed after): a page opened already scrolled draws no
  line. From the first scroll or resize on, after every run of such events the line's
  \<open>scaleY\<close> is the progress of the whole page, whatever \<open>target\<close> and \<open>offset\<close> the
  component asked for.
\<close>

theorem timeline_thread_tracks_page:
  assumes wf: "page_wf p" and rk: "ranked r (eng p)" and fuel: "\<forall>b < length (heap (eng p)). r b < n"
    and n0: "0 < n" and mount: "timeline_mount (Suc m) p = Some (a, sp, p1)"
    and evs: "list_all fires_event evs" and ne: "evs \<noteq> []"
  shows "mv_get a (eng p1) = Some (Num (scroll_progress (vp p))) \<and> mv_get sp (eng p1) = Some (Num 0) \<and>
         (\<exists>p2. browser_run (Suc n) evs p1 = Some p2 \<and> vp p2 = fold event_viewport evs (vp p) \<and>
            mv_get sp (eng p2) = Some (Num (scroll_progress (vp p2))))"
proof -
  let ?L = "length (heap (eng p))"
  let ?r2 = "\<lambda>x. if x = Suc ?L then 0 else Suc (if x < ?L then r x else 0)"
  note f = timeline_mount_facts [OF wf rk mount]
  have fuel2: "\<forall>b < length (heap (eng p1)). ?r2 b < Suc n" using f fuel n0 by auto
  have pw: "page_wf p1" and rk1: "ranked ?r2 (eng p1)" and fo: "follows (eng p1) a (Follow sp) sp"
    and tg: "\<forall>x \<in> set (win p1). handler_target (snd x) \<noteq> sp"
    and rs: "(''scroll'', ScrollUpdate (next_handler p) a) \<in> set (win p1)"
    and rr: "(''resize'', ScrollUpdate (next_handler p) a) \<in> set (win p1)"
    using f by blast+
  have "\<exists>p2. browser_run (Suc n) evs p1 = Some p2 \<and> vp p2 = fold event_viewport evs (vp p1) \<and>
      mv_get sp (eng p2) = Some (Num (scroll_progress (vp p2)))"
    using browser_run_follow [OF pw rk1 fuel2 fo tg rs rr evs ne] by simp
  moreover have "vp p1 = vp p" "mv_get a (eng p1) = Some (Num (scroll_progress (vp p)))"
    "mv_get sp (eng p1) = Some (Num 0)"
    using f by blast+
  ultimately show ?thesis by simp
qed

theorem timeline_thread_tracks_page_witness:
  "mv_get 1 (eng (snd (snd (the (timeline_mount 1 example_page))))) = Some (Num 0) \<and>
   (\<exists>p2. browser_run 2 [ScrollTo 600] (snd (snd (the (timeline_mount 1 example_page)))) = Some p2 \<and>
      mv_get 1 (eng p2) = Some (Num (3 / 5)))"
proof -
  obtain a sp p1 where m: "timeline_mount (Suc 0) example_page = Some (a, sp, p1)"
    using timeline_mount_state [OF example_page_wf, of 0] by simp
  have ids: "a = 0" "sp = 1"
    using m timeline_mount_state [OF example_page_wf, of 0] by (simp_all add: example_page_def empty_engine_def)
  have rk: "ranked (\<lambda>_. 0) (eng example_page)" by (simp add: ranked_def example_page_def empty_engine_def)
  have fuel: "\<forall>b < length (heap (eng example_page)). (\<lambda>_. 0::nat) b < 1" by simp
  have p1: "snd (snd (the (timeline_mount 1 example_page))) = p1" using m by simp
  from timeline_thread_tracks_page [OF example_page_wf rk fuel _ m, of "[ScrollTo 600]"]
  obtain p2 where m0: "mv_get sp (eng p1) = Some (Num 0)"
    and run: "browser_run (Suc 1) [ScrollTo 600] p1 = Some p2"
    and vp2: "vp p2 = fold event_viewport [ScrollTo 600] (vp example_page)"
    and g: "mv_get sp (eng p2) = Some (Num (scroll_progress (vp p2)))"
    by auto
  have "scroll_progress (vp p2) = 3 / 5" using vp2 by (simp add: example_page_def scroll_progress_def)
  with m0 run g ids show ?thesis unfolding p1 by (simp add: numeral_2_eq_2)
qed

end
