(* ===== verification/Sections.thy ===== *)
theory Sections
  imports Scroll
begin

text \<open>
  The static sections around the animated ones: the hero of \<open>src/components/Hero.tsx\<close>
  (its letter-by-letter title, its social links and the "Discover" arrow, which scrolls
  the window down by one viewport height) and the resources and contact column of
  \<open>src/components/Services.tsx\<close>. The entry animations only pass constants to
  \<open>motion\<close> (see theory \<open>MotionFactory\<close>); what is modelled is the data the sections
  render and what their controls do.
\<close>

section \<open>Hero\<close>

definition hero_title :: string where
  "hero_title = ''PORTFOLIO''"

text \<open>\<open>"PORTFOLIO".split("")\<close>: each letter with its delay \<open>0.2 + i * 0.05\<close> seconds (lines 39--44).\<close>

definition hero_letters :: "(string \<times> real) list" where
  "hero_letters = map (\<lambda>(i, c). ([c], 2 / 10 + real i * 5 / 100)) (enumerate 0 hero_title)"

text \<open>The social links (lines 94--98): each label with a dot, linking to \<open>#\<close>.\<close>

definition hero_socials :: "(string \<times> string) list" where
  "hero_socials = map (\<lambda>s. (s @ ''.'', ''#'')) [''In'', ''Be'', ''Dr'']"

text \<open>
  The "Discover" arrow (lines 101--104): \<open>window.scrollTo({ top: window.innerHeight })\<close>.
  The smooth scroll ends with a scroll event at the target.
\<close>

definition hero_discover :: "viewport \<Rightarrow> browser_event" where
  "hero_discover w = ScrollTo (inner_height w)"

section \<open>Services\<close>

text \<open>The two resource buttons (lines 80--89): a label and the click handler, if any.\<close>

definition services_resources :: "(string \<times> (unit \<Rightarrow> unit) option) list" where
  "services_resources = [(''Download CV'', None), (''Portfolio PDF'', None)]"

text \<open>The contact links (lines 95--109): the \<open>href\<close> and the text shown.\<close>

definition services_contacts :: "(string \<times> string) list" where
  "services_contacts = [(''mailto:amy@example.com'', ''amy.simpson@design.com''), (''#'', ''@amysimpson.design'')]"

definition mailto_address :: "string \<Rightarrow> string option" where
  "mailto_address h = (if take 7 h = ''mailto:'' then Some (drop 7 h) else None)"

section \<open>Facts\<close>

lemma hero_letters_spell_title: "concat (map fst hero_letters) = hero_title"
  by (simp add: hero_letters_def hero_title_def)

text \<open>The letters appear in order, 50 ms apart, the last one 0.6 s after the first.\<close>

lemma hero_letters_delays:
  "map snd hero_letters = map (\<lambda>i. 2 / 10 + real i * 5 / 100) [0..<9]"
  by (simp add: hero_letters_def hero_title_def upt_rec)

text \<open>
  The "Discover" arrow moves the viewport to one window height; on a document longer
  than two windows the progress becomes \<open>innerHeight / (scrollHeight - innerHeight)\<close>.
\<close>

lemma hero_discover_progress:
  assumes "2 * inner_height w < scroll_height w" and "0 \<le> inner_height w"
  shows "scroll_progress (event_viewport (hero_discover w) w) =
           inner_height w / (scroll_height w - inner_height w)"
  using assms by (simp add: hero_discover_def scroll_progress_def Let_def divide_le_eq_1)

text \<open>
  The contact link's address is not the one it shows, and neither resource button has a
  click handler.
\<close>

lemma services_email_mismatch:
  "mailto_address (fst (hd services_contacts)) = Some ''amy@example.com'' \<and>
   mailto_address (fst (hd services_contacts)) \<noteq> Some (snd (hd services_contacts))"
  by (simp add: services_contacts_def mailto_address_def)

lemma services_resources_inert: "\<forall>b \<in> set services_resources. snd b = None"
  by (simp add: services_resources_def)

end
