(* ===== verification/Cursor.thy ===== *)
theory Cursor
  imports Spring
begin

text \<open>
  The custom cursor of \<open>src/components/App.tsx\<close> (lines 12--56): four springs of
  the plain number 0 (\<open>useSpring(0, ...)\<close>, which the library turns into motion
  values with nothing subscribed), a hover flag, and the window's \<open>mousemove\<close>
  handler, which sets the four springs to the pointer's coordinates and the flag to
  whether the target or one of its ancestors is clickable
  (\<open>target.closest('a, button, input, textarea, .cursor-pointer')\<close>). A DOM element
  on the path from the target to the root is its tag and its class list.
\<close>

record cursor =
  mouse_x :: vid
  mouse_y :: vid
  ring_x :: vid
  ring_y :: vid
  is_hovering :: bool

text \<open>The render of the component on its first mount (lines 13--18).\<close>

definition cursor_mount :: "engine \<Rightarrow> cursor \<times> engine" where
  "cursor_mount st =
     (let (mx, _, st1) = use_spring None (ArgRaw (Num 0)) st;
          (my, _, st2) = use_spring None (ArgRaw (Num 0)) st1;
          (rx, _, st3) = use_spring None (ArgRaw (Num 0)) st2;
          (ry, _, st4) = use_spring None (ArgRaw (Num 0)) st3
      in (\<lparr>mouse_x = mx, mouse_y = my, ring_x = rx, ring_y = ry, is_hovering = False\<rparr>, st4))"

text \<open>\<open>Element.closest\<close> with the selector of line 28, on the path from the target up.\<close>

definition is_clickable :: "(string \<times> string list) list \<Rightarrow> bool" where
  "is_clickable path \<longleftrightarrow>
     (\<exists>(tag, cls) \<in> set path. tag \<in> {''a'', ''button'', ''input'', ''textarea''} \<or> ''cursor-pointer'' \<in> set cls)"

text \<open>\<open>onMouseMove\<close> (lines 21--30).\<close>

definition on_mouse_move ::
  "nat \<Rightarrow> real \<Rightarrow> real \<Rightarrow> (string \<times> string list) list \<Rightarrow> cursor \<Rightarrow> engine \<Rightarrow> (cursor \<times> engine) option" where
  "on_mouse_move n cx cy path c st =
     Option.bind (mv_set n (mouse_x c) (Num cx) st) (\<lambda>st1.
     Option.bind (mv_set n (mouse_y c) (Num cy) st1) (\<lambda>st2.
     Option.bind (mv_set n (ring_x c) (Num cx) st2) (\<lambda>st3.
     map_option (\<lambda>st4. (c\<lparr>is_hovering := is_clickable path\<rparr>, st4)) (mv_set n (ring_y c) (Num cy) st3))))"

text \<open>The ring's animation target (lines 44--48).\<close>

definition ring_animate :: "cursor \<Rightarrow> (string \<times> jsval) list" where
  "ring_animate c =
     (if is_hovering c then [(''scale'', Num 2), (''borderWidth'', Num 1), (''backgroundColor'', Str ''rgba(162, 210, 255, 0.2)'')]
      else [(''scale'', Num 1), (''borderWidth'', Num 2), (''backgroundColor'', Str ''transparent'')])"

section \<open>Facts\<close>

lemma cursor_mount_state:
  "cursor_mount st =
     (\<lparr>mouse_x = length (heap st), mouse_y = Suc (length (heap st)), ring_x = Suc (Suc (length (heap st))),
       ring_y = Suc (Suc (Suc (length (heap st)))), is_hovering = False\<rparr>,
      st\<lparr>heap := heap st @ replicate 4 \<lparr>mv_value = Num 0, mv_listeners = []\<rparr>\<rparr>)"
  by (simp add: cursor_mount_def use_spring_def use_motion_value_def spring_initial_def
      spring_effect_def new_motion_value_def numeral_eq_Suc)

text \<open>A move when the four springs are allocated and nothing is subscribed to them.\<close>

lemma on_mouse_move_plain:
  assumes "\<forall>a \<in> {mouse_x c, mouse_y c, ring_x c, ring_y c}. a < length (heap st) \<and> mv_listeners (heap st ! a) = []"
  shows "on_mouse_move (Suc n) cx cy path c st =
           Some (c\<lparr>is_hovering := is_clickable path\<rparr>,
                 write_value (ring_y c) (Num cy) (write_value (ring_x c) (Num cx)
                   (write_value (mouse_y c) (Num cy) (write_value (mouse_x c) (Num cx) st))))"
  using assms by (simp add: on_mouse_move_def listeners_write_value_nth)

text \<open>
  After mounting on any engine, one mouse move sets the dot and the ring to the
  pointer (the springs do not smooth, so the ring does not trail the dot) and the
  hover flag to whether the pointer is over a clickable element.
\<close>

lemma cursor_follows_pointer:
  assumes "cursor_mount st = (c, st0)"
  shows "\<exists>c' st'. on_mouse_move (Suc n) cx cy path c st0 = Some (c', st') \<and>
           mv_get (mouse_x c') st' = Some (Num cx) \<and> mv_get (ring_x c') st' = Some (Num cx) \<and>
           mv_get (mouse_y c') st' = Some (Num cy) \<and> mv_get (ring_y c') st' = Some (Num cy) \<and>
           is_hovering c' = is_clickable path"
proof -
  from assms have c: "c = \<lparr>mouse_x = length (heap st), mouse_y = Suc (length (heap st)),
      ring_x = Suc (Suc (length (heap st))), ring_y = Suc (Suc (Suc (length (heap st)))), is_hovering = False\<rparr>"
    and st0: "st0 = st\<lparr>heap := heap st @ replicate 4 \<lparr>mv_value = Num 0, mv_listeners = []\<rparr>\<rparr>"
    unfolding cursor_mount_state by auto
  have "\<forall>a \<in> {mouse_x c, mouse_y c, ring_x c, ring_y c}. a < length (heap st0) \<and> mv_listeners (heap st0 ! a) = []"
    by (simp add: c st0 nth_append numeral_eq_Suc)
  then have "on_mouse_move (Suc n) cx cy path c st0 =
      Some (c\<lparr>is_hovering := is_clickable path\<rparr>,
            write_value (ring_y c) (Num cy) (write_value (ring_x c) (Num cx)
              (write_value (mouse_y c) (Num cy) (write_value (mouse_x c) (Num cx) st0))))"
    by (rule on_mouse_move_plain)
  moreover have "length (heap st0) = length (heap st) + 4" by (simp add: st0)
  ultimately show ?thesis by (simp add: c mv_get_write_value)
qed

end
