(* ===== verification/PortfolioComments.thy ===== *)
theory PortfolioComments
  imports Portfolio Comments
begin

text \<open>
  The portfolio modal together with the \<open>Comments\<close> component it renders
  (\<open>Portfolio.tsx\<close> line 562, \<open><Comments projectId={selectedProject.id} />\<close>). The
  modal and everything in it stays mounted while \<open>selectedProject\<close> is set, whatever
  project it is: no \<open>key\<close> distinguishes projects, so React keeps the \<open>Comments\<close>
  instance and re-renders it with the new \<open>projectId\<close>. After each portfolio action
  the comments are reconciled with the selected project: mounted when the modal opens,
  re-rendered with a new \<open>projectId\<close> when the project changes, dropped when the modal
  closes (the component has no cleanup). The shared \<open>localStorage\<close> persists across.
\<close>

record pc_page =
  pc_pf :: pf_state
  pc_cm :: "cm_state option"
  pc_store :: storage

definition pc_reconcile :: "nat \<Rightarrow> pf_state \<Rightarrow> cm_state option \<Rightarrow> storage \<Rightarrow> cm_state option \<times> storage" where
  "pc_reconcile now s cm st =
     (case selected s of
        None \<Rightarrow> (None, st)
      | Some q \<Rightarrow>
          (case cm of
             None \<Rightarrow> (let (m, st') = cm_mount (proj_id q) now st in (Some m, st'))
           | Some m \<Rightarrow>
               (if cm_project m = proj_id q then (Some m, st)
                else (let (m', st') = cm_change_project (proj_id q) now (m, st) in (Some m', st')))))"

text \<open>
  An event of the page is an event of the gallery and its modals, or an event of the
  comment form, which exists only while the modal is open.
\<close>

datatype pc_event = PfEvent pf_event | CmEvent cm_event

definition pc_step :: "nat \<Rightarrow> pc_event \<Rightarrow> pc_page \<Rightarrow> pc_page" where
  "pc_step now e c =
     (case e of
        PfEvent ev \<Rightarrow>
          (let s' = pf_step ev (pc_pf c);
               (cm', st') = pc_reconcile now s' (pc_cm c) (pc_store c)
           in \<lparr>pc_pf = s', pc_cm = cm', pc_store = st'\<rparr>)
      | CmEvent ev \<Rightarrow>
          (case pc_cm c of
             None \<Rightarrow> c
           | Some m \<Rightarrow> (let (m', st') = cm_step ev (m, pc_store c) in c\<lparr>pc_cm := Some m', pc_store := st'\<rparr>)))"

definition pc_init :: "storage \<Rightarrow> pc_page" where
  "pc_init st = \<lparr>pc_pf = pf_init, pc_cm = None, pc_store = st\<rparr>"

section \<open>Facts\<close>

lemma pf_step_project_key_selected:
  "selected (pf_step (ProjectKey q ''Enter'') s) = Some q"
  by (simp add: pf_step_def pf_effects_def handle_project_key_def)

lemma pc_step_switch:
  assumes "selected (pf_step ev (pc_pf c)) = Some q" and "pc_cm c = Some m" and "cm_project m \<noteq> proj_id q"
  shows "pc_step now (PfEvent ev) c =
     \<lparr>pc_pf = pf_step ev (pc_pf c), pc_cm = Some (fst (cm_change_project (proj_id q) now (m, pc_store c))),
      pc_store = snd (cm_change_project (proj_id q) now (m, pc_store c))\<rparr>"
  using assms by (simp add: pc_step_def pc_reconcile_def split_def Let_def)

lemma cm_project_change_project: "cm_project (fst (cm_change_project q now ss)) = q"
  by (simp add: cm_change_project_def cm_project_effects_def Let_def split: option.splits)

section \<open>Properties\<close>

text \<open>
  C23. With the modal open on one project, pressing Enter on the card of another
  project (the cards stay focusable behind the modal) opens that project in the same
  modal, and when its stored comments are not valid JSON the comment list shown for
  it is the previous project's, which is also written under its key.
\<close>

theorem modal_switch_leaks_comments:
  assumes "pc_cm c = Some m" and "cm_project m \<noteq> proj_id q" and "comments m \<noteq> []"
    and "pc_store c (cm_key (proj_id q)) = Some (JsonText t)" and "t \<noteq> []"
  shows "\<exists>m'. pc_step now (PfEvent (ProjectKey q ''Enter'')) c =
           \<lparr>pc_pf = pf_step (ProjectKey q ''Enter'') (pc_pf c), pc_cm = Some m',
            pc_store = (pc_store c)(cm_key (proj_id q) \<mapsto> JsonComments (comments m))\<rparr> \<and>
           selected (pf_step (ProjectKey q ''Enter'') (pc_pf c)) = Some q \<and>
           cm_project m' = proj_id q \<and> comments m' = comments m"
proof -
  let ?r = "cm_change_project (proj_id q) now (m, pc_store c)"
  have sel: "selected (pf_step (ProjectKey q ''Enter'') (pc_pf c)) = Some q"
    by (rule pf_step_project_key_selected)
  have leak: "comments (fst ?r) = comments m" "snd ?r (cm_key (proj_id q)) = Some (JsonComments (comments m))"
    using comments_switch_leaks [of "pc_store c" "proj_id q" t m now, OF assms(4,5,3)] by simp_all
  have st: "snd ?r = (pc_store c)(cm_key (proj_id q) \<mapsto> JsonComments (comments m))"
    using assms(4,5,3) by (simp add: cm_change_project_def cm_project_effects_def cm_load_def cm_save_def Let_def)
  show ?thesis
    using pc_step_switch [OF sel assms(1,2), of now] sel leak(1) st cm_project_change_project [of "proj_id q" now]
    by auto
qed

theorem modal_switch_leaks_comments_witness:
  "\<exists>m'. pc_cm (pc_step 9 (PfEvent (ProjectKey second_project ''Enter''))
      (pc_step 7 (PfEvent (ProjectClick first_project)) (pc_init [cm_key 2 \<mapsto> JsonText ''{'']))) = Some m' \<and>
     cm_project m' = 2 \<and> comments m' = [dummy_comment 1 7] \<and>
     pc_store (pc_step 9 (PfEvent (ProjectKey second_project ''Enter''))
      (pc_step 7 (PfEvent (ProjectClick first_project)) (pc_init [cm_key 2 \<mapsto> JsonText ''{'']))) (cm_key 2) =
       Some (JsonComments [dummy_comment 1 7])"
proof -
  let ?c = "pc_step 7 (PfEvent (ProjectClick first_project)) (pc_init [cm_key 2 \<mapsto> JsonText ''{''])"
  have fp: "proj_id first_project = 1" "proj_id second_project = 2"
    by (simp_all add: first_project_def second_project_def portfolio_projects_def initial_projects_def)
  have k: "cm_key 1 \<noteq> cm_key 2"
    by (simp add: cm_key_def string_of_nat.simps)
  have c: "pc_cm ?c = Some \<lparr>comments = [dummy_comment 1 7], author_in = '''', text_in = '''', focused = False, cm_project = 1\<rparr>"
          "pc_store ?c (cm_key (proj_id second_project)) = Some (JsonText ''{'')"
    using k by (simp_all add: pc_step_def pc_init_def pc_reconcile_def pf_step_def pf_effects_def pf_init_def
        fp cm_mount_def cm_project_effects_def cm_initial_def cm_load_def cm_save_def Let_def)
  show ?thesis
    using modal_switch_leaks_comments [OF c(1) _ _ c(2), where now = 9] by (auto simp: fp)
qed

end
