(* ===== verification/TimelineView.thy ===== *)
theory TimelineView
  imports Timeline MotionFactory
begin

text \<open>
  The element tree \<open>Timeline\<close> renders (\<open>src/components/Timeline.tsx\<close> lines
  21--131): the heading, the thread with its needle, one row per timeline event and the
  closing badge. Elements are \<open>node\<close>s of theory \<open>MotionFactory\<close>; a \<open><motion.div>\<close>
  is an element of the component \<open>motion.div\<close>, before that component renders it.
  \<open>className\<close> strings are built as the template literals of the source build them,
  with \<open>tpl_string\<close> of theory \<open>Prelude\<close> for the interpolated values. The \<open>key\<close> of a
  row is consumed by React and is not a prop of the element. The motion values
  (\<open>scaleY\<close>, the needle's \<open>top\<close>) and the section's ref are parameters: their
  values are the subject of theory \<open>Timeline\<close>.
\<close>

section \<open>Rendering\<close>

text \<open>The heading (lines 26--31).\<close>

definition timeline_header :: node where
  "timeline_header =
     Elem ''div'' [cls ''text-center mb-24 relative z-10'']
       [Elem ''span'' [cls ''block text-xs font-mono uppercase tracking-widest mb-2 text-design-blue'']
          [TextNode ''The Process''],
        Elem ''h2'' [cls ''text-4xl md:text-6xl font-display uppercase font-bold text-design-black dark:text-white'']
          [TextNode ''Career '', Elem ''br'' [] [],
           Elem ''span'' [cls ''italic font-serif font-light text-gray-400''] [TextNode ''Chronology'']]]"

text \<open>
  The thread (lines 34--72): the static loop, the faint guide, the line scaled by
  \<open>scaleY\<close> and the needle whose \<open>top\<close> is a motion value.
\<close>

definition timeline_thread :: "vid \<Rightarrow> vid \<Rightarrow> node" where
  "timeline_thread scaleY needleTop =
     Elem ''div'' [cls ''absolute left-8 md:left-1/2 top-0 bottom-0 w-1 md:-translate-x-1/2 pointer-events-none z-0'']
       [Elem ''div'' [cls ''absolute top-32 left-1/2 -translate-x-1/2 -translate-y-full'']
          [Elem ''svg'' [(''width'', PJs (Str ''60'')), (''height'', PJs (Str ''80'')), (''viewBox'', PJs (Str ''0 0 60 80'')),
              cls ''text-design-black dark:text-white stroke-current fill-none stroke-[2px] overflow-visible'']
             [Elem ''path'' [(''d'', PJs (Str ''M 30,80 L 30,50 C 30,50 30,20 10,20 C -10,20 -10,50 30,50 C 70,50 70,20 50,20 C 30,20 30,50 30,50''))] []]],
        Elem ''div'' [cls ''absolute top-32 bottom-0 left-1/2 -translate-x-[1px] w-[2px]'']
          [Elem ''div'' [cls ''absolute inset-0 bg-gray-200 dark:bg-gray-800 w-full rounded-full opacity-30''] [],
           Elem ''motion.div'' [cls ''absolute top-0 left-0 w-full bg-design-black dark:bg-white origin-top'',
              (''style'', PObj [(''scaleY'', PMotion scaleY)])] [],
           Elem ''motion.div'' [cls ''absolute left-1/2 -translate-x-1/2 w-6 h-12'',
              (''style'', PObj [(''top'', PMotion needleTop)])]
             [Elem ''div'' [cls ''-translate-y-[85%] filter drop-shadow-md'']
                [Elem ''svg'' [(''width'', PJs (Str ''24'')), (''height'', PJs (Str ''48'')), (''viewBox'', PJs (Str ''0 0 24 48'')),
                    (''fill'', PJs (Str ''none'')), cls ''text-design-black dark:text-white'']
                   [Elem ''path'' [(''d'', PJs (Str ''M12 48L15 6C15.5 3 13.5 0 12 0C10.5 0 8.5 3 9 6L12 48Z'')),
                       (''fill'', PJs (Str ''currentColor''))] [],
                    Elem ''path'' [(''d'', PJs (Str ''M12 2L12 8'')), (''stroke'', PJs (Str ''white'')),
                       (''strokeWidth'', PJs (Str ''1.5'')), (''strokeLinecap'', PJs (Str ''round'')),
                       cls ''dark:stroke-black''] []]]]]]"

text \<open>The dot on the line (lines 87--93).\<close>

definition timeline_dot :: node where
  "timeline_dot =
     Elem ''motion.div''
       [(''initial'', PObj [(''scale'', pnum 0), (''opacity'', pnum 0)]),
        (''whileInView'', PObj [(''scale'', pnum 1), (''opacity'', pnum 1)]),
        (''viewport'', PObj [(''margin'', PJs (Str ''-50% 0px -50% 0px''))]),
        (''transition'', PObj [(''type'', PJs (Str ''spring''))]),
        cls ''absolute left-8 md:left-1/2 w-4 h-4 bg-design-white dark:bg-[#0f0f0f] border-2 border-design-black dark:border-white rounded-full md:-translate-x-1/2 z-10 transform -translate-x-[50%] mt-8 md:mt-0'']
       []"

text \<open>The year badge (line 97): its class list ends with \<open>${!isEven && 'md:ml-auto'}\<close>.\<close>

definition badge_class :: "bool \<Rightarrow> string" where
  "badge_class isEven =
     ''inline-block border border-design-black dark:border-white rounded-full px-4 py-1.5 text-[10px] font-bold uppercase tracking-widest bg-white dark:bg-black mb-4 shadow-sm ''
     @ tpl_string (js_and_str (\<not> isEven) ''md:ml-auto'')"

text \<open>The text side of a row (lines 96--104).\<close>

definition timeline_content :: "bool \<Rightarrow> timeline_event \<Rightarrow> node" where
  "timeline_content isEven e =
     Elem ''div'' [cls (''w-full md:w-1/2 pl-20 md:pl-0 '' @ (if isEven then ''md:pl-24 text-left'' else ''md:pr-24 md:text-right''))]
       [Elem ''div'' [cls (badge_class isEven)] [TextNode (ev_year e)],
        Elem ''h3'' [cls ''text-2xl md:text-4xl font-display uppercase font-bold mb-3 text-design-black dark:text-white'']
          [TextNode (ev_title e)],
        Elem ''p'' [cls ''text-gray-600 dark:text-gray-400 font-medium text-sm leading-relaxed max-w-sm mx-auto md:mx-0 ml-0 md:ml-auto'']
          [TextNode (ev_desc e)]]"

text \<open>The image side of a row (lines 107--117).\<close>

definition timeline_image :: "bool \<Rightarrow> timeline_event \<Rightarrow> node" where
  "timeline_image isEven e =
     Elem ''div'' [cls (''w-full md:w-1/2 pl-20 md:pl-0 mt-8 md:mt-0 '' @ (if isEven then ''md:pr-24'' else ''md:pl-24''))]
       [Elem ''div'' [cls (''relative aspect-[16/10] w-full max-w-md mx-auto '' @ (if isEven then ''mr-auto md:mr-0'' else ''mr-auto''))]
          [Elem ''div'' [cls ''absolute inset-0 bg-design-black dark:bg-white translate-x-3 translate-y-3 rounded-xl''] [],
           Elem ''img'' [(''src'', PJs (Str (ev_image e))), (''alt'', PJs (Str (ev_title e))),
              cls ''relative w-full h-full object-cover border-2 border-design-black dark:border-white rounded-xl grayscale hover:grayscale-0 transition-all duration-500 bg-gray-200''] []]]"

text \<open>One row (lines 75--119): \<open>isEven\<close> is \<open>index % 2 === 0\<close>.\<close>

definition timeline_row :: "nat \<Rightarrow> timeline_event \<Rightarrow> node" where
  "timeline_row index e =
     (let isEven = (index mod 2 = 0)
      in Elem ''motion.div''
           [(''initial'', PObj [(''opacity'', pnum 0), (''y'', pnum 50)]),
            (''whileInView'', PObj [(''opacity'', pnum 1), (''y'', pnum 0)]),
            (''viewport'', PObj [(''once'', PBool True), (''margin'', PJs (Str ''-10%''))]),
            (''transition'', PObj [(''duration'', pnum (8 / 10))]),
            cls (''relative flex flex-col md:flex-row '' @ (if isEven then ''md:flex-row-reverse'' else '''') @ '' items-center'')]
           [timeline_dot, timeline_content isEven e, timeline_image isEven e])"

text \<open>The closing badge (lines 123--127).\<close>

definition timeline_end :: node where
  "timeline_end =
     Elem ''div'' [cls ''relative flex justify-center pt-12 pl-8 md:pl-0'']
       [Elem ''div'' [cls ''bg-design-white dark:bg-[#0f0f0f] border-2 border-design-black dark:border-white px-6 py-2 z-10 font-mono text-xs uppercase tracking-widest rounded-full shadow-flat dark:shadow-flat-white'']
          [TextNode ''Present Day'']]"

text \<open>The section (lines 21--131).\<close>

definition timeline_view :: "nat \<Rightarrow> vid \<Rightarrow> vid \<Rightarrow> node" where
  "timeline_view containerRef scaleY needleTop =
     Elem ''section'' [(''ref'', PRef containerRef), (''id'', PJs (Str ''timeline'')),
        cls ''py-24 md:py-32 bg-design-white dark:bg-[#0f0f0f] relative overflow-hidden transition-colors duration-500'']
       [Elem ''div'' [cls ''max-w-7xl mx-auto px-6 relative'']
          [timeline_header, timeline_thread scaleY needleTop,
           Elem ''div'' [cls ''space-y-24 md:space-y-32 relative z-10'']
             (map (\<lambda>(index, e). timeline_row index e) (enumerate 0 timeline_events) @ [timeline_end])]]"

section \<open>Facts\<close>

lemma timeline_view_row:
  assumes "i < length timeline_events"
  shows "node_at [0, 2, i] (timeline_view r sp nd) = Some (timeline_row i (timeline_events ! i))"
  using assms by (simp add: node_at_def timeline_view_def nth_append nth_enumerate_eq)

lemma badge_class_tokens:
  "''false'' \<in> set (class_tokens (badge_class b)) \<longleftrightarrow> b"
  "''md:ml-auto'' \<in> set (class_tokens (badge_class b)) \<longleftrightarrow> \<not> b"
  by (cases b; simp add: badge_class_def js_and_str_def class_tokens_def)+


lemma row_class_tokens:
  "''md:flex-row-reverse'' \<in> set (class_tokens (''relative flex flex-col md:flex-row '' @
      (if b then ''md:flex-row-reverse'' else '''') @ '' items-center'')) \<longleftrightarrow> b"
  by (cases b) (simp_all add: class_tokens_def)

section \<open>Properties\<close>

text \<open>
  C37. In the rendered timeline the row of every event alternates its direction with
  its index, and its year badge shows the event's year; but the class list of the
  badge of every even row holds the stray class \<open>false\<close>: the template literal
  interpolates \<open>!isEven && 'md:ml-auto'\<close>, which is the boolean \<open>false\<close> there, where
  the odd rows get \<open>md:ml-auto\<close>.
\<close>

theorem timeline_badge_stray_false:
  assumes "i < length timeline_events"
  shows "\<exists>row b c. node_at [0, 2, i] (timeline_view r sp nd) = Some row \<and> node_class row = Some c \<and>
           node_at [1, 0] row = Some (Elem ''div'' [(''className'', PJs (Str b))] [TextNode (ev_year (timeline_events ! i))]) \<and>
           (''md:flex-row-reverse'' \<in> set (class_tokens c) \<longleftrightarrow> even i) \<and>
           (''false'' \<in> set (class_tokens b) \<longleftrightarrow> even i) \<and> (''md:ml-auto'' \<in> set (class_tokens b) \<longleftrightarrow> odd i)"
proof (intro exI conjI)
  show "node_at [0, 2, i] (timeline_view r sp nd) = Some (timeline_row i (timeline_events ! i))"
    using assms by (rule timeline_view_row)
  show "node_at [1, 0] (timeline_row i (timeline_events ! i)) =
      Some (Elem ''div'' [(''className'', PJs (Str (badge_class (even i))))] [TextNode (ev_year (timeline_events ! i))])"
    by (simp add: node_at_def timeline_row_def timeline_content_def Let_def even_iff_mod_2_eq_zero)
  show "node_class (timeline_row i (timeline_events ! i)) = Some (''relative flex flex-col md:flex-row '' @
      (if even i then ''md:flex-row-reverse'' else '''') @ '' items-center'')"
    by (simp add: timeline_row_def Let_def even_iff_mod_2_eq_zero)
qed (simp_all only: row_class_tokens badge_class_tokens)

theorem timeline_badge_stray_false_witness:
  "\<exists>row b c. node_at [0, 2, 0] (timeline_view 0 1 2) = Some row \<and> node_class row = Some c \<and>
     node_at [1, 0] row = Some (Elem ''div'' [(''className'', PJs (Str b))] [TextNode ''2025'']) \<and>
     ''md:flex-row-reverse'' \<in> set (class_tokens c) \<and> ''false'' \<in> set (class_tokens b) \<and>
     ''md:ml-auto'' \<notin> set (class_tokens b)"
  using timeline_badge_stray_false [of 0 0 1 2] by (simp add: timeline_events_def)

end
