(* ===== verification/PortfolioView.thy ===== *)
theory PortfolioView
  imports Portfolio MotionFactory
begin

text \<open>
  The element tree the portfolio section renders (\<open>src/components/Portfolio.tsx\<close>):
  the process steps and the process view (\<open>ProcessStep\<close>, \<open>DeconstructionView\<close>,
  lines 56--250), the heading, filters, gallery and "Load More" block, the project
  modal and the high-resolution view of \<open>Portfolio\<close> (lines 301--604), as a function
  of the state of theory \<open>Portfolio\<close>. The local components \<open>ProcessStep\<close> and
  \<open>DeconstructionView\<close> are shown rendered; \<open>Comments\<close> and the icons of
  \<open>lucide-react\<close> are shown as component elements with their props. Props that are
  functions (the handlers) are left out: what they do is \<open>pf_handler\<close>. The motion
  values of a process step (\<open>useTransform\<close>s of the scroll progress, lines 69--77 and
  101, 108) and the \<open>pathLength\<close> spring (line 132) are parameters. A conditional
  \<open>x && <el/>\<close> on a string renders nothing when the string is empty.
\<close>

section \<open>Conditional rendering\<close>

definition when_str :: "string option \<Rightarrow> (string \<Rightarrow> 'a) \<Rightarrow> 'a list" where
  "when_str x f = (case x of Some u \<Rightarrow> if u = [] then [] else [f u] | None \<Rightarrow> [])"

section \<open>The process view\<close>

text \<open>The four steps of \<open>DeconstructionView\<close> (lines 135--140): title, icon and text.\<close>

definition process_steps :: "(string \<times> string \<times> string) list" where
  "process_steps =
    [(''Simpson Sketch'', ''Scissors'', ''Initial translation of gymnastic floor routine movements into 2D structural planes.''),
     (''Material Tension'', ''Layers'', ''Selecting high-performance technical fabrics that maintain form under extreme physical stress.''),
     (''S-Curve Draping'', ''Fingerprint'', ''Adjusting the grainline to follow the natural torque of a twisting torso.''),
     (''Final Landing'', ''Activity'', ''The intersection of aesthetic perfection and unhindered athletic mobility.'')]"

text \<open>The thumbnail of a step (line 112).\<close>

definition step_thumb_url :: "nat \<Rightarrow> nat \<Rightarrow> string" where
  "step_thumb_url index projectId =
     ''https://picsum.photos/seed/step-'' @ string_of_nat index @ ''-'' @ string_of_nat projectId @ ''/800/450''"

text \<open>
  One rendered \<open>ProcessStep\<close> (lines 79--127). \<open>mv i n\<close> is the motion value the
  step's hook \<open>n\<close> returns.
\<close>

definition process_step_view ::
  "(nat \<Rightarrow> string \<Rightarrow> vid) \<Rightarrow> string \<times> string \<times> string \<Rightarrow> nat \<Rightarrow> nat \<Rightarrow> node" where
  "process_step_view mv step index projectId =
     (let (stepTitle, icon, desc) = step
      in Elem ''motion.div''
           [(''initial'', PObj [(''opacity'', pnum 0), (''y'', pnum 50)]),
            (''whileInView'', PObj [(''opacity'', pnum 1), (''y'', pnum 0)]),
            (''viewport'', PObj [(''margin'', PJs (Str ''-100px''))]),
            cls (''flex flex-col md:flex-row items-center gap-8 md:gap-12 '' @
                 (if index mod 2 = 0 then ''md:flex-row'' else ''md:flex-row-reverse''))]
           [Elem ''div'' [cls ''w-full md:w-1/2 text-center md:text-left relative z-10'']
              [Elem ''div'' [cls ''inline-flex items-center justify-center w-14 h-14 bg-design-blue text-black rounded-full mb-6 shadow-[4px_4px_0px_0px_rgba(255,255,255,0.2)]'']
                 [Elem icon [(''size'', pnum 20)] []],
               Elem ''h4'' [cls ''text-3xl md:text-4xl font-display font-bold uppercase mb-4 tracking-tight''] [TextNode stepTitle],
               Elem ''p'' [cls ''text-gray-400 font-light leading-relaxed max-w-sm mx-auto md:mx-0 text-sm md:text-base''] [TextNode desc]],
            Elem ''motion.button''
              [(''style'', PObj [(''opacity'', PMotion (mv index ''opacity'')), (''scale'', PMotion (mv index ''scale'')),
                  (''borderColor'', PMotion (mv index ''borderColor'')), (''borderWidth'', PMotion (mv index ''borderWidth'')),
                  (''boxShadow'', PMotion (mv index ''boxShadow''))]),
               cls ''w-full md:w-1/2 aspect-video bg-neutral-900 rounded-[2rem] overflow-hidden border border-white/10 group relative z-20 cursor-zoom-in outline-none focus:ring-2 focus:ring-design-blue'',
               (''aria-label'', PJs (Str (''View high resolution process image for '' @ stepTitle)))]
              [Elem ''motion.img''
                 [(''style'', PObj [(''filter'', PMotion (mv index ''filter''))]),
                  (''src'', PJs (Str (step_thumb_url index projectId))), (''alt'', PJs (Str stepTitle)),
                  cls ''w-full h-full object-cover transition-all duration-700''] [],
               Elem ''div'' [cls ''absolute inset-0 bg-gradient-to-t from-black/80 to-transparent flex items-end p-6'']
                 [Elem ''span'' [cls ''font-mono text-[10px] uppercase tracking-widest text-white/50'']
                    [TextNode ''PHASE_0'', TextNode (string_of_nat (index + 1))]],
               Elem ''motion.div'' [(''style'', PObj [(''opacity'', PMotion (mv index ''isActive''))]),
                  cls ''absolute inset-0 bg-design-blue/10 pointer-events-none mix-blend-overlay''] []]])"

text \<open>The full-screen image of a step (lines 218--245), shown while \<open>fullScreenImg\<close> is set.\<close>

definition step_fullscreen_view :: "string \<Rightarrow> node" where
  "step_fullscreen_view src =
     Elem ''motion.div''
       [(''initial'', PObj [(''opacity'', pnum 0)]), (''animate'', PObj [(''opacity'', pnum 1)]),
        (''exit'', PObj [(''opacity'', pnum 0)]),
        cls ''fixed inset-0 z-[150] bg-black/95 backdrop-blur-md flex items-center justify-center p-4 md:p-12 cursor-zoom-out'']
       [Elem ''button'' [cls ''absolute top-6 right-6 w-12 h-12 rounded-full bg-white/10 flex items-center justify-center text-white hover:bg-white hover:text-black transition-all z-50 focus:outline-none focus:ring-2 focus:ring-white'']
          [Elem ''X'' [(''size'', pnum 24)] []],
        Elem ''motion.img''
          [(''initial'', PObj [(''scale'', pnum (9 / 10)), (''opacity'', pnum 0)]),
           (''animate'', PObj [(''scale'', pnum 1), (''opacity'', pnum 1)]),
           (''exit'', PObj [(''scale'', pnum (9 / 10)), (''opacity'', pnum 0)]),
           (''src'', PJs (Str src)), cls ''max-w-full max-h-full object-contain rounded-lg shadow-2xl''] [],
        Elem ''div'' [cls ''absolute bottom-6 left-1/2 -translate-x-1/2 text-white/50 text-xs font-mono uppercase tracking-widest pointer-events-none'']
          [TextNode ''High Resolution Analysis'']]"

text \<open>
  The rendered \<open>DeconstructionView\<close> of a project (lines 142--248): the header, the
  scroll container (its ref is \<open>r\<close>) with the S-curve and the steps, the footer, and the
  full-screen image when \<open>fullScreenImg\<close> is set. \<open>pathLength\<close> is the spring of line 132.
\<close>

definition deconstruction_view ::
  "(nat \<Rightarrow> string \<Rightarrow> vid) \<Rightarrow> vid \<Rightarrow> nat \<Rightarrow> project \<Rightarrow> string option \<Rightarrow> node" where
  "deconstruction_view mv pathLength r project fullScreenImg =
     Fragment
      [Elem ''motion.div''
         [(''initial'', PObj [(''opacity'', pnum 0), (''scale'', pnum (11 / 10))]),
          (''animate'', PObj [(''opacity'', pnum 1), (''scale'', pnum 1)]),
          (''exit'', PObj [(''opacity'', pnum 0), (''scale'', pnum (95 / 100))]),
          cls ''absolute inset-0 z-[110] bg-design-black text-white flex flex-col overflow-hidden'']
         [Elem ''div'' [cls ''p-6 md:p-8 flex justify-between items-center border-b border-white/10 shrink-0 bg-design-black z-30'']
            [Elem ''div'' []
               [Elem ''span'' [cls ''text-[10px] font-mono uppercase tracking-[0.4em] text-design-blue mb-1 block''] [TextNode ''Analytical View''],
                Elem ''h3'' [cls ''text-xl md:text-3xl font-display font-bold uppercase tracking-tighter''] [TextNode ''Process Deconstruction'']],
             Elem ''button'' [cls ''w-10 h-10 md:w-12 md:h-12 flex items-center justify-center rounded-full border border-white/20 hover:bg-white hover:text-black transition-all'']
               [Elem ''X'' [(''size'', pnum 20)] []]],
          Elem ''div'' [(''ref'', PRef r), cls ''flex-1 overflow-y-auto overflow-x-hidden p-6 md:p-20 relative'']
            [Elem ''div'' [cls ''max-w-5xl mx-auto relative'']
               [Elem ''div'' [cls ''absolute left-1/2 top-0 bottom-0 -translate-x-1/2 w-[600px] pointer-events-none hidden md:block z-0'']
                  [Elem ''svg'' [(''viewBox'', PJs (Str ''0 0 100 800'')), (''preserveAspectRatio'', PJs (Str ''none'')),
                      cls ''w-full h-full fill-none overflow-visible'']
                     [Elem ''defs'' []
                        [Elem ''linearGradient'' [(''id'', PJs (Str ''snakeGradient'')), (''x1'', PJs (Str ''0%'')), (''y1'', PJs (Str ''0%'')),
                            (''x2'', PJs (Str ''0%'')), (''y2'', PJs (Str ''100%''))]
                           [Elem ''stop'' [(''offset'', PJs (Str ''0%'')), (''stopColor'', PJs (Str ''#A2D2FF'')), (''stopOpacity'', PJs (Str ''0.2''))] [],
                            Elem ''stop'' [(''offset'', PJs (Str ''100%'')), (''stopColor'', PJs (Str ''#A2D2FF'')), (''stopOpacity'', PJs (Str ''1''))] []]],
                      Elem ''path'' [(''d'', PJs (Str ''M 50,0 Q 150,100 50,200 Q -50,300 50,400 Q 150,500 50,600 Q -50,700 50,800'')),
                          (''stroke'', PJs (Str ''white'')), (''strokeWidth'', PJs (Str ''1'')), (''strokeDasharray'', PJs (Str ''4 4'')),
                          cls ''opacity-10''] [],
                      Elem ''motion.path'' [(''d'', PJs (Str ''M 50,0 Q 150,100 50,200 Q -50,300 50,400 Q 150,500 50,600 Q -50,700 50,800'')),
                          (''stroke'', PJs (Str ''#A2D2FF'')), (''strokeWidth'', PJs (Str ''3'')), (''strokeLinecap'', PJs (Str ''round'')),
                          (''fill'', PJs (Str ''none'')), (''style'', PObj [(''pathLength'', PMotion pathLength)])] []]],
                Elem ''div'' [cls ''space-y-32 md:space-y-64 relative z-10 pb-40'']
                  (map (\<lambda>(idx, step). process_step_view mv step idx (proj_id project)) (enumerate 0 process_steps))]],
          Elem ''div'' [cls ''p-6 md:p-8 border-t border-white/10 shrink-0 text-center bg-design-black z-30'']
            [Elem ''p'' [cls ''font-mono text-[9px] uppercase tracking-[0.5em] text-gray-500'']
               [TextNode (''Simpson Structural Analysis '' @ [char_of (169 :: nat)] @ '' 2025'')]]],
       animate_presence (when_str fullScreenImg step_fullscreen_view)]"

section \<open>The gallery\<close>

text \<open>The heading (lines 305--311).\<close>

definition portfolio_heading :: node where
  "portfolio_heading =
     Elem ''div'' []
       [Elem ''span'' [cls ''block text-xs font-mono uppercase tracking-widest mb-4 text-design-blue''] [TextNode ''The Archive''],
        Elem ''h2'' [cls ''text-6xl md:text-7xl lg:text-9xl font-display font-medium text-white uppercase tracking-tighter leading-[0.75]'']
          [TextNode ''SIMPSON '', Elem ''br'' [] [],
           Elem ''span'' [cls ''italic font-serif font-light opacity-30''] [TextNode ''Archive'']]]"

text \<open>A filter button (lines 314--320): highlighted when it is the active filter.\<close>

definition filter_button :: "string \<Rightarrow> string \<Rightarrow> node" where
  "filter_button activeFilter name =
     Elem ''button''
       [cls (''px-4 sm:px-8 py-2.5 text-[10px] font-bold uppercase tracking-widest transition-all rounded-full border-2 '' @
             (if activeFilter = name then ''bg-design-blue text-black border-design-blue''
              else ''bg-transparent border-white/20 text-gray-500 hover:border-white hover:text-white'') @
             '' focus:outline-none focus:ring-2 focus:ring-design-blue'')]
       [TextNode name]"

text \<open>A gallery item (lines 328--383).\<close>

definition gallery_item :: "project \<Rightarrow> node" where
  "gallery_item project =
     Elem ''motion.div''
       [(''layout'', PBool True), (''role'', PJs (Str ''button'')), (''tabIndex'', pnum 0),
        cls ''break-inside-avoid mb-6 group cursor-zoom-in relative focus:outline-none'',
        (''initial'', PObj [(''opacity'', pnum 0), (''scale'', pnum (8 / 10))]),
        (''animate'', PObj [(''opacity'', pnum 1), (''scale'', pnum 1)]),
        (''exit'', PObj [(''opacity'', pnum 0), (''scale'', pnum (8 / 10)), (''transition'', PObj [(''duration'', pnum (2 / 10))])]),
        (''transition'', PObj [(''type'', PJs (Str ''spring'')), (''stiffness'', pnum 350), (''damping'', pnum 25), (''mass'', pnum 1)])]
       [Elem ''div'' [cls ''relative rounded-[2rem] overflow-hidden bg-[#111] border border-white/5 group-focus:ring-2 group-focus:ring-design-blue'',
           (''style'', PObj [(''aspectRatio'', PJs (Str ''auto''))])]
          [Elem ''img'' [(''src'', PJs (Str (image project))), (''alt'', PJs (Str (title project))),
              cls ''w-full h-auto object-cover transition-transform duration-700 group-hover:scale-105 will-change-transform'',
              (''loading'', PJs (Str ''lazy''))] [],
           Elem ''div'' [cls ''absolute inset-0 bg-black/60 opacity-0 group-hover:opacity-100 transition-opacity duration-300 pointer-events-none''] [],
           Elem ''div'' [cls ''absolute inset-0 p-6 flex flex-col justify-between opacity-0 group-hover:opacity-100 transition-opacity duration-300'']
             [Elem ''div'' [cls ''flex justify-end'']
                [Elem ''span'' [cls ''bg-design-blue text-black px-6 py-3 rounded-full font-bold text-xs uppercase tracking-widest hover:bg-white transition-all transform -translate-y-2 group-hover:translate-y-0'']
                   [TextNode ''Examine'']],
              Elem ''div'' [cls ''flex justify-between items-center transform translate-y-2 group-hover:translate-y-0'']
                [Elem ''div'' [cls ''w-10 h-10 flex items-center justify-center bg-white/10 backdrop-blur-md rounded-full text-white border border-white/20'']
                   [Elem ''ArrowUpRight'' [(''size'', pnum 18)] []],
                 Elem ''div'' [cls ''w-10 h-10 flex items-center justify-center bg-white/10 backdrop-blur-md rounded-full text-white border border-white/20'']
                   [Elem ''Share2'' [(''size'', pnum 16)] []]]]],
        Elem ''div'' [cls ''mt-4 px-2'']
          [Elem ''h3'' [cls ''text-base font-bold text-white mb-1 uppercase tracking-tight''] [TextNode (title project)],
           Elem ''div'' [cls ''flex items-center justify-between opacity-50'']
             [Elem ''p'' [cls ''text-[10px] font-mono uppercase tracking-widest''] [TextNode (category project)],
              Elem ''span'' [cls ''text-[10px] font-mono''] [TextNode (year project)]]]]"

text \<open>The "Load More" block (lines 388--401), rendered while not everything is shown.\<close>

definition load_more_block :: "bool \<Rightarrow> node" where
  "load_more_block isLoading =
     Elem ''div'' [cls ''mt-32 flex justify-center'']
       [Elem ''button'' [(''disabled'', PBool isLoading),
           cls ''group relative px-12 py-5 bg-transparent border-2 border-white/20 overflow-hidden rounded-full transition-all hover:border-white focus:outline-none focus:ring-2 focus:ring-design-blue'']
          [Elem ''span'' [cls ''relative z-10 text-xs font-bold uppercase tracking-widest text-white group-hover:text-black transition-colors'']
             [TextNode (if isLoading then ''Warming Up...'' else ''Load Complete Archive'')],
           Elem ''div'' [cls ''absolute inset-0 bg-white transform translate-y-full group-hover:translate-y-0 transition-transform duration-500''] []]]"

section \<open>The project modal\<close>

text \<open>A value rendered as a child: \<open>undefined\<close> renders nothing.\<close>

definition opt_text :: "string option \<Rightarrow> node list" where
  "opt_text x = (case x of Some s \<Rightarrow> [TextNode s] | None \<Rightarrow> [])"

text \<open>One of the three detail cards (lines 544--558).\<close>

definition detail_card :: "string \<Rightarrow> string \<Rightarrow> node list \<Rightarrow> node" where
  "detail_card icon label value =
     Elem ''div'' [cls ''p-4 border border-neutral-100 rounded-3xl flex flex-col items-center justify-center text-center'']
       [Elem icon [cls ''mb-3 text-design-blue'', (''size'', pnum 24)] [],
        Elem ''span'' [cls ''text-[10px] font-mono uppercase text-gray-400 mb-1''] [TextNode label],
        Elem ''span'' [cls ''font-bold text-xs md:text-sm uppercase text-design-black''] value]"

text \<open>
  The image side of the modal (lines 442--500) for the measurement \<open>m\<close>: the image,
  and the width and height lines labelled with \<open>m.split('x')\<close>.
\<close>

definition modal_image_side :: "project \<Rightarrow> string \<Rightarrow> node" where
  "modal_image_side project m =
     Elem ''div'' [cls ''w-full lg:w-3/5 h-[40vh] lg:h-full bg-neutral-100 relative group overflow-hidden flex items-center justify-center p-6 md:p-8 lg:p-24 border-b lg:border-b-0 lg:border-r border-neutral-200'']
       [Elem ''div'' [cls ''absolute inset-0 opacity-[0.03] pointer-events-none'',
           (''style'', PObj [(''backgroundImage'', PJs (Str ''linear-gradient(#000 1px, transparent 1px), linear-gradient(90deg, #000 1px, transparent 1px)'')),
              (''backgroundSize'', PJs (Str ''40px 40px''))])] [],
        Elem ''div'' [cls ''relative w-full h-full flex items-center justify-center'']
          [Elem ''motion.img''
             [(''initial'', PObj [(''opacity'', pnum 0), (''scale'', pnum (95 / 100))]),
              (''animate'', PObj [(''opacity'', pnum 1), (''scale'', pnum 1)]),
              (''src'', PJs (Str (image project))), (''alt'', PJs (Str (title project))),
              cls ''relative z-10 max-w-full max-h-full md:max-w-[60%] md:max-h-[60%] object-contain shadow-2xl rounded-2xl border border-white/10 cursor-zoom-in hover:scale-[1.02] transition-transform duration-300''] [],
           Elem ''motion.div''
             [(''initial'', PObj [(''opacity'', pnum 0), (''width'', PJs (Str ''0%''))]),
              (''animate'', PObj [(''opacity'', pnum 1), (''width'', PJs (Str ''90%''))]),
              (''transition'', PObj [(''delay'', pnum (4 / 10)), (''duration'', pnum 1),
                 (''ease'', PArr [pnum (22 / 100), pnum 1, pnum (36 / 100), pnum 1])]),
              cls ''absolute bottom-4 lg:bottom-10 left-1/2 -translate-x-1/2 h-10 flex flex-col items-center justify-end z-20 pointer-events-none hidden md:flex'']
             [Elem ''div'' [cls ''bg-white text-design-black border border-neutral-200 px-3 py-1 mb-2 shadow-sm rounded-sm'']
                [Elem ''span'' [cls ''text-[10px] font-mono font-bold uppercase tracking-widest'']
                   [TextNode ''Width: '', TextNode (width_label m)]],
              Elem ''div'' [cls ''w-full flex items-end relative'']
                [Elem ''div'' [cls ''w-px h-3 bg-design-black/50''] [], Elem ''div'' [cls ''w-full h-px bg-design-black/50''] [],
                 Elem ''div'' [cls ''w-px h-3 bg-design-black/50''] []]],
           Elem ''motion.div''
             [(''initial'', PObj [(''opacity'', pnum 0), (''height'', PJs (Str ''0%''))]),
              (''animate'', PObj [(''opacity'', pnum 1), (''height'', PJs (Str ''80%''))]),
              (''transition'', PObj [(''delay'', pnum (6 / 10)), (''duration'', pnum 1),
                 (''ease'', PArr [pnum (22 / 100), pnum 1, pnum (36 / 100), pnum 1])]),
              cls ''absolute right-4 lg:right-10 top-1/2 -translate-y-1/2 w-10 flex flex-row items-center justify-end z-20 pointer-events-none hidden md:flex'']
             [Elem ''div'' [cls ''h-full flex flex-col items-end relative'']
                [Elem ''div'' [cls ''w-3 h-px bg-design-black/50''] [], Elem ''div'' [cls ''h-full w-px bg-design-black/50''] [],
                 Elem ''div'' [cls ''w-3 h-px bg-design-black/50''] []],
              Elem ''div'' [cls ''absolute right-6 top-1/2 -translate-y-1/2 -rotate-90 bg-white text-design-black border border-neutral-200 px-3 py-1 shadow-sm rounded-sm whitespace-nowrap'']
                [Elem ''span'' [cls ''text-[10px] font-mono font-bold uppercase tracking-widest'']
                   [TextNode ''Height: '', TextNode (height_label m)]]]]]"

text \<open>The text side of the modal (lines 502--564).\<close>

definition modal_text_side :: "project \<Rightarrow> project_details \<Rightarrow> string \<Rightarrow> node" where
  "modal_text_side project details m =
     Elem ''div'' [cls ''w-full lg:w-2/5 h-auto lg:h-full bg-white p-6 md:p-8 lg:p-20 flex flex-col overflow-y-auto'']
       [Elem ''motion.div''
          [(''initial'', PObj [(''opacity'', pnum 0), (''y'', pnum 20)]), (''animate'', PObj [(''opacity'', pnum 1), (''y'', pnum 0)]),
           (''transition'', PObj [(''delay'', pnum (1 / 10))])]
          [Elem ''div'' [cls ''flex items-center gap-4 mb-6 md:mb-8'']
             [Elem ''span'' [cls ''px-4 py-1.5 bg-design-blue text-black text-[10px] font-bold uppercase tracking-widest rounded-full''] [TextNode (category project)],
              Elem ''span'' [cls ''text-[10px] font-mono text-gray-400 uppercase tracking-widest''] [TextNode ''Edition '', TextNode (year project)]],
           Elem ''h2'' [cls ''text-3xl sm:text-4xl md:text-6xl lg:text-7xl font-display font-medium text-design-black leading-none mb-6 md:mb-8 uppercase tracking-tighter''] [TextNode (title project)],
           Elem ''p'' [cls ''text-gray-600 leading-relaxed font-light text-base md:text-lg mb-8''] [TextNode (description project)],
           Elem ''div'' [cls ''flex flex-wrap gap-4 mb-12'']
             (when_str (download_url project) (\<lambda>u.
                Elem ''a'' [(''href'', PJs (Str u)), (''target'', PJs (Str ''_blank'')), (''rel'', PJs (Str ''noopener noreferrer'')),
                   cls ''inline-flex items-center gap-3 px-6 py-3 bg-design-black text-white rounded-full text-[10px] font-bold uppercase tracking-widest hover:opacity-80 transition-all focus:outline-none focus:ring-2 focus:ring-design-blue'']
                  [Elem ''Download'' [(''size'', pnum 14)] [], TextNode ''Download Assets'']) @
              [Elem ''button'' [cls ''inline-flex items-center gap-3 px-6 py-3 bg-design-blue text-black rounded-full text-[10px] font-bold uppercase tracking-widest hover:scale-105 transition-all shadow-flat focus:outline-none focus:ring-2 focus:ring-black'']
                 [Elem ''Activity'' [(''size'', pnum 14)] [], TextNode ''View Process'']])],
        Elem ''div'' [cls ''grid grid-cols-2 md:grid-cols-3 gap-3 md:gap-4 mb-12'']
          [detail_card ''Ruler'' ''Scale'' [TextNode m], detail_card ''Lightbulb'' ''Logic'' (opt_text (concept details)),
           detail_card ''Palette'' ''Media'' (opt_text (media details))],
        Elem ''div'' [cls ''mt-auto''] [Elem ''Comments'' [(''projectId'', pnum (real (proj_id project)))] []]]"

text \<open>
  The modal (lines 405--568) of the selected project, with the process view on top
  while \<open>isDeconstructing\<close>. Reading \<open>details.measurement.split\<close> throws when the
  measurement is \<open>undefined\<close>: the render is then \<open>None\<close>.
\<close>

definition modal_view ::
  "(nat \<Rightarrow> string \<Rightarrow> vid) \<Rightarrow> vid \<Rightarrow> nat \<Rightarrow> project \<Rightarrow> bool \<Rightarrow> string option \<Rightarrow> node option" where
  "modal_view mv pathLength r project isDeconstructing fullScreenImg =
     (let details = get_project_details project
      in case measurement details of
           None \<Rightarrow> None
         | Some m \<Rightarrow> Some
            (Elem ''div'' [cls ''fixed inset-0 z-[100] flex items-center justify-center p-0 md:p-8'']
              [Elem ''motion.div''
                 [(''initial'', PObj [(''opacity'', pnum 0)]), (''animate'', PObj [(''opacity'', pnum 1)]),
                  (''exit'', PObj [(''opacity'', pnum 0)]), cls ''absolute inset-0 bg-white/80 backdrop-blur-xl''] [],
               Elem ''motion.div''
                 [(''initial'', PObj [(''y'', PJs (Str ''100%'')), (''opacity'', pnum 0)]),
                  (''animate'', PObj [(''y'', pnum 0), (''opacity'', pnum 1)]),
                  (''exit'', PObj [(''y'', PJs (Str ''100%'')), (''opacity'', pnum 0)]),
                  (''transition'', PObj [(''type'', PJs (Str ''spring'')), (''damping'', pnum 30), (''stiffness'', pnum 200)]),
                  cls ''relative bg-white w-full max-w-[1700px] h-full md:h-[90vh] shadow-2xl flex flex-col overflow-hidden md:rounded-[3rem] border border-neutral-200 text-design-black'']
                 [animate_presence (if isDeconstructing then [deconstruction_view mv pathLength r project fullScreenImg] else []),
                  Elem ''button'' [cls ''absolute top-4 right-4 md:top-8 md:right-8 z-50 w-10 h-10 md:w-14 md:h-14 flex items-center justify-center bg-design-black text-white rounded-full hover:rotate-90 transition-transform duration-500 shadow-xl focus:outline-none focus:ring-2 focus:ring-design-blue'']
                    [Elem ''X'' [(''size'', pnum 20), cls ''md:w-6 md:h-6''] []],
                  Elem ''div'' [cls ''flex flex-col lg:flex-row h-full'']
                    [modal_image_side project m, modal_text_side project details m]]]))"

section \<open>The high-resolution view\<close>

text \<open>Lines 573--600, shown while \<open>viewHighRes\<close> is set.\<close>

definition high_res_view :: "string \<Rightarrow> node" where
  "high_res_view src =
     Elem ''motion.div''
       [(''initial'', PObj [(''opacity'', pnum 0)]), (''animate'', PObj [(''opacity'', pnum 1)]),
        (''exit'', PObj [(''opacity'', pnum 0)]),
        cls ''fixed inset-0 z-[200] bg-black/95 backdrop-blur-md flex items-center justify-center p-4 md:p-12 cursor-zoom-out'']
       [Elem ''button'' [cls ''absolute top-6 right-6 w-12 h-12 rounded-full bg-white/10 flex items-center justify-center text-white hover:bg-white hover:text-black transition-all z-50 focus:outline-none focus:ring-2 focus:ring-white'']
          [Elem ''X'' [(''size'', pnum 24)] []],
        Elem ''motion.img''
          [(''initial'', PObj [(''scale'', pnum (9 / 10)), (''opacity'', pnum 0)]),
           (''animate'', PObj [(''scale'', pnum 1), (''opacity'', pnum 1)]),
           (''exit'', PObj [(''scale'', pnum (9 / 10)), (''opacity'', pnum 0)]),
           (''src'', PJs (Str src)), cls ''max-w-full max-h-full object-contain rounded-lg shadow-2xl''] [],
        Elem ''div'' [cls ''absolute bottom-6 left-1/2 -translate-x-1/2 text-white/50 text-xs font-mono uppercase tracking-widest pointer-events-none'']
          [TextNode ''Original High-Fidelity Asset'']]"

section \<open>The section\<close>

text \<open>The whole section (lines 301--604) in a state of theory \<open>Portfolio\<close>.\<close>

definition portfolio_view :: "(nat \<Rightarrow> string \<Rightarrow> vid) \<Rightarrow> vid \<Rightarrow> nat \<Rightarrow> pf_state \<Rightarrow> node option" where
  "portfolio_view mv pathLength r s =
     (let modal = (case selected s of
                     None \<Rightarrow> Some []
                   | Some p \<Rightarrow> map_option (\<lambda>n. [n]) (modal_view mv pathLength r p (deconstructing s) (step_image s)))
      in map_option (\<lambda>ms.
        Elem ''section'' [(''id'', PJs (Str ''portfolio'')), cls ''py-20 md:py-32 bg-[#050505] relative text-white'']
          [Elem ''div'' [cls ''max-w-[1800px] mx-auto px-4 sm:px-6 relative'']
             ([Elem ''div'' [cls ''flex flex-col md:flex-row justify-between items-end mb-16 gap-8 px-2 border-b border-white/10 pb-12'']
                 [portfolio_heading,
                  Elem ''div'' [cls ''flex flex-wrap gap-3 mb-2''] (map (filter_button (active_filter s)) filter_names)],
               Elem ''div'' [cls ''columns-1 sm:columns-2 md:columns-3 lg:columns-4 xl:columns-5 gap-6 w-full mx-auto px-2'']
                 [animate_presence (map gallery_item (filtered_projects (active_filter s) (show_all s)))]] @
              (if show_all s then [] else [load_more_block (loading s)])),
           animate_presence ms,
           animate_presence (when_str (view_high_res s) high_res_view)]) modal)"

section \<open>Images without a text alternative\<close>

text \<open>The source of an image element that has no \<open>alt\<close> prop.\<close>

definition img_no_alt :: "node \<Rightarrow> string list" where
  "img_no_alt n =
     (case n of
        Elem t ps cs \<Rightarrow>
          if (t = ''img'' \<or> t = ''motion.img'') \<and> map_of ps ''alt'' = None
          then (case map_of ps ''src'' of Some (PJs (Str u)) \<Rightarrow> [u] | _ \<Rightarrow> [])
          else []
      | _ \<Rightarrow> [])"

definition no_alt_srcs :: "node \<Rightarrow> string list" where
  "no_alt_srcs v = concat (map img_no_alt (node_elems v))"

section \<open>Facts\<close>

lemma concat_map_concat_map:
  "concat (map f (concat (map g cs))) = concat (map (\<lambda>c. concat (map f (g c))) cs)"
  by (induction cs) auto

lemma no_alt_srcs_Elem [simp]:
  "no_alt_srcs (Elem t ps cs) = img_no_alt (Elem t ps cs) @ concat (map no_alt_srcs cs)"
  by (simp add: no_alt_srcs_def [abs_def] concat_map_concat_map)

lemma no_alt_srcs_Fragment [simp]: "no_alt_srcs (Fragment cs) = concat (map no_alt_srcs cs)"
  by (simp add: no_alt_srcs_def [abs_def] concat_map_concat_map)

lemma no_alt_srcs_TextNode [simp]: "no_alt_srcs (TextNode x) = []"
  by (simp add: no_alt_srcs_def)

lemma img_no_alt_other [simp]:
  "t \<noteq> ''img'' \<Longrightarrow> t \<noteq> ''motion.img'' \<Longrightarrow> img_no_alt (Elem t ps cs) = []"
  by (simp add: img_no_alt_def)

lemma no_alt_srcs_gallery_item [simp]: "no_alt_srcs (gallery_item p) = []"
  by (simp add: gallery_item_def img_no_alt_def)

lemma no_alt_srcs_process_step [simp]: "no_alt_srcs (process_step_view mv st i pid) = []"
  by (cases st) (simp add: process_step_view_def img_no_alt_def)

lemma no_alt_srcs_step_fullscreen [simp]: "no_alt_srcs (step_fullscreen_view u) = [u]"
  by (simp add: step_fullscreen_view_def img_no_alt_def)

lemma no_alt_srcs_high_res [simp]: "no_alt_srcs (high_res_view u) = [u]"
  by (simp add: high_res_view_def img_no_alt_def)

lemma no_alt_srcs_when_str [simp]:
  "(\<And>u. no_alt_srcs (f u) = [u]) \<Longrightarrow> concat (map no_alt_srcs (when_str x f)) = when_str x id"
  by (cases x) (simp_all add: when_str_def)

lemma no_alt_srcs_when_str_none [simp]:
  "(\<And>u. no_alt_srcs (f u) = []) \<Longrightarrow> concat (map no_alt_srcs (when_str x f)) = []"
  by (cases x) (simp_all add: when_str_def)

lemma no_alt_srcs_deconstruction [simp]:
  "no_alt_srcs (deconstruction_view mv pl r p fs) = when_str fs id"
proof -
  have "concat (map no_alt_srcs (map (\<lambda>(idx, step). process_step_view mv step idx (proj_id p)) xs)) = []" for xs
    by (induction xs) auto
  then show ?thesis by (simp add: deconstruction_view_def animate_presence_def img_no_alt_def)
qed

lemma no_alt_srcs_opt_text [simp]: "concat (map no_alt_srcs (opt_text x)) = []"
  by (cases x) (simp_all add: opt_text_def)

lemma no_alt_srcs_modal_sides [simp]:
  "no_alt_srcs (modal_image_side p m) = []" "no_alt_srcs (modal_text_side p d m) = []"
  by (simp_all add: modal_image_side_def modal_text_side_def detail_card_def img_no_alt_def)

lemma measurement_defined: "\<exists>m. measurement (get_project_details p) = Some m"
  by (simp add: get_project_details_def js_index_def detail_measurements_def Let_def)


lemma concat_map_Nil: "(\<And>x. x \<in> set xs \<Longrightarrow> f x = []) \<Longrightarrow> concat (map f xs) = []"
  by (induction xs) auto

lemma no_alt_srcs_modal_view:
  "modal_view mv pl r p dc fs = Some n \<Longrightarrow> no_alt_srcs n = (if dc then when_str fs id else [])"
  by (auto simp: modal_view_def animate_presence_def Let_def split: option.splits)

section \<open>Properties\<close>

text \<open>
  C38. The portfolio section always renders: \<open>details.measurement\<close> is defined for
  every project, so its \<open>split\<close> never throws. Every image it renders has a text
  alternative except the two full-screen views: the process step's image while the
  process view of the open project shows one, and the high-resolution image, whose
  \<open><motion.img>\<close> elements have no \<open>alt\<close>.
\<close>

theorem portfolio_render_alt_text:
  "\<exists>v. portfolio_view mv pl r s = Some v \<and>
       no_alt_srcs v = (if selected s \<noteq> None \<and> deconstructing s then when_str (step_image s) id else []) @
                       when_str (view_high_res s) id"
proof (cases "selected s")
  case None
  then show ?thesis
    by (simp add: portfolio_view_def animate_presence_def load_more_block_def portfolio_heading_def
        filter_button_def img_no_alt_def concat_map_Nil)
next
  case (Some p)
  obtain m where m: "measurement (get_project_details p) = Some m"
    using measurement_defined by blast
  then obtain n where n: "modal_view mv pl r p (deconstructing s) (step_image s) = Some n"
    by (simp add: modal_view_def Let_def)
  show ?thesis
    using Some n no_alt_srcs_modal_view [OF n]
    by (simp add: portfolio_view_def animate_presence_def load_more_block_def portfolio_heading_def
        filter_button_def img_no_alt_def concat_map_Nil)
qed

end
