(* ===== verification/SectionsView.thy ===== *)
theory SectionsView
  imports Sections TextAnimations Cursor MotionFactory
begin

text \<open>
  The element trees of the static sections and of the page shell: \<open>Hero.tsx\<close>,
  \<open>Services.tsx\<close>, \<open>CoffeeMantra.tsx\<close>, and the custom cursor, the
  \<open>RevealSection\<close> wrapper and the footer of \<open>App.tsx\<close>, and the components of
  \<open>TextAnimations.tsx\<close> with the text they show. As in theory
  \<open>PortfolioView\<close>, a \<open><motion.tag>\<close> is an element of type \<open>motion.tag\<close>, handlers
  are left out (what they do is in theories \<open>Sections\<close> and \<open>Cursor\<close>), and where a
  section uses a component of \<open>TextAnimations.tsx\<close> or \<open>lucide-react\<close> it is a
  component element with its props. The year of the footer (\<open>new Date().getFullYear()\<close>) and the motion
  values of the cursor are parameters.
\<close>

section \<open>Animation wrappers of \<open>TextAnimations.tsx\<close>\<close>

text \<open>\<open>BlurReveal\<close> (lines 92--108): class \<open>""\<close> and delay 0 by default.\<close>

definition blur_reveal :: "string option \<Rightarrow> real option \<Rightarrow> node list \<Rightarrow> node" where
  "blur_reveal className delay children =
     Elem ''motion.div''
       [(''initial'', PObj [(''filter'', PJs (Str ''blur(8px)'')), (''opacity'', pnum 0), (''y'', pnum 15)]),
        (''whileInView'', PObj [(''filter'', PJs (Str ''blur(0px)'')), (''opacity'', pnum 1), (''y'', pnum 0)]),
        (''viewport'', PObj [(''once'', PBool True), (''margin'', PJs (Str ''-10%''))]),
        (''transition'', PObj [(''duration'', pnum (8 / 10)), (''ease'', PJs (Str ''easeOut'')),
           (''delay'', pnum (case delay of Some d \<Rightarrow> d | None \<Rightarrow> 0))]),
        cls ((case className of Some c \<Rightarrow> c | None \<Rightarrow> '''') @ '' will-change-transform'')]
       children"

text \<open>\<open>ParallaxFloat\<close>'s element (lines 124--128): its ref and the motion value \<open>y\<close>.\<close>

definition parallax_float_view :: "nat \<Rightarrow> vid \<Rightarrow> string option \<Rightarrow> node list \<Rightarrow> node" where
  "parallax_float_view r y className children =
     Elem ''motion.div''
       [(''ref'', PRef r), (''style'', PObj [(''y'', PMotion y), (''willChange'', PJs (Str ''transform''))]),
        cls (case className of Some c \<Rightarrow> c | None \<Rightarrow> '''')]
       children"

text \<open>\<open>ScrollReveal\<close> (lines 132--147).\<close>

definition scroll_reveal :: "string option \<Rightarrow> node list \<Rightarrow> node" where
  "scroll_reveal className children =
     Elem ''motion.div''
       [(''initial'', PObj [(''clipPath'', PJs (Str ''inset(0 100% 0 0)''))]),
        (''whileInView'', PObj [(''clipPath'', PJs (Str ''inset(0 0 0 0)''))]),
        (''viewport'', PObj [(''once'', PBool True), (''margin'', PJs (Str ''-20%''))]),
        (''transition'', PObj [(''duration'', pnum 1), (''ease'', PArr [pnum (77 / 100), pnum 0, pnum (175 / 1000), pnum 1])]),
        cls ((case className of Some c \<Rightarrow> c | None \<Rightarrow> '''') @ '' will-change-[clip-path]'')]
       children"

section \<open>The text components of \<open>TextAnimations.tsx\<close>\<close>

text \<open>The text a tree shows, in document order.\<close>

fun node_text :: "node \<Rightarrow> string" where
  "node_text (Elem t ps cs) = concat (map node_text cs)"
| "node_text (TextNode s) = s"
| "node_text (Fragment cs) = concat (map node_text cs)"

text \<open>
  \<open>RotatingWords\<close> (lines 27--47): \<open>null\<close> without words, otherwise the current word in
  a span keyed by the index (so \<open>AnimatePresence\<close> swaps it on every tick); an
  \<open>undefined\<close> word renders nothing.
\<close>

definition rotating_words_view :: "string list \<Rightarrow> string option \<Rightarrow> rw_state \<Rightarrow> node option" where
  "rotating_words_view words className s =
     (if words = [] then None
      else Some (Elem ''div''
        [cls (''relative overflow-hidden h-[1.2em] w-full inline-flex justify-start '' @
              (case className of Some c \<Rightarrow> c | None \<Rightarrow> ''''))]
        [Elem ''AnimatePresence'' [(''mode'', PJs (Str ''popLayout''))]
          [Elem ''motion.span''
            [(''key'', pnum (real_of_int (rw_index s))),
             (''initial'', PObj [(''y'', PJs (Str ''100%'')), (''opacity'', pnum 0), (''rotateX'', pnum (- 45))]),
             (''animate'', PObj [(''y'', pnum 0), (''opacity'', pnum 1), (''rotateX'', pnum 0)]),
             (''exit'', PObj [(''y'', PJs (Str ''-100%'')), (''opacity'', pnum 0), (''rotateX'', pnum 45)]),
             (''transition'', PObj [(''duration'', pnum (1 / 2)),
                (''ease'', PArr [pnum (16 / 100), pnum 1, pnum (3 / 10), pnum 1])]),
             cls ''block whitespace-nowrap origin-center text-design-blue'']
            (case js_index words (nat (rw_index s)) of Some w \<Rightarrow> [TextNode w] | None \<Rightarrow> [])]]))"

text \<open>
  \<open>SplitText\<close> (lines 56--88): one span per word, holding one \<open>motion.span\<close> per
  character with the delay \<open>split_text\<close> computes, then the \<open>&nbsp;\<close> span.
\<close>

definition split_char_view :: "nat \<Rightarrow> char \<times> real \<Rightarrow> node" where
  "split_char_view j cd =
     Elem ''motion.span''
       [(''key'', pnum (real j)),
        (''variants'', PObj [(''hidden'', PObj [(''opacity'', pnum 0), (''y'', pnum 10), (''rotateZ'', pnum 2)]),
                            (''visible'', PObj [(''opacity'', pnum 1), (''y'', pnum 0), (''rotateZ'', pnum 0)])]),
        (''transition'', PObj [(''duration'', pnum (2 / 5)), (''delay'', pnum (snd cd)), (''ease'', PJs (Str ''easeOut''))]),
        cls ''inline-block'']
       [TextNode [fst cd]]"

definition split_word_view :: "nat \<Rightarrow> (char \<times> real) list \<Rightarrow> node" where
  "split_word_view i w =
     Elem ''span'' [(''key'', pnum (real i)), cls ''inline-block whitespace-nowrap'']
       (map (\<lambda>(j, cd). split_char_view j cd) (enumerate 0 w) @
        [Elem ''span'' [cls ''inline-block''] [TextNode [nbsp]]])"

definition split_text_view :: "string \<Rightarrow> string option \<Rightarrow> real option \<Rightarrow> node" where
  "split_text_view text className delay =
     Elem ''motion.div''
       [(''initial'', PJs (Str ''hidden'')), (''whileInView'', PJs (Str ''visible'')),
        (''viewport'', PObj [(''once'', PBool True), (''margin'', PJs (Str ''-5%''))]),
        cls (''inline-block '' @ (case className of Some c \<Rightarrow> c | None \<Rightarrow> ''''))]
       (map (\<lambda>(i, w). split_word_view i w)
         (enumerate 0 (split_text text (case delay of Some d \<Rightarrow> d | None \<Rightarrow> 0))))"

section \<open>Hero\<close>

text \<open>One letter of the title (lines 40--48), with its delay.\<close>

definition hero_letter_view :: "string \<times> real \<Rightarrow> node" where
  "hero_letter_view l =
     Elem ''motion.span''
       [(''initial'', PObj [(''y'', pnum 200), (''opacity'', pnum 0)]),
        (''animate'', PObj [(''y'', pnum 0), (''opacity'', pnum 1)]),
        (''transition'', PObj [(''duration'', pnum 1), (''delay'', pnum (snd l)), (''ease'', PJs (Str ''circOut''))]),
        cls ''inline-block'']
       [TextNode (fst l)]"

text \<open>The section (lines 7--119).\<close>

definition hero_view :: node where
  "hero_view =
     Elem ''section'' [cls ''relative min-h-screen w-full flex flex-col justify-between overflow-hidden bg-design-white dark:bg-[#0a0a0a] transition-colors duration-500 pt-32 pb-12 px-8'']
       [Elem ''div'' [cls ''absolute top-0 right-0 w-[40vw] h-[40vw] bg-design-blue/10 blur-[120px] rounded-full pointer-events-none -translate-y-1/2 translate-x-1/2''] [],
        Elem ''motion.div''
          [(''initial'', PObj [(''opacity'', pnum 0), (''y'', pnum (-20))]), (''animate'', PObj [(''opacity'', pnum 1), (''y'', pnum 0)]),
           (''transition'', PObj [(''duration'', pnum (8 / 10))]), cls ''relative z-10 flex justify-between items-start'']
          [Elem ''div'' [cls ''hidden md:block'']
             [Elem ''span'' [cls ''block text-[10px] font-mono uppercase tracking-[0.3em] mb-1 text-design-blue''] [TextNode ''Location''],
              Elem ''span'' [cls ''block text-xs font-bold uppercase tracking-widest'']
                [TextNode (''34.0522'' @ [char_of (176 :: nat)] @ '' N, 118.2437'' @ [char_of (176 :: nat)] @ '' W'')]],
           Elem ''div'' [cls ''text-right flex flex-col items-end w-full md:w-auto'']
             [Elem ''span'' [cls ''block text-[10px] font-mono uppercase tracking-[0.3em] mb-1 text-design-blue''] [TextNode ''Archive Status''],
              Elem ''span'' [cls ''block text-xs font-bold uppercase tracking-widest''] [TextNode ''v2.0 Beta // 2025'']]],
        Elem ''div'' [cls ''relative z-10 w-full text-center flex flex-col items-center justify-center'']
          [Elem ''motion.div''
             [(''initial'', PObj [(''height'', pnum 0)]), (''animate'', PObj [(''height'', pnum 64)]),
              (''transition'', PObj [(''duration'', pnum 1), (''ease'', PJs (Str ''circOut''))]),
              cls ''w-[1px] bg-design-black dark:bg-white/30 mb-8''] [],
           Elem ''div'' [cls ''relative w-full'']
             [Elem ''div'' [cls ''overflow-hidden pb-4 md:pb-8'']
                [Elem ''h1'' [cls ''text-[18vw] md:text-[23vw] font-display font-bold leading-[0.8] tracking-tighter text-design-black dark:text-design-white flex justify-center select-none'']
                   (map hero_letter_view hero_letters)],
              Elem ''div'' [cls ''absolute top-1/2 left-1/2 -translate-x-1/2 -translate-y-1/2 w-full flex justify-center pointer-events-none z-20'']
                [Elem ''motion.div''
                   [(''drag'', PBool True),
                    (''dragConstraints'', PObj [(''left'', pnum (-100)), (''right'', pnum 100), (''top'', pnum (-100)), (''bottom'', pnum 100)]),
                    (''whileHover'', PObj [(''scale'', pnum (105 / 100))]),
                    (''whileDrag'', PObj [(''scale'', pnum (11 / 10)), (''cursor'', PJs (Str ''grabbing''))]),
                    (''initial'', PObj [(''scale'', pnum 0), (''opacity'', pnum 0)]),
                    (''animate'', PObj [(''scale'', pnum 1), (''opacity'', pnum 1)]),
                    (''transition'', PObj [(''type'', PJs (Str ''spring'')), (''damping'', pnum 15), (''stiffness'', pnum 100), (''delay'', pnum 1)]),
                    cls ''inline-block pointer-events-auto cursor-grab touch-none select-none'']
                   [Elem ''div'' [cls ''relative'']
                      [Elem ''span'' [cls ''relative inline-block text-lg md:text-3xl lg:text-4xl font-display font-bold text-design-black uppercase bg-design-blue px-4 py-1.5 md:px-6 md:py-2 border-2 border-design-black dark:border-white shadow-flat dark:shadow-flat-white whitespace-nowrap'']
                         [TextNode ''Amy Simpson'']]]]],
           Elem ''motion.div''
             [(''initial'', PObj [(''opacity'', pnum 0)]), (''animate'', PObj [(''opacity'', pnum 1)]),
              (''transition'', PObj [(''duration'', pnum 1), (''delay'', pnum (15 / 10))]),
              cls ''flex items-center gap-6 mt-8 md:mt-16'']
             [Elem ''div'' [cls ''h-[1px] w-8 md:w-16 bg-design-black/10 dark:bg-white/10''] [],
              Elem ''p'' [cls ''font-mono text-[9px] md:text-xs uppercase tracking-[0.4em] text-gray-400 dark:text-gray-500 whitespace-nowrap'']
                [TextNode ''Precision Meets Performance''],
              Elem ''div'' [cls ''h-[1px] w-8 md:w-16 bg-design-black/10 dark:bg-white/10''] []]],
        Elem ''motion.div''
          [(''initial'', PObj [(''opacity'', pnum 0), (''y'', pnum 20)]), (''animate'', PObj [(''opacity'', pnum 1), (''y'', pnum 0)]),
           (''transition'', PObj [(''duration'', pnum (8 / 10)), (''delay'', pnum (18 / 10))]),
           cls ''relative z-10 flex justify-between items-end'']
          [Elem ''div'' [cls ''hidden md:flex gap-10'']
             (map (\<lambda>social. Elem ''a'' [(''href'', PJs (Str ''#'')),
                 cls ''text-[10px] font-bold uppercase tracking-widest text-gray-400 hover:text-design-blue transition-all'']
                 [TextNode social, TextNode ''.'']) [''In'', ''Be'', ''Dr'']),
           Elem ''div'' [cls ''flex flex-col items-center group cursor-pointer'']
             [Elem ''span'' [cls ''text-[9px] font-mono uppercase tracking-widest mb-3 opacity-50''] [TextNode ''Discover''],
              Elem ''ArrowDown'' [(''size'', pnum 14), cls ''text-design-blue animate-bounce''] []],
           Elem ''div'' [cls ''hidden md:block text-right'']
             [Elem ''div'' [cls ''flex items-center justify-end gap-3'']
                [Elem ''span'' [cls ''text-[10px] font-bold uppercase tracking-widest''] [TextNode ''Available for hire''],
                 Elem ''span'' [cls ''relative flex h-2 w-2'']
                   [Elem ''span'' [cls ''animate-ping absolute inline-flex h-full w-full rounded-full bg-design-blue opacity-75''] [],
                    Elem ''span'' [cls ''relative inline-flex rounded-full h-2 w-2 bg-design-blue border border-design-black''] []]]]]]"

section \<open>Services\<close>

text \<open>A contact link (lines 96--101 and 103--108): its icon, address and text.\<close>

definition contact_link :: "string \<Rightarrow> string \<times> string \<Rightarrow> node" where
  "contact_link icon c =
     Elem ''a'' [(''href'', PJs (Str (fst c))), cls ''flex items-center gap-4 group'']
       [Elem ''div'' [cls ''w-10 h-10 rounded-full bg-neutral-100 dark:bg-neutral-800 flex items-center justify-center group-hover:bg-design-blue group-hover:text-design-black transition-colors border border-transparent group-hover:border-design-black'']
          [Elem icon [(''size'', pnum 18)] []],
        Elem ''span'' [cls ''font-mono text-sm text-gray-600 dark:text-gray-400 group-hover:text-design-black dark:group-hover:text-white transition-colors'']
          [TextNode (snd c)]]"

text \<open>The section (lines 17--115).\<close>

definition services_view :: node where
  "services_view =
     Elem ''section'' [(''id'', PJs (Str ''about'')),
        cls ''py-24 bg-white dark:bg-[#0f0f0f] relative transition-colors duration-500 border-t border-neutral-200 dark:border-neutral-800'']
       [Elem ''div'' [cls ''max-w-7xl mx-auto px-6 relative z-10'']
          [Elem ''div'' [cls ''flex flex-col items-start mb-20'']
             [Elem ''BlurReveal'' []
                [Elem ''span'' [cls ''text-xs font-mono uppercase tracking-widest text-design-blue mb-4 block''] [TextNode ''About Me'']],
              Elem ''h2'' [cls ''text-5xl md:text-7xl font-display font-light text-design-black dark:text-white uppercase leading-none flex flex-col items-start'']
                [Elem ''SplitText'' [(''text'', PJs (Str ''Aspiring'')), cls ''block''] [],
                 Elem ''div'' [cls ''relative inline-block'']
                   [Elem ''SplitText'' [(''text'', PJs (Str ''Designer'')), cls ''font-bold relative z-10'', (''delay'', pnum (2 / 10))] [],
                    Elem ''motion.div''
                      [(''initial'', PObj [(''scaleX'', pnum 0)]), (''whileInView'', PObj [(''scaleX'', pnum 1)]),
                       (''viewport'', PObj [(''once'', PBool True)]),
                       (''transition'', PObj [(''duration'', pnum 1), (''delay'', pnum (5 / 10)),
                          (''ease'', PArr [pnum (16 / 100), pnum 1, pnum (3 / 10), pnum 1])]),
                       cls ''absolute bottom-2 left-0 w-full h-4 bg-design-blue -z-10 origin-left opacity-50''] []]]],
           Elem ''div'' [cls ''grid grid-cols-1 lg:grid-cols-2 gap-16 items-start'']
             [Elem ''motion.div''
                [(''initial'', PObj [(''opacity'', pnum 0), (''y'', pnum 20)]), (''whileInView'', PObj [(''opacity'', pnum 1), (''y'', pnum 0)]),
                 (''viewport'', PObj [(''once'', PBool True)]), (''transition'', PObj [(''duration'', pnum 1)])]
                [Elem ''BlurReveal'' [(''delay'', pnum (2 / 10))]
                   [Elem ''p'' [cls ''text-2xl md:text-3xl leading-relaxed text-design-black dark:text-white font-light'']
                      [TextNode ''I believe in the tactility of design. From the texture of raw fabric to the stroke of a charcoal pencil, my work is grounded in material reality.''],
                    Elem ''p'' [cls ''mt-8 text-lg text-gray-600 dark:text-gray-400 font-light leading-relaxed'']
                      [TextNode ''My background in sewing and textile art allows me to construct garments that tell stories. I approach every project with a focus on structure, form, and the human experience.'']]],
              Elem ''motion.div''
                [(''initial'', PObj [(''opacity'', pnum 0), (''y'', pnum 20)]), (''whileInView'', PObj [(''opacity'', pnum 1), (''y'', pnum 0)]),
                 (''viewport'', PObj [(''once'', PBool True)]), (''transition'', PObj [(''duration'', pnum 1), (''delay'', pnum (2 / 10))]),
                 cls ''flex flex-col space-y-12 lg:pl-12 border-l border-neutral-200 dark:border-neutral-800'']
                [Elem ''div'' []
                   [Elem ''span'' [cls ''text-xs font-mono uppercase tracking-widest text-design-blue mb-2 block''] [TextNode ''Current Role''],
                    Elem ''div'' [cls ''font-bold font-display uppercase text-3xl h-10 text-design-black dark:text-white'']
                      [Elem ''RotatingWords'' [(''words'', PArr (map (\<lambda>w. PJs (Str w)) services_roles))] []]],
                 Elem ''div'' []
                   [Elem ''span'' [cls ''text-xs font-mono uppercase tracking-widest text-gray-500 mb-4 block''] [TextNode ''Resources''],
                    Elem ''div'' [cls ''flex flex-wrap gap-4'']
                      [Elem ''button'' [cls ''flex items-center gap-3 px-6 py-3 bg-design-black dark:bg-white text-white dark:text-design-black rounded-full font-bold uppercase text-xs tracking-widest shadow-flat dark:shadow-flat-white hover:translate-x-1 hover:translate-y-1 hover:shadow-none transition-all'']
                         [Elem ''FileText'' [(''size'', pnum 16)] [], Elem ''span'' [] [TextNode ''Download CV'']],
                       Elem ''button'' [cls ''flex items-center gap-3 px-6 py-3 bg-white dark:bg-[#1a1a1a] text-design-black dark:text-white border-2 border-design-black dark:border-white rounded-full font-bold uppercase text-xs tracking-widest shadow-flat dark:shadow-flat-white hover:translate-x-1 hover:translate-y-1 hover:shadow-none transition-all group'']
                         [Elem ''Download'' [(''size'', pnum 16), cls ''group-hover:text-design-blue transition-colors''] [],
                          Elem ''span'' [] [TextNode ''Portfolio PDF'']]]],
                 Elem ''div'' []
                   [Elem ''span'' [cls ''text-xs font-mono uppercase tracking-widest text-gray-500 mb-4 block''] [TextNode ''Connect''],
                    Elem ''div'' [cls ''space-y-4'']
                      [contact_link ''Mail'' (services_contacts ! 0), contact_link ''Instagram'' (services_contacts ! 1)]]]]]]"

section \<open>Coffee mantra\<close>

text \<open>A steam particle (lines 25--39): its keyframes, duration and delay.\<close>

definition steam_particle :: "real list \<Rightarrow> real list \<Rightarrow> real \<Rightarrow> real option \<Rightarrow> string \<Rightarrow> node" where
  "steam_particle ys ops duration delay classes =
     Elem ''motion.div''
       [(''animate'', PObj [(''y'', PArr (map pnum ys)), (''opacity'', PArr (map pnum ops))]),
        (''transition'', PObj ([(''duration'', pnum duration), (''repeat'', PInfinity), (''ease'', PJs (Str ''easeOut''))] @
           (case delay of Some d \<Rightarrow> [(''delay'', pnum d)] | None \<Rightarrow> []))),
        cls classes] []"

text \<open>
  The section (lines 7--69). The \<open>&bull;\<close> of line 65 is U+2022,
  outside the model's 8-bit characters, and is kept as the entity the source writes.
\<close>

definition coffee_mantra_view :: node where
  "coffee_mantra_view =
     Elem ''section'' [cls ''py-24 md:py-32 bg-design-blue border-t-2 border-b-2 border-design-black dark:border-white transition-colors duration-300 overflow-hidden relative'']
       [Elem ''div'' [cls ''absolute inset-0 opacity-10 pointer-events-none'',
           (''style'', PObj [(''backgroundImage'', PJs (Str ''radial-gradient(#000 2px, transparent 2px)'')),
              (''backgroundSize'', PJs (Str ''30px 30px''))])] [],
        Elem ''div'' [cls ''max-w-7xl mx-auto px-6 flex flex-col items-center justify-center text-center relative z-10'']
          [Elem ''motion.div''
             [(''initial'', PObj [(''opacity'', pnum 0), (''y'', pnum 20)]), (''whileInView'', PObj [(''opacity'', pnum 1), (''y'', pnum 0)]),
              (''viewport'', PObj [(''once'', PBool True)]), cls ''relative mb-12'']
             [steam_particle [-4, -12, -20] [0, 6 / 10, 0] 2 None
                ''absolute -top-8 left-2 w-1.5 h-4 bg-design-black dark:bg-black rounded-full'',
              steam_particle [-4, -16, -24] [0, 8 / 10, 0] (22 / 10) (Some (4 / 10))
                ''absolute -top-10 left-1/2 -translate-x-1/2 w-1.5 h-6 bg-design-black dark:bg-black rounded-full'',
              steam_particle [-4, -12, -20] [0, 6 / 10, 0] (18 / 10) (Some (8 / 10))
                ''absolute -top-6 right-2 w-1.5 h-4 bg-design-black dark:bg-black rounded-full'',
              Elem ''div'' [cls ''relative z-10 p-8 border-4 border-design-black dark:border-black bg-white dark:bg-white rounded-full shadow-flat dark:shadow-flat'']
                [Elem ''Coffee'' [(''size'', pnum 64), cls ''text-design-black dark:text-black'', (''strokeWidth'', pnum (25 / 10))] []]],
           Elem ''motion.h2''
             [(''initial'', PObj [(''opacity'', pnum 0), (''scale'', pnum (95 / 100))]),
              (''whileInView'', PObj [(''opacity'', pnum 1), (''scale'', pnum 1)]),
              (''viewport'', PObj [(''once'', PBool True)]),
              (''transition'', PObj [(''duration'', pnum (8 / 10)), (''ease'', PArr [pnum (16 / 100), pnum 1, pnum (3 / 10), pnum 1])]),
              cls ''text-4xl sm:text-5xl md:text-7xl lg:text-8xl font-display font-bold uppercase leading-tight md:leading-[0.9] text-design-black dark:text-black tracking-tighter mb-12 px-4'']
             [TextNode ''\"Better '', Elem ''span'' [cls ''text-outline-dark''] [TextNode ''Coffee''], TextNode '' '',
              Elem ''br'' [] [], TextNode ''Than Not '', Elem ''span'' [cls ''text-outline-dark''] [TextNode ''Coffee''],
              TextNode ''\"''],
           Elem ''motion.div''
             [(''initial'', PObj [(''opacity'', pnum 0)]), (''whileInView'', PObj [(''opacity'', pnum 1)]),
              (''viewport'', PObj [(''once'', PBool True)]), (''transition'', PObj [(''delay'', pnum (4 / 10))]),
              cls ''inline-block bg-design-black dark:bg-black text-design-blue px-6 py-2 text-xs font-mono font-bold uppercase tracking-widest border-2 border-transparent'']
             [TextNode ''Studio Fuel &bull; Est. 2025'']]]"

section \<open>The page shell\<close>

text \<open>The custom cursor (lines 36--54): the dot and the ring, which follow the springs.\<close>

definition cursor_view :: "cursor \<Rightarrow> node" where
  "cursor_view c =
     Elem ''div'' [cls ''hidden md:block pointer-events-none fixed inset-0 z-[9999]'']
       [Elem ''motion.div'' [cls ''fixed top-0 left-0 w-2 h-2 bg-design-blue rounded-full mix-blend-difference'',
           (''style'', PObj [(''x'', PMotion (mouse_x c)), (''y'', PMotion (mouse_y c)),
              (''translateX'', PJs (Str ''-50%'')), (''translateY'', PJs (Str ''-50%''))])] [],
        Elem ''motion.div'' [cls ''fixed top-0 left-0 rounded-full border border-design-black dark:border-white opacity-40'',
           (''animate'', PObj (map (\<lambda>(k, v). (k, PJs v)) (ring_animate c))),
           (''style'', PObj [(''x'', PMotion (ring_x c)), (''y'', PMotion (ring_y c)), (''width'', pnum 32), (''height'', pnum 32),
              (''translateX'', PJs (Str ''-50%'')), (''translateY'', PJs (Str ''-50%''))])] []]"

text \<open>
  \<open>RevealSection\<close> (lines 58--71): a motion wrapper with the given id (\<open>undefined\<close>
  when none is given) and class (\<open>""\<close> by default).
\<close>

definition reveal_section :: "string option \<Rightarrow> string option \<Rightarrow> node \<Rightarrow> node" where
  "reveal_section elemId className child =
     Elem ''motion.div''
       [(''id'', (case elemId of Some i \<Rightarrow> PJs (Str i) | None \<Rightarrow> PJs Undef)),
        (''initial'', PObj [(''opacity'', pnum 0), (''y'', pnum 30)]), (''whileInView'', PObj [(''opacity'', pnum 1), (''y'', pnum 0)]),
        (''viewport'', PObj [(''once'', PBool True), (''margin'', PJs (Str ''-100px''))]),
        (''transition'', PObj [(''duration'', pnum (8 / 10)), (''ease'', PJs (Str ''easeOut''))]),
        cls (case className of Some c \<Rightarrow> c | None \<Rightarrow> '''')]
       [child]"

text \<open>The footer (lines 106--124) in the year \<open>y\<close>.\<close>

definition footer_view :: "nat \<Rightarrow> node" where
  "footer_view y =
     Elem ''footer'' [cls ''bg-design-black py-24 border-t-4 border-design-blue text-center text-white relative overflow-hidden'']
       [Elem ''div'' [cls ''absolute inset-0 opacity-10'',
           (''style'', PObj [(''backgroundImage'', PJs (Str ''radial-gradient(#fff 1px, transparent 1px)'')),
              (''backgroundSize'', PJs (Str ''32px 32px''))])] [],
        Elem ''div'' [cls ''relative z-10 max-w-4xl mx-auto px-6'']
          [Elem ''h2'' [cls ''text-7xl font-display font-bold mb-8 tracking-tighter uppercase text-white''] [TextNode ''Simpson''],
           Elem ''div'' [cls ''flex justify-center flex-wrap gap-8 md:gap-12 mb-16'']
             (map (\<lambda>s. Elem ''a'' [(''href'', PJs (Str ''#'')),
                 cls ''text-xs font-bold uppercase tracking-widest hover:text-design-blue transition-all relative group text-white'']
                 [TextNode s]) [''Dribbble'', ''Behance'', ''LinkedIn'', ''Instagram'']),
           Elem ''p'' [cls ''text-gray-600 text-[10px] font-mono uppercase tracking-[0.3em]'']
             [TextNode ([char_of (169 :: nat)] @ '' ''), TextNode (string_of_nat y),
              TextNode '' Simpson Studio &bull; Built with Strength and Precision'']]]"

text \<open>
  The page (lines 73--127), given the rendered trees of the components it contains:
  the cursor, the pencil line, the navigation bar, and the five sections of the main
  part with the coffee mantra.
\<close>

definition app_view :: "node \<Rightarrow> node \<Rightarrow> node \<Rightarrow> node \<Rightarrow> node \<Rightarrow> node \<Rightarrow> node \<Rightarrow> node \<Rightarrow> node \<Rightarrow> nat \<Rightarrow> node" where
  "app_view cur pencil nav hero services timeline portfolio testimonials coffee y =
     Elem ''div'' [cls ''min-h-screen bg-design-cream dark:bg-[#0a0a0a] text-design-black dark:text-white font-sans selection:bg-design-blue selection:text-design-black transition-colors duration-300 relative overflow-x-hidden'']
       [Elem ''div'' [cls ''bg-noise pointer-events-none opacity-[0.03] dark:opacity-[0.05]''] [],
        cur, pencil, nav,
        Elem ''main'' [cls ''relative'']
          [hero,
           reveal_section (Some ''about'') (Some ''scroll-mt-20'') services,
           reveal_section (Some ''timeline'') (Some ''scroll-mt-20'') timeline,
           reveal_section (Some ''portfolio'') (Some ''scroll-mt-20'') portfolio,
           reveal_section (Some ''testimonials'') (Some ''scroll-mt-20'') testimonials,
           reveal_section None None coffee],
        footer_view y]"

section \<open>The text the animated components show\<close>

lemma split_chars_text:
  "concat (map node_text (map (\<lambda>(j, cd). split_char_view j cd) (enumerate n w))) = map fst w"
  by (induction w arbitrary: n) (simp_all add: split_char_view_def)

lemma split_words_text:
  "concat (map node_text (map (\<lambda>(i, w). split_word_view i w) (enumerate n ws))) =
   concat (map (\<lambda>w. map fst w @ [nbsp]) ws)"
  by (induction ws arbitrary: n) (simp_all add: split_word_view_def split_chars_text del: map_map)

text \<open>
  The rendered \<open>RotatingWords\<close> shows what \<open>rw_render\<close> says: nothing for no words,
  the current word, or nothing when the word is \<open>undefined\<close>.
\<close>

lemma rotating_words_view_text:
  "map_option node_text (rotating_words_view words c s) =
   map_option (\<lambda>w. case w of Some x \<Rightarrow> x | None \<Rightarrow> []) (rw_render words s)"
  by (cases "js_index words (nat (rw_index s))") (simp_all add: rotating_words_view_def rw_render_def)

text \<open>The rendered \<open>SplitText\<close> shows the characters \<open>split_text_chars\<close> lists.\<close>

lemma split_text_view_text:
  "node_text (split_text_view t c d) = split_text_chars t (case d of Some x \<Rightarrow> x | None \<Rightarrow> 0)"
  by (simp add: split_text_view_def split_text_chars_def split_words_text del: map_map)

end
