(* ===== verification/MotionRender.thy ===== *)
theory MotionRender
  imports TimelineView SectionsView "HOL-Library.State_Monad"
begin

text \<open>
  Rendering an element tree through the \<open>motion\<close> factory
  (\<open>src/vendor/framer-motion/index.js\<close> lines 110--129). Evaluating the JSX of a
  component reads \<open>motion.tag\<close> for every \<open><motion.tag>\<close> element, in document order
  (an element's type before its children), which finds or creates the component in
  \<open>motionCache\<close>; React then renders the component. \<open>createElement\<close> takes the
  reserved props \<open>key\<close> and \<open>ref\<close> out of the props: the component gets the others,
  and its \<open>forwardRef\<close> render gets the JSX \<open>ref\<close> (\<open>null\<close> when there is none) as
  its second argument and makes an element of type \<open>tag\<close> with that ref and the other
  props. A host element keeps no \<open>key\<close> either; its ref, when not \<open>null\<close>, is attached
  to the DOM node, which the rendered tree records as the entry \<open>ref\<close> of its props
  (\<open>ParallaxFloat\<close>, \<open>TextAnimations.tsx\<close> line 125, passes one to a
  \<open>motion.div\<close>). The cache is threaded through the traversal as the
  state of a state monad, the way a tree relabelling threads its counter. The trees
  are those of theories \<open>TimelineView\<close> and \<open>PortfolioView\<close>, where a motion element
  is an element whose type is \<open>motion.\<close> followed by the tag.
\<close>

section \<open>Motion elements\<close>

definition motion_prefix :: string where
  "motion_prefix = ''motion.''"

text \<open>The tag a motion element type reads from the proxy, if it is one.\<close>

definition motion_tag :: "string \<Rightarrow> string option" where
  "motion_tag t = (if take 7 t = motion_prefix \<and> drop 7 t \<noteq> [] then Some (drop 7 t) else None)"

text \<open>The element type in the DOM for a type of the JSX tree.\<close>

definition dom_tag :: "string \<Rightarrow> string" where
  "dom_tag t = (case motion_tag t of Some tag \<Rightarrow> tag | None \<Rightarrow> t)"

section \<open>Reserved props\<close>

text \<open>The ref a JSX element passes (\<open>null\<close> without one) and the props it passes.\<close>

definition react_ref :: "(string \<times> prop_val) list \<Rightarrow> prop_val" where
  "react_ref ps = (case map_of ps ''ref'' of Some r \<Rightarrow> r | None \<Rightarrow> PNull)"

definition react_props :: "(string \<times> prop_val) list \<Rightarrow> (string \<times> prop_val) list" where
  "react_props ps = filter (\<lambda>p. fst p \<noteq> ''key'' \<and> fst p \<noteq> ''ref'') ps"

text \<open>A host element in the DOM: no \<open>key\<close>, and a \<open>null\<close> ref attaches nothing.\<close>

definition host_props :: "(string \<times> prop_val) list \<Rightarrow> (string \<times> prop_val) list" where
  "host_props ps = filter (\<lambda>p. fst p \<noteq> ''key'' \<and> p \<noteq> (''ref'', PNull)) ps"

fun host_elem :: "node \<Rightarrow> node" where
  "host_elem (Elem t ps cs) = Elem t (host_props ps) cs"
| "host_elem n = n"

section \<open>Rendering\<close>

primrec render_node :: "node \<Rightarrow> (motion_env, node) state"
  and render_nodes :: "node list \<Rightarrow> (motion_env, node list) state" where
  "render_node (Elem t ps cs) =
     (case motion_tag t of
        Some tag \<Rightarrow> do {
          c \<leftarrow> State (motion_proxy_get tag);
          cs' \<leftarrow> render_nodes cs;
          State_Monad.return (host_elem (motion_render c (react_ref ps) (react_props ps) cs'))
        }
      | None \<Rightarrow> do {
          cs' \<leftarrow> render_nodes cs;
          State_Monad.return (Elem t (host_props ps) cs')
        })"
| "render_node (TextNode s) = State_Monad.return (TextNode s)"
| "render_node (Fragment cs) = do { cs' \<leftarrow> render_nodes cs; State_Monad.return (Fragment cs') }"
| "render_nodes [] = State_Monad.return []"
| "render_nodes (n # ns) = do { n' \<leftarrow> render_node n; ns' \<leftarrow> render_nodes ns; State_Monad.return (n' # ns') }"

section \<open>Reading the rendered tree\<close>

fun elem_tag :: "node \<Rightarrow> string" where
  "elem_tag (Elem t ps cs) = t"
| "elem_tag _ = []"

fun elem_props :: "node \<Rightarrow> (string \<times> prop_val) list" where
  "elem_props (Elem t ps cs) = ps"
| "elem_props _ = []"

text \<open>The props an element of the JSX tree has in the DOM.\<close>

definition dom_props :: "node \<Rightarrow> (string \<times> prop_val) list" where
  "dom_props n = (case motion_tag (elem_tag n) of
                    Some tag \<Rightarrow> host_props ((''ref'', react_ref (elem_props n)) #
                                  filter (\<lambda>p. fst p \<noteq> ''children'') (react_props (elem_props n)))
                  | None \<Rightarrow> host_props (elem_props n))"

text \<open>The tags a tree reads from the proxy, in document order.\<close>

definition motion_tags :: "node \<Rightarrow> string list" where
  "motion_tags v = List.map_filter (\<lambda>n. motion_tag (elem_tag n)) (node_elems v)"

section \<open>Facts\<close>

lemma dom_tag_motion: "motion_tag t = Some tag \<Longrightarrow> dom_tag t = tag"
  by (simp add: dom_tag_def)

lemma dom_tag_plain: "motion_tag t = None \<Longrightarrow> dom_tag t = t"
  by (simp add: dom_tag_def)


text \<open>
  Rendering keeps the cache well formed, only adds to it the tags the tree reads, and
  maps every element of the tree to an element of its DOM type with its DOM props, in
  the same order.
\<close>

lemma render_facts:
  "cache_wf env \<Longrightarrow> run_state (render_node v) env = (v', env') \<Longrightarrow>
     cache_wf env' \<and> map elem_tag (node_elems v') = map (dom_tag \<circ> elem_tag) (node_elems v) \<and>
     map elem_props (node_elems v') = map dom_props (node_elems v) \<and>
     dom (motion_cache env') = dom (motion_cache env) \<union> set (List.map_filter (motion_tag \<circ> elem_tag) (node_elems v))"
  "cache_wf env \<Longrightarrow> run_state (render_nodes vs) env = (vs', env') \<Longrightarrow>
     cache_wf env' \<and> map elem_tag (concat (map node_elems vs')) = map (dom_tag \<circ> elem_tag) (concat (map node_elems vs)) \<and>
     map elem_props (concat (map node_elems vs')) = map dom_props (concat (map node_elems vs)) \<and>
     dom (motion_cache env') = dom (motion_cache env) \<union> set (List.map_filter (motion_tag \<circ> elem_tag) (concat (map node_elems vs)))"
proof (induction v and vs arbitrary: env v' env' and env vs' env' rule: render_node.induct render_nodes.induct)
  case (Elem t ps cs)
  show ?case
  proof (cases "motion_tag t")
    case None
    with "Elem.prems" obtain cs' where r: "run_state (render_nodes cs) env = (cs', env')" and v': "v' = Elem t (host_props ps) cs'"
      by (auto split: prod.splits)
    from "Elem.IH" [OF "Elem.prems"(1) r] None v' show ?thesis
      by (simp add: dom_tag_plain dom_props_def List.map_filter_def)
  next
    case (Some tag)
    let ?c = "fst (motion_proxy_get tag env)" and ?e1 = "snd (motion_proxy_get tag env)"
    have p: "cache_wf ?e1 \<and> comp_tag ?c = tag \<and> motion_cache ?e1 = (motion_cache env)(tag \<mapsto> ?c)"
      using motion_proxy_get_wf [OF "Elem.prems"(1)] by blast
    obtain cs' e2 where r: "run_state (render_nodes cs) ?e1 = (cs', e2)" by fastforce
    with "Elem.prems"(2) Some have v': "v' = host_elem (motion_render ?c (react_ref ps) (react_props ps) cs')" and e: "env' = e2"
      by (simp_all add: split_beta)
    from "Elem.IH" [OF p [THEN conjunct1] r] p Some v' e show ?thesis
      by (auto simp: dom_tag_motion dom_props_def List.map_filter_def motion_render_def)
  qed
next
  case (Fragment cs)
  then show ?case by (auto split: prod.splits)
next
  case (Cons_node n ns)
  from "Cons_node.prems" obtain n' e1 ns' where r1: "run_state (render_node n) env = (n', e1)"
      and r2: "run_state (render_nodes ns) e1 = (ns', env')" and vs': "vs' = n' # ns'"
    by (auto split: prod.splits)
  from "Cons_node.IH"(1) [OF "Cons_node.prems"(1) r1] have h1: "cache_wf e1" and
      "map elem_tag (node_elems n') = map (dom_tag \<circ> elem_tag) (node_elems n)"
      "map elem_props (node_elems n') = map dom_props (node_elems n)"
      "dom (motion_cache e1) = dom (motion_cache env) \<union> set (List.map_filter (motion_tag \<circ> elem_tag) (node_elems n))"
    by blast+
  with "Cons_node.IH"(2) [OF h1 r2] vs' show ?case
    by (auto simp: List.map_filter_def)
qed auto


lemma dom_tags_plain:
  assumes "\<forall>tag \<in> set (List.map_filter (motion_tag \<circ> elem_tag) ns). motion_tag tag = None"
  shows "\<forall>t \<in> set (map (dom_tag \<circ> elem_tag) ns). motion_tag t = None"
proof
  fix t assume "t \<in> set (map (dom_tag \<circ> elem_tag) ns)"
  then obtain n where n: "n \<in> set ns" and t: "t = dom_tag (elem_tag n)" by auto
  show "motion_tag t = None"
  proof (cases "motion_tag (elem_tag n)")
    case (Some tag)
    with n have "tag \<in> set (List.map_filter (motion_tag \<circ> elem_tag) ns)"
      by (force simp: List.map_filter_def)
    with assms Some t show ?thesis by (simp add: dom_tag_motion)
  qed (simp add: t dom_tag_plain)
qed

section \<open>Properties\<close>

text \<open>
  C39. Rendering a component's element tree through the \<open>motion\<close> factory, from a
  well-formed cache: the cache stays well formed and then holds exactly the tags it held
  and the tags the tree reads; every element becomes an element of its DOM type, in the
  same order, with the props React gives it: a motion element's \<open>forwardRef\<close> render
  receives the JSX \<open>ref\<close>, which ends up on the DOM element, and passes every other
  prop but \<open>key\<close> and \<open>children\<close> (so \<open>initial\<close>, \<open>animate\<close>, \<open>whileInView\<close> and
  the other animation props reach the DOM); no element keeps its \<open>key\<close>; and when no
  tag read is itself a motion type, no motion type is left in the DOM.
\<close>

theorem render_through_factory:
  assumes wf: "cache_wf env" and r: "run_state (render_node v) env = (v', env')"
  shows "cache_wf env' \<and> dom (motion_cache env') = dom (motion_cache env) \<union> set (motion_tags v) \<and>
         map elem_tag (node_elems v') = map (dom_tag \<circ> elem_tag) (node_elems v) \<and>
         map elem_props (node_elems v') = map dom_props (node_elems v) \<and>
         ((\<forall>tag \<in> set (motion_tags v). motion_tag tag = None) \<longrightarrow>
            (\<forall>n \<in> set (node_elems v'). motion_tag (elem_tag n) = None))"
proof -
  have mt: "motion_tags v = List.map_filter (motion_tag \<circ> elem_tag) (node_elems v)"
    by (simp add: motion_tags_def comp_def)
  note f = render_facts(1) [OF wf r]
  have "(\<forall>tag \<in> set (motion_tags v). motion_tag tag = None) \<Longrightarrow>
          (\<forall>n \<in> set (node_elems v'). motion_tag (elem_tag n) = None)"
  proof -
    assume "\<forall>tag \<in> set (motion_tags v). motion_tag tag = None"
    then have "\<forall>t \<in> set (map (dom_tag \<circ> elem_tag) (node_elems v)). motion_tag t = None"
      by (intro dom_tags_plain) (simp add: mt)
    with f have "\<forall>t \<in> set (map elem_tag (node_elems v')). motion_tag t = None" by simp
    then show ?thesis by simp
  qed
  with f show ?thesis by (simp add: mt)
qed

theorem render_through_factory_witness:
  "\<exists>v' env'. run_state (render_node (Fragment [parallax_float_view 5 3 None [], split_char_view 0 (CHR ''a'', 0)]))
       \<lparr>motion_cache = Map.empty, next_comp = 0\<rparr> = (v', env') \<and>
     dom (motion_cache env') = {''div'', ''span''} \<and> map elem_tag (node_elems v') = [''div'', ''span''] \<and>
     map (map fst) (map elem_props (node_elems v')) =
       [[''ref'', ''style'', ''className''], [''variants'', ''transition'', ''className'']] \<and>
     map_of (elem_props (hd (node_elems v'))) ''ref'' = Some (PRef 5) \<and>
     (\<forall>n \<in> set (node_elems v'). motion_tag (elem_tag n) = None)"
proof -
  let ?v = "Fragment [parallax_float_view 5 3 None [], split_char_view 0 (CHR ''a'', 0)]"
  obtain v' env' where r: "run_state (render_node ?v) \<lparr>motion_cache = Map.empty, next_comp = 0\<rparr> = (v', env')"
    by fastforce
  have wf: "cache_wf \<lparr>motion_cache = Map.empty, next_comp = 0\<rparr>" by (simp add: cache_wf_def)
  have mt: "motion_tag ''motion.div'' = Some ''div''" "motion_tag ''motion.span'' = Some ''span''"
    "motion_tag ''div'' = None" "motion_tag ''span'' = None"
    by (simp_all add: motion_tag_def motion_prefix_def)
  have t: "motion_tags ?v = [''div'', ''span'']"
    by (simp add: motion_tags_def List.map_filter_def parallax_float_view_def split_char_view_def mt)
  note f = render_through_factory [OF wf r]
  have dm: "dom (motion_cache env') = dom (motion_cache \<lparr>motion_cache = Map.empty, next_comp = 0\<rparr>) \<union> set (motion_tags ?v)"
    using f by (rule conjunct1 [OF conjunct2])
  have tg: "map elem_tag (node_elems v') = map (dom_tag \<circ> elem_tag) (node_elems ?v)"
    using f by (rule conjunct1 [OF conjunct2 [OF conjunct2]])
  have pr0: "map elem_props (node_elems v') = map dom_props (node_elems ?v)"
    using f by (rule conjunct1 [OF conjunct2 [OF conjunct2 [OF conjunct2]]])
  have nm: "(\<forall>tag \<in> set (motion_tags ?v). motion_tag tag = None) \<longrightarrow>
               (\<forall>n \<in> set (node_elems v'). motion_tag (elem_tag n) = None)"
    using f by (rule conjunct2 [OF conjunct2 [OF conjunct2 [OF conjunct2]]])
  have ev: "node_elems ?v = [parallax_float_view 5 3 None [], split_char_view 0 (CHR ''a'', 0)]"
    by (simp add: parallax_float_view_def split_char_view_def)
  have tags: "map elem_tag (node_elems v') = [''div'', ''span'']"
    using tg unfolding ev by (simp add: parallax_float_view_def split_char_view_def dom_tag_def mt)
  from pr0 have pr: "map elem_props (node_elems v') =
      [dom_props (parallax_float_view 5 3 None []), dom_props (split_char_view 0 (CHR ''a'', 0))]"
    unfolding ev by simp
  have P1: "dom_props (parallax_float_view 5 3 None []) =
      [(''ref'', PRef 5), (''style'', PObj [(''y'', PMotion 3), (''willChange'', PJs (Str ''transform''))]), cls []]"
    by (simp add: parallax_float_view_def dom_props_def mt react_ref_def react_props_def host_props_def)
  have P2: "map fst (dom_props (split_char_view 0 (CHR ''a'', 0))) = [''variants'', ''transition'', ''className'']"
    by (simp add: split_char_view_def dom_props_def mt react_ref_def react_props_def host_props_def)
  have nev: "node_elems v' \<noteq> []" using tags by auto
  have "elem_props (hd (node_elems v')) = hd (map elem_props (node_elems v'))" using nev by (simp add: hd_map)
  then have h: "map_of (elem_props (hd (node_elems v'))) ''ref'' = Some (PRef 5)" using pr P1 by simp
  have "map (map fst) (map elem_props (node_elems v')) =
       [[''ref'', ''style'', ''className''], [''variants'', ''transition'', ''className'']]"
    using pr P1 P2 by (simp del: map_map)
  moreover have "dom (motion_cache env') = {''div'', ''span''}" using dm unfolding t by simp
  moreover have "\<forall>n \<in> set (node_elems v'). motion_tag (elem_tag n) = None"
    using nm unfolding t by (simp add: mt)
  ultimately show ?thesis
    using r tags h by (intro exI [of _ v'] exI [of _ env'] conjI)
qed

end
