(* ===== verification/ChromeView.thy ===== *)
theory ChromeView
  imports Navbar Testimonials PencilLine MotionFactory
begin

text \<open>
  The element trees of the navigation bar (\<open>Navbar.tsx\<close>), the testimonials carousel
  (\<open>Testimonials.tsx\<close>) and the scroll pencil line (\<open>ScrollPencilLine.tsx\<close>) as
  functions of their state, with the conventions of theory \<open>PortfolioView\<close>: a
  \<open><motion.tag>\<close> is an element of type \<open>motion.tag\<close>, handlers are left out (they
  are the steps of theories \<open>Navbar\<close> and \<open>Testimonials\<close>), icons are component
  elements. The pencil's path string formats numbers and is a parameter, as are its
  motion values.
\<close>

section \<open>Navigation bar\<close>

definition nav_desktop_link :: "nav_link \<Rightarrow> node" where
  "nav_desktop_link l =
     Elem ''a'' [(''key'', PJs (Str (link_name l))), (''href'', PJs (Str (href l))),
                 cls ''relative px-5 py-2 text-xs font-bold uppercase tracking-wider hover:text-design-blue transition-colors group overflow-hidden'']
       [Elem ''span'' [cls ''relative z-10''] [TextNode (link_name l)],
        Elem ''span'' [cls ''absolute inset-x-0 bottom-0 h-0.5 bg-design-blue transform scale-x-0 group-hover:scale-x-100 transition-transform origin-left''] []]"

definition nav_menu_link :: "nat \<Rightarrow> nav_link \<Rightarrow> node" where
  "nav_menu_link i l =
     Elem ''a'' [(''key'', PJs (Str (link_name l))), (''href'', PJs (Str (href l))),
                 cls ''text-6xl md:text-8xl font-display font-bold uppercase tracking-tighter hover:text-design-blue transition-colors hover:italic'',
                 (''style'', PObj [(''transitionDelay'', PJs (Str (string_of_nat (i * 100) @ ''ms'')))])]
       [TextNode (link_name l)]"

definition navbar_view :: "nav_state \<Rightarrow> node" where
  "navbar_view s =
     Fragment
      [Elem ''div'' [cls ''fixed top-6 left-0 right-0 z-50 flex justify-center pointer-events-none px-4 md:px-0'']
        [Elem ''nav'' [cls (''pointer-events-auto transition-all duration-500 ease-out border '' @
            (if scrolled s
             then ''w-full md:w-auto bg-white/80 dark:bg-[#1a1a1a]/80 backdrop-blur-xl border-gray-200 dark:border-gray-800 rounded-full px-2 py-2 shadow-lg''
             else ''w-full bg-transparent border-transparent px-0 py-4''))]
          [Elem ''div'' [cls ''flex items-center justify-between md:justify-center md:gap-8 px-4'']
            [Elem ''a'' [(''href'', PJs (Str ''#'')),
                         cls (''text-xl font-display font-bold tracking-tighter transition-colors uppercase '' @
                              (if scrolled s then ''mr-4'' else ''mr-auto''))]
               [TextNode ''SIMPSON'', Elem ''span'' [cls ''text-design-blue''] [TextNode ''.'']],
             Elem ''div'' [cls ''hidden md:flex items-center bg-gray-100 dark:bg-[#111] rounded-full px-1 py-1 border border-gray-200 dark:border-gray-800'']
               (map nav_desktop_link nav_links),
             Elem ''div'' [cls (''flex items-center gap-2 '' @ (if scrolled s then ''ml-4'' else ''ml-auto''))]
               [Elem ''button'' [cls ''w-10 h-10 rounded-full bg-gray-100 dark:bg-[#111] flex items-center justify-center border border-gray-200 dark:border-gray-800 hover:border-design-blue transition-colors text-design-black dark:text-white'']
                  [if is_dark s then Elem ''Sun'' [(''size'', pnum 16)] [] else Elem ''Moon'' [(''size'', pnum 16)] []],
                Elem ''button'' [cls ''md:hidden w-10 h-10 rounded-full bg-design-black dark:bg-white text-white dark:text-black flex items-center justify-center border border-transparent dark:border-white/10'']
                  [Elem ''Menu'' [(''size'', pnum 18)] []]]]]],
       Elem ''div'' [cls (''fixed inset-0 z-[60] bg-design-black text-white transition-transform duration-700 ease-[cubic-bezier(0.76,0,0.24,1)] '' @
                          (if nav_open s then ''translate-y-0'' else ''-translate-y-full''))]
        [Elem ''div'' [cls ''absolute top-6 right-6'']
           [Elem ''button'' [cls ''w-12 h-12 rounded-full border border-white/20 flex items-center justify-center hover:bg-white hover:text-black transition-colors'']
              [Elem ''X'' [(''size'', pnum 24)] []]],
         Elem ''div'' [cls ''h-full flex flex-col justify-center items-center gap-6'']
           (map (\<lambda>(i, l). nav_menu_link i l) (enumerate 0 nav_links))]]"

section \<open>Testimonials\<close>

text \<open>\<open>${n}\<close> of an integer-valued number.\<close>

definition js_string_of_int :: "int \<Rightarrow> string" where
  "js_string_of_int i = (if 0 \<le> i then string_of_nat (nat i) else CHR ''-'' # string_of_nat (nat (- i)))"

text \<open>A card of the track (lines 68--101): the quote between literal quotation marks.\<close>

definition testimonial_card :: "testimonial \<Rightarrow> node" where
  "testimonial_card t =
     Elem ''div'' [(''key'', pnum (real (t_id t))), cls ''w-full flex-shrink-0 px-4 md:px-20'']
      [Elem ''div'' [(''role'', PJs (Str ''button'')), (''tabIndex'', pnum 0),
          cls ''mx-auto max-w-4xl bg-white dark:bg-[#111] p-8 md:p-16 rounded-[2rem] border-2 border-design-black dark:border-white shadow-[12px_12px_0px_0px_rgba(37,99,235,1)] hover:shadow-[8px_8px_0px_0px_rgba(37,99,235,1)] hover:translate-y-1 hover:translate-x-1 transition-all cursor-pointer group focus:outline-none focus:ring-4 focus:ring-design-blue/20'']
        [Elem ''div'' [cls ''flex flex-col items-center text-center'']
          [Elem ''p'' [cls ''text-xl md:text-3xl font-serif italic text-design-black dark:text-white mb-10 leading-relaxed'']
             [TextNode [CHR 0x22], TextNode (t_text t), TextNode [CHR 0x22]],
           Elem ''div'' [cls ''flex items-center gap-4'']
             [Elem ''div'' [cls ''w-16 h-16 rounded-full bg-design-yellow border-2 border-design-black flex items-center justify-center font-display font-bold text-xl text-design-black group-hover:scale-110 transition-transform'']
                [TextNode (avatar t)],
              Elem ''div'' [cls ''text-left'']
                [Elem ''div'' [cls ''text-lg font-bold uppercase tracking-wider text-design-black dark:text-white''] [TextNode (t_author t)],
                 Elem ''div'' [cls ''text-sm font-mono text-gray-500 uppercase''] [TextNode (t_role t)]]],
           Elem ''div'' [cls ''mt-8 opacity-0 group-hover:opacity-100 transition-opacity focus-within:opacity-100'']
             [Elem ''span'' [cls ''text-xs font-mono uppercase bg-design-black dark:bg-white text-white dark:text-black px-4 py-2 rounded-full''] [TextNode ''View Contact'']]]]]"

text \<open>A dot (lines 117--122), with its one-based label and the active style.\<close>

definition testimonial_dot :: "tm_state \<Rightarrow> nat \<Rightarrow> node" where
  "testimonial_dot s idx =
     Elem ''button'' [(''key'', pnum (real idx)),
        (''aria-label'', PJs (Str (''Go to testimonial '' @ string_of_nat (idx + 1)))),
        cls (''w-3 h-3 rounded-full transition-all focus:outline-none focus:ring-2 focus:ring-offset-2 focus:ring-design-blue '' @
             (if int idx = current_index s then ''bg-design-blue w-8'' else ''bg-gray-300 dark:bg-gray-700 hover:bg-design-blue/50''))] []"

definition arrow_button_class :: string where
  "arrow_button_class = ''w-14 h-14 rounded-full border-2 border-design-black dark:border-white bg-transparent hover:bg-design-black hover:text-white dark:hover:bg-white dark:hover:text-black flex items-center justify-center transition-all group focus:outline-none focus:ring-2 focus:ring-design-blue''"

definition contact_action_class :: string where
  "contact_action_class = ''w-full flex items-center gap-4 p-4 bg-neutral-100 dark:bg-[#222] rounded-xl hover:bg-design-accent hover:text-white transition-colors group cursor-pointer focus:outline-none focus:ring-2 focus:ring-design-blue''"

text \<open>The contact modal (lines 138--179).\<close>

definition contact_modal :: "testimonial \<Rightarrow> node" where
  "contact_modal t =
     Elem ''div'' [cls ''fixed inset-0 z-[70] flex items-center justify-center p-4 bg-black/50 backdrop-blur-sm animate-slide-up'']
      [Elem ''div'' [cls ''bg-white dark:bg-[#1a1a1a] w-full max-w-md rounded-3xl p-8 relative shadow-2xl border-2 border-design-black dark:border-white'']
        [Elem ''button'' [cls ''absolute top-4 right-4 p-2 text-gray-400 hover:text-design-black dark:hover:text-white focus:outline-none focus:ring-2 focus:ring-design-blue rounded-full'',
                          (''aria-label'', PJs (Str ''Close contact modal''))]
           [Elem ''X'' [(''size'', pnum 24)] []],
         Elem ''div'' [cls ''text-center mb-8'']
           [Elem ''div'' [cls ''w-20 h-20 rounded-full bg-design-yellow mx-auto flex items-center justify-center font-display font-bold text-3xl text-design-black border-2 border-design-black mb-4'']
              [TextNode (avatar t)],
            Elem ''h3'' [cls ''text-2xl font-display uppercase text-design-black dark:text-white''] [TextNode (t_author t)],
            Elem ''p'' [cls ''text-sm font-mono text-gray-500 uppercase''] [TextNode (t_role t)]],
         Elem ''div'' [cls ''space-y-4'']
           [Elem ''a'' [(''href'', PJs (Str (''mailto:'' @ contact_email t))),
                        cls ''flex items-center gap-4 p-4 bg-neutral-100 dark:bg-[#222] rounded-xl hover:bg-design-accent hover:text-white transition-colors group focus:outline-none focus:ring-2 focus:ring-design-blue'']
              [Elem ''Mail'' [(''size'', pnum 20), cls ''text-gray-500 group-hover:text-white''] [],
               Elem ''span'' [cls ''font-bold text-sm''] [TextNode ''Email '', TextNode (contact_first_name t)]],
            Elem ''button'' [cls contact_action_class]
              [Elem ''Phone'' [(''size'', pnum 20), cls ''text-gray-500 group-hover:text-white''] [],
               Elem ''span'' [cls ''font-bold text-sm''] [TextNode ''Schedule Call'']],
            Elem ''button'' [cls contact_action_class]
              [Elem ''MessageCircle'' [(''size'', pnum 20), cls ''text-gray-500 group-hover:text-white''] [],
               Elem ''span'' [cls ''font-bold text-sm''] [TextNode ''Direct Message'']]],
         Elem ''div'' [cls ''mt-8 pt-6 border-t border-neutral-200 dark:border-neutral-700 text-center'']
           [Elem ''p'' [cls ''text-xs text-gray-400''] [TextNode ''Available for collaboration via direct inquiry.'']]]]"

definition testimonials_view :: "tm_state \<Rightarrow> node" where
  "testimonials_view s =
     Elem ''section'' [(''id'', PJs (Str ''testimonials'')),
        cls ''py-32 bg-white dark:bg-[#0a0a0a] border-t border-neutral-100 dark:border-neutral-800 transition-colors duration-500 relative overflow-hidden'']
      ([Elem ''div'' [cls ''absolute top-0 right-0 w-1/3 h-full bg-neutral-50 dark:bg-[#0f0f0f] -skew-x-12 z-0''] [],
        Elem ''div'' [cls ''max-w-7xl mx-auto px-6 relative z-10'']
         [Elem ''div'' [cls ''text-center mb-20'']
            [Elem ''Quote'' [(''size'', pnum 48), cls ''mx-auto mb-8 text-design-blue opacity-80''] [],
             Elem ''h2'' [cls ''text-4xl md:text-6xl font-display uppercase text-design-black dark:text-white tracking-tight'']
               [TextNode ''Voices of '', Elem ''br'' [] [],
                Elem ''span'' [cls ''text-transparent text-outline dark:text-outline-white''] [TextNode ''Collaboration'']]],
          Elem ''div'' [cls ''relative'']
            [Elem ''div'' [cls ''overflow-hidden py-4'']
               [Elem ''div'' [cls ''flex transition-transform duration-700 cubic-bezier(0.25, 1, 0.5, 1)'',
                   (''style'', PObj [(''transform'', PJs (Str (''translateX(-'' @ js_string_of_int (current_index s * 100) @ ''%)'')))])]
                  (map testimonial_card testimonials)],
             Elem ''div'' [cls ''flex justify-center gap-6 mt-12'']
               [Elem ''button'' [cls arrow_button_class, (''aria-label'', PJs (Str ''Previous testimonial''))]
                  [Elem ''ArrowLeft'' [(''size'', pnum 24), cls ''group-hover:-translate-x-1 transition-transform''] []],
                Elem ''div'' [cls ''flex items-center gap-2''] (map (testimonial_dot s) [0..<length testimonials]),
                Elem ''button'' [cls arrow_button_class, (''aria-label'', PJs (Str ''Next testimonial''))]
                  [Elem ''ArrowRight'' [(''size'', pnum 24), cls ''group-hover:translate-x-1 transition-transform''] []]]]]] @
       (case selected_contact s of Some t \<Rightarrow> [contact_modal t] | None \<Rightarrow> []))"

section \<open>Scroll pencil line\<close>

text \<open>
  The element tree of lines 46--79: the document height, the path string \<open>pathD\<close>
  (the formatting of \<open>path_d\<close>'s points, a parameter), the spring \<open>smoothProgress\<close>
  and the three transforms of the tip.
\<close>

definition pencil_icon_path :: string where
  "pencil_icon_path = ''M12.8787 3.12132C13.4413 2.55871 14.3536 2.55871 14.9162 3.12132L20.8787 9.08388C21.4413 9.6465 21.4413 10.5587 20.8787 11.1213L10.3787 21.6213C10.1125 21.8875 9.76182 22.0468 9.38729 22.0722L4.38729 22.4111C3.82424 22.4493 3.35073 21.9758 3.3889 21.4127L3.72777 16.4127C3.75316 16.0382 3.91249 15.6875 4.17868 15.4213L12.8787 3.12132ZM5.57813 16.7915L5.32398 20.5414L9.07393 20.2872L18.7574 10.6038L15.2624 7.10878L5.57813 16.7915Z''"

definition pencil_view :: "real \<Rightarrow> string \<Rightarrow> vid \<Rightarrow> vid \<Rightarrow> vid \<Rightarrow> vid \<Rightarrow> node" where
  "pencil_view docHeight pathD smooth cx cy rot =
     Elem ''div'' [cls ''absolute top-0 left-0 w-full z-[1] pointer-events-none'', (''style'', PObj [(''height'', pnum docHeight)])]
      [Elem ''svg'' [cls ''absolute top-0 left-0 md:left-4 h-full w-[200px] overflow-visible'']
         [Elem ''path'' [(''d'', PJs (Str pathD)), (''stroke'', PJs (Str ''currentColor'')), (''strokeWidth'', PJs (Str ''1'')),
                         (''fill'', PJs (Str ''none'')), cls ''text-gray-300 dark:text-neutral-800 opacity-20'',
                         (''strokeDasharray'', PJs (Str ''4 8''))] [],
          Elem ''motion.path'' [(''d'', PJs (Str pathD)), (''stroke'', PJs (Str ''currentColor'')), (''strokeWidth'', PJs (Str ''2.5'')),
                         (''fill'', PJs (Str ''none'')), cls ''text-design-blue dark:text-white'',
                         (''style'', PObj [(''pathLength'', PMotion smooth)])] []],
       Elem ''motion.div'' [cls ''absolute top-0 left-0 md:left-4 text-design-black dark:text-white z-40'',
          (''style'', PObj [(''x'', PMotion cx), (''y'', PMotion cy), (''rotate'', PMotion rot),
                           (''translateX'', PJs (Str ''-50%'')), (''translateY'', PJs (Str ''-100%''))])]
         [Elem ''div'' [cls ''filter drop-shadow-[0_4px_6px_rgba(0,0,0,0.2)]'']
            [Elem ''svg'' [(''width'', PJs (Str ''20'')), (''height'', PJs (Str ''20'')), (''viewBox'', PJs (Str ''0 0 24 24'')),
                           (''fill'', PJs (Str ''currentColor''))]
               [Elem ''path'' [(''d'', PJs (Str pencil_icon_path))] []]]]]"

section \<open>Facts\<close>

text \<open>The anchors of the bar: the logo's \<open>#\<close>, then each link twice (desktop bar and menu).\<close>

text \<open>The anchors of the bar: the logo's \<open>#\<close>, then each link twice (desktop bar and menu).\<close>

lemma navbar_hrefs:
  "List.map_filter (node_prop ''href'') (node_elems (navbar_view s)) =
   PJs (Str ''#'') # map (\<lambda>l. PJs (Str (href l))) nav_links @ map (\<lambda>l. PJs (Str (href l))) nav_links"
  by (simp add: navbar_view_def nav_links_def nav_desktop_link_def nav_menu_link_def List.map_filter_simps)

text \<open>In every state of the invariant exactly one dot is drawn active, the current one.\<close>

lemma testimonial_active_dot:
  assumes "tm_inv s"
  shows "filter (\<lambda>idx. ''w-8'' \<in> set (class_tokens (the (node_class (testimonial_dot s idx)))))
           [0..<length testimonials] = [nat (current_index s)]"
proof -
  have "current_index s \<in> {0, 1, 2, 3}" using assms by (auto simp: tm_inv_def)
  then show ?thesis
    by (auto simp: testimonial_dot_def class_tokens_def upt_rec)
qed


section \<open>Properties\<close>

text \<open>
  C27. The rendered carousel agrees with its state: in every state the visitor can reach
  with the arrows, the dots, the cards and the contact modal, exactly one dot is drawn
  active (\<open>bg-design-blue w-8\<close>), the one of the current testimonial, and the track
  is translated by a hundred percent per card before it.
\<close>

theorem carousel_renders_current_dot:
  assumes "tm_reachable s"
  shows "filter (\<lambda>idx. ''w-8'' \<in> set (class_tokens (the (node_class (testimonial_dot s idx)))))
           [0..<length testimonials] = [nat (current_index s)] \<and>
         node_at [1, 1, 0, 0] (testimonials_view s) =
           Some (Elem ''div'' [cls ''flex transition-transform duration-700 cubic-bezier(0.25, 1, 0.5, 1)'',
             (''style'', PObj [(''transform'', PJs (Str (''translateX(-'' @ string_of_nat (100 * nat (current_index s)) @ ''%)'')))])]
             (map testimonial_card testimonials))"
proof -
  have inv: "tm_inv s" using assms
  proof (induction rule: tm_reachable.induct)
    case init
    then show ?case by (simp add: tm_inv_def tm_init_def testimonials_def)
  next
    case (step s e)
    then show ?case by (blast intro: tm_inv_step)
  qed
  then have ci: "0 \<le> current_index s" by (simp add: tm_inv_def)
  have "js_string_of_int (current_index s * 100) = string_of_nat (100 * nat (current_index s))"
    using ci by (simp add: js_string_of_int_def nat_mult_distrib mult.commute)
  with testimonial_active_dot [OF inv] show ?thesis
    by (simp add: testimonials_view_def node_at_def)
qed

theorem carousel_renders_current_dot_witness:
  "filter (\<lambda>idx. ''w-8'' \<in> set (class_tokens (the (node_class (testimonial_dot (tm_step PrevClick tm_init) idx)))))
     [0..<length testimonials] = [3] \<and>
   node_at [1, 1, 0, 0] (testimonials_view (tm_step PrevClick tm_init)) =
     Some (Elem ''div'' [cls ''flex transition-transform duration-700 cubic-bezier(0.25, 1, 0.5, 1)'',
       (''style'', PObj [(''transform'', PJs (Str ''translateX(-300%)''))])] (map testimonial_card testimonials))"
proof -
  have r: "tm_reachable (tm_step PrevClick tm_init)" by (rule tm_reachable.step [OF tm_reachable.init]) simp
  have i: "current_index (tm_step PrevClick tm_init) = 3"
    by (simp add: prev_testimonial_def tm_init_def)
  have "string_of_nat 300 = ''300''" by code_simp
  with carousel_renders_current_dot [OF r] i show ?thesis by simp
qed

end
