(* ===== verification/Page.thy ===== *)
theory Page
  imports SectionsView PortfolioView MotionRender AppShell ChromeView
begin

text \<open>
  The whole page of \<open>App.tsx\<close> composed from the element trees of its sections, and the
  element ids of its document. Theory \<open>AppShell\<close> abstracts the main part of the page
  into the list \<open>app_main\<close> of wrapper and root ids; here the ids are read off the
  trees the sections render, for the navigation property of the root theory.
\<close>

section \<open>Element ids\<close>

definition elem_id :: "node \<Rightarrow> string option" where
  "elem_id n = (case map_of (elem_props n) ''id'' of Some (PJs (Str i)) \<Rightarrow> Some i | _ \<Rightarrow> None)"

text \<open>The ids of a document, in document order (\<open>undefined\<close> ids are not set).\<close>

definition node_ids :: "node \<Rightarrow> string list" where
  "node_ids v = List.map_filter elem_id (node_elems v)"

section \<open>Facts\<close>

lemma node_ids_Elem [simp]:
  "node_ids (Elem t ps cs) = opt_list (elem_id (Elem t ps cs)) @ concat (map node_ids cs)"
proof -
  have "List.map_filter elem_id (concat (map node_elems cs)) = concat (map node_ids cs)"
    by (induction cs) (simp_all add: node_ids_def List.map_filter_def)
  then show ?thesis
    by (cases "elem_id (Elem t ps cs)") (simp_all add: node_ids_def List.map_filter_def)
qed

lemma node_ids_Fragment [simp]: "node_ids (Fragment cs) = concat (map node_ids cs)"
  by (induction cs) (simp_all add: node_ids_def List.map_filter_def)

lemma node_ids_TextNode [simp]: "node_ids (TextNode s) = []"
  by (simp add: node_ids_def List.map_filter_def)

lemma concat_map_node_ids_Nil:
  "(\<And>x. x \<in> set xs \<Longrightarrow> node_ids (f x) = []) \<Longrightarrow> concat (map (\<lambda>x. node_ids (f x)) xs) = []"
  by (induction xs) auto

lemma node_ids_hero: "node_ids hero_view = []"
proof -
  have "node_ids (hero_letter_view l) = []" for l
    by (simp add: hero_letter_view_def elem_id_def)
  then show ?thesis
    by (simp add: hero_view_def elem_id_def comp_def concat_map_node_ids_Nil)
qed

lemma node_ids_services: "node_ids services_view = [''about'']"
  by (simp add: services_view_def contact_link_def elem_id_def)

lemma node_ids_coffee: "node_ids coffee_mantra_view = []"
  by (simp add: coffee_mantra_view_def steam_particle_def elem_id_def split: option.splits)

lemma node_ids_footer: "node_ids (footer_view y) = []"
  by (simp add: footer_view_def elem_id_def comp_def concat_map_node_ids_Nil)

lemma node_ids_timeline: "node_ids (timeline_view r sp nd) = [''timeline'']"
proof -
  have "node_ids (timeline_row i e) = []" for i e
    by (simp add: timeline_row_def timeline_dot_def timeline_content_def timeline_image_def elem_id_def Let_def)
  then have "concat (map node_ids (map (\<lambda>(index, e). timeline_row index e) xs)) = []" for xs
    by (induction xs) auto
  then show ?thesis
    by (simp add: timeline_view_def timeline_header_def timeline_thread_def timeline_end_def elem_id_def)
qed

lemma node_ids_when_str_Nil:
  "(\<And>u. node_ids (f u) = []) \<Longrightarrow> concat (map node_ids (when_str x f)) = []"
  by (cases x) (simp_all add: when_str_def)

lemma node_ids_opt_text [simp]: "concat (map node_ids (opt_text x)) = []"
  by (cases x) (simp_all add: opt_text_def)

lemma node_ids_portfolio_parts [simp]:
  "node_ids (gallery_item p) = []" "node_ids (process_step_view mv st i pid) = []"
  "node_ids (step_fullscreen_view u) = []" "node_ids (high_res_view u) = []"
  "node_ids (modal_image_side p m) = []" "node_ids (modal_text_side p d m) = []"
  "node_ids (filter_button a f) = []" "node_ids (load_more_block b) = []" "node_ids portfolio_heading = []"
  by (cases st; simp add: gallery_item_def process_step_view_def step_fullscreen_view_def high_res_view_def
      modal_image_side_def modal_text_side_def detail_card_def filter_button_def load_more_block_def
      portfolio_heading_def elem_id_def node_ids_when_str_Nil)+

lemma node_ids_deconstruction: "node_ids (deconstruction_view mv pl r p fs) = [''snakeGradient'']"
proof -
  have "concat (map node_ids (map (\<lambda>(idx, step). process_step_view mv step idx (proj_id p)) xs)) = []" for xs
    by (induction xs) auto
  then show ?thesis
    by (simp add: deconstruction_view_def animate_presence_def elem_id_def node_ids_when_str_Nil)
qed

lemma node_ids_modal:
  "modal_view mv pl r p dc fs = Some n \<Longrightarrow> node_ids n = (if dc then [''snakeGradient''] else [])"
  by (auto simp: modal_view_def animate_presence_def elem_id_def node_ids_deconstruction Let_def split: option.splits)

lemma node_ids_portfolio:
  "portfolio_view mv pl r s = Some v \<Longrightarrow>
     node_ids v = ''portfolio'' # (if selected s \<noteq> None \<and> deconstructing s then [''snakeGradient''] else [])"
proof (cases "selected s")
  case None
  then show "portfolio_view mv pl r s = Some v \<Longrightarrow> ?thesis"
    by (auto simp: portfolio_view_def animate_presence_def elem_id_def comp_def concat_map_node_ids_Nil
        node_ids_when_str_Nil)
next
  case (Some p)
  show "portfolio_view mv pl r s = Some v \<Longrightarrow> ?thesis"
  proof -
    assume v: "portfolio_view mv pl r s = Some v"
    with Some obtain n where n: "modal_view mv pl r p (deconstructing s) (step_image s) = Some n"
      by (auto simp: portfolio_view_def Let_def)
    with v Some show ?thesis
      by (auto simp: portfolio_view_def animate_presence_def elem_id_def comp_def concat_map_node_ids_Nil
          node_ids_when_str_Nil node_ids_modal)
  qed
qed


lemma node_ids_cursor: "node_ids (cursor_view c) = []"
  by (simp add: cursor_view_def elem_id_def)

lemma node_ids_navbar: "node_ids (navbar_view ns) = []"
  by (simp add: navbar_view_def nav_links_def nav_desktop_link_def nav_menu_link_def elem_id_def)

lemma node_ids_pencil: "node_ids (pencil_view h d sm cx cy rot) = []"
  by (simp add: pencil_view_def elem_id_def)

lemma node_ids_contact_modal: "node_ids (contact_modal t) = []"
  by (simp add: contact_modal_def elem_id_def)

lemma node_ids_testimonials: "node_ids (testimonials_view ts) = [''testimonials'']"
  by (cases "selected_contact ts")
     (simp_all add: testimonials_view_def testimonials_def testimonial_card_def testimonial_dot_def
       elem_id_def node_ids_contact_modal upt_rec)

end
