(* ===== verification/CommentsView.thy ===== *)
theory CommentsView
  imports Comments MotionFactory
begin

text \<open>
  The element tree \<open>Comments\<close> renders (\<open>src/components/Comments.tsx\<close> lines
  65--160) in a state of theory \<open>Comments\<close>: the heading with the count, the form
  (the name field only while the form is focused) and the list of comments, or the
  empty note. \<open>new Date(timestamp).toLocaleDateString()\<close> depends on the browser's
  locale and is a parameter \<open>fmt\<close>; handlers are left out (they are \<open>cm_step\<close>).
\<close>

section \<open>Rendering\<close>

text \<open>One comment (lines 123--150).\<close>

definition comment_view :: "(nat \<Rightarrow> string) \<Rightarrow> comment \<Rightarrow> node" where
  "comment_view fmt c =
     Elem ''motion.div''
       [(''layout'', PBool True),
        (''initial'', PObj [(''opacity'', pnum 0), (''y'', pnum 20), (''scale'', pnum (95 / 100))]),
        (''animate'', PObj [(''opacity'', pnum 1), (''y'', pnum 0), (''scale'', pnum 1)]),
        (''exit'', PObj [(''opacity'', pnum 0), (''scale'', pnum (9 / 10))]),
        (''transition'', PObj [(''type'', PJs (Str ''spring'')), (''stiffness'', pnum 300), (''damping'', pnum 25)]),
        cls ''group flex gap-4'']
       [Elem ''div'' [cls ''flex-shrink-0'']
          [Elem ''div'' [cls ''w-10 h-10 rounded-full bg-white dark:bg-[#222] border border-gray-200 dark:border-gray-700 flex items-center justify-center text-design-black dark:text-white shadow-sm group-hover:border-design-yellow transition-colors'']
             [Elem ''User'' [(''size'', pnum 16)] []]],
        Elem ''div'' [cls ''flex-1 bg-white dark:bg-[#1a1a1a] p-4 rounded-r-2xl rounded-bl-2xl border border-gray-100 dark:border-gray-800 shadow-sm'']
          [Elem ''div'' [cls ''flex justify-between items-baseline mb-1'']
             [Elem ''span'' [cls ''text-xs font-bold uppercase tracking-wider text-design-black dark:text-white''] [TextNode (author c)],
              Elem ''span'' [cls ''text-[10px] font-mono text-gray-400''] [TextNode (fmt (timestamp c))]],
           Elem ''p'' [cls ''text-sm text-gray-600 dark:text-gray-300 leading-relaxed''] [TextNode (ctext c)]]]"

text \<open>The submit button (lines 108--114): disabled while the note or the name is blank.\<close>

definition submit_button :: "cm_state \<Rightarrow> node" where
  "submit_button s =
     Elem ''button'' [(''type'', PJs (Str ''submit'')),
        (''disabled'', PBool (js_trim (text_in s) = [] \<or> js_trim (author_in s) = [])),
        cls ''bg-design-black dark:bg-white text-white dark:text-black p-3 rounded-xl hover:scale-105 disabled:opacity-50 disabled:hover:scale-100 transition-all shadow-lg'']
       [Elem ''Send'' [(''size'', pnum 16)] []]"

text \<open>The form (lines 77--117).\<close>

definition comment_form :: "cm_state \<Rightarrow> node" where
  "comment_form s =
     Elem ''motion.form''
       [(''layout'', PBool True),
        cls (''mb-10 bg-gray-50 dark:bg-[#151515] border-2 rounded-2xl p-4 transition-colors duration-300 '' @
             (if focused s then ''border-design-blue'' else ''border-gray-200 dark:border-gray-800''))]
       [Elem ''div'' [cls ''flex flex-col gap-4'']
          ((if focused s then
              [Elem ''motion.div''
                 [(''initial'', PObj [(''opacity'', pnum 0), (''height'', pnum 0)]),
                  (''animate'', PObj [(''opacity'', pnum 1), (''height'', PJs (Str ''auto''))]),
                  (''exit'', PObj [(''opacity'', pnum 0), (''height'', pnum 0)])]
                 [Elem ''input'' [(''type'', PJs (Str ''text'')), (''placeholder'', PJs (Str ''Your Name / Role'')),
                     (''value'', PJs (Str (author_in s))),
                     cls ''w-full bg-transparent text-sm font-bold border-b border-gray-200 dark:border-gray-700 py-2 focus:outline-none focus:border-design-blue text-design-black dark:text-white''] []]]
            else []) @
           [Elem ''div'' [cls ''flex gap-4 items-start'']
              [Elem ''textarea'' [(''placeholder'', PJs (Str ''Leave a note on the composition...'')),
                  (''value'', PJs (Str (text_in s))), (''rows'', pnum (if focused s then 3 else 1)),
                  cls ''w-full bg-transparent text-sm resize-none focus:outline-none text-gray-700 dark:text-gray-300 placeholder-gray-400''] [],
               submit_button s]])]"

text \<open>The component (lines 65--160).\<close>

definition comments_view :: "(nat \<Rightarrow> string) \<Rightarrow> cm_state \<Rightarrow> node" where
  "comments_view fmt s =
     Elem ''div'' [cls ''mt-12 pt-12 border-t border-gray-200 dark:border-gray-800'']
       [Elem ''div'' [cls ''flex items-center gap-2 mb-8'']
          [Elem ''MessageSquare'' [(''size'', pnum 18), cls ''text-design-blue''] [],
           Elem ''h3'' [cls ''text-sm font-bold uppercase tracking-widest text-design-black dark:text-white''] [TextNode ''Critique & Feedback''],
           Elem ''span'' [cls ''bg-gray-100 dark:bg-[#222] text-xs font-mono px-2 py-0.5 rounded-full ml-2'']
             [TextNode (string_of_nat (length (comments s)))]],
        comment_form s,
        Elem ''div'' [cls ''space-y-6'']
          ([animate_presence (map (comment_view fmt) (comments s))] @
           (if comments s = [] then
              [Elem ''div'' [cls ''text-center py-8 opacity-50'']
                 [Elem ''p'' [cls ''text-xs font-mono uppercase''] [TextNode ''No notes yet. Be the first to mark it up.'']]]
            else []))]"


section \<open>Facts\<close>

lemma cm_submit_noop_iff:
  "cm_submit now (s, st) = (s, st) \<longleftrightarrow> js_trim (text_in s) = [] \<or> js_trim (author_in s) = []"
proof
  assume h: "cm_submit now (s, st) = (s, st)"
  show "js_trim (text_in s) = [] \<or> js_trim (author_in s) = []"
  proof (rule ccontr)
    assume "\<not> (js_trim (text_in s) = [] \<or> js_trim (author_in s) = [])"
    then have "length (comments (fst (cm_submit now (s, st)))) = Suc (length (comments s))"
      by (simp add: cm_submit_def Let_def)
    with h show False by simp
  qed
qed (auto simp: cm_submit_def)

section \<open>Properties\<close>

text \<open>
  C22. The form's submit button is disabled exactly when submitting would change
  nothing: in every state of the component, the rendered button (of type
  \<open>submit\<close>) carries \<open>disabled\<close> just when \<open>handleSubmit\<close> leaves the component's
  state and the storage unchanged, so the guard of the handler and the guard of the
  view agree.
\<close>

theorem comment_submit_disabled_iff_noop:
  "\<exists>b. node_at [1, 0, if focused s then 1 else 0, 1] (comments_view fmt s) = Some b \<and>
       node_prop ''type'' b = Some (PJs (Str ''submit'')) \<and>
       node_prop ''disabled'' b = Some (PBool (cm_submit now (s, st) = (s, st)))"
  by (simp add: node_at_def comments_view_def comment_form_def submit_button_def cm_submit_noop_iff)

end
