(* ===== verification/ChatView.thy ===== *)
theory ChatView
  imports Chat MotionFactory
begin

text \<open>
  The element tree \<open>CoachChat\<close> renders (\<open>src/components/CoachChat.tsx\<close> lines
  65--144) in a state of theory \<open>Chat\<close>: the panel while it is open (header, the
  messages, the "Thinking..." bubble while loading, the end marker the scroll effect
  scrolls to, and the input row) and the toggle button. The ref of the end marker is a
  parameter; handlers are left out (they are \<open>chat_step\<close>).
\<close>

section \<open>Rendering\<close>

text \<open>One message (lines 90--103): on the right for the user, on the left for the bot.\<close>

definition message_view :: "chat_message \<Rightarrow> node" where
  "message_view msg =
     Elem ''div'' [cls (''flex '' @ (if sender msg = USER then ''justify-end'' else ''justify-start''))]
       [Elem ''div''
          [cls (''max-w-[85%] px-4 py-3 text-sm leading-relaxed '' @
                (if sender msg = USER then ''bg-design-black dark:bg-white text-white dark:text-black rounded-none''
                 else ''bg-neutral-100 dark:bg-[#222] text-design-black dark:text-gray-300 rounded-none''))]
          [TextNode (mtext msg)]]"

text \<open>The widget (lines 65--144).\<close>

definition chat_view :: "nat \<Rightarrow> chat_state \<Rightarrow> node" where
  "chat_view endRef s =
     Elem ''div'' [cls ''fixed bottom-6 right-6 z-50 flex flex-col items-end'']
       ((if is_open s then
           [Elem ''div'' [cls ''mb-4 w-[calc(100vw-3rem)] sm:w-96 bg-white dark:bg-[#1a1a1a] border border-neutral-200 dark:border-neutral-800 rounded-lg shadow-xl overflow-hidden flex flex-col h-[500px] max-h-[70vh] animate-slide-up'']
              [Elem ''div'' [cls ''bg-neutral-100 dark:bg-[#111] p-4 flex items-center justify-between border-b border-neutral-200 dark:border-neutral-800'']
                 [Elem ''div'' [cls ''flex items-center space-x-3'']
                    [Elem ''div'' [cls ''w-8 h-8 bg-design-accent text-white rounded-full flex items-center justify-center'']
                       [Elem ''Scissors'' [(''size'', pnum 14)] []],
                     Elem ''div'' []
                       [Elem ''h3'' [cls ''text-design-black dark:text-white font-bold text-sm uppercase tracking-wide''] [TextNode ''Studio AI'']]],
                  Elem ''button'' [cls ''text-gray-500 hover:text-design-black dark:hover:text-white transition-colors'']
                    [Elem ''X'' [(''size'', pnum 20)] []]],
               Elem ''div'' [cls ''flex-1 overflow-y-auto p-4 space-y-4 bg-white dark:bg-[#1a1a1a]'']
                 (map message_view (messages s) @
                  (if chat_loading s then
                     [Elem ''div'' [cls ''flex justify-start'']
                        [Elem ''div'' [cls ''bg-neutral-100 dark:bg-[#222] px-4 py-3'']
                           [Elem ''span'' [cls ''text-xs text-gray-500 animate-pulse''] [TextNode ''Thinking...'']]]]
                   else []) @
                  [Elem ''div'' [(''ref'', PRef endRef)] []]),
               Elem ''div'' [cls ''p-3 bg-white dark:bg-[#1a1a1a] border-t border-neutral-200 dark:border-neutral-800'']
                 [Elem ''div'' [cls ''flex items-center space-x-2'']
                    [Elem ''input'' [(''type'', PJs (Str ''text'')), (''value'', PJs (Str (input s))),
                        (''placeholder'', PJs (Str ''Type a message...'')),
                        cls ''flex-1 bg-transparent border-none text-sm text-design-black dark:text-white focus:outline-none placeholder-gray-400''] [],
                     Elem ''button'' [(''disabled'', PBool (chat_loading s)),
                        cls ''p-2 text-design-black dark:text-white hover:opacity-50 transition-opacity disabled:opacity-30'']
                       [Elem ''Send'' [(''size'', pnum 16)] []]]]]]
         else []) @
        [Elem ''button'' [cls ''flex items-center justify-center w-14 h-14 rounded-full bg-design-black dark:bg-white text-white dark:text-black shadow-lg hover:scale-105 transition-transform'']
           [if is_open s then Elem ''X'' [(''size'', pnum 24)] [] else Elem ''MessageSquare'' [(''size'', pnum 24)] []]])"


section \<open>Facts\<close>

text \<open>
  The send button of the open panel is disabled only while a reply is awaited, so with a
  blank input it is enabled and \<open>handleSend\<close> returns at once.
\<close>

lemma send_button_disabled:
  "is_open s \<Longrightarrow> \<exists>b. node_at [0, 2, 0, 1] (chat_view r s) = Some b \<and>
       node_prop ''disabled'' b = Some (PBool (chat_loading s))"
  by (simp add: node_at_def chat_view_def)

lemma send_blank_noop: "js_trim (input s) = [] \<Longrightarrow> chat_send now s = s"
  by (simp add: chat_send_def)

end
