(* ===== verification/Parallax.thy ===== *)
theory Parallax
  imports Timeline Transform
begin

text \<open>
  The hooks of \<open>ParallaxFloat\<close> (\<open>src/components/TextAnimations.tsx\<close>, lines 111--122):
  \<open>useScroll\<close> with a target and offsets the library ignores, so the progress is the
  page's, and \<open>useTransform\<close> mapping it from \<open>[0, 1]\<close> to \<open>[offset, -offset]\<close>.
  React runs both renders first (two \<open>useMotionValue\<close> calls, the second initialised
  from the progress value's current 0), then the scroll effect (one \<open>update()\<close> and the
  window registrations), then the transform effect, which sets the derived value from
  the progress and subscribes a fresh closure to it.
\<close>

definition parallax_compute :: "real \<Rightarrow> jsval \<Rightarrow> jsval" where
  "parallax_compute offset = transform_compute (InArray [0, 1]) (Some [Num offset, Num (- offset)])"

definition parallax_mount :: "nat \<Rightarrow> real \<Rightarrow> page \<Rightarrow> (vid \<times> vid \<times> page) option" where
  "parallax_mount n offset p =
     (let (a, e1) = use_motion_value None (Num 0) (eng p);
          (y, e2) = use_motion_value None
                      (parallax_compute offset (nullish_default (source_value (Some a) e1) (Num 0))) e1
      in Option.bind (scroll_effect n a (p\<lparr>eng := e2\<rparr>)) (\<lambda>(h, p3).
           map_option (\<lambda>(u, e4). (a, y, p3\<lparr>eng := e4\<rparr>))
             (transform_effect n y (Some a) (parallax_compute offset) (eng p3))))"

lemma parallax_compute_num [simp]:
  "parallax_compute offset (Num x) = Num (offset * (1 - 2 * x))"
  by (simp add: parallax_compute_def transform_compute_def range_progress_def algebra_simps)

lemma parallax_mount_state:
  fixes offset :: real
  assumes wf: "page_wf p"
  defines "L \<equiv> length (heap (eng p))" and "k \<equiv> next_lid (eng p)"
    and "h \<equiv> ScrollUpdate (next_handler p) (length (heap (eng p)))"
  defines "e3 \<equiv> write_value (Suc L) (Num (offset * (1 - 2 * scroll_progress (vp p))))
                 (write_value L (Num (scroll_progress (vp p)))
                   (snd (new_motion_value (Num offset) (snd (new_motion_value (Num 0) (eng p))))))"
  shows "parallax_mount (Suc m) offset p =
           Some (L, Suc L, p\<lparr>eng := snd (mv_on L ''change'' (Closure k, Derive (Suc L) (parallax_compute offset))
                                         (e3\<lparr>next_lid := Suc k\<rparr>)),
                             win := win p @ [(''scroll'', h), (''resize'', h)],
                             next_handler := Suc (next_handler p)\<rparr>)"
proof -
  let ?e1 = "snd (new_motion_value (Num 0) (eng p))"
  let ?e2 = "snd (new_motion_value (Num offset) ?e1)"
  let ?v = "Num (scroll_progress (vp p))"
  let ?e2' = "write_value L ?v ?e2"
  have u1: "use_motion_value None (Num 0) (eng p) = (L, ?e1)"
    by (simp add: use_motion_value_def new_motion_value_def L_def)
  have sv: "parallax_compute offset (nullish_default (source_value (Some L) ?e1) (Num 0)) = Num offset"
    by (simp add: source_value_def mv_get_def new_motion_value_def L_def)
  have u2: "use_motion_value None (Num offset) ?e1 = (Suc L, ?e2)"
    by (simp add: use_motion_value_def new_motion_value_def L_def)
  have set: "mv_set (Suc m) L ?v ?e2 = Some ?e2'"
    by (rule mv_set_no_listeners) (simp_all add: new_motion_value_def L_def nth_append)
  have f1: "(''scroll'', h) \<notin> set (win p)" and f2: "(''resize'', h) \<notin> set (win p)"
    using handler_fresh [OF wf] by (simp_all add: h_def)
  have se: "scroll_effect (Suc m) L (p\<lparr>eng := ?e2\<rparr>) =
      Some (h, p\<lparr>eng := ?e2', win := win p @ [(''scroll'', h), (''resize'', h)],
                next_handler := Suc (next_handler p)\<rparr>)"
    using f1 f2 by (simp del: mv_set.simps add: scroll_effect_def scroll_update_def Let_def
      add_event_listener_def set [unfolded L_def] h_def L_def)
  have g: "mv_get L ?e2' = Some ?v"
    by (simp add: mv_get_def write_value_def new_motion_value_def L_def)
  have set2: "mv_set (Suc m) (Suc L) (Num (offset * (1 - 2 * scroll_progress (vp p)))) ?e2' = Some e3"
    unfolding e3_def
    by (rule mv_set_no_listeners) (simp_all add: write_value_def new_motion_value_def L_def nth_append nth_list_update)
  have nl: "next_lid e3 = k" by (simp add: e3_def k_def new_motion_value_def)
  have te: "transform_effect (Suc m) (Suc L) (Some L) (parallax_compute offset) ?e2' =
      Some (mv_on L ''change'' (Closure k, Derive (Suc L) (parallax_compute offset)) (e3\<lparr>next_lid := Suc k\<rparr>))"
    by (simp del: mv_set.simps add: transform_effect_def g set2 fresh_closure_def nl)
  show ?thesis
    unfolding parallax_mount_def Let_def u1 prod.case sv u2
    by (simp del: mv_set.simps add: se te split_def)
qed

lemma parallax_mount_facts:
  assumes wf: "page_wf p" and rk: "ranked r (eng p)"
    and mount: "parallax_mount (Suc m) offset p = Some (a, y, p1)"
  defines "L \<equiv> length (heap (eng p))"
  defines "r2 \<equiv> \<lambda>x. if x = Suc L then 0 else Suc (if x < L then r x else 0)"
  shows "a = L \<and> y = Suc L \<and> vp p1 = vp p \<and> length (heap (eng p1)) = Suc (Suc L) \<and>
         page_wf p1 \<and> ranked r2 (eng p1) \<and> follows (eng p1) a (Derive y (parallax_compute offset)) y \<and>
         (\<forall>x \<in> set (win p1). handler_target (snd x) \<noteq> y) \<and>
         (''scroll'', ScrollUpdate (next_handler p) a) \<in> set (win p1) \<and>
         (''resize'', ScrollUpdate (next_handler p) a) \<in> set (win p1) \<and>
         mv_get y (eng p1) = Some (Num (offset * (1 - 2 * scroll_progress (vp p))))"
proof -
  define e2 where "e2 = snd (new_motion_value (Num offset) (snd (new_motion_value (Num 0) (eng p))))"
  define e3 where "e3 = write_value (Suc L) (Num (offset * (1 - 2 * scroll_progress (vp p))))
                          (write_value L (Num (scroll_progress (vp p))) e2)"
  have sh3: "shape e3 = shape e2" by (simp add: e3_def shape_write_value)
  note mf = mount_follow_facts [OF wf rk sh3 [unfolded e2_def], of "Derive (Suc L) (parallax_compute offset)",
      folded L_def r2_def]
  from mount parallax_mount_state [OF wf, of m offset]
  have a: "a = L" and y: "y = Suc L"
    and p1: "p1 = p\<lparr>eng := snd (mv_on L ''change'' (Closure (next_lid (eng p)), Derive (Suc L) (parallax_compute offset))
                                 (e3\<lparr>next_lid := Suc (next_lid (eng p))\<rparr>)),
                  win := win p @ [(''scroll'', ScrollUpdate (next_handler p) L), (''resize'', ScrollUpdate (next_handler p) L)],
                  next_handler := Suc (next_handler p)\<rparr>"
    by (auto simp: e3_def e2_def L_def)
  have len2: "length (heap e2) = Suc (Suc L)" by (simp add: e2_def new_motion_value_def L_def)
  have gy: "mv_get (Suc L) e3 = Some (Num (offset * (1 - 2 * scroll_progress (vp p))))"
    using len2 by (simp add: e3_def mv_get_def write_value_def)
  show ?thesis using mf a y gy by (simp add: p1 r2_def)
qed

section \<open>Properties\<close>

text \<open>
  C36. The parallax offset is a function of the page's scroll progress at every moment.
  On a well-formed page the mount already sets \<open>y\<close> to
  \<open>offset \<cdot> (1 - 2 \<cdot> progress)\<close> of the current progress (unlike a spring, the
  transform's effect writes the derived value before subscribing), and after any run
  of scroll and resize events \<open>y\<close> is that function of the progress of the whole page,
  whatever \<open>target\<close> and \<open>offset\<close> the component passed to \<open>useScroll\<close>.
\<close>

theorem parallax_tracks_page:
  assumes wf: "page_wf p" and rk: "ranked r (eng p)" and fuel: "\<forall>b < length (heap (eng p)). r b < n"
    and n0: "0 < n" and mount: "parallax_mount (Suc m) offset p = Some (a, y, p1)"
    and evs: "list_all fires_event evs"
  shows "mv_get y (eng p1) = Some (Num (offset * (1 - 2 * scroll_progress (vp p)))) \<and>
         (\<exists>p2. browser_run (Suc n) evs p1 = Some p2 \<and> vp p2 = fold event_viewport evs (vp p) \<and>
            mv_get y (eng p2) = Some (Num (offset * (1 - 2 * scroll_progress (vp p2)))))"
proof -
  let ?L = "length (heap (eng p))"
  let ?r2 = "\<lambda>x. if x = Suc ?L then 0 else Suc (if x < ?L then r x else 0)"
  note f = parallax_mount_facts [OF wf rk mount]
  have m0: "mv_get y (eng p1) = Some (Num (offset * (1 - 2 * scroll_progress (vp p))))" and vp1: "vp p1 = vp p"
    using f by blast+
  show ?thesis
  proof (cases "evs = []")
    case True
    with m0 vp1 show ?thesis by simp
  next
    case False
    have fuel2: "\<forall>b < length (heap (eng p1)). ?r2 b < Suc n" using f fuel n0 by auto
    have pw: "page_wf p1" and rk1: "ranked ?r2 (eng p1)"
      and fo: "follows (eng p1) a (Derive y (parallax_compute offset)) y"
      and tg: "\<forall>x \<in> set (win p1). handler_target (snd x) \<noteq> y"
      and rs: "(''scroll'', ScrollUpdate (next_handler p) a) \<in> set (win p1)"
      and rr: "(''resize'', ScrollUpdate (next_handler p) a) \<in> set (win p1)"
      using f by blast+
    from browser_run_follow [OF pw rk1 fuel2 fo tg rs rr evs False] m0 vp1
    show ?thesis by simp
  qed
qed

theorem parallax_tracks_page_witness:
  "mv_get 1 (eng (snd (snd (the (parallax_mount 1 50 example_page))))) = Some (Num 40) \<and>
   (\<exists>p2. browser_run 2 [ScrollTo 600] (snd (snd (the (parallax_mount 1 50 example_page)))) = Some p2 \<and>
      mv_get 1 (eng p2) = Some (Num (- 10)))"
proof -
  obtain a y p1 where m: "parallax_mount (Suc 0) 50 example_page = Some (a, y, p1)"
    using parallax_mount_state [OF example_page_wf, of 0 50] by simp
  have ids: "y = 1"
    using m parallax_mount_state [OF example_page_wf, of 0 50] by (simp add: example_page_def empty_engine_def)
  have rk: "ranked (\<lambda>_. 0) (eng example_page)" by (simp add: ranked_def example_page_def empty_engine_def)
  have fuel: "\<forall>b < length (heap (eng example_page)). (\<lambda>_. 0::nat) b < 1" by simp
  have p1: "snd (snd (the (parallax_mount 1 50 example_page))) = p1" using m by simp
  from parallax_tracks_page [OF example_page_wf rk fuel _ m, of "[ScrollTo 600]"]
  obtain p2 where m0: "mv_get y (eng p1) = Some (Num (50 * (1 - 2 * scroll_progress (vp example_page))))"
    and run: "browser_run (Suc 1) [ScrollTo 600] p1 = Some p2"
    and vp2: "vp p2 = fold event_viewport [ScrollTo 600] (vp example_page)"
    and g: "mv_get y (eng p2) = Some (Num (50 * (1 - 2 * scroll_progress (vp p2))))"
    by auto
  have "scroll_progress (vp p2) = 3 / 5" using vp2 by (simp add: example_page_def scroll_progress_def)
  moreover have "scroll_progress (vp example_page) = 1 / 10" by (simp add: example_page_def scroll_progress_def)
  ultimately show ?thesis using m0 run g ids unfolding p1 by (simp add: numeral_2_eq_2)
qed

end
