(* ===== verification/Spec2Isabelle.thy ===== *)
theory Spec2Isabelle
  imports Transform Events Scroll Portfolio Comments Chat Testimonials PencilLine TextAnimations AppShell
    MotionFactory Timeline Sections Cursor PortfolioComments TimelineView PortfolioView MotionRender SectionsView Page CommentsView ChatView Parallax ChromeView
begin

text \<open>
  \<^bold>\<open>A verification library for the Simpson portfolio site.\<close>

  The repository is a single-page React site. Its engine is the minimal
  reimplementation of a motion library in \<open>src/vendor/framer-motion/index.js\<close>:
  observable values (\<open>MotionValueImpl\<close>, \<open>useMotionValue\<close>), derived values
  (\<open>useTransform\<close> with \<open>mapRange\<close>), a forwarding "spring" (\<open>useSpring\<close>), a
  page-scroll progress source (\<open>useScroll\<close>), callback subscriptions
  (\<open>useMotionValueEvent\<close>) and a memoising component factory (\<open>motion\<close>). The page
  sections in \<open>src/components\<close> consume these values and keep their own React state;
  their data is in \<open>src/data/content.ts\<close> and \<open>src/types.ts\<close>.

  \<^bold>\<open>Theories.\<close>
  \<^item> \<open>Prelude\<close>: JavaScript values (\<open>jsval\<close>), the \<open>??\<close> operator, JavaScript's
    \<open>Set\<close> as an insertion-ordered list keyed by identity, JavaScript's \<open>%\<close>, the
    string operations the components use (\<open>String(n)\<close>, case conversion, \<open>trim\<close>,
    \<open>split\<close>, \<open>includes\<close>, \<open>indexOf\<close>, array reads that may be \<open>undefined\<close>), the
    values a template literal interpolates and the class list of a \<open>className\<close>.
  \<^item> \<open>MotionValue\<close>: class \<open>MotionValueImpl\<close> (index.js lines 3--23) and
    \<open>useMotionValue\<close> (lines 25--31). Objects live in an explicit heap (a list of
    \<open>cell\<close> records indexed by object identity) because one value's listeners write into
    other values. A listener is a pair of its identity and one of the three closures the
    code creates: \<open>Derive\<close> (the closure of \<open>useTransform\<close>, line 71), \<open>Follow\<close> (of
    \<open>useSpring\<close>, line 39) and \<open>Callback\<close> (a consumer's function, whose calls are
    recorded in the engine's \<open>observed\<close> log). \<open>mv_set\<close>/\<open>notify\<close> is \<open>set\<close> with its
    \<open>forEach\<close> over the listeners; \<open>mv_on\<close> and \<open>run_unsubscribe\<close> are \<open>on\<close> and the
    function it returns.
  \<^item> \<open>Transform\<close>: \<open>mapRange\<close> (lines 45--53) as \<open>map_range\<close>, the two call forms
    of \<open>useTransform\<close> (lines 55--75): the render (\<open>use_transform\<close>, which allocates the
    derived value through \<open>useMotionValue\<close>), its effect (\<open>transform_effect\<close>: seed the
    derived value, subscribe a fresh \<open>Derive\<close> closure) and a re-render with new
    dependencies (\<open>transform_rerender\<close>: the previous cleanup, then the effect).
    \<open>spec_interp\<close> is the interpolation the specification describes (any number of
    breakpoints, clamped outside them); it is the contract \<open>map_range\<close> is compared with.
  \<^item> \<open>Spring\<close>: \<open>useSpring\<close> (lines 33--43) as \<open>use_spring\<close>: the render
    (\<open>spring_initial\<close>, \<open>useMotionValue\<close>) and the mount effect (\<open>spring_effect\<close>,
    a fresh \<open>Follow\<close> closure). The stiffness/damping configuration is never read by
    the code and is absent from the model. \<open>use_spring\<close> is the mount; later renders
    pass the same dependencies and run no effect.
  \<^item> \<open>Events\<close>: \<open>useMotionValueEvent\<close> (lines 99--104) as
    \<open>use_motion_value_event\<close>, and a re-render with a new callback identity as
    \<open>event_rerender\<close> (cleanup, then the effect again).
  \<^item> \<open>Scroll\<close>: \<open>useScroll\<close> (lines 77--97) on a \<open>page\<close>: the engine, the viewport
    (\<open>scrollY\<close>, \<open>scrollHeight\<close>, \<open>innerHeight\<close>) and the window's listener list.
    \<open>use_scroll\<close> is the mount (\<open>useMotionValue(0)\<close>, then the effect: one \<open>update()\<close>
    and the registration of the closure for \<open>scroll\<close> and \<open>resize\<close>);
    \<open>scroll_cleanup\<close> is its cleanup. The browser (\<open>browser_step\<close>: scroll, resize, or a
    change of the document height that fires neither) is modelled from the
    specification's viewport interface; \<open>spec_scroll_progress\<close> is the specification's
    formula.
  \<^item> \<open>MotionFactory\<close>: the component side of index.js (lines 106--129): the
    \<open>motionCache\<close> as a map from tags to components (\<open>create_motion_component\<close>,
    \<open>motion_proxy_get\<close>), the \<open>forwardRef\<close> render of a motion component
    (\<open>motion_render\<close>) over an element tree (\<open>node\<close>, \<open>prop_val\<close>, read
    through \<open>node_at\<close>, \<open>node_class\<close>, \<open>node_prop\<close> and \<open>node_elems\<close>), and
    \<open>AnimatePresence\<close>. \<open>registry_add\<close>/\<open>registry_component\<close> are the memoising
    registry of the specification's design notes, the abstract side of a refinement.
  \<^item> \<open>Content\<close>: the \<open>Project\<close> type and the data of \<open>content.ts\<close> (the hand-written
    and generated portfolio projects, the timeline events).
  \<^item> \<open>PortfolioData\<close>: the module helpers of \<open>Portfolio.tsx\<close>: \<open>handleImageError\<close>
    with the image element it acts on, \<open>moreProjects\<close>, \<open>getProjectDetails\<close>, the
    modal's dimension labels, \<open>getHighResUrl\<close> with its two regular expressions, and
    the style chain of \<open>ProcessStep\<close> (ranges of ranges of the scroll progress).
  \<^item> \<open>Portfolio\<close>: the \<open>Portfolio\<close> component as a state machine: its state hooks,
    the nested \<open>DeconstructionView\<close> image state, the pending "Load More" timer and
    the body style; \<open>pf_step\<close> is one user action (the code's handler, then the
    effects); \<open>pointer_enabled\<close> and \<open>keyboard_enabled\<close> say which actions the
    rendered page offers to a pointer and to a keyboard; \<open>pf_reachable\<close> is the set of
    states a user reaches from the first render.
  \<^item> \<open>Comments\<close>: \<open>Comments.tsx\<close>: the state hooks (\<open>cm_state\<close>),
    \<open>localStorage\<close> as a map from keys to stored JSON (a comment list, or text that
    does not parse), the load and save effects (\<open>cm_load\<close>, \<open>cm_save\<close>), the mount, a
    re-render with a new \<open>projectId\<close> (\<open>cm_change_project\<close>), \<open>handleSubmit\<close>
    (\<open>cm_submit\<close>) and the form handlers. Timestamps are milliseconds;
    \<open>JSON.stringify\<close> then \<open>new Date\<close> round-trips them.
  \<^item> \<open>PortfolioComments\<close>: the composition of the two: the portfolio state, the
    \<open>Comments\<close> instance the project modal renders (none while it is closed) and the
    shared storage. After every portfolio action \<open>pc_reconcile\<close> does what React does
    with the unkeyed modal: mount \<open>Comments\<close> when it opens, re-render it with the new
    \<open>projectId\<close> when the selected project changes, drop it when the modal closes.
  \<^item> \<open>Chat\<close>: \<open>sendMessageToGemini\<close> of \<open>geminiService.ts\<close> (the request it builds,
    \<open>gemini_request\<close>, with the system instruction) over the three outcomes of
    the client library (\<open>api_outcome\<close>: the constructor throws, the call throws, or it
    responds with or without text) and \<open>CoachChat.tsx\<close>; \<open>handleSend\<close> is split at its
    \<open>await\<close> into \<open>chat_send\<close> (which records the request in \<open>in_flight\<close>) and
    \<open>chat_settle\<close> (the promise settling). The widget is not rendered by \<open>App\<close>.
  \<^item> \<open>Testimonials\<close>: the quotes, the index and contact state, the arrow, dot, card
    and close handlers (\<open>tm_step\<close>), the controls the page renders (\<open>tm_enabled\<close>),
    reachability (\<open>tm_reachable\<close>) and the derived track offset, active dot and
    contact address.
  \<^item> \<open>PencilLine\<close>: \<open>ScrollPencilLine.tsx\<close>: the measured document height, the path
    loop (\<open>pencil_loop\<close>, a terminating \<open>function\<close>; the SVG string as its list of
    points) and the tip's position and rotation transforms.
  \<^item> \<open>TextAnimations\<close>: \<open>RotatingWords\<close> (index, interval effect, tick, what is
    rendered) and \<open>SplitText\<close> (words, characters, delays). \<open>Parallax\<close>: the hooks
    of \<open>ParallaxFloat\<close> (lines 111--122) composed on a page as \<open>parallax_mount\<close>, in
    React's order: both renders, the scroll effect, then the transform's effect.
  \<^item> \<open>Navbar\<close> and \<open>AppShell\<close>: the navigation bar's state, theme toggle with the
    document's class list, scroll handler, menu and links; the main sections of
    \<open>App.tsx\<close> with the element ids of their wrappers and root elements.
  \<^item> \<open>Timeline\<close>: the hooks of \<open>Timeline.tsx\<close> (lines 5--19) composed on a page:
    \<open>timeline_mount\<close> runs the renders of \<open>useScroll\<close> and \<open>useSpring\<close>, then their
    effects in hook order, as React does; \<open>browser_run\<close> is a sequence of browser
    events; \<open>mount_follow_facts\<close> is the state any such mount leaves (a value written
    by a fresh closure on the progress). \<open>TimelineView\<close>: the element tree the
    component renders (heading, thread, one row per event, closing badge), with class
    names built as its template literals build them.
  \<^item> \<open>PortfolioView\<close>: the element tree of the portfolio section as a function of the
    state of \<open>Portfolio\<close>: gallery, filters, "Load More", the modal with its image and
    text sides, the rendered \<open>DeconstructionView\<close> and \<open>ProcessStep\<close>s, and the
    high-resolution view; the render is \<open>None\<close> where it would throw.
  \<^item> \<open>Sections\<close>: the data and controls of \<open>Hero.tsx\<close> (the letter-by-letter title,
    the social links, the "Discover" arrow as a browser scroll) and of
    \<open>Services.tsx\<close> (the resource buttons and contact links). \<open>Cursor\<close>: the custom
    cursor of \<open>App.tsx\<close>: its four springs, the pointer handler and the ring's
    hover animation.
  \<^item> \<open>SectionsView\<close>: the element trees of \<open>Hero\<close>, \<open>Services\<close>,
    \<open>CoffeeMantra\<close>, the components of \<open>TextAnimations.tsx\<close> (with the text they
    show), and of the shell of \<open>App.tsx\<close>: the custom cursor, \<open>RevealSection\<close>, the
    footer and \<open>app_view\<close>, the whole page with its sections as parameters.
  \<^item> \<open>CommentsView\<close> and \<open>ChatView\<close>: the element trees of \<open>Comments.tsx\<close> and
    \<open>CoachChat.tsx\<close> as functions of their state, with lemmas on the \<open>disabled\<close>
    prop of each submit button: the form's is exactly the case where its handler does
    nothing, the chat's only the loading state (a blank message leaves it enabled
    although the handler then does nothing).
  \<^item> \<open>MotionRender\<close>: how React renders an element tree through the \<open>motion\<close>
    proxy: \<open>render_node\<close> walks the tree in document order in the state monad of
    \<open>HOL-Library.State_Monad\<close>, threading the component cache, and replaces each
    element of type \<open>motion.tag\<close> by what the cached component renders; the
    reserved props are handled as React handles them: \<open>key\<close> is stripped, \<open>ref\<close> is
    passed to the \<open>forwardRef\<close> render and a host element's ref is recorded.
  \<^item> \<open>ChromeView\<close>: the element trees of the navigation bar, the testimonials
    carousel (with its contact modal) and the scroll pencil line as functions of their
    state; the pencil's path string, which formats numbers, is a parameter.
  \<^item> \<open>Page\<close>: the ids of a rendered tree (\<open>node_ids\<close>) and of the whole page.

  \<^bold>\<open>Fuel.\<close> \<open>set\<close> recurses through listeners. Its fuel is the depth of the JavaScript
  call stack: a dependency cycle exhausts any fuel (the browser throws a RangeError),
  while on an acyclic graph, certified by a rank function that decreases along every
  listener edge (\<open>ranked\<close>), any fuel above the rank of the value set is enough
  (C2); subscribing a closure into a fresh object adds one level
  (\<open>subscribed_leaf_tracks\<close>). All the graphs the site builds have depth at most
  three; the window's handlers need one level more than the values they set (C13,
  C35, C36). The image-loading model \<open>img_run\<close> counts turns of the event loop.

  \<^bold>\<open>What is proved.\<close> In \<open>MotionValue\<close>: a derived value holds \<open>f v\<close> after every
  \<open>set(v)\<close> of its source (C1); \<open>set\<close> terminates, reads back and keeps the listener
  structure (C2); each callback is called once per \<open>set\<close>, in order, with the value
  (C3); an unsubscribed listener is never called again (C4); subscribe and unsubscribe
  round-trip and unsubscribing twice is harmless (lemmas); \<open>useMotionValue\<close> creates
  once and then keeps its object (C5). In \<open>Transform\<close>: \<open>mapRange\<close> is exact at
  the endpoints (C6) but does not clamp (C7) and refines the specification's
  interpolation on two breakpoints inside the range (C8); it also returns the first
  output on a degenerate range, steps between non-numeric outputs and ignores further
  breakpoints, and chained transforms compose (lemmas); a re-render does not leak a
  subscription (C9). The spring equals its source after every \<open>set\<close>, with no
  smoothing (C10); events other than \<open>'change'\<close> are silently never delivered (C11).
  In \<open>Scroll\<close>: the progress is in \<open>[0, 1]\<close> and meets the specification's boundary
  law (lemmas) and its formula for whole-pixel heights (C12); every scroll and resize
  keeps each consumer in step with the viewport (C13), though a document-height change
  alone leaves it stale (a lemma); every consumer has its own tracker (C14). In
  \<open>Portfolio\<close>: pointer-reachable states keep the process view and its step image
  tied to an open project and the loading flag tied to its pending timer (C15); the modal's close button, which the keyboard still reaches under the
  process view, breaks this and the next project opens on its process view (C16); Escape closes the topmost open layer,
  except that with a step image open it closes the process view with it (the listener
  does not know the image), and three Escapes close everything (C17); the gallery
  filter is exact, with unique keys, and loading more only appends (C18). In
  \<open>PortfolioData\<close>: a failing placeholder makes the image fallback request it forever
  (C19); process-step styles grow without bound past their range (C20). In
  \<open>Comments\<close>: submitting is guarded and round-trips through storage (C21),
  and in \<open>CommentsView\<close> the rendered submit button is disabled exactly when
  submitting would change nothing (C22). In
  \<open>PortfolioComments\<close>: Enter on a card behind the open modal switches its project
  without remounting \<open>Comments\<close>, and a project whose stored entry does not parse then
  shows, and is overwritten with, the previous project's comments (C23). In
  \<open>Chat\<close>: a settled exchange sends the previous transcript and appends exactly the
  message and one non-empty reply (C24); a client that cannot be constructed leaves
  the widget loading for ever (C25). In \<open>Testimonials\<close>: the carousel index, track
  offset, active dot and contact stay consistent in every reachable state (C26), and
  the arrows are mutually inverse (a lemma); in \<open>ChromeView\<close> the rendered carousel
  marks exactly the current dot active and translates its track by the current index
  (C27). In \<open>PencilLine\<close>: the path covers the document and the tip stays on its drawn
  part (C28); the rotation is the tangent angle of the curve (C29). In
  \<open>TextAnimations\<close>: the rotating words cycle in order (C30), but a re-render with a
  shorter list keeps the old index and renders nothing until the next tick (C31);
  \<open>SplitText\<close> renders the text's characters in order (a lemma). Across components,
  below: every anchor of the rendered navigation bar names an id of the rendered page,
  but every such id is carried by two elements (C32). In \<open>Navbar\<close>: from a document
  without the class, the \<open>dark\<close> class is present exactly when \<open>isDark\<close> holds and is
  never duplicated, whatever the events (C33); \<open>scrolled\<close> is not computed on mount
  (a lemma). In \<open>MotionFactory\<close>: the cache refines the specification's registry (C34),
  and a motion component renders an element of its tag with its ref and the other
  props unchanged, motion values included (a lemma). In \<open>Timeline\<close>: after
  mount the thread's spring holds 0 while the progress is current, and after the first
  scroll or resize it tracks the page (C35). In \<open>Parallax\<close>: the float's offset is
  \<open>offset \<cdot> (1 - 2 \<cdot> progress)\<close> of the page's progress from the mount on (C36). In
  \<open>TimelineView\<close>: rows alternate, but the year badge of every even row gets the class
  \<open>false\<close> (C37). In \<open>PortfolioView\<close>: the section renders in every state, and only
  its two full-screen images lack a text alternative (C38). In \<open>MotionRender\<close>:
  rendering any tree through the factory keeps the cache well formed, grows it by
  exactly the motion tags the tree uses, and yields the DOM React commits: each
  \<open>motion.tag\<close> replaced by \<open>tag\<close>, \<open>key\<close> stripped, the ref forwarded to the element
  and recorded as its \<open>ref\<close>, the other props kept (C39). In \<open>Page\<close>: the ids of the
  page rendered from the trees of all its sections are the ids \<open>AppShell\<close> abstracts
  the page to (a lemma). \<open>Cursor\<close> shows that the ring follows the pointer at once.

  \<^bold>\<open>Not modelled.\<close> Layout and the browser's styling beyond the class strings and
  style objects of the element trees; animations and their timing (the
  \<open>initial\<close>/\<open>animate\<close>/\<open>whileInView\<close> props are constants the vendored
  \<open>motion\<close> passes to the DOM unread, and are kept as props); event handlers in the
  element trees (their behaviour is in the state machines); the needle of the
  timeline, whose \<open>top\<close> is a number formatted into a string; IEEE rounding, NaN and
  the formatting of numbers into strings (numbers are exact reals; \<open>Infinity\<close> appears
  only as a prop); the \<open>&bull;\<close> entity of the footer, kept as entity text because
  \<open>char\<close> has 8 bits; \<open>new Date()\<close> and locale date formatting (parameters);
  the Gemini client library and the network (only its three outcomes); the browser's
  event loop beyond the order of the calls the code makes; the build configuration
  (\<open>vite.config.ts\<close>). \<open>ParallaxFloat\<close> and \<open>CoachChat\<close> are never rendered by the page.
\<close>

section \<open>Properties across components\<close>

text \<open>
  C32. Every link of the rendered navigation bar leads somewhere: apart from the logo's
  \<open>#\<close>, each anchor's fragment is an id of the page composed from the trees its
  sections render, in every state of the bar, the carousel and the portfolio. But each
  target is the id of two elements, the \<open>RevealSection\<close> wrapper and the root of the
  component inside it, so the document's ids are not unique.
\<close>

theorem nav_links_resolve:
  assumes pv: "portfolio_view mv pl r s = Some v"
  shows "let ids = node_ids (app_view (cursor_view c) (pencil_view h d sm cx cy rot) (navbar_view ns) hero_view
                      services_view (timeline_view r' sp nd) v (testimonials_view ts) coffee_mantra_view y)
         in (\<forall>x \<in> set (List.map_filter (node_prop ''href'') (node_elems (navbar_view ns))).
               x = PJs (Str ''#'') \<or> (\<exists>i. x = PJs (Str (CHR ''#'' # i)) \<and> length (filter (\<lambda>j. j = i) ids) = 2)) \<and>
            \<not> distinct ids"
  using node_ids_portfolio [OF pv]
  by (simp add: Let_def navbar_hrefs nav_links_def app_view_def reveal_section_def elem_id_def node_ids_cursor
      node_ids_hero node_ids_services node_ids_timeline node_ids_coffee node_ids_footer node_ids_navbar
      node_ids_pencil node_ids_testimonials)

theorem nav_links_resolve_witness:
  "PJs (Str ''#timeline'') \<in> set (List.map_filter (node_prop ''href'') (node_elems (navbar_view (nav_mount [])))) \<and>
   length (filter (\<lambda>j. j = ''timeline'')
     (node_ids (app_view (cursor_view \<lparr>mouse_x = 0, mouse_y = 1, ring_x = 2, ring_y = 3, is_hovering = False\<rparr>)
        (pencil_view 1000 ''M 40 0'' 4 5 6 7) (navbar_view (nav_mount [])) hero_view services_view (timeline_view 0 1 2)
        (the (portfolio_view (\<lambda>i n. 0) 0 0 pf_init)) (testimonials_view tm_init) coffee_mantra_view 2025))) = 2"
proof -
  obtain v where pv: "portfolio_view (\<lambda>i n. 0) 0 0 pf_init = Some v"
    by (auto simp: portfolio_view_def pf_init_def)
  have mem: "PJs (Str ''#timeline'') \<in> set (List.map_filter (node_prop ''href'') (node_elems (navbar_view (nav_mount []))))"
    by (simp add: navbar_hrefs nav_links_def)
  have "let ids = node_ids (app_view (cursor_view \<lparr>mouse_x = 0, mouse_y = 1, ring_x = 2, ring_y = 3, is_hovering = False\<rparr>)
        (pencil_view 1000 ''M 40 0'' 4 5 6 7) (navbar_view (nav_mount [])) hero_view services_view (timeline_view 0 1 2)
        v (testimonials_view tm_init) coffee_mantra_view 2025)
     in (\<forall>x \<in> set (List.map_filter (node_prop ''href'') (node_elems (navbar_view (nav_mount [])))).
               x = PJs (Str ''#'') \<or> (\<exists>i. x = PJs (Str (CHR ''#'' # i)) \<and> length (filter (\<lambda>j. j = i) ids) = 2)) \<and>
            \<not> distinct ids"
    by (rule nav_links_resolve [OF pv])
  then have "length (filter (\<lambda>j. j = ''timeline'')
     (node_ids (app_view (cursor_view \<lparr>mouse_x = 0, mouse_y = 1, ring_x = 2, ring_y = 3, is_hovering = False\<rparr>)
        (pencil_view 1000 ''M 40 0'' 4 5 6 7) (navbar_view (nav_mount [])) hero_view services_view (timeline_view 0 1 2)
        v (testimonials_view tm_init) coffee_mantra_view 2025))) = 2"
    using mem unfolding Let_def by fastforce
  with mem pv show ?thesis by simp
qed

end
